(* ===== verification/Prelude.thy ===== *)
theory Prelude
  imports Main "HOL-Library.Sublist" "HOL-Library.Word"
begin

text \<open>
  Shared vocabulary of the development.

  A Rust \<open>&str\<close> is a \<open>string\<close> read as its UTF-8 bytes: \<open>length\<close> is Rust's
  \<open>len()\<close> (bytes), and the functions below are the methods of \<open>str\<close> and \<open>char\<close> that
  the operator calls, byte for byte on valid UTF-8. \<open>Result<T, E>\<close> is \<open>'e + 't\<close> with
  \<open>Inl\<close> for \<open>Err\<close>; \<open>Option\<close> is \<open>option\<close>. A function that talks to the cluster is
  a run: the list of effects it issued, in order, and its result. Log lines are not
  effects.

  The collections: \<open>str_simps\<close> evaluates the string functions, \<open>run_simps\<close> the
  combinators of runs, \<open>scan_simps\<close> the loops over a spec that collect seen keys.
\<close>

named_theorems str_simps
named_theorems run_simps
named_theorems scan_simps

type_synonym ('e, 'a) res = "'e + 'a"

section \<open>Bytes and characters\<close>

definition is_ascii_ws :: "char \<Rightarrow> bool" where
  "is_ascii_ws c \<longleftrightarrow> (of_char c :: nat) \<in> {9, 10, 11, 12, 13, 32}"

text \<open>The two- and three-byte UTF-8 encodings of the Unicode White\_Space code points
  (U+0085, U+00A0, U+1680, U+2000 to U+200A, U+2028, U+2029, U+202F, U+205F, U+3000).\<close>

definition is_ws2 :: "char \<Rightarrow> char \<Rightarrow> bool" where
  "is_ws2 a b \<longleftrightarrow> (of_char a :: nat) = 194 \<and> (of_char b :: nat) \<in> {133, 160}"

definition is_ws3 :: "char \<Rightarrow> char \<Rightarrow> char \<Rightarrow> bool" where
  "is_ws3 a b c \<longleftrightarrow>
     (let x = of_char a :: nat; y = of_char b :: nat; z = of_char c :: nat in
      (x = 225 \<and> y = 154 \<and> z = 128) \<or>
      (x = 226 \<and> y = 128 \<and> (128 \<le> z \<and> z \<le> 138 \<or> z = 168 \<or> z = 169 \<or> z = 175)) \<or>
      (x = 226 \<and> y = 129 \<and> z = 159) \<or>
      (x = 227 \<and> y = 128 \<and> z = 128))"

definition is_ascii_digit :: "char \<Rightarrow> bool" where
  "is_ascii_digit c \<longleftrightarrow> 48 \<le> (of_char c :: nat) \<and> (of_char c :: nat) \<le> 57"

definition is_ascii_lowercase :: "char \<Rightarrow> bool" where
  "is_ascii_lowercase c \<longleftrightarrow> 97 \<le> (of_char c :: nat) \<and> (of_char c :: nat) \<le> 122"

definition is_ascii_uppercase :: "char \<Rightarrow> bool" where
  "is_ascii_uppercase c \<longleftrightarrow> 65 \<le> (of_char c :: nat) \<and> (of_char c :: nat) \<le> 90"

definition is_ascii_alphanumeric :: "char \<Rightarrow> bool" where
  "is_ascii_alphanumeric c \<longleftrightarrow>
     is_ascii_digit c \<or> is_ascii_lowercase c \<or> is_ascii_uppercase c"

definition is_ascii_hexdigit :: "char \<Rightarrow> bool" where
  "is_ascii_hexdigit c \<longleftrightarrow> is_ascii_digit c
     \<or> (97 \<le> (of_char c :: nat) \<and> (of_char c :: nat) \<le> 102)
     \<or> (65 \<le> (of_char c :: nat) \<and> (of_char c :: nat) \<le> 70)"

definition to_lower :: "char \<Rightarrow> char" where
  "to_lower c = (if is_ascii_uppercase c then char_of ((of_char c :: nat) + 32) else c)"

text \<open>A UTF-8 continuation byte; every other byte starts a character.\<close>

definition is_cont :: "char \<Rightarrow> bool" where
  "is_cont c \<longleftrightarrow> 128 \<le> (of_char c :: nat) \<and> (of_char c :: nat) < 192"

section \<open>String methods\<close>

fun trim_start :: "string \<Rightarrow> string" where
  "trim_start (a # b # c # s) =
     (if is_ascii_ws a then trim_start (b # c # s)
      else if is_ws2 a b then trim_start (c # s)
      else if is_ws3 a b c then trim_start s
      else a # b # c # s)"
| "trim_start [a, b] =
     (if is_ascii_ws a then trim_start [b] else if is_ws2 a b then [] else [a, b])"
| "trim_start [a] = (if is_ascii_ws a then [] else [a])"
| "trim_start [] = []"

text \<open>The same scan from the end: the bytes come in reverse order.\<close>

fun trim_rev :: "string \<Rightarrow> string" where
  "trim_rev (c # b # a # s) =
     (if is_ascii_ws c then trim_rev (b # a # s)
      else if is_ws2 b c then trim_rev (a # s)
      else if is_ws3 a b c then trim_rev s
      else c # b # a # s)"
| "trim_rev [c, b] =
     (if is_ascii_ws c then trim_rev [b] else if is_ws2 b c then [] else [c, b])"
| "trim_rev [c] = (if is_ascii_ws c then [] else [c])"
| "trim_rev [] = []"

definition trim_end :: "string \<Rightarrow> string" where
  "trim_end s = rev (trim_rev (rev s))"

definition trim :: "string \<Rightarrow> string" where
  "trim s = trim_end (trim_start s)"

definition blank :: "string \<Rightarrow> bool" where
  "blank s \<longleftrightarrow> trim s = []"

definition trim_end_matches :: "char \<Rightarrow> string \<Rightarrow> string" where
  "trim_end_matches c s = rev (dropWhile (\<lambda>x. x = c) (rev s))"

definition contains_char :: "char \<Rightarrow> string \<Rightarrow> bool" where
  "contains_char c s \<longleftrightarrow> c \<in> set s"

definition starts_with :: "string \<Rightarrow> string \<Rightarrow> bool" where
  "starts_with p s \<longleftrightarrow> take (length p) s = p"

definition ends_with :: "string \<Rightarrow> string \<Rightarrow> bool" where
  "ends_with p s \<longleftrightarrow> starts_with (rev p) (rev s)"

definition strip_prefix :: "string \<Rightarrow> string \<Rightarrow> string option" where
  "strip_prefix p s = (if starts_with p s then Some (drop (length p) s) else None)"

definition strip_suffix :: "string \<Rightarrow> string \<Rightarrow> string option" where
  "strip_suffix p s = (if ends_with p s then Some (take (length s - length p) s) else None)"

text \<open>\<open>find(pat)\<close> on a string pattern: the byte index of the first occurrence.\<close>

fun find_sub :: "string \<Rightarrow> string \<Rightarrow> nat option" where
  "find_sub p [] = (if p = [] then Some 0 else None)"
| "find_sub p (x # s) =
     (if starts_with p (x # s) then Some 0 else map_option Suc (find_sub p s))"

definition contains_sub :: "string \<Rightarrow> string \<Rightarrow> bool" where
  "contains_sub p s \<longleftrightarrow> find_sub p s \<noteq> None"

text \<open>\<open>find(c)\<close> and \<open>rfind(c)\<close> on a character.\<close>

fun find_char :: "char \<Rightarrow> string \<Rightarrow> nat option" where
  "find_char c [] = None"
| "find_char c (x # s) = (if x = c then Some 0 else map_option Suc (find_char c s))"

definition rfind_char :: "char \<Rightarrow> string \<Rightarrow> nat option" where
  "rfind_char c s = map_option (\<lambda>i. length s - Suc i) (find_char c (rev s))"

definition split_once :: "char \<Rightarrow> string \<Rightarrow> (string \<times> string) option" where
  "split_once c s = map_option (\<lambda>i. (take i s, drop (Suc i) s)) (find_char c s)"

fun split_on :: "char \<Rightarrow> string \<Rightarrow> string list" where
  "split_on c [] = [[]]"
| "split_on c (x # s) =
     (if x = c then [] # split_on c s
      else (case split_on c s of [] \<Rightarrow> [[x]] | y # ys \<Rightarrow> (x # y) # ys))"

definition replace_char :: "char \<Rightarrow> char \<Rightarrow> string \<Rightarrow> string" where
  "replace_char a b s = map (\<lambda>c. if c = a then b else c) s"

definition to_ascii_lowercase :: "string \<Rightarrow> string" where
  "to_ascii_lowercase s = map to_lower s"

definition eq_ignore_ascii_case :: "string \<Rightarrow> string \<Rightarrow> bool" where
  "eq_ignore_ascii_case a b \<longleftrightarrow> to_ascii_lowercase a = to_ascii_lowercase b"

text \<open>\<open>lines()\<close>: split at line feeds, drop one carriage return before each, no empty
  last line.\<close>

definition strip_cr :: "string \<Rightarrow> string" where
  "strip_cr l = (if l \<noteq> [] \<and> last l = CHR 0x0D then butlast l else l)"

definition str_lines :: "string \<Rightarrow> string list" where
  "str_lines s =
     (let ps = split_on (CHR 0x0A) s in
      (if last ps = [] then map strip_cr (butlast ps)
       else map strip_cr (butlast ps) @ [last ps]))"

text \<open>\<open>chars().take(n)\<close>: whole characters, by their first byte.\<close>

fun take_chars :: "nat \<Rightarrow> string \<Rightarrow> string" where
  "take_chars n [] = []"
| "take_chars 0 (b # s) = (if is_cont b then b # take_chars 0 s else [])"
| "take_chars (Suc n) (b # s) =
     (if is_cont b then b # take_chars (Suc n) s else b # take_chars n s)"

text \<open>\<open>&s[..n]\<close>: panics past the end and inside a character.\<close>

definition slice_to :: "nat \<Rightarrow> string \<Rightarrow> string option" where
  "slice_to n s =
     (if n = length s then Some s
      else if n < length s \<and> \<not> is_cont (s ! n) then Some (take n s)
      else None)"

lemmas char_class_defs = is_ascii_ws_def is_ascii_digit_def is_ascii_lowercase_def
  is_ascii_uppercase_def is_ascii_alphanumeric_def is_ascii_hexdigit_def


lemma trim_Nil [simp]: "trim [] = []"
  by (simp add: trim_def trim_end_def)

lemma suffix_trim_start: "suffix (trim_start s) s"
  by (induction s rule: trim_start.induct) (auto simp: suffix_ConsI)

lemma suffix_trim_rev: "suffix (trim_rev s) s"
  by (induction s rule: trim_rev.induct) (auto simp: suffix_ConsI)

lemma prefix_trim_end: "prefix (trim_end s) s"
  using suffix_trim_rev [of "rev s"] by (simp add: trim_end_def suffix_to_prefix)

lemma set_trim_subset: "set (trim s) \<subseteq> set s"
  unfolding trim_def
  using set_mono_prefix [OF prefix_trim_end] set_mono_suffix [OF suffix_trim_start] by blast

lemma trim_same_length:
  assumes "length (trim s) = length s"
  shows "trim s = s"
proof -
  have "length (trim s) \<le> length (trim_start s)" "length (trim_start s) \<le> length s"
    using prefix_length_le [OF prefix_trim_end [of "trim_start s"]]
      suffix_length_le [OF suffix_trim_start [of s]] by (simp_all add: trim_def)
  with assms have "length (trim_start s) = length s" "length (trim s) = length (trim_start s)" by simp_all
  moreover obtain p where "s = p @ trim_start s"
    using suffix_trim_start [of s] by (auto simp: suffix_def)
  moreover obtain q where "trim_start s = trim s @ q"
    using prefix_trim_end [of "trim_start s"] by (auto simp: prefix_def trim_def)
  ultimately show ?thesis by (metis append.left_neutral append.right_neutral append_eq_append_conv)
qed

lemma blank_Nil [simp]: "blank []"
  by (simp add: blank_def)

lemma find_char_None [simp]: "find_char c s = None \<longleftrightarrow> c \<notin> set s"
  by (induction s) auto

lemma find_char_notin [simp]: "c \<notin> set s \<Longrightarrow> find_char c s = None"
  by simp

lemma find_char_SomeD:
  "find_char c s = Some i \<Longrightarrow> i < length s \<and> s ! i = c \<and> c \<notin> set (take i s)"
  by (induction s arbitrary: i) (auto split: if_splits)

lemma find_char_append_notin:
  "c \<notin> set p \<Longrightarrow> find_char c (p @ c # s) = Some (length p)"
  by (induction p) auto

lemma split_once_None [simp]: "split_once c s = None \<longleftrightarrow> c \<notin> set s"
  by (simp add: split_once_def)

lemma split_once_append:
  "c \<notin> set p \<Longrightarrow> split_once c (p @ c # s) = Some (p, s)"
  by (simp add: split_once_def find_char_append_notin)

lemma split_once_SomeD:
  assumes "split_once c s = Some (a, b)"
  shows "s = a @ c # b \<and> c \<notin> set a"
proof -
  obtain i where i: "find_char c s = Some i" "a = take i s" "b = drop (Suc i) s"
    using assms by (auto simp: split_once_def)
  have c: "i < length s" "s ! i = c" "c \<notin> set (take i s)"
    using find_char_SomeD [OF i(1)] by auto
  have "s = take i s @ s ! i # drop (Suc i) s"
    using c(1) by (rule id_take_nth_drop)
  with i(2,3) c(2,3) show ?thesis by simp
qed

lemma split_on_nonempty [simp]: "split_on c s \<noteq> []"
  by (induction s) (auto split: list.splits)

lemma split_on_sep_free: "p \<in> set (split_on c s) \<Longrightarrow> c \<notin> set p"
  by (induction s arbitrary: p) (auto split: list.splits if_splits)

text \<open>Joining the parts with the separator gives the string back.\<close>

fun join_with :: "char \<Rightarrow> string list \<Rightarrow> string" where
  "join_with c [] = []"
| "join_with c [p] = p"
| "join_with c (p # q # ps) = p @ c # join_with c (q # ps)"

lemma join_with_Cons: "ps \<noteq> [] \<Longrightarrow> join_with c (p # ps) = p @ c # join_with c ps"
  by (cases ps) auto

lemma join_with_extend: "join_with c ((x # y) # ys) = x # join_with c (y # ys)"
  by (cases ys) auto

lemma join_split_on [simp]: "join_with c (split_on c s) = s"
proof (induction s)
  case (Cons x s)
  show ?case
  proof (cases "split_on c s")
    case (Cons y ys)
    with Cons.IH show ?thesis by (auto simp: join_with_Cons join_with_extend)
  qed simp
qed simp

lemma split_on_free: "c \<notin> set p \<Longrightarrow> split_on c p = [p]"
  by (induction p) auto

lemma split_on_append: "c \<notin> set p \<Longrightarrow> split_on c (p @ c # s) = p # split_on c s"
  by (induction p) auto

lemma split_on_join_with:
  "ps \<noteq> [] \<Longrightarrow> \<forall>p \<in> set ps. c \<notin> set p \<Longrightarrow> split_on c (join_with c ps) = ps"
  by (induction c ps rule: join_with.induct) (auto simp: split_on_free split_on_append)

lemma length_to_ascii_lowercase [simp]: "length (to_ascii_lowercase s) = length s"
  by (simp add: to_ascii_lowercase_def)

lemma of_char_to_lower:
  "(of_char (to_lower c) :: nat) =
     (if is_ascii_uppercase c then of_char c + 32 else of_char c)"
  by (simp add: to_lower_def is_ascii_uppercase_def)

lemma to_lower_idem [simp]: "to_lower (to_lower c) = to_lower c"
  by (auto simp: to_lower_def is_ascii_uppercase_def)

lemma to_ascii_lowercase_idem [simp]:
  "to_ascii_lowercase (to_ascii_lowercase s) = to_ascii_lowercase s"
  by (simp add: to_ascii_lowercase_def)

lemma is_ascii_hexdigit_to_lower [simp]:
  "is_ascii_hexdigit (to_lower c) = is_ascii_hexdigit c"
  by (auto simp: is_ascii_hexdigit_def is_ascii_digit_def of_char_to_lower
      is_ascii_uppercase_def)

lemma eq_ignore_refl [simp]: "eq_ignore_ascii_case a a"
  by (simp add: eq_ignore_ascii_case_def)

lemma starts_with_prefix: "starts_with p s \<longleftrightarrow> prefix p s"
  by (auto simp: starts_with_def prefix_def) (metis append_take_drop_id)

lemma contains_sub_subset: "contains_sub p s \<Longrightarrow> set p \<subseteq> set s"
proof -
  have "find_sub p s = Some i \<Longrightarrow> set p \<subseteq> set s" for i
    by (induction s arbitrary: i)
      (force simp: starts_with_prefix split: if_splits dest: set_mono_prefix)+
  then show "contains_sub p s \<Longrightarrow> set p \<subseteq> set s" by (auto simp: contains_sub_def)
qed

lemma ends_with_suffix: "ends_with p s \<longleftrightarrow> suffix p s"
  by (simp add: ends_with_def starts_with_prefix suffix_to_prefix)

section \<open>Results and early return\<close>

definition bindE :: "'e + 'a \<Rightarrow> ('a \<Rightarrow> 'e + 'b) \<Rightarrow> 'e + 'b" where
  "bindE r f = (case r of Inl e \<Rightarrow> Inl e | Inr a \<Rightarrow> f a)"

definition ensure :: "bool \<Rightarrow> 'e \<Rightarrow> 'e + unit" where
  "ensure c e = (if c then Inr () else Inl e)"

definition map_err :: "('e \<Rightarrow> 'f) \<Rightarrow> 'e + 'a \<Rightarrow> 'f + 'a" where
  "map_err f r = (case r of Inl e \<Rightarrow> Inl (f e) | Inr a \<Rightarrow> Inr a)"

text \<open>A sequence of checks, each of which may return: the first error, or success.\<close>

fun first_err :: "('e + unit) list \<Rightarrow> 'e + unit" where
  "first_err [] = Inr ()"
| "first_err (r # rs) = (case r of Inl e \<Rightarrow> Inl e | Inr _ \<Rightarrow> first_err rs)"

text \<open>\<open>for (i, x) in xs.iter().enumerate()\<close> with a body that may return an error.\<close>

fun for_each :: "(nat \<Rightarrow> 'a \<Rightarrow> 'e + unit) \<Rightarrow> nat \<Rightarrow> 'a list \<Rightarrow> 'e + unit" where
  "for_each f i [] = Inr ()"
| "for_each f i (x # xs) = (case f i x of Inl e \<Rightarrow> Inl e | Inr _ \<Rightarrow> for_each f (Suc i) xs)"

text \<open>The same loop with a set of keys seen so far: \<open>pre\<close>, then
  \<open>if !seen.insert(key)\<close> return \<open>dup\<close>, then \<open>post\<close>. The result is the final set.\<close>

fun scan_seen :: "(nat \<Rightarrow> 'a \<Rightarrow> 'e + unit) \<Rightarrow> ('a \<Rightarrow> 'k) \<Rightarrow> (nat \<Rightarrow> 'a \<Rightarrow> 'e)
    \<Rightarrow> (nat \<Rightarrow> 'a \<Rightarrow> 'e + unit) \<Rightarrow> 'k set \<Rightarrow> nat \<Rightarrow> 'a list \<Rightarrow> 'e + 'k set" where
  "scan_seen pre key dup post seen i [] = Inr seen"
| "scan_seen pre key dup post seen i (x # xs) =
     bindE (pre i x) (\<lambda>_.
       if key x \<in> seen then Inl (dup i x)
       else bindE (post i x) (\<lambda>_.
         scan_seen pre key dup post (insert (key x) seen) (Suc i) xs))"

lemma bindE_simps [simp]: "bindE (Inl e) f = Inl e" "bindE (Inr a) f = f a"
  by (simp_all add: bindE_def)

lemma bindE_Inr [scan_simps]: "bindE r f = Inr b \<longleftrightarrow> (\<exists>a. r = Inr a \<and> f a = Inr b)"
  by (cases r) auto

lemma ensure_simps [simp]: "ensure c e = Inr u \<longleftrightarrow> c" "ensure c e = Inl e' \<longleftrightarrow> \<not> c \<and> e = e'"
  by (auto simp: ensure_def)

lemma map_err_Inr [simp]: "map_err f r = Inr a \<longleftrightarrow> r = Inr a"
  by (cases r) (auto simp: map_err_def)

lemma unit_Inr_iff: "r = Inr (u :: unit) \<longleftrightarrow> (\<exists>v. r = Inr v)"
  by (cases r) auto

lemma first_err_ok [scan_simps]:
  "first_err [] = Inr u"
  "first_err (r # rs) = Inr u \<longleftrightarrow> r = Inr () \<and> first_err rs = Inr ()"
  by (auto split: sum.splits)

lemma first_err_ok_iff: "first_err rs = Inr () \<longleftrightarrow> (\<forall>r \<in> set rs. r = Inr ())"
  by (induction rs) (auto split: sum.splits)

lemma for_each_ok:
  "for_each f i xs = Inr () \<longleftrightarrow> (\<forall>j < length xs. f (i + j) (xs ! j) = Inr ())"
proof (induction xs arbitrary: i)
  case (Cons x xs)
  have "for_each f i (x # xs) = Inr () \<longleftrightarrow> f i x = Inr () \<and> for_each f (Suc i) xs = Inr ()"
    by (auto split: sum.splits)
  also have "\<dots> \<longleftrightarrow> (\<forall>j < length (x # xs). f (i + j) ((x # xs) ! j) = Inr ())"
    unfolding Cons.IH by (auto simp: less_Suc_eq_0_disj)
  finally show ?case .
qed simp

lemma for_each_const: "for_each (\<lambda>_. f) k xs = Inr () \<longleftrightarrow> list_all (\<lambda>x. f x = Inr ()) xs"
  by (auto simp: for_each_ok list_all_length)

lemma for_each_ensure [scan_simps]:
  "for_each (\<lambda>i x. ensure (P x) (e i x)) k xs = Inr u \<longleftrightarrow> (\<forall>x \<in> set xs. P x)"
  by (auto simp: for_each_ok all_set_conv_all_nth)

text \<open>A scan succeeds exactly when every element passes both checks, no key repeats and
  none was seen before; it then returns all the keys.\<close>

lemma scan_seen_ok_nth:
  "scan_seen pre key dup post seen i xs = Inr seen' \<longleftrightarrow>
     (\<forall>j < length xs. pre (i + j) (xs ! j) = Inr () \<and> post (i + j) (xs ! j) = Inr ())
     \<and> distinct (map key xs) \<and> key ` set xs \<inter> seen = {} \<and> seen' = seen \<union> key ` set xs"
proof (induction xs arbitrary: i seen)
  case (Cons x xs)
  have step: "scan_seen pre key dup post seen i (x # xs) = Inr seen' \<longleftrightarrow>
     pre i x = Inr () \<and> post i x = Inr () \<and> key x \<notin> seen
     \<and> scan_seen pre key dup post (insert (key x) seen) (Suc i) xs = Inr seen'"
    by (auto simp: bindE_def split: sum.splits)
  show ?case
    unfolding step Cons.IH by (auto simp: less_Suc_eq_0_disj)
qed auto

lemma scan_seen_ensure [scan_simps]:
  "scan_seen (\<lambda>i x. ensure (P x) (e i x)) key dup (\<lambda>i x. ensure (Q x) (e' i x)) seen i xs
     = Inr seen' \<longleftrightarrow>
   (\<forall>x \<in> set xs. P x \<and> Q x) \<and> distinct (map key xs) \<and> key ` set xs \<inter> seen = {}
     \<and> seen' = seen \<union> key ` set xs"
  unfolding scan_seen_ok_nth by (auto simp: all_set_conv_all_nth)

declare first_err.simps(2) [simp del]

section \<open>Runs: effects and a result\<close>

type_synonym ('f, 'e, 'a) run = "'f list \<times> ('e + 'a)"

definition ret :: "'a \<Rightarrow> ('f, 'e, 'a) run" where
  "ret a = ([], Inr a)"

definition throw :: "'e \<Rightarrow> ('f, 'e, 'a) run" where
  "throw e = ([], Inl e)"

text \<open>Issue effects in order and go on with \<open>m\<close>.\<close>

definition after :: "'f list \<Rightarrow> ('f, 'e, 'a) run \<Rightarrow> ('f, 'e, 'a) run" where
  "after fs m = (fs @ fst m, snd m)"

text \<open>The \<open>?\<close> operator on a run.\<close>

definition bindT :: "('f, 'e, 'a) run \<Rightarrow> ('a \<Rightarrow> ('f, 'e, 'b) run) \<Rightarrow> ('f, 'e, 'b) run" where
  "bindT m f =
     (case snd m of Inl e \<Rightarrow> (fst m, Inl e) | Inr a \<Rightarrow> after (fst m) (f a))"

text \<open>\<open>?\<close> with an error conversion, \<open>return m\<close> from the middle of a body, and the body
  itself: an error of a body is a real error or a value returned early.\<close>

definition lift_run :: "('e \<Rightarrow> 'g) \<Rightarrow> ('f, 'e, 'a) run \<Rightarrow> ('f, 'g, 'a) run" where
  "lift_run f m = (fst m, map_err f (snd m))"

definition return_run :: "('f, 'e, 'r) run \<Rightarrow> ('f, 'e + 'r, 'a) run" where
  "return_run m = (fst m, Inl (snd m))"

definition run_body :: "('f, 'e + 'r, 'r) run \<Rightarrow> ('f, 'e, 'r) run" where
  "run_body m = (fst m, case snd m of Inl x \<Rightarrow> x | Inr r \<Rightarrow> Inr r)"

definition question :: "('e \<Rightarrow> 'g) \<Rightarrow> ('f, 'e, 'a) run \<Rightarrow> ('f, 'g + 'r, 'a) run" where
  "question f m = lift_run (\<lambda>e. Inl (f e)) m"

lemma lift_run_sel [run_simps]:
  "fst (lift_run f m) = fst m" "snd (lift_run f m) = map_err f (snd m)"
  by (simp_all add: lift_run_def)

lemma return_run_sel [run_simps]: "fst (return_run m) = fst m" "snd (return_run m) = Inl (snd m)"
  by (simp_all add: return_run_def)

lemma question_sel [run_simps]:
  "fst (question f m) = fst m" "snd (question f m) = map_err (\<lambda>e. Inl (f e)) (snd m)"
  by (simp_all add: question_def run_simps)

lemma run_body_fst [run_simps]: "fst (run_body m) = fst m"
  by (simp add: run_body_def)

lemma run_body_Inr:
  "snd (run_body m) = Inr r \<longleftrightarrow> snd m = Inr r \<or> snd m = Inl (Inr r)"
  by (auto simp: run_body_def split: sum.splits)

lemma ret_sel [run_simps]: "fst (ret a) = []" "snd (ret a) = Inr a"
  by (simp_all add: ret_def)

lemma throw_sel [run_simps]: "fst (throw e) = []" "snd (throw e) = Inl e"
  by (simp_all add: throw_def)

lemma after_sel [run_simps]: "fst (after fs m) = fs @ fst m" "snd (after fs m) = snd m"
  by (simp_all add: after_def)

lemma bindT_sel [run_simps]:
  "fst (bindT m f) = fst m @ (case snd m of Inl e \<Rightarrow> [] | Inr a \<Rightarrow> fst (f a))"
  "snd (bindT m f) = (case snd m of Inl e \<Rightarrow> Inl e | Inr a \<Rightarrow> snd (f a))"
  by (auto simp: bindT_def after_def split: sum.splits)

lemma bindT_unit: "bindT m ret = m"
  by (cases m) (auto simp: bindT_def ret_def after_def split: sum.splits)

lemma bindT_assoc: "bindT (bindT m f) g = bindT m (\<lambda>a. bindT (f a) g)"
  by (auto simp: bindT_def after_def split: sum.split)

lemma bindT_pure: "bindT (ret a) f = f a" "bindT ([], Inl e) f = ([], Inl e)" "bindT ([], Inr a) f = f a"
  by (simp_all add: bindT_def ret_def after_def)

lemma bindT_effects:
  "x \<in> set (fst (bindT m f)) \<longleftrightarrow>
     x \<in> set (fst m) \<or> (\<exists>a. snd m = Inr a \<and> x \<in> set (fst (f a)))"
  by (auto simp: run_simps split: sum.splits)

lemma bindT_Inr:
  "snd (bindT m f) = Inr b \<longleftrightarrow> (\<exists>a. snd m = Inr a \<and> snd (f a) = Inr b)"
  by (auto simp: run_simps split: sum.splits)

end
