(* ===== verification/Backoff.thy ===== *)
theory Backoff
  imports Complex_Main Prelude
begin

text \<open>
  The per-resource backoff tracker of \<open>src/src/backoff.rs\<close>: the map from resource key to
  its count of consecutive failures, the four methods of \<open>BackoffMap\<close>, the delay curve and
  the resource key, and the step every controller's \<open>error_policy\<close> takes on a retryable
  error. The counter contract is the locale \<open>failure_counter\<close>; its interpretation
  \<open>bm\<close> discharges it for the map. The jitter draw is a parameter; \<open>f64\<close> arithmetic on
  it is exact real arithmetic here.
\<close>

section \<open>The map\<close>

type_synonym u32 = "32 word"
type_synonym u64 = "64 word"
type_synonym backoff_map = "string \<rightharpoonup> u32"

definition BASE_SECS :: u64 where
  "BASE_SECS = 5"

definition MAX_EXPONENT :: u32 where
  "MAX_EXPONENT = 6"

definition MAX_BACKOFF_SECS :: u64 where
  "MAX_BACKOFF_SECS = 300"

definition saturating_add :: "'a::len word \<Rightarrow> 'a word \<Rightarrow> 'a word" where
  "saturating_add a b = (if unat a + unat b < 2 ^ LENGTH('a) then a + b else - 1)"

definition saturating_mul :: "'a::len word \<Rightarrow> 'a word \<Rightarrow> 'a word" where
  "saturating_mul a b = (if unat a * unat b < 2 ^ LENGTH('a) then a * b else - 1)"

definition backoff_new :: backoff_map where
  "backoff_new = Map.empty"

definition count :: "backoff_map \<Rightarrow> string \<Rightarrow> u32" where
  "count m key = (case m key of Some c \<Rightarrow> c | None \<Rightarrow> 0)"

definition record_error :: "string \<Rightarrow> backoff_map \<Rightarrow> u32 \<times> backoff_map" where
  "record_error key m =
     (let entry = (case m key of Some c \<Rightarrow> c | None \<Rightarrow> 0);
          entry' = saturating_add entry 1
      in (entry', m(key \<mapsto> entry')))"

definition record_success :: "string \<Rightarrow> backoff_map \<Rightarrow> backoff_map" where
  "record_success key m = m(key := None)"

section \<open>The delay curve\<close>

definition backoff_secs :: "u32 \<Rightarrow> u64" where
  "backoff_secs c =
     (let e = min c MAX_EXPONENT;
          secs = saturating_mul BASE_SECS (push_bit (unat e) 1)
      in min secs MAX_BACKOFF_SECS)"

text \<open>\<open>jitter\<close> adds a draw \<open>r\<close> from \<open>random_range(0.0..0.4)\<close> to 0.8.\<close>

definition jitter :: "real \<Rightarrow> real" where
  "jitter r = 8 / 10 + r"

definition backoff_for_count :: "real \<Rightarrow> u32 \<Rightarrow> real" where
  "backoff_for_count r c = real (unat (backoff_secs c)) * jitter r"

definition duration_for :: "real \<Rightarrow> backoff_map \<Rightarrow> string \<Rightarrow> real" where
  "duration_for r m key = backoff_for_count r (count m key)"

definition resource_key :: "string \<Rightarrow> string \<Rightarrow> string \<Rightarrow> string" where
  "resource_key controller namespace name =
     (if namespace = [] then controller @ ''/'' @ name
      else controller @ ''/'' @ namespace @ ''/'' @ name)"

text \<open>What every \<open>error_policy\<close> does on a retryable error: count it, then requeue at the
  delay of the new count.\<close>

definition error_backoff :: "real \<Rightarrow> string \<Rightarrow> backoff_map \<Rightarrow> real \<times> backoff_map" where
  "error_backoff r key m =
     (let m' = snd (record_error key m) in (duration_for r m' key, m'))"

section \<open>Facts about the operations\<close>

lemma unat_max_word: "unat (- 1 :: 'a::len word) = 2 ^ LENGTH('a) - 1"
  by (simp add: unat_eq_nat_uint unsigned_minus_1_eq_mask mask_eq_exp_minus_1 nat_diff_distrib nat_power_eq)

lemma unat_saturating_add:
  "unat (saturating_add a b :: 'a::len word) = min (2 ^ LENGTH('a) - 1) (unat a + unat b)"
  by (auto simp: saturating_add_def unat_word_ariths unat_max_word min_def)

lemma unat_saturating_mul:
  "unat (saturating_mul a b :: 'a::len word) = min (2 ^ LENGTH('a) - 1) (unat a * unat b)"
  by (auto simp: saturating_mul_def unat_word_ariths unat_max_word min_def)

lemma unat_min: "unat (min a b) = min (unat a) (unat b)"
  by (simp add: min_def word_le_nat_alt)

lemma count_new [simp]: "count backoff_new k = 0"
  by (simp add: count_def backoff_new_def)

lemma record_error_fst [simp]: "fst (record_error k m) = saturating_add (count m k) 1"
  by (simp add: record_error_def count_def Let_def split: option.splits)

lemma record_error_count [simp]:
  "count (snd (record_error k m)) k' = (if k' = k then saturating_add (count m k) 1 else count m k')"
  by (simp add: record_error_def count_def Let_def split: option.splits)

lemma record_success_count [simp]:
  "count (record_success k m) k' = (if k' = k then 0 else count m k')"
  by (simp add: record_success_def count_def)

lemma unat_exponent: "unat (min c MAX_EXPONENT) = min (unat c) 6"
  by (simp add: unat_min MAX_EXPONENT_def)

lemma unat_shift_small:
  assumes "n \<le> 6" shows "unat (push_bit n 1 :: u64) = 2 ^ n"
proof -
  from assms have "n \<in> {0, 1, 2, 3, 4, 5, 6}" by auto
  then show ?thesis by (auto simp: push_bit_eq_mult)
qed

text \<open>The curve in closed form: five seconds doubled at most six times, capped at 300.\<close>

lemma backoff_secs_closed: "unat (backoff_secs c) = min (5 * 2 ^ min (unat c) 6) 300"
proof -
  let ?e = "min (unat c) 6"
  have small: "(2::nat) ^ ?e \<le> 2 ^ 6"
    by (rule power_increasing) auto
  have "unat (saturating_mul BASE_SECS (push_bit ?e 1)) = min (2 ^ 64 - 1) (5 * 2 ^ ?e)"
    by (subst unat_saturating_mul, subst unat_shift_small) (auto simp: BASE_SECS_def)
  also have "\<dots> = 5 * 2 ^ ?e" using small by simp
  finally show ?thesis
    unfolding backoff_secs_def Let_def unat_exponent unat_min [of _ MAX_BACKOFF_SECS]
    by (simp add: MAX_BACKOFF_SECS_def)
qed

lemma backoff_secs_mono: "a \<le> b \<Longrightarrow> unat (backoff_secs a) \<le> unat (backoff_secs b)"
  unfolding backoff_secs_closed word_le_nat_alt
  by (intro min.mono mult_le_mono2 power_increasing) auto

lemma backoff_secs_range: "5 \<le> unat (backoff_secs c)" "unat (backoff_secs c) \<le> 300"
  by (simp_all add: backoff_secs_closed)

section \<open>The counter contract\<close>

datatype backoff_event = Failed string | Succeeded string

fun replay :: "(string \<Rightarrow> 's \<Rightarrow> u32 \<times> 's) \<Rightarrow> (string \<Rightarrow> 's \<Rightarrow> 's) \<Rightarrow> backoff_event list \<Rightarrow> 's \<Rightarrow> 's"
where
  "replay err ok [] s = s"
| "replay err ok (Failed k # es) s = replay err ok es (snd (err k s))"
| "replay err ok (Succeeded k # es) s = replay err ok es (ok k s)"

text \<open>The specification: failures of \<open>k\<close> since its last success, starting from \<open>n\<close>.\<close>

fun failures_from :: "string \<Rightarrow> backoff_event list \<Rightarrow> nat \<Rightarrow> nat" where
  "failures_from k [] n = n"
| "failures_from k (Failed k' # es) n = failures_from k es (if k' = k then Suc n else n)"
| "failures_from k (Succeeded k' # es) n = failures_from k es (if k' = k then 0 else n)"

locale failure_counter =
  fixes init :: "'s"
    and err :: "string \<Rightarrow> 's \<Rightarrow> u32 \<times> 's"
    and ok :: "string \<Rightarrow> 's \<Rightarrow> 's"
    and cnt :: "'s \<Rightarrow> string \<Rightarrow> u32"
  assumes cnt_init: "cnt init k = 0"
    and err_returns: "fst (err k s) = cnt (snd (err k s)) k"
    and cnt_err_same: "unat (cnt (snd (err k s)) k) = min (2 ^ 32 - 1) (Suc (unat (cnt s k)))"
    and cnt_err_other: "k' \<noteq> k \<Longrightarrow> cnt (snd (err k s)) k' = cnt s k'"
    and cnt_ok_same: "cnt (ok k s) k = 0"
    and cnt_ok_other: "k' \<noteq> k \<Longrightarrow> cnt (ok k s) k' = cnt s k'"
begin

lemma replay_count_from:
  "unat (cnt s k) = min (2 ^ 32 - 1) n \<Longrightarrow>
   unat (cnt (replay err ok es s) k) = min (2 ^ 32 - 1) (failures_from k es n)"
proof (induction es arbitrary: s n)
  case (Cons e es)
  show ?case
  proof (cases e)
    case (Failed k')
    have "unat (cnt (snd (err k' s)) k) = min (2 ^ 32 - 1) (if k' = k then Suc n else n)"
      using Cons.prems by (cases "k' = k") (auto simp: cnt_err_same cnt_err_other min_def)
    with Cons.IH Failed show ?thesis by simp
  next
    case (Succeeded k')
    have "unat (cnt (ok k' s) k) = min (2 ^ 32 - 1) (if k' = k then 0 else n)"
      using Cons.prems by (cases "k' = k") (auto simp: cnt_ok_same cnt_ok_other)
    with Cons.IH Succeeded show ?thesis by simp
  qed
qed simp

lemma replay_count:
  "unat (cnt (replay err ok es init) k) = min (2 ^ 32 - 1) (failures_from k es 0)"
  by (rule replay_count_from) (simp add: cnt_init)

lemma err_reports_history:
  "unat (fst (err k (replay err ok es init)))
     = min (2 ^ 32 - 1) (Suc (failures_from k es 0))"
  by (auto simp: err_returns cnt_err_same replay_count min_def)

end

interpretation bm: failure_counter backoff_new record_error record_success count
  by unfold_locales (auto simp: unat_saturating_add)

section \<open>Properties\<close>

text \<open>C36. The backoff map implements its contract: after any sequence of recorded failures and
  successes, the count of a key is the number of its failures since its last success,
  saturated at the largest \<open>u32\<close>, and the next \<open>record_error\<close> reports that number plus
  one.\<close>

theorem backoff_count_refines_history:
  "unat (count (replay record_error record_success es backoff_new) k)
     = min (2 ^ 32 - 1) (failures_from k es 0)
   \<and> unat (fst (record_error k (replay record_error record_success es backoff_new)))
     = min (2 ^ 32 - 1) (Suc (failures_from k es 0))"
  using bm.replay_count bm.err_reports_history by blast

lemma jitter_scale_bounds:
  "0 \<le> r \<Longrightarrow> r < 4 / 10 \<Longrightarrow> 0 < (x::real) \<Longrightarrow> 8 / 10 * x \<le> x * jitter r \<and> x * jitter r < 12 / 10 * x"
  by (auto simp: jitter_def algebra_simps)

text \<open>The requeue delay: for a jitter draw in range, the delay of a count is within twenty
  percent of \<open>min (5 * 2 ^ min count 6) 300\<close> seconds, so it is at least 4 and below 360
  seconds, and the unjittered curve never decreases with the count.\<close>

theorem backoff_delay_bounds:
  assumes "0 \<le> r" and "r < 4 / 10"
  shows "8 / 10 * real (min (5 * 2 ^ min (unat c) 6) 300) \<le> backoff_for_count r c
     \<and> backoff_for_count r c < 12 / 10 * real (min (5 * 2 ^ min (unat c) 6) 300)
     \<and> 4 \<le> backoff_for_count r c \<and> backoff_for_count r c < 360
     \<and> (\<forall>c'. c \<le> c' \<longrightarrow> unat (backoff_secs c) \<le> unat (backoff_secs c'))"
proof -
  define b where "b = unat (backoff_secs c)"
  have b: "5 \<le> b" "b \<le> 300" using backoff_secs_range [of c] by (simp_all add: b_def)
  have j: "8 / 10 * real b \<le> backoff_for_count r c \<and> backoff_for_count r c < 12 / 10 * real b"
    unfolding backoff_for_count_def b_def [symmetric]
    using b(1) by (intro jitter_scale_bounds assms) simp
  have r: "5 \<le> real b" "real b \<le> 300" using b by simp_all
  have "4 \<le> backoff_for_count r c \<and> backoff_for_count r c < 360" using j r by linarith
  moreover have "b = min (5 * 2 ^ min (unat c) 6) 300" by (simp add: b_def backoff_secs_closed)
  ultimately show ?thesis using j by (simp add: backoff_secs_mono)
qed

theorem backoff_delay_bounds_witness:
  "(0::real) \<le> 3 / 10 \<and> (3 / 10 :: real) < 4 / 10 \<and> 8 / 10 * real (min (5 * 2 ^ min (unat (20 :: u32)) 6) 300)
     \<le> backoff_for_count (3 / 10) 20"
  using backoff_delay_bounds [of "3 / 10" 20] by simp

text \<open>The backoff step of an error policy: on a key with no recorded failure the requeue delay
  is at least 8 and below 12 seconds, that is two base delays and never the single base
  delay, and the key then counts one failure.\<close>

theorem first_error_delay:
  assumes "0 \<le> r" and "r < 4 / 10" and "count m k = 0"
  shows "8 \<le> fst (error_backoff r k m) \<and> fst (error_backoff r k m) < 12
     \<and> unat (count (snd (error_backoff r k m)) k) = 1"
proof -
  have d: "fst (error_backoff r k m) = backoff_for_count r 1"
    using assms(3) by (simp add: error_backoff_def duration_for_def Let_def saturating_add_def)
  have "real (unat (backoff_secs 1)) = 10" by (simp add: backoff_secs_closed)
  then have "8 \<le> backoff_for_count r 1 \<and> backoff_for_count r 1 < 12"
    using jitter_scale_bounds [of r 10] assms(1,2) by (simp add: backoff_for_count_def)
  with d assms(3) show ?thesis
    by (simp add: error_backoff_def Let_def saturating_add_def)
qed

theorem first_error_delay_witness:
  "8 \<le> fst (error_backoff (1 / 10) ''plugin/foo'' backoff_new)
   \<and> unat (count (snd (error_backoff (1 / 10) ''plugin/foo'' backoff_new)) ''plugin/foo'') = 1"
  using first_error_delay [of "1 / 10" backoff_new "''plugin/foo''"] by simp

lemma slash_split_unique:
  assumes "a @ ''/'' @ b = c @ ''/'' @ d" and "CHR ''/'' \<notin> set a" and "CHR ''/'' \<notin> set c"
  shows "a = c \<and> b = d"
proof -
  have "split_once (CHR ''/'') (a @ ''/'' @ b) = Some (a, b)"
    using assms(2) by (simp add: split_once_append)
  moreover have "split_once (CHR ''/'') (c @ ''/'' @ d) = Some (c, d)"
    using assms(3) by (simp add: split_once_append)
  ultimately have "Some (a, b) = Some (c, d)"
    unfolding assms(1) by metis
  then show ?thesis by simp
qed

definition key_rest :: "string \<Rightarrow> string \<Rightarrow> string" where
  "key_rest namespace name = (if namespace = [] then name else namespace @ ''/'' @ name)"

lemma resource_key_rest: "resource_key c ns n = c @ ''/'' @ key_rest ns n"
  by (simp add: resource_key_def key_rest_def)

lemma key_rest_slash:
  "CHR ''/'' \<notin> set n \<Longrightarrow> CHR ''/'' \<in> set (key_rest ns n) \<longleftrightarrow> ns \<noteq> []"
  by (simp add: key_rest_def)

text \<open>Resource keys never collide: for controller names, namespaces and object names without a
  slash, two equal keys name the same controller, namespace and object, so no resource
  inherits the failure count of another.\<close>

theorem resource_key_injective:
  assumes "resource_key c ns n = resource_key c' ns' n'"
    and "CHR ''/'' \<notin> set (c @ ns @ n)" and "CHR ''/'' \<notin> set (c' @ ns' @ n')"
  shows "c = c' \<and> ns = ns' \<and> n = n'"
proof -
  have eq: "c @ ''/'' @ key_rest ns n = c' @ ''/'' @ key_rest ns' n'"
    using assms(1) by (simp add: resource_key_rest)
  have top: "c = c' \<and> key_rest ns n = key_rest ns' n'"
    using slash_split_unique [OF eq] assms(2,3) by simp
  have "CHR ''/'' \<in> set (key_rest ns n) \<longleftrightarrow> ns \<noteq> []"
    and "CHR ''/'' \<in> set (key_rest ns' n') \<longleftrightarrow> ns' \<noteq> []"
    using assms(2,3) by (simp_all add: key_rest_slash)
  with top have same: "ns = [] \<longleftrightarrow> ns' = []" by simp
  have "ns = ns' \<and> n = n'"
  proof (cases "ns = []")
    case True
    with top same show ?thesis by (simp add: key_rest_def)
  next
    case False
    with top same have eq': "ns @ ''/'' @ n = ns' @ ''/'' @ n'" by (simp add: key_rest_def)
    show ?thesis using slash_split_unique [OF eq'] assms(2,3) by simp
  qed
  with top show ?thesis by simp
qed

theorem resource_key_injective_witness:
  "resource_key ''gateway'' ''payments'' ''foo'' = ''gateway/payments/foo'' \<and> ''payments'' = ''payments''"
proof -
  have "CHR ''/'' \<notin> set (''gateway'' @ ''payments'' @ ''foo'')" by simp
  from resource_key_injective [OF refl this this] show ?thesis
    by (simp add: resource_key_def)
qed

end
