(* ===== verification/Json.thy ===== *)
theory Json
  imports Prelude
begin

text \<open>
  JSON values as the sources handle them (\<open>serde_json::Value\<close>) and the accessors they
  call: \<open>get(key)\<close>, \<open>as_str()\<close>, \<open>is_object()\<close>. Parsing and printing are the library's
  and stay parameters where they occur. An object is its list of members, with the keys
  distinct as in the library's map.
\<close>

datatype json = JNull | JBool bool | JNum int | JStr string | JArr "json list"
  | JObj "(string \<times> json) list"

definition json_get :: "string \<Rightarrow> json \<Rightarrow> json option" where
  "json_get k j = (case j of JObj ms \<Rightarrow> map_of ms k | _ \<Rightarrow> None)"

definition json_as_str :: "json \<Rightarrow> string option" where
  "json_as_str j = (case j of JStr s \<Rightarrow> Some s | _ \<Rightarrow> None)"

definition json_is_object :: "json \<Rightarrow> bool" where
  "json_is_object j = (case j of JObj _ \<Rightarrow> True | _ \<Rightarrow> False)"

text \<open>A chain of \<open>get\<close> calls.\<close>

fun json_path :: "string list \<Rightarrow> json \<Rightarrow> json option" where
  "json_path [] j = Some j"
| "json_path (k # ks) j = Option.bind (json_get k j) (json_path ks)"

lemma json_path_append:
  "json_path (ks @ ks') j = Option.bind (json_path ks j) (json_path ks')"
  by (induction ks arbitrary: j) (auto split: Option.bind_splits)

lemma json_get_Some_object: "json_get k j = Some v \<Longrightarrow> json_is_object j"
  by (auto simp: json_get_def json_is_object_def split: json.splits)

end
