(* ===== verification/K8s.thy ===== *)
theory K8s
  imports Json
begin

text \<open>
  The Kubernetes objects the operator writes, with the fields it sets. The types belong to the
  Kubernetes client library; a field that no code of the operator sets or reads is left out.
  Resource quantities are their text.
\<close>

section \<open>Metadata\<close>

record owner_ref =
  or_api_version :: string
  or_kind :: string
  or_name :: string
  or_uid :: string
  or_controller :: "bool option"
  or_block_owner_deletion :: "bool option"

type_synonym str_map = "string \<rightharpoonup> string"

record object_meta =
  meta_name :: "string option"
  meta_namespace :: "string option"
  meta_generation :: "int option"
  meta_resource_version :: "string option"
  meta_finalizers :: "string list option"
  meta_deletion_timestamp :: "int option"
  meta_uid :: "string option"
  meta_labels :: "str_map option"
  meta_annotations :: "str_map option"
  meta_owner_references :: "owner_ref list option"

definition default_meta :: object_meta where
  "default_meta = \<lparr>meta_name = None, meta_namespace = None, meta_generation = None,
     meta_resource_version = None, meta_finalizers = None, meta_deletion_timestamp = None,
     meta_uid = None, meta_labels = None, meta_annotations = None, meta_owner_references = None\<rparr>"

definition name_any :: "object_meta \<Rightarrow> string" where
  "name_any m = (case meta_name m of Some n \<Rightarrow> n | None \<Rightarrow> [])"

definition generation_of :: "object_meta \<Rightarrow> int" where
  "generation_of m = (case meta_generation m of Some g \<Rightarrow> g | None \<Rightarrow> 0)"

lemma name_any_Some [simp]: "meta_name m = Some n \<Longrightarrow> name_any m = n"
  by (simp add: name_any_def)

section \<open>Data and access\<close>

record secret =
  sec_meta :: object_meta
  sec_type :: "string option"
  sec_immutable :: "bool option"
  sec_data :: "str_map option"

record config_map =
  cm_meta :: object_meta
  cm_data :: "str_map option"

record rbac_subject =
  sub_kind :: string
  sub_name :: string
  sub_namespace :: "string option"

record role_binding =
  rb_meta :: object_meta
  rb_role_kind :: string
  rb_role_name :: string
  rb_subjects :: "rbac_subject list"

record service_account =
  sa_meta :: object_meta
  sa_automount_token :: "bool option"
  sa_image_pull_secrets :: "string list option"

section \<open>Services\<close>

datatype int_or_string = IntVal int | StrVal string

record service_port =
  sp_name :: "string option"
  sp_port :: int
  sp_target_port :: "int_or_string option"
  sp_protocol :: "string option"

record service =
  srv_meta :: object_meta
  srv_type :: "string option"
  srv_cluster_ip :: "string option"
  srv_publish_not_ready :: "bool option"
  srv_selector :: "str_map option"
  srv_ports :: "service_port list"

section \<open>Pods\<close>

datatype env_source = EnvValue string | EnvField string | EnvSecret string string

record env_var =
  envv_name :: string
  envv_source :: env_source

record env_from_secret =
  efs_name :: string
  efs_optional :: "bool option"

text \<open>A Secret volume carries its default mode; a ConfigMap volume the items it projects.\<close>

datatype volume_source =
    VolConfigMap string "(string \<times> string) list option"
  | VolEmptyDir
  | VolSecret string "int option"

record volume =
  vol_name :: string
  vol_source :: volume_source

record volume_mount =
  vm_name :: string
  vm_path :: string
  vm_sub_path :: "string option"
  vm_read_only :: "bool option"

text \<open>An HTTP probe carries its path and scheme.\<close>

datatype probe_action = HttpGet string "string option" | TcpSocket

record probe =
  pr_action :: probe_action
  pr_port :: int_or_string
  pr_initial_delay :: "int option"
  pr_period :: "int option"
  pr_timeout :: "int option"
  pr_failure_threshold :: "int option"
  pr_success_threshold :: "int option"

record security_context =
  sc_allow_privilege_escalation :: "bool option"
  sc_read_only_root :: "bool option"
  sc_run_as_non_root :: "bool option"
  sc_run_as_user :: "int option"
  sc_run_as_group :: "int option"
  sc_drop_capabilities :: "string list"
  sc_add_capabilities :: "string list option"
  sc_seccomp :: "string option"

record container_port =
  cp_name :: "string option"
  cp_port :: int
  cp_protocol :: "string option"

record container =
  ct_name :: string
  ct_image :: "string option"
  ct_pull_policy :: "string option"
  ct_working_dir :: "string option"
  ct_command :: "string list option"
  ct_args :: "string list option"
  ct_ports :: "container_port list"
  ct_env :: "env_var list option"
  ct_env_from :: "env_from_secret list option"
  ct_requests :: "str_map option"
  ct_limits :: "str_map option"
  ct_volume_mounts :: "volume_mount list option"
  ct_liveness :: "probe option"
  ct_readiness :: "probe option"
  ct_startup :: "probe option"
  ct_security :: "security_context option"

record pod_security =
  pod_run_as_non_root :: "bool option"
  pod_run_as_user :: "int option"
  pod_run_as_group :: "int option"
  pod_fs_group :: "int option"
  pod_seccomp :: "string option"

record topology_spread =
  ts_max_skew :: int
  ts_topology_key :: string
  ts_when_unsatisfiable :: string
  ts_selector :: "str_map option"

record pod_spec =
  pod_service_account :: "string option"
  pod_automount_token :: "bool option"
  pod_enable_service_links :: "bool option"
  pod_security_context :: "pod_security option"
  pod_containers :: "container list"
  pod_volumes :: "volume list option"
  pod_image_pull_secrets :: "string list option"
  pod_node_selector :: "str_map option"
  pod_priority_class :: "string option"
  pod_termination_grace :: "int option"
  pod_topology_spread :: "topology_spread list option"
  pod_dns_config :: "json option"

record deployment =
  dep_meta :: object_meta
  dep_replicas :: "int option"
  dep_selector :: str_map
  dep_strategy :: "string option"
  dep_pod_meta :: object_meta
  dep_pod :: pod_spec

record deployment_status =
  ds_replicas :: "int option"
  ds_ready :: "int option"
  ds_updated :: "int option"
  ds_available :: "int option"

text \<open>A claim of a stateful set: its size is the storage request.\<close>

record volume_claim =
  pvc_meta :: object_meta
  pvc_access_modes :: "string list"
  pvc_storage :: string
  pvc_storage_class :: "string option"

record stateful_set =
  ss_meta :: object_meta
  ss_replicas :: "int option"
  ss_service_name :: "string option"
  ss_selector :: str_map
  ss_pod_meta :: object_meta
  ss_pod :: pod_spec
  ss_claims :: "volume_claim list"

section \<open>Scaling, disruption, edge\<close>

record hpa =
  hpa_meta :: object_meta
  hpa_target :: string
  hpa_min :: int
  hpa_max :: int
  hpa_metrics :: "json list"

record pdb =
  pdb_meta :: object_meta
  pdb_min_available :: "int_or_string option"
  pdb_max_unavailable :: "int_or_string option"
  pdb_selector :: str_map

record parent_reference =
  pref_name :: string
  pref_namespace :: "string option"
  pref_group :: "string option"
  pref_kind :: "string option"

record http_route =
  hr_meta :: object_meta
  hr_parents :: "parent_reference list"
  hr_hostnames :: "string list"
  hr_path_prefixes :: "string list"
  hr_backend :: string
  hr_backend_port :: "16 word"

record certificate =
  crt_meta :: object_meta
  crt_secret_name :: string
  crt_dns_names :: "string list"
  crt_issuer :: string
  crt_issuer_kind :: string
  crt_issuer_group :: string

record resource_quota =
  rq_meta :: object_meta
  rq_hard :: str_map

text \<open>\<open>ObEdgeGateway\<close> is the partial document applied to the shared edge Gateway, \<open>ObNamespace\<close> the
  metadata applied to a namespace.\<close>

datatype k8s_object =
    ObSecret secret
  | ObConfigMap config_map
  | ObRoleBinding role_binding
  | ObService service
  | ObServiceAccount service_account
  | ObDeployment deployment
  | ObHpa hpa
  | ObPdb pdb
  | ObHttpRoute http_route
  | ObCertificate certificate
  | ObEdgeGateway json
  | ObStatefulSet stateful_set
  | ObResourceQuota resource_quota
  | ObNamespace object_meta

definition ob_meta :: "k8s_object \<Rightarrow> object_meta" where
  "ob_meta ob = (case ob of ObSecret s \<Rightarrow> sec_meta s | ObConfigMap c \<Rightarrow> cm_meta c
     | ObRoleBinding r \<Rightarrow> rb_meta r | ObService s \<Rightarrow> srv_meta s | ObServiceAccount s \<Rightarrow> sa_meta s
     | ObDeployment d \<Rightarrow> dep_meta d | ObHpa h \<Rightarrow> hpa_meta h | ObPdb p \<Rightarrow> pdb_meta p
     | ObHttpRoute r \<Rightarrow> hr_meta r | ObCertificate c \<Rightarrow> crt_meta c | ObEdgeGateway _ \<Rightarrow> default_meta
     | ObStatefulSet s \<Rightarrow> ss_meta s | ObResourceQuota q \<Rightarrow> rq_meta q | ObNamespace m \<Rightarrow> m)"

end
