(* ===== verification/Kube.thy ===== *)
theory Kube
  imports Backoff K8s
begin

text \<open>
  The cluster-facing vocabulary and the helpers of \<open>src/src/reconcile/\<close>: object metadata,
  conditions, the effects a reconcile issues, the finalizer helpers
  (\<open>finalizers.rs\<close>), the status patch with its one retry (\<open>status.rs\<close>), server-side
  apply (\<open>ssa.rs\<close>), the trigger key (\<open>watch.rs\<close>) and the reconcile outcome
  (\<open>telemetry.rs\<close>).

  The API server is not part of the sources. Each call takes the server's answer from a
  parameter and records the request as an effect, so a definition holds for every server;
  what a theorem needs of a server is a named hypothesis (\<open>json_patch_server\<close>,
  \<open>condition_setter\<close>). Message texts of conditions, events and errors are left out: they
  are not read back by any code. The type and reason constants of conditions that belong to the
  API crate are written after the names of the constants; what matters of them is that they
  differ.
\<close>

section \<open>Errors, metadata, conditions\<close>

datatype kube_error = KubeApi nat | KubeMissing string | KubeOther string

definition is_conflict :: "kube_error \<Rightarrow> bool" where
  "is_conflict e = (case e of KubeApi code \<Rightarrow> code = 409 | _ \<Rightarrow> False)"

record condition =
  c_type :: string
  c_status :: string
  c_reason :: string
  c_generation :: "int option"

abbreviation cond :: "string \<Rightarrow> string \<Rightarrow> string \<Rightarrow> int \<Rightarrow> condition" where
  "cond t s r g \<equiv> \<lparr>c_type = t, c_status = s, c_reason = r, c_generation = Some g\<rparr>"

text \<open>\<open>conditions.iter().any(|c| c.type == t \<and> c.status == "True")\<close>.\<close>

definition cond_true :: "string \<Rightarrow> condition list \<Rightarrow> bool" where
  "cond_true t cs \<longleftrightarrow> list_ex (\<lambda>c. c_type c = t \<and> c_status c = ''True'') cs"

text \<open>\<open>conditions::set_condition\<close> belongs to the API crate: it is a parameter of the model.
  It puts the condition in the list in place of any of the same type and keeps the
  others.\<close>

definition condition_setter :: "(condition \<Rightarrow> condition list \<Rightarrow> condition list) \<Rightarrow> bool" where
  "condition_setter sc \<longleftrightarrow>
     (\<forall>c cs. {x \<in> set (sc c cs). c_type x = c_type c} = {c})
     \<and> (\<forall>c cs x. c_type x \<noteq> c_type c \<longrightarrow> (x \<in> set (sc c cs) \<longleftrightarrow> x \<in> set cs))"

definition FIELD_MANAGER_PREFIX :: string where
  "FIELD_MANAGER_PREFIX = ''mcpg-operator''"

definition field_manager :: "string \<Rightarrow> string" where
  "field_manager controller = FIELD_MANAGER_PREFIX @ ''/'' @ controller"

datatype reconcile_outcome = Success | TransientError | PermanentError | DependencyPending

datatype reconcile_action = AwaitChange | Requeue real

datatype event_type = Normal | Warning

record event =
  ev_type :: event_type
  ev_reason :: string
  ev_action :: string

section \<open>Effects\<close>

text \<open>One JSON Patch operation of the finalizer helper: \<open>test\<close> on
  \<open>/metadata/resourceVersion\<close>, \<open>add\<close> on \<open>/metadata/finalizers/-\<close> and \<open>add\<close> on
  \<open>/metadata/finalizers\<close>.\<close>

datatype patch_op = TestResourceVersion string | AppendFinalizer string | SetFinalizers "string list"

text \<open>What a reconcile does to the world, in order. \<open>'st\<close> is the status type of the
  controller's kind, \<open>'ob\<close> the objects it applies. The second argument of the write
  effects is the field manager. \<open>DeleteObj\<close> deletes in the namespace of the object that is
  reconciled, \<open>DeleteKind\<close> an object of the given kind, namespace and name. \<open>Pull\<close> is an OCI
  pull of a reference.\<close>

datatype ('st, 'ob) effect =
    PatchFinalizers string "patch_op list"
  | MergeFinalizers string "string list"
  | PatchStatus string 'st string
  | Apply 'ob string
  | DeleteObj string
  | DeleteKind string string string
  | Pull string
  | Publish event
  | ObserveReconcile string reconcile_outcome
  | ObservePull string
  | ObserveDependency string string string
  | BackoffReset string
  | BackoffFailure string

type_synonym ('st, 'ob, 'e, 'a) ctl = "(('st, 'ob) effect, 'e, 'a) run"

section \<open>Finalizers\<close>

definition OPERATOR_FINALIZER :: string where
  "OPERATOR_FINALIZER = ''mcpg.dev/operator''"

datatype finalizer_error = FinalizerPatch string kube_error | FinalizerConflict string

definition has_finalizer :: "object_meta \<Rightarrow> string \<Rightarrow> bool" where
  "has_finalizer m fin =
     (case meta_finalizers m of Some f \<Rightarrow> list_ex (\<lambda>n. n = fin) f | None \<Rightarrow> False)"

definition ensure_finalizer ::
  "kube_error + unit \<Rightarrow> string \<Rightarrow> object_meta \<Rightarrow> string \<Rightarrow> ('st, 'ob, finalizer_error, bool) ctl" where
  "ensure_finalizer ans name current fin =
     (if (case meta_finalizers current of Some f \<Rightarrow> list_ex (\<lambda>n. n = fin) f | None \<Rightarrow> False)
      then ret False
      else case meta_resource_version current of
        None \<Rightarrow> throw (FinalizerPatch name (KubeMissing ''metadata.resourceVersion''))
      | Some rv \<Rightarrow>
          let ops = (if meta_finalizers current \<noteq> None
                     then [TestResourceVersion rv, AppendFinalizer fin]
                     else [TestResourceVersion rv, SetFinalizers [fin]])
          in after [PatchFinalizers name ops]
               (case ans of
                  Inl e \<Rightarrow> throw (if is_conflict e then FinalizerConflict name
                                  else FinalizerPatch name e)
                | Inr _ \<Rightarrow> ret True))"

definition remove_finalizer ::
  "kube_error + object_meta option \<Rightarrow> kube_error + unit \<Rightarrow> string \<Rightarrow> string
    \<Rightarrow> ('st, 'ob, finalizer_error, unit) ctl" where
  "remove_finalizer get_ans patch_ans name fin =
     (case get_ans of
        Inl e \<Rightarrow> throw (FinalizerPatch name e)
      | Inr None \<Rightarrow> ret ()
      | Inr (Some current) \<Rightarrow>
          let filtered = (case meta_finalizers current of
                            Some f \<Rightarrow> filter (\<lambda>x. x \<noteq> fin) f | None \<Rightarrow> [])
          in if (case meta_finalizers current of
                   Some f \<Rightarrow> length filtered = length f | None \<Rightarrow> False)
             then ret ()
             else after [MergeFinalizers name filtered]
                    (case patch_ans of
                       Inl e \<Rightarrow> throw (FinalizerPatch name e) | Inr _ \<Rightarrow> ret ()))"

section \<open>Status patch, server-side apply, trigger key\<close>

datatype status_error = StatusPatch string kube_error

text \<open>The answers to the first attempt and to the retry.\<close>

definition patch_status ::
  "kube_error + unit \<Rightarrow> kube_error + unit \<Rightarrow> string \<Rightarrow> 'st \<Rightarrow> string
    \<Rightarrow> ('st, 'ob, status_error, unit) ctl" where
  "patch_status ans1 ans2 name status fm =
     after [PatchStatus name status fm]
       (case ans1 of
          Inr k \<Rightarrow> ret k
        | Inl e \<Rightarrow>
            if is_conflict e
            then after [PatchStatus name status fm]
                   (case ans2 of Inr k \<Rightarrow> ret k | Inl e' \<Rightarrow> throw (StatusPatch name e'))
            else throw (StatusPatch name e))"

text \<open>A status patch whose failure is only logged.\<close>

definition patch_status_logged ::
  "kube_error + unit \<Rightarrow> kube_error + unit \<Rightarrow> string \<Rightarrow> 'st \<Rightarrow> string \<Rightarrow> ('st, 'ob) effect list" where
  "patch_status_logged ans1 ans2 name status fm =
     fst (patch_status ans1 ans2 name status fm :: ('st, 'ob, status_error, unit) ctl)"

datatype apply_error = ApplyFailed string kube_error

definition apply_owned ::
  "kube_error + unit \<Rightarrow> ('ob \<Rightarrow> object_meta) \<Rightarrow> 'ob \<Rightarrow> string \<Rightarrow> ('st, 'ob, apply_error, unit) ctl" where
  "apply_owned ans meta obj fm =
     (case meta_name (meta obj) of
        None \<Rightarrow> throw (ApplyFailed ''<unnamed>'' (KubeMissing ''metadata.name''))
      | Some name \<Rightarrow>
          after [Apply obj fm]
            (case ans of Inl e \<Rightarrow> throw (ApplyFailed name e) | Inr k \<Rightarrow> ret k))"

text \<open>The hash of the standard library's \<open>DefaultHasher\<close> is the parameter \<open>h\<close>.\<close>

definition spec_or_deletion :: "(int \<Rightarrow> bool \<Rightarrow> u64) \<Rightarrow> object_meta \<Rightarrow> u64 option" where
  "spec_or_deletion h m =
     (case meta_generation m of
        None \<Rightarrow> None
      | Some g \<Rightarrow> Some (h g (meta_deletion_timestamp m \<noteq> None)))"

section \<open>Facts\<close>

lemma cond_true_iff: "cond_true t cs \<longleftrightarrow> (\<exists>c \<in> set cs. c_type c = t \<and> c_status c = ''True'')"
  by (simp add: cond_true_def list_ex_iff)

lemma condition_setter_mem:
  assumes "condition_setter sc"
  shows "x \<in> set (sc c cs) \<longleftrightarrow> x = c \<or> (c_type x \<noteq> c_type c \<and> x \<in> set cs)"
proof (cases "c_type x = c_type c")
  case True
  have "x \<in> {x \<in> set (sc c cs). c_type x = c_type c} \<longleftrightarrow> x = c"
    using assms by (auto simp: condition_setter_def)
  with True show ?thesis by simp
next
  case False
  with assms show ?thesis by (auto simp: condition_setter_def)
qed

lemma cond_true_set:
  assumes "condition_setter sc"
  shows "cond_true t (sc c cs) \<longleftrightarrow>
    (if c_type c = t then c_status c = ''True'' else cond_true t cs)"
  by (auto simp: cond_true_iff condition_setter_mem [OF assms])

text \<open>A setter that replaces in place or appends meets the contract.\<close>

fun upsert_condition :: "condition \<Rightarrow> condition list \<Rightarrow> condition list" where
  "upsert_condition c [] = [c]"
| "upsert_condition c (x # xs) =
     (if c_type x = c_type c then c # filter (\<lambda>y. c_type y \<noteq> c_type c) xs
      else x # upsert_condition c xs)"

lemma upsert_condition_mem:
  "x \<in> set (upsert_condition c cs) \<longleftrightarrow> x = c \<or> (c_type x \<noteq> c_type c \<and> x \<in> set cs)"
  by (induction cs) auto

lemma condition_setter_upsert [simp]: "condition_setter upsert_condition"
  by (auto simp: condition_setter_def upsert_condition_mem)

lemma patch_status_logged_eff:
  "x \<in> set (patch_status_logged a1 a2 name st fm) \<longleftrightarrow> x = PatchStatus name st fm"
  by (auto simp: patch_status_logged_def patch_status_def run_simps split: sum.splits if_splits)

lemma apply_owned_eff:
  "x \<in> set (fst (apply_owned a meta ob fm)) \<longleftrightarrow> meta_name (meta ob) \<noteq> None \<and> x = Apply ob fm"
  by (auto simp: apply_owned_def run_simps split: option.splits sum.splits)

lemma apply_owned_ok: "meta_name (meta ob) \<noteq> None \<Longrightarrow> snd (apply_owned a meta ob fm) = Inr () \<longleftrightarrow> a = Inr ()"
  by (cases a) (auto simp: apply_owned_def run_simps)

lemma ensure_finalizer_eff:
  "x \<in> set (fst (ensure_finalizer a name m fin)) \<Longrightarrow> \<exists>ops. x = PatchFinalizers name ops"
  by (auto simp: ensure_finalizer_def run_simps Let_def split: option.splits sum.splits if_splits)

lemma remove_finalizer_eff:
  "x \<in> set (fst (remove_finalizer g p name fin)) \<Longrightarrow> \<exists>fs. x = MergeFinalizers name fs \<and> fin \<notin> set fs"
  by (auto simp: remove_finalizer_def run_simps Let_def split: option.splits sum.splits if_splits)

section \<open>Properties\<close>

text \<open>RFC 6902 on the operations the helper sends: a failed \<open>test\<close> rejects the whole patch,
  otherwise the \<open>add\<close> appends to the array or creates it.\<close>

definition json_patch_server :: "(object_meta \<Rightarrow> patch_op list \<Rightarrow> kube_error + object_meta) \<Rightarrow> bool" where
  "json_patch_server ap \<longleftrightarrow>
     (\<forall>m rv ops. meta_resource_version m \<noteq> Some rv \<longrightarrow>
        (\<exists>e. ap m (TestResourceVersion rv # ops) = Inl e))
     \<and> (\<forall>m rv f fs. meta_resource_version m = Some rv \<and> meta_finalizers m = Some fs \<longrightarrow>
        (\<exists>m'. ap m [TestResourceVersion rv, AppendFinalizer f] = Inr m'
            \<and> meta_finalizers m' = Some (fs @ [f])))
     \<and> (\<forall>m rv f. meta_resource_version m = Some rv \<and> meta_finalizers m = None \<longrightarrow>
        (\<exists>m'. ap m [TestResourceVersion rv, SetFinalizers [f]] = Inr m'
            \<and> meta_finalizers m' = Some [f]))"

lemma json_patch_server_append:
  assumes "json_patch_server ap" "meta_resource_version m = Some rv" "meta_finalizers m = Some fs"
    and "ap m [TestResourceVersion rv, AppendFinalizer f] = Inr m'"
  shows "meta_finalizers m' = Some (fs @ [f])"
proof -
  obtain m'' where "ap m [TestResourceVersion rv, AppendFinalizer f] = Inr m''"
    and "meta_finalizers m'' = Some (fs @ [f])"
    using assms(1-3) unfolding json_patch_server_def by blast
  with assms(4) show ?thesis by simp
qed

lemma json_patch_server_create:
  assumes "json_patch_server ap" "meta_resource_version m = Some rv" "meta_finalizers m = None"
    and "ap m [TestResourceVersion rv, SetFinalizers [f]] = Inr m'"
  shows "meta_finalizers m' = Some [f]"
proof -
  obtain m'' where "ap m [TestResourceVersion rv, SetFinalizers [f]] = Inr m''"
    and "meta_finalizers m'' = Some [f]"
    using assms(1-3) unfolding json_patch_server_def by blast
  with assms(4) show ?thesis by simp
qed

text \<open>Adding the finalizer never loses another controller's: whenever the patch that
  \<open>ensure_finalizer\<close> sends is accepted by an RFC 6902 server on the live object, the object
  still had the version that was read and its finalizers become the live ones followed by
  the operator's, which was not among them. Equal resource versions mean equal
  finalizers.\<close>

theorem ensure_finalizer_appends:
  assumes "json_patch_server ap"
    and "meta_resource_version live = meta_resource_version current
      \<Longrightarrow> meta_finalizers live = meta_finalizers current"
    and "PatchFinalizers n ops \<in> set (fst (ensure_finalizer ans name current fin))"
    and "ap live ops = Inr m'"
  shows "meta_resource_version live = meta_resource_version current
     \<and> fin \<notin> set (case meta_finalizers live of Some fs \<Rightarrow> fs | None \<Rightarrow> [])
     \<and> meta_finalizers m'
        = Some ((case meta_finalizers live of Some fs \<Rightarrow> fs | None \<Rightarrow> []) @ [fin])"
proof -
  obtain rv where rv: "meta_resource_version current = Some rv"
    and absent: "fin \<notin> set (case meta_finalizers current of Some fs \<Rightarrow> fs | None \<Rightarrow> [])"
    and ops: "ops = (if meta_finalizers current \<noteq> None
        then [TestResourceVersion rv, AppendFinalizer fin]
        else [TestResourceVersion rv, SetFinalizers [fin]])"
    using assms(3)
    by (auto simp: ensure_finalizer_def run_simps Let_def list_ex_iff
        split: option.splits sum.splits if_splits)
  have same: "meta_resource_version live = Some rv"
  proof (rule ccontr)
    assume "meta_resource_version live \<noteq> Some rv"
    then have "\<exists>e. ap live ops = Inl e"
      using assms(1) ops by (auto simp: json_patch_server_def)
    with assms(4) show False by simp
  qed
  with assms(2) rv have fins: "meta_finalizers live = meta_finalizers current" by simp
  show ?thesis
  proof (cases "meta_finalizers current")
    case None
    with assms(4) ops have "ap live [TestResourceVersion rv, SetFinalizers [fin]] = Inr m'"
      by simp
    from json_patch_server_create [OF assms(1) same _ this] None same fins rv absent
    show ?thesis by simp
  next
    case (Some fs)
    with assms(4) ops have "ap live [TestResourceVersion rv, AppendFinalizer fin] = Inr m'"
      by simp
    from json_patch_server_append [OF assms(1) same _ this] Some same fins rv absent
    show ?thesis by simp
  qed
qed

text \<open>A server for the witness.\<close>

fun apply_patch_ops :: "object_meta \<Rightarrow> patch_op list \<Rightarrow> kube_error + object_meta" where
  "apply_patch_ops m [] = Inr m"
| "apply_patch_ops m (TestResourceVersion rv # ops) =
     (if meta_resource_version m = Some rv then apply_patch_ops m ops else Inl (KubeApi 409))"
| "apply_patch_ops m (AppendFinalizer f # ops) =
     (case meta_finalizers m of
        None \<Rightarrow> Inl (KubeApi 422)
      | Some fs \<Rightarrow> apply_patch_ops (m\<lparr>meta_finalizers := Some (fs @ [f])\<rparr>) ops)"
| "apply_patch_ops m (SetFinalizers fs # ops) =
     apply_patch_ops (m\<lparr>meta_finalizers := Some fs\<rparr>) ops"

lemma json_patch_server_ops: "json_patch_server apply_patch_ops"
  by (auto simp: json_patch_server_def)

theorem ensure_finalizer_appends_witness:
  "(let m = default_meta\<lparr>meta_resource_version := Some ''7'', meta_finalizers := Some [''x/y'']\<rparr> in
    \<exists>m'. apply_patch_ops m [TestResourceVersion ''7'', AppendFinalizer OPERATOR_FINALIZER] = Inr m'
      \<and> meta_finalizers m' = Some [''x/y'', OPERATOR_FINALIZER])"
proof -
  let ?m = "default_meta\<lparr>meta_resource_version := Some ''7'', meta_finalizers := Some [''x/y'']\<rparr>"
  let ?ops = "[TestResourceVersion ''7'', AppendFinalizer OPERATOR_FINALIZER]"
  obtain m' where m': "apply_patch_ops ?m ?ops = Inr m'" by simp
  have sent: "PatchFinalizers ''g'' ?ops
      \<in> set (fst (ensure_finalizer (Inr ()) ''g'' ?m OPERATOR_FINALIZER))"
    by (simp add: ensure_finalizer_def run_simps OPERATOR_FINALIZER_def)
  from ensure_finalizer_appends [OF json_patch_server_ops _ sent m'] m'
  show ?thesis by (simp add: Let_def)
qed

text \<open>The status patch is retried exactly once and only on a conflict: it sends one request,
  or two equal ones when the first answer is HTTP 409; it succeeds exactly when the last
  answer it looked at is a success, and otherwise returns that answer's error.\<close>

theorem patch_status_retry_once:
  "patch_status ans1 ans2 name st fm =
     (if (\<exists>e. ans1 = Inl e \<and> is_conflict e)
      then (replicate 2 (PatchStatus name st fm), map_err (StatusPatch name) ans2)
      else ([PatchStatus name st fm], map_err (StatusPatch name) ans1))"
  by (auto simp: patch_status_def after_def ret_def throw_def map_err_def numeral_2_eq_2
      split: sum.splits)

text \<open>The trigger of a reconcile: for an object with a generation, a hash that does not
  collide on the two keys makes the trigger key change exactly when the generation or the
  presence of a deletion timestamp changes; so the operator's own status writes, which
  change neither, never retrigger.\<close>

theorem trigger_key_changes_iff:
  assumes "meta_generation m = Some g" and "meta_generation m' = Some g'"
    and "inj_on (\<lambda>(x, d). h x d)
      {(g, meta_deletion_timestamp m \<noteq> None), (g', meta_deletion_timestamp m' \<noteq> None)}"
  shows "spec_or_deletion h m = spec_or_deletion h m' \<longleftrightarrow>
    g = g' \<and> (meta_deletion_timestamp m = None \<longleftrightarrow> meta_deletion_timestamp m' = None)"
  using assms by (auto simp: spec_or_deletion_def inj_on_def)

theorem trigger_key_changes_iff_witness:
  "(let h = (\<lambda>g d. word_of_int (2 * g + (if d then 1 else 0)));
        m = default_meta\<lparr>meta_generation := Some 1\<rparr>;
        m' = default_meta\<lparr>meta_generation := Some 1, meta_deletion_timestamp := Some 5\<rparr>
    in spec_or_deletion h m \<noteq> spec_or_deletion h m')"
  using trigger_key_changes_iff [of "default_meta\<lparr>meta_generation := Some 1\<rparr>" 1
      "default_meta\<lparr>meta_generation := Some 1, meta_deletion_timestamp := Some 5\<rparr>" 1
      "\<lambda>g d. word_of_int (2 * g + (if d then 1 else 0))"]
  by (simp add: default_meta_def inj_on_def)

end
