(* ===== verification/Leader.thy ===== *)
theory Leader
  imports Kube
begin

text \<open>
  Leader election (\<open>src/src/leader.rs\<close>): the configuration check, one acquire/renew
  attempt with the three writes it can send, the release, the election loop as a step
  function over what its \<open>select!\<close> can observe, \<open>wait_until_leader\<close> as a step
  relation against the loop's transitions, and a system of replicas that share one Lease.

  Timestamps are nanoseconds (\<open>int\<close>), durations nanoseconds (\<open>nat\<close>). The lease store is
  the API server's: the system takes it as a parameter \<open>srv\<close> with the hypothesis
  \<open>lease_server\<close> (create, and JSON merge patch without a \<open>resourceVersion\<close>, as the code
  sends it). An attempt that the shutdown signal cancels is taken to have sent nothing.
\<close>

section \<open>Configuration\<close>

record leader_cfg =
  lease_name :: string
  lease_namespace :: string
  identity :: string
  lease_duration :: nat
  renew_deadline :: nat
  retry_period :: nat

datatype leader_cfg_error = RenewNotBelowLease | RetryNotBelowRenew | EmptyIdentity
  | EmptyLeaseName | EmptyLeaseNamespace

definition leader_validate :: "leader_cfg \<Rightarrow> leader_cfg_error + unit" where
  "leader_validate c = first_err
     [ensure (renew_deadline c < lease_duration c) RenewNotBelowLease,
      ensure (retry_period c < renew_deadline c) RetryNotBelowRenew,
      ensure (identity c \<noteq> []) EmptyIdentity,
      ensure (lease_name c \<noteq> []) EmptyLeaseName,
      ensure (lease_namespace c \<noteq> []) EmptyLeaseNamespace]"

section \<open>The Lease object and its writes\<close>

record lease_spec =
  holder_identity :: "string option"
  lease_duration_seconds :: "int option"
  acquire_time :: "int option"
  renew_time :: "int option"
  lease_transitions :: "int option"

record lease =
  l_name :: "string option"
  l_spec :: "lease_spec option"

definition default_lease_spec :: lease_spec where
  "default_lease_spec = \<lparr>holder_identity = None, lease_duration_seconds = None,
     acquire_time = None, renew_time = None, lease_transitions = None\<rparr>"

text \<open>A member of a JSON merge patch: left out, \<open>null\<close>, or a value.\<close>

datatype 'a patch_field = Absent | Null | Value 'a

record spec_patch =
  p_holder :: "string patch_field"
  p_duration :: "int patch_field"
  p_acquire :: "int patch_field"
  p_renew :: "int patch_field"
  p_transitions :: "int patch_field"

text \<open>Serialising a \<open>LeaseSpec\<close> leaves out the fields that are \<open>None\<close>.\<close>

definition field_of :: "'a option \<Rightarrow> 'a patch_field" where
  "field_of x = (case x of None \<Rightarrow> Absent | Some v \<Rightarrow> Value v)"

definition patch_of_spec :: "lease_spec \<Rightarrow> spec_patch" where
  "patch_of_spec s = \<lparr>p_holder = field_of (holder_identity s),
     p_duration = field_of (lease_duration_seconds s), p_acquire = field_of (acquire_time s),
     p_renew = field_of (renew_time s), p_transitions = field_of (lease_transitions s)\<rparr>"

datatype lease_write = CreateLease lease | MergePatchLease string spec_patch

text \<open>\<open>as i32\<close>: two's complement truncation; \<open>as_secs\<close> drops the nanoseconds.\<close>

definition as_i32 :: "int \<Rightarrow> int" where
  "as_i32 x = sint (word_of_int x :: 32 word)"

definition duration_i32 :: "leader_cfg \<Rightarrow> int" where
  "duration_i32 c = as_i32 (int (lease_duration c div 10 ^ 9))"

definition create_lease :: "leader_cfg \<Rightarrow> int \<Rightarrow> lease_write" where
  "create_lease c now = CreateLease
     \<lparr>l_name = Some (lease_name c),
      l_spec = Some \<lparr>holder_identity = Some (identity c),
        lease_duration_seconds = Some (duration_i32 c), acquire_time = Some now,
        renew_time = Some now, lease_transitions = Some 0\<rparr>\<rparr>"

definition spec_or_default :: "lease \<Rightarrow> lease_spec" where
  "spec_or_default l = (case l_spec l of Some s \<Rightarrow> s | None \<Rightarrow> default_lease_spec)"

definition renew_lease :: "leader_cfg \<Rightarrow> int \<Rightarrow> lease \<Rightarrow> lease_write" where
  "renew_lease c now existing =
     (let spec = spec_or_default existing
      in MergePatchLease (lease_name c) (patch_of_spec
           (spec\<lparr>holder_identity := Some (identity c),
                 lease_duration_seconds := Some (duration_i32 c),
                 renew_time := Some now\<rparr>)))"

definition replace_holder :: "leader_cfg \<Rightarrow> int \<Rightarrow> lease \<Rightarrow> lease_write" where
  "replace_holder c now existing =
     (let prior = (case l_spec existing of
                     Some s \<Rightarrow> (case lease_transitions s of Some n \<Rightarrow> n | None \<Rightarrow> 0)
                   | None \<Rightarrow> 0);
          spec = spec_or_default existing
      in MergePatchLease (lease_name c) (patch_of_spec
           (spec\<lparr>holder_identity := Some (identity c),
                 lease_duration_seconds := Some (duration_i32 c),
                 acquire_time := Some now, renew_time := Some now,
                 lease_transitions := Some (as_i32 (prior + 1))\<rparr>)))"

definition release_write :: "leader_cfg \<Rightarrow> int \<Rightarrow> lease_write" where
  "release_write c now = MergePatchLease (lease_name c)
     \<lparr>p_holder = Null, p_duration = Absent, p_acquire = Absent, p_renew = Value now,
      p_transitions = Absent\<rparr>"

definition is_not_found :: "kube_error \<Rightarrow> bool" where
  "is_not_found e = (case e of KubeApi code \<Rightarrow> code = 404 | _ \<Rightarrow> False)"

text \<open>\<open>Duration\<close> to \<open>SignedDuration\<close>, saturating at \<open>SignedDuration::MAX\<close>.\<close>

definition signed_duration :: "nat \<Rightarrow> int" where
  "signed_duration d =
     (if d div 10 ^ 9 < 2 ^ 63 then int d else (2 ^ 63 - 1) * 10 ^ 9 + 999999999)"

definition has_expired :: "int \<Rightarrow> int option \<Rightarrow> nat \<Rightarrow> bool" where
  "has_expired now renew d =
     (case renew of None \<Rightarrow> True | Some rt \<Rightarrow> now - rt > signed_duration d)"

section \<open>One attempt, and the release\<close>

text \<open>\<open>now\<close> is read by the expiry check, \<open>now'\<close> by the write.\<close>

definition try_acquire_or_renew ::
  "leader_cfg \<Rightarrow> int \<Rightarrow> int \<Rightarrow> kube_error + lease \<Rightarrow> kube_error + unit
    \<Rightarrow> (lease_write, kube_error, bool) run" where
  "try_acquire_or_renew c now now' get_ans write_ans =
     (case get_ans of
        Inr existing \<Rightarrow>
          (let holder = (case l_spec existing of
                 Some s \<Rightarrow> (case holder_identity s of Some h \<Rightarrow> h | None \<Rightarrow> []) | None \<Rightarrow> []);
               renew = (case l_spec existing of Some s \<Rightarrow> renew_time s | None \<Rightarrow> None)
           in if holder = identity c
              then bindT ([renew_lease c now' existing], write_ans) (\<lambda>_. ret True)
              else if has_expired now renew (lease_duration c)
              then bindT ([replace_holder c now' existing], write_ans) (\<lambda>_. ret True)
              else ret False)
      | Inl e \<Rightarrow>
          if is_not_found e
          then bindT ([create_lease c now'], write_ans) (\<lambda>_. ret True)
          else throw e)"

definition release_lease ::
  "leader_cfg \<Rightarrow> int \<Rightarrow> kube_error + unit \<Rightarrow> (lease_write, kube_error, unit) run" where
  "release_lease c now ans =
     ([release_write c now],
      (case ans of Inr _ \<Rightarrow> Inr () | Inl e \<Rightarrow> if is_not_found e then Inr () else Inl e))"

section \<open>The election loop\<close>

datatype loop_phase = Attempting | Sleeping nat | Exited

record replica =
  is_leader :: bool
  phase :: loop_phase

text \<open>What the loop can observe next: the shutdown notification, the end of the attempt, the
  end of the sleep. \<open>notify_waiters\<close> stores nothing: a notification reaches the
  \<open>notified()\<close> future the loop waits on at that moment and no later one.\<close>

datatype loop_event =
    ShutdownNotified int "kube_error + unit"
  | AttemptDone int int "kube_error + lease" "kube_error + unit"
  | SleepElapsed

datatype loop_effect = LeaseWrite lease_write | NotifyTransition

definition set_leader :: "bool \<Rightarrow> nat \<Rightarrow> replica \<Rightarrow> loop_effect list \<times> replica" where
  "set_leader b sleep r =
     (if is_leader r \<noteq> b then [NotifyTransition] else [],
      r\<lparr>is_leader := b, phase := Sleeping sleep\<rparr>)"

fun run_loop :: "leader_cfg \<Rightarrow> replica \<Rightarrow> loop_event \<Rightarrow> loop_effect list \<times> replica" where
  "run_loop c r (ShutdownNotified now ans) =
     (case phase r of
        Attempting \<Rightarrow>
          (if is_leader r
           then (map LeaseWrite (fst (release_lease c now ans)) @ [NotifyTransition],
                 r\<lparr>is_leader := False, phase := Exited\<rparr>)
           else ([], r\<lparr>phase := Exited\<rparr>))
      | Sleeping d \<Rightarrow> ([], r\<lparr>phase := Attempting\<rparr>)
      | Exited \<Rightarrow> ([], r))"
| "run_loop c r (AttemptDone now now' get_ans write_ans) =
     (case phase r of
        Attempting \<Rightarrow>
          (let m = try_acquire_or_renew c now now' get_ans write_ans;
               (fs, r') = (case snd m of
                   Inr True \<Rightarrow> set_leader True (renew_deadline c) r
                 | Inr False \<Rightarrow> set_leader False (retry_period c) r
                 | Inl e \<Rightarrow> set_leader False (retry_period c) r)
           in (map LeaseWrite (fst m) @ fs, r'))
      | _ \<Rightarrow> ([], r))"
| "run_loop c r SleepElapsed =
     (case phase r of Sleeping d \<Rightarrow> ([], r\<lparr>phase := Attempting\<rparr>) | _ \<Rightarrow> ([], r))"

definition loop_start :: replica where
  "loop_start = \<lparr>is_leader = False, phase = Attempting\<rparr>"

fun run_events :: "leader_cfg \<Rightarrow> replica \<Rightarrow> loop_event list \<Rightarrow> loop_effect list \<times> replica" where
  "run_events c r [] = ([], r)"
| "run_events c r (e # es) =
     (let (fs, r') = run_loop c r e; (gs, r'') = run_events c r' es in (fs @ gs, r''))"

section \<open>Waiting for leadership\<close>

text \<open>\<open>wait_until_leader\<close>: check the flag, and if it is unset create a \<open>notified()\<close>
  future and wait on it, then check again. The loop sets or clears the flag and calls
  \<open>notify_waiters\<close> at any moment in between.\<close>

datatype waiter = Checking | FlagRead | Waiting | Returned

fun notify_waiter :: "waiter \<Rightarrow> waiter" where
  "notify_waiter Waiting = Checking"
| "notify_waiter w = w"

inductive wait_until_leader :: "bool \<times> waiter \<Rightarrow> bool \<times> waiter \<Rightarrow> bool" where
  see_leader: "wait_until_leader (True, Checking) (True, Returned)"
| see_follower: "wait_until_leader (False, Checking) (False, FlagRead)"
| register: "wait_until_leader (b, FlagRead) (b, Waiting)"
| acquired: "wait_until_leader (False, w) (True, notify_waiter w)"
| lost: "wait_until_leader (True, w) (False, notify_waiter w)"

inductive_cases from_leader_waiting: "wait_until_leader (True, Waiting) s"

section \<open>Replicas that share a Lease\<close>

text \<open>RFC 7386 on one member: absent keeps, \<open>null\<close> removes, a value replaces.\<close>

definition merge_field :: "'a patch_field \<Rightarrow> 'a option \<Rightarrow> 'a option" where
  "merge_field p x = (case p of Absent \<Rightarrow> x | Null \<Rightarrow> None | Value v \<Rightarrow> Some v)"

definition merge_spec :: "spec_patch \<Rightarrow> lease_spec \<Rightarrow> lease_spec" where
  "merge_spec p s = \<lparr>holder_identity = merge_field (p_holder p) (holder_identity s),
     lease_duration_seconds = merge_field (p_duration p) (lease_duration_seconds s),
     acquire_time = merge_field (p_acquire p) (acquire_time s),
     renew_time = merge_field (p_renew p) (renew_time s),
     lease_transitions = merge_field (p_transitions p) (lease_transitions s)\<rparr>"

type_synonym lease_srv = "lease_write \<Rightarrow> lease option \<Rightarrow> (kube_error + unit) \<times> lease option"

text \<open>What the code relies on: create stores an absent object, a merge patch of a present one
  merges its spec; a request that is answered with an error changes nothing.\<close>

definition lease_server :: "lease_srv \<Rightarrow> bool" where
  "lease_server srv \<longleftrightarrow>
     (\<forall>w st e st'. srv w st = (Inl e, st') \<longrightarrow> st' = st)
     \<and> (\<forall>l st st'. srv (CreateLease l) st = (Inr (), st') \<longrightarrow> st = None \<and> st' = Some l)
     \<and> (\<forall>n p st st'. srv (MergePatchLease n p) st = (Inr (), st') \<longrightarrow>
          (\<exists>l. st = Some l
             \<and> st' = Some (l\<lparr>l_spec := Some (merge_spec p (spec_or_default l))\<rparr>)))"

text \<open>One attempt against the server, its read and its write with nothing in between.\<close>

definition get_answer :: "lease option \<Rightarrow> kube_error + lease" where
  "get_answer st = (case st of None \<Rightarrow> Inl (KubeApi 404) | Some l \<Rightarrow> Inr l)"

definition attempt ::
  "lease_srv \<Rightarrow> leader_cfg \<Rightarrow> int \<Rightarrow> lease option \<Rightarrow> (kube_error + bool) \<times> lease option" where
  "attempt srv c now st =
     (case fst (try_acquire_or_renew c now now (get_answer st) (Inr ())) of
        [] \<Rightarrow> (snd (try_acquire_or_renew c now now (get_answer st) (Inr ())), st)
      | w # _ \<Rightarrow>
          (let (ans, st') = srv w st
           in (snd (try_acquire_or_renew c now now (get_answer st) ans), st')))"

record lsys =
  clock :: int
  store :: "lease option"
  won :: "nat \<Rightarrow> int option"

text \<open>\<open>won s i\<close> is the time of replica \<open>i\<close>'s last attempt if that attempt made it the
  leader. Any replica may attempt, and a leader may release, at any time.\<close>

inductive sys_step :: "lease_srv \<Rightarrow> (nat \<Rightarrow> leader_cfg) \<Rightarrow> lsys \<Rightarrow> lsys \<Rightarrow> bool"
  for srv :: lease_srv and cfg :: "nat \<Rightarrow> leader_cfg" where
  tick: "0 \<le> d \<Longrightarrow> sys_step srv cfg s (s\<lparr>clock := clock s + d\<rparr>)"
| attempt_step: "attempt srv (cfg i) (clock s) (store s) = (res, st') \<Longrightarrow>
     sys_step srv cfg s (s\<lparr>store := st',
       won := (won s)(i := if res = Inr True then Some (clock s) else None)\<rparr>)"
| release_step: "won s i \<noteq> None \<Longrightarrow> srv (release_write (cfg i) (clock s)) (store s) = (ans, st') \<Longrightarrow>
     sys_step srv cfg s (s\<lparr>store := st', won := (won s)(i := None)\<rparr>)"

inductive sys_reachable :: "lease_srv \<Rightarrow> (nat \<Rightarrow> leader_cfg) \<Rightarrow> lease option \<Rightarrow> lsys \<Rightarrow> bool"
  for srv :: lease_srv and cfg :: "nat \<Rightarrow> leader_cfg" and st0 :: "lease option" where
  sys_start: "sys_reachable srv cfg st0 \<lparr>clock = t, store = st0, won = (\<lambda>_. None)\<rparr>"
| sys_next: "sys_reachable srv cfg st0 s \<Longrightarrow> sys_step srv cfg s s' \<Longrightarrow> sys_reachable srv cfg st0 s'"

text \<open>The replica won within the last lease duration.\<close>

definition within_lease :: "(nat \<Rightarrow> leader_cfg) \<Rightarrow> lsys \<Rightarrow> nat \<Rightarrow> bool" where
  "within_lease cfg s i \<longleftrightarrow>
     (\<exists>t. won s i = Some t \<and> clock s \<le> t + int (lease_duration (cfg i)))"

text \<open>The invariant: at most one replica is within its lease, and while it is the stored lease
  was renewed no earlier than it won and names no other replica.\<close>

definition covers :: "string \<Rightarrow> int \<Rightarrow> lease option \<Rightarrow> bool" where
  "covers i t st \<longleftrightarrow>
     (\<exists>l sp rt. st = Some l \<and> l_spec l = Some sp \<and> renew_time sp = Some rt \<and> t \<le> rt
        \<and> holder_identity sp \<in> {None, Some i})"

definition lease_inv :: "(nat \<Rightarrow> leader_cfg) \<Rightarrow> lsys \<Rightarrow> bool" where
  "lease_inv cfg s \<longleftrightarrow>
     (\<forall>i t. won s i = Some t \<longrightarrow> t \<le> clock s)
     \<and> (\<forall>i j. within_lease cfg s i \<and> within_lease cfg s j \<longrightarrow> i = j)
     \<and> (\<forall>i t. won s i = Some t \<and> clock s \<le> t + int (lease_duration (cfg i)) \<longrightarrow>
          covers (identity (cfg i)) t (store s))"

section \<open>Facts about one attempt\<close>

definition lease_holder :: "lease \<Rightarrow> string" where
  "lease_holder l = (case l_spec l of
     Some s \<Rightarrow> (case holder_identity s of Some h \<Rightarrow> h | None \<Rightarrow> []) | None \<Rightarrow> [])"

definition lease_renewed :: "lease \<Rightarrow> int option" where
  "lease_renewed l = (case l_spec l of Some s \<Rightarrow> renew_time s | None \<Rightarrow> None)"

lemma try_acquire_simps:
  "try_acquire_or_renew c now now' (Inr l) ans =
     (if lease_holder l = identity c
      then ([renew_lease c now' l], map_sum id (\<lambda>_. True) ans)
      else if has_expired now (lease_renewed l) (lease_duration c)
      then ([replace_holder c now' l], map_sum id (\<lambda>_. True) ans)
      else ([], Inr False))"
  "try_acquire_or_renew c now now' (Inl e) ans =
     (if is_not_found e then ([create_lease c now'], map_sum id (\<lambda>_. True) ans) else ([], Inl e))"
  by (auto simp: try_acquire_or_renew_def lease_holder_def lease_renewed_def bindT_def after_def
      ret_def throw_def Let_def split: sum.splits)

text \<open>The holder and renewal time that a write of an attempt leaves in the store.\<close>

fun write_claims :: "string \<Rightarrow> int \<Rightarrow> lease_write \<Rightarrow> bool" where
  "write_claims i t (CreateLease l) =
     (\<exists>sp. l_spec l = Some sp \<and> holder_identity sp = Some i \<and> renew_time sp = Some t)"
| "write_claims i t (MergePatchLease n p) = (p_holder p = Value i \<and> p_renew p = Value t)"

lemma write_claims_intros [simp]:
  "write_claims (identity c) t (create_lease c t)"
  "write_claims (identity c) t (renew_lease c t l)"
  "write_claims (identity c) t (replace_holder c t l)"
  by (simp_all add: create_lease_def renew_lease_def replace_holder_def Let_def patch_of_spec_def
      field_of_def)

lemma server_error: "lease_server srv \<Longrightarrow> srv w st = (Inl e, st') \<Longrightarrow> st' = st"
  by (auto simp: lease_server_def)

lemma server_claim:
  assumes "lease_server srv" "write_claims i t w" "srv w st = (Inr (), st')"
  shows "covers i t st'"
proof (cases w)
  case (CreateLease l)
  with assms have "st' = Some l" by (simp add: lease_server_def)
  with CreateLease assms(2) show ?thesis by (auto simp: covers_def)
next
  case (MergePatchLease n p)
  with assms(1,3) obtain l where "st' = Some (l\<lparr>l_spec := Some (merge_spec p (spec_or_default l))\<rparr>)"
    unfolding lease_server_def by blast
  with MergePatchLease assms(2) show ?thesis
    by (simp add: covers_def merge_spec_def merge_field_def)
qed

lemma server_release:
  assumes "lease_server srv" "srv (release_write c now) st = (ans, st')"
    and "covers i t st" "t \<le> now"
  shows "covers i t st'"
proof (cases ans)
  case (Inl e)
  with assms(1,2) have "st' = st" by (auto dest: server_error)
  with assms(3) show ?thesis by simp
next
  case (Inr u)
  with assms(1,2) obtain l where
    "st' = Some (l\<lparr>l_spec := Some (merge_spec \<lparr>p_holder = Null, p_duration = Absent,
       p_acquire = Absent, p_renew = Value now, p_transitions = Absent\<rparr> (spec_or_default l))\<rparr>)"
    unfolding lease_server_def release_write_def by (metis old.unit.exhaust)
  with assms(4) show ?thesis by (simp add: covers_def merge_spec_def merge_field_def)
qed

lemma not_expired:
  "t \<le> rt \<Longrightarrow> now \<le> t + int d \<Longrightarrow> d div 10 ^ 9 < 2 ^ 63 \<Longrightarrow> \<not> has_expired now (Some rt) d"
  by (simp add: has_expired_def signed_duration_def)

text \<open>A covered store denies every other replica.\<close>

lemma covered_denies:
  assumes "covers i t st" "now \<le> t + int (lease_duration c)"
    and "lease_duration c div 10 ^ 9 < 2 ^ 63" "identity c \<noteq> i" "identity c \<noteq> []"
  shows "attempt srv c now st = (Inr False, st)"
proof -
  obtain l sp rt where l: "st = Some l" "l_spec l = Some sp" "renew_time sp = Some rt" "t \<le> rt"
    "holder_identity sp = None \<or> holder_identity sp = Some i"
    using assms(1) by (auto simp: covers_def)
  have "lease_holder l \<noteq> identity c"
    using l(2,5) assms(4,5) by (auto simp: lease_holder_def)
  moreover have "\<not> has_expired now (lease_renewed l) (lease_duration c)"
    using l(2,3) not_expired [OF l(4) assms(2,3)] by (simp add: lease_renewed_def)
  ultimately show ?thesis
    using l(1) by (simp add: attempt_def get_answer_def try_acquire_simps)
qed

lemma attempt_writes_claim:
  "try_acquire_or_renew c now now' g ans = (w # ws, r) \<Longrightarrow> write_claims (identity c) now' w \<and> ws = []"
  by (cases g) (auto simp: try_acquire_simps split: if_splits)

lemma try_acquire_writes_indep:
  "fst (try_acquire_or_renew c now now' g ans) = fst (try_acquire_or_renew c now now' g ans')"
  by (cases g) (simp_all add: try_acquire_simps)

lemma attempt_wins_covers:
  assumes "lease_server srv" "attempt srv c now st = (Inr True, st')"
  shows "covers (identity c) now st'"
proof (cases "fst (try_acquire_or_renew c now now (get_answer st) (Inr ()))")
  case Nil
  with assms(2) have "snd (try_acquire_or_renew c now now (get_answer st) (Inr ())) = Inr True"
    by (auto simp: attempt_def)
  with Nil show ?thesis by (cases "get_answer st") (auto simp: try_acquire_simps split: if_splits)
next
  case (Cons w ws)
  have claims: "write_claims (identity c) now w"
    using attempt_writes_claim [of c now now "get_answer st" "Inr ()" w ws] Cons
    by (metis prod.collapse)
  obtain ans where ans: "srv w st = (ans, st')"
    and res: "snd (try_acquire_or_renew c now now (get_answer st) ans) = Inr True"
    using assms(2) Cons by (auto simp: attempt_def Let_def split: prod.splits)
  have "ans = Inr ()"
    using res by (cases "get_answer st"; cases ans) (auto simp: try_acquire_simps split: if_splits)
  with ans server_claim [OF assms(1) claims] show ?thesis by simp
qed

lemma attempt_fails_keeps:
  assumes "lease_server srv" "attempt srv c now st = (res, st')" "res \<noteq> Inr True"
  shows "st' = st"
proof (cases "fst (try_acquire_or_renew c now now (get_answer st) (Inr ()))")
  case Nil
  with assms(2) show ?thesis by (simp add: attempt_def)
next
  case (Cons w ws)
  obtain ans where ans: "srv w st = (ans, st')"
    and res: "res = snd (try_acquire_or_renew c now now (get_answer st) ans)"
    using assms(2) Cons by (auto simp: attempt_def Let_def split: prod.splits)
  have "ans \<noteq> Inr ()"
    using res assms(3) Cons
    by (cases "get_answer st") (auto simp: try_acquire_simps split: if_splits)
  then obtain e where "ans = Inl e" by (cases ans) auto
  with ans assms(1) show ?thesis by (auto dest: server_error)
qed

section \<open>The invariant\<close>

definition replicas_ok :: "(nat \<Rightarrow> leader_cfg) \<Rightarrow> nat \<Rightarrow> bool" where
  "replicas_ok cfg D \<longleftrightarrow> inj (\<lambda>i. identity (cfg i)) \<and> D div 10 ^ 9 < 2 ^ 63
     \<and> (\<forall>i. identity (cfg i) \<noteq> [] \<and> lease_duration (cfg i) = D)"

lemma within_leaseI:
  "won s i = Some t \<Longrightarrow> clock s \<le> t + int (lease_duration (cfg i)) \<Longrightarrow> within_lease cfg s i"
  by (auto simp: within_lease_def)

lemma lease_inv_tick:
  assumes "lease_inv cfg s" "0 \<le> d"
  shows "lease_inv cfg (s\<lparr>clock := clock s + d\<rparr>)"
proof -
  let ?s = "s\<lparr>clock := clock s + d\<rparr>"
  have mono: "within_lease cfg s i" if "within_lease cfg ?s i" for i
    using that assms(2) by (auto simp: within_lease_def)
  have "\<forall>i t. won ?s i = Some t \<longrightarrow> t \<le> clock ?s"
    using assms by (fastforce simp: lease_inv_def)
  moreover have "\<forall>i j. within_lease cfg ?s i \<and> within_lease cfg ?s j \<longrightarrow> i = j"
    using assms(1) mono unfolding lease_inv_def by blast
  moreover have "\<forall>i t. won ?s i = Some t \<and> clock ?s \<le> t + int (lease_duration (cfg i)) \<longrightarrow>
      covers (identity (cfg i)) t (store ?s)"
    using assms unfolding lease_inv_def by fastforce
  ultimately show ?thesis unfolding lease_inv_def by blast
qed

text \<open>Losing a won flag and keeping every cover keeps the invariant.\<close>

lemma lease_inv_drop:
  assumes "lease_inv cfg s"
    and "\<And>j t. j \<noteq> i \<Longrightarrow> won s j = Some t \<Longrightarrow> clock s \<le> t + int (lease_duration (cfg j))
      \<Longrightarrow> covers (identity (cfg j)) t st'"
  shows "lease_inv cfg (s\<lparr>store := st', won := (won s)(i := None)\<rparr>)"
proof -
  let ?s = "s\<lparr>store := st', won := (won s)(i := None)\<rparr>"
  have mono: "within_lease cfg s j \<and> j \<noteq> i" if "within_lease cfg ?s j" for j
    using that by (auto simp: within_lease_def split: if_splits)
  have "\<forall>j k. within_lease cfg ?s j \<and> within_lease cfg ?s k \<longrightarrow> j = k"
    using assms(1) mono unfolding lease_inv_def by blast
  then show ?thesis using assms unfolding lease_inv_def by auto
qed

lemma lease_inv_win:
  assumes "lease_inv cfg s" "covers (identity (cfg i)) (clock s) st'"
    and "\<And>j. within_lease cfg s j \<Longrightarrow> j = i"
  shows "lease_inv cfg (s\<lparr>store := st', won := (won s)(i := Some (clock s))\<rparr>)"
proof -
  let ?s = "s\<lparr>store := st', won := (won s)(i := Some (clock s))\<rparr>"
  have only: "j = i" if "within_lease cfg ?s j" for j
    using that assms(3) by (auto simp: within_lease_def split: if_splits)
  have "\<forall>j t. won ?s j = Some t \<and> clock ?s \<le> t + int (lease_duration (cfg j)) \<longrightarrow>
      covers (identity (cfg j)) t (store ?s)"
  proof (intro allI impI)
    fix j t
    assume h: "won ?s j = Some t \<and> clock ?s \<le> t + int (lease_duration (cfg j))"
    then have "within_lease cfg ?s j" by (blast intro: within_leaseI)
    then have "j = i" by (rule only)
    with h assms(2) show "covers (identity (cfg j)) t (store ?s)" by simp
  qed
  moreover have "\<forall>j t. won ?s j = Some t \<longrightarrow> t \<le> clock ?s"
    using assms(1) by (simp add: lease_inv_def)
  moreover have "\<forall>j k. within_lease cfg ?s j \<and> within_lease cfg ?s k \<longrightarrow> j = k"
    using only by blast
  ultimately show ?thesis unfolding lease_inv_def by blast
qed

lemma winner_excludes_others:
  assumes "lease_inv cfg s" "replicas_ok cfg D"
    and "attempt srv (cfg i) (clock s) (store s) = (Inr True, st')" "within_lease cfg s j"
  shows "j = i"
proof (rule ccontr)
  assume ne: "j \<noteq> i"
  obtain t where t: "won s j = Some t" "clock s \<le> t + int (lease_duration (cfg j))"
    using assms(4) by (auto simp: within_lease_def)
  then have "covers (identity (cfg j)) t (store s)"
    using assms(1) by (simp add: lease_inv_def)
  moreover have "identity (cfg i) \<noteq> identity (cfg j)"
    using ne assms(2) by (auto simp: replicas_ok_def inj_def)
  ultimately have "attempt srv (cfg i) (clock s) (store s) = (Inr False, store s)"
    using t(2) assms(2) by (intro covered_denies) (auto simp: replicas_ok_def)
  with assms(3) show False by simp
qed

lemma sys_step_inv:
  assumes "lease_server srv" "replicas_ok cfg D" "sys_step srv cfg s s'" "lease_inv cfg s"
  shows "lease_inv cfg s'"
  using assms(3)
proof cases
  case (tick d)
  with assms(4) show ?thesis by (simp add: lease_inv_tick)
next
  case (attempt_step i res st')
  show ?thesis
  proof (cases "res = Inr True")
    case True
    with attempt_step assms show ?thesis
      by (auto intro!: lease_inv_win intro: attempt_wins_covers winner_excludes_others)
  next
    case False
    have "st' = store s" using attempt_fails_keeps [OF assms(1) attempt_step(2) False] .
    then have "lease_inv cfg (s\<lparr>store := st', won := (won s)(i := None)\<rparr>)"
      using assms(4) by (intro lease_inv_drop) (auto simp: lease_inv_def)
    with attempt_step(1) False show ?thesis by simp
  qed
next
  case (release_step i ans st')
  have "covers (identity (cfg j)) t st'"
    if "won s j = Some t" "clock s \<le> t + int (lease_duration (cfg j))" for j t
    using that assms(4) by (intro server_release [OF assms(1) release_step(3)]) (auto simp: lease_inv_def)
  then have "lease_inv cfg (s\<lparr>store := st', won := (won s)(i := None)\<rparr>)"
    using assms(4) by (intro lease_inv_drop) auto
  with release_step(1) show ?thesis by simp
qed

lemma reachable_lease_inv:
  assumes "lease_server srv" "replicas_ok cfg D" "sys_reachable srv cfg st0 s"
  shows "lease_inv cfg s"
  using assms(3)
proof (induction rule: sys_reachable.induct)
  case (sys_start t)
  show ?case by (simp add: lease_inv_def within_lease_def)
next
  case (sys_next s s')
  then show ?case using sys_step_inv [OF assms(1,2)] by blast
qed

section \<open>Properties\<close>

text \<open>C9. Lease exclusivity: replicas with distinct non-empty identities and one lease duration,
  whose attempts each run without another replica's write between their read and their
  write, never hold the lease together: in every reachable state at most one replica won an
  attempt within the last lease duration, whatever the initial lease and also when a
  replica with an outdated leader flag releases.\<close>

theorem lease_exclusive:
  assumes "lease_server srv" and "replicas_ok cfg D" and "sys_reachable srv cfg st0 s"
    and "within_lease cfg s i" and "within_lease cfg s j"
  shows "i = j"
  using reachable_lease_inv [OF assms(1-3)] assms(4,5) by (simp add: lease_inv_def)

text \<open>A server for the witnesses.\<close>

fun lease_store :: lease_srv where
  "lease_store (CreateLease l) st = (case st of None \<Rightarrow> (Inr (), Some l) | Some x \<Rightarrow> (Inl (KubeApi 409), st))"
| "lease_store (MergePatchLease n p) st =
     (case st of None \<Rightarrow> (Inl (KubeApi 404), st)
      | Some l \<Rightarrow> (Inr (), Some (l\<lparr>l_spec := Some (merge_spec p (spec_or_default l))\<rparr>)))"

lemma lease_server_store: "lease_server lease_store"
proof -
  have err: "lease_store w st = (Inl e, st') \<Longrightarrow> st' = st" for w st e st'
    by (cases w; cases st) auto
  show ?thesis unfolding lease_server_def
    using err by (auto split: option.splits)
qed

definition sample_cfg :: "nat \<Rightarrow> leader_cfg" where
  "sample_cfg i = \<lparr>lease_name = ''mcpg-operator'', lease_namespace = ''mcpg-system'',
     identity = replicate (Suc i) (CHR ''p''), lease_duration = 30 * 10 ^ 9,
     renew_deadline = 20 * 10 ^ 9, retry_period = 4 * 10 ^ 9\<rparr>"

lemma identity_sample: "identity (sample_cfg i) = replicate (Suc i) (CHR ''p'')"
  by (simp add: sample_cfg_def)

lemma replicas_ok_sample: "replicas_ok sample_cfg (30 * 10 ^ 9)"
proof -
  have "inj (\<lambda>i. identity (sample_cfg i))"
    by (rule injI) (auto simp: sample_cfg_def dest: arg_cong [where f = length])
  then show ?thesis by (simp add: replicas_ok_def sample_cfg_def)
qed

theorem lease_exclusive_witness:
  "\<exists>s. sys_reachable lease_store sample_cfg None s \<and> within_lease sample_cfg s 0
     \<and> (\<forall>j. within_lease sample_cfg s j \<longrightarrow> j = 0)"
proof -
  let ?s0 = "\<lparr>clock = 0, store = None, won = (\<lambda>_. None)\<rparr> :: lsys"
  let ?w = "create_lease (sample_cfg 0) 0"
  obtain l where w: "?w = CreateLease l" by (simp add: create_lease_def)
  have "attempt lease_store (sample_cfg 0) 0 None = (Inr True, Some l)"
    by (simp add: attempt_def get_answer_def try_acquire_simps is_not_found_def w)
  then have step: "sys_step lease_store sample_cfg ?s0
      (?s0\<lparr>store := Some l, won := (won ?s0)(0 := Some 0)\<rparr>)"
    using sys_step.attempt_step [of lease_store sample_cfg 0 ?s0 "Inr True" "Some l"] by simp
  let ?s1 = "?s0\<lparr>store := Some l, won := (won ?s0)(0 := Some 0)\<rparr>"
  have r: "sys_reachable lease_store sample_cfg None ?s1"
    by (rule sys_next [OF sys_start step])
  have w0: "within_lease sample_cfg ?s1 0" by (simp add: within_lease_def)
  have "j = 0" if "within_lease sample_cfg ?s1 j" for j
    using lease_exclusive [OF lease_server_store replicas_ok_sample r that w0] .
  with r w0 show ?thesis by blast
qed

text \<open>The read and the write of an attempt are not atomic, and the merge patch carries no
  \<open>resourceVersion\<close>: two replicas that both read the same expired lease of a third both win,
  on every server that merges such patches; the later write stands. The module comment
  says the server's optimistic concurrency arbitrates.\<close>

theorem expired_lease_race_two_winners:
  assumes "lease_server srv"
    and "lease_holder l \<noteq> identity a" and "lease_holder l \<noteq> identity b"
    and "has_expired now (lease_renewed l) (lease_duration a)"
    and "has_expired now (lease_renewed l) (lease_duration b)"
    and "srv (replace_holder a now l) (Some l) = (Inr (), st1)"
    and "srv (replace_holder b now l) st1 = (Inr (), st2)"
  shows "snd (try_acquire_or_renew a now now (Inr l) (fst (srv (replace_holder a now l) (Some l)))) = Inr True
     \<and> snd (try_acquire_or_renew b now now (Inr l) (fst (srv (replace_holder b now l) st1))) = Inr True
     \<and> covers (identity b) now st2"
  using assms server_claim [OF assms(1) _ assms(7), of "identity b" now]
  by (simp add: try_acquire_simps)

theorem expired_lease_race_two_winners_witness:
  "(let l = \<lparr>l_name = Some ''mcpg-operator'', l_spec = Some (default_lease_spec\<lparr>holder_identity := Some ''gone''\<rparr>)\<rparr>;
        a = sample_cfg 0; b = sample_cfg 2
    in snd (try_acquire_or_renew a 9 9 (Inr l) (fst (lease_store (replace_holder a 9 l) (Some l)))) = Inr True
     \<and> snd (try_acquire_or_renew b 9 9 (Inr l)
          (fst (lease_store (replace_holder b 9 l) (snd (lease_store (replace_holder a 9 l) (Some l)))))) = Inr True)"
proof -
  let ?l = "\<lparr>l_name = Some ''mcpg-operator'', l_spec = Some (default_lease_spec\<lparr>holder_identity := Some ''gone''\<rparr>)\<rparr>"
  obtain n p where a: "replace_holder (sample_cfg 0) 9 ?l = MergePatchLease n p"
    by (simp add: replace_holder_def Let_def)
  obtain n' p' where b: "replace_holder (sample_cfg 2) 9 ?l = MergePatchLease n' p'"
    by (simp add: replace_holder_def Let_def)
  let ?st1 = "snd (lease_store (replace_holder (sample_cfg 0) 9 ?l) (Some ?l))"
  have A: "lease_store (replace_holder (sample_cfg 0) 9 ?l) (Some ?l) = (Inr (), ?st1)"
    by (simp add: a)
  have B: "lease_store (replace_holder (sample_cfg 2) 9 ?l) ?st1
      = (Inr (), snd (lease_store (replace_holder (sample_cfg 2) 9 ?l) ?st1))"
    by (simp add: a b)
  have "lease_holder ?l \<noteq> identity (sample_cfg 0)" "lease_holder ?l \<noteq> identity (sample_cfg 2)"
    by (simp_all add: lease_holder_def identity_sample eval_nat_numeral)
  moreover have "has_expired 9 (lease_renewed ?l) d" for d
    by (simp add: has_expired_def lease_renewed_def default_lease_spec_def)
  ultimately show ?thesis
    using expired_lease_race_two_winners [OF lease_server_store _ _ _ _ A B] by (simp add: Let_def)
qed

text \<open>Releasing does not hand over: after a release at time \<open>t\<close> (accepted by the server)
  every other replica is denied until its lease duration has passed since \<open>t\<close>, because the
  release refreshes the renewal time that the expiry check reads. The comments say peers
  acquire immediately.\<close>

theorem release_blocks_peers:
  assumes "lease_server srv"
    and "srv (release_write a t) st = (Inr (), st')"
    and "identity b \<noteq> []" and "now \<le> t + int (lease_duration b)"
    and "lease_duration b div 10 ^ 9 < 2 ^ 63"
  shows "attempt srv b now st' = (Inr False, st')"
proof -
  obtain l where "st' = Some (l\<lparr>l_spec := Some (merge_spec \<lparr>p_holder = Null, p_duration = Absent,
       p_acquire = Absent, p_renew = Value t, p_transitions = Absent\<rparr> (spec_or_default l))\<rparr>)"
    using assms(1,2) unfolding lease_server_def release_write_def by blast
  then have "covers [] t st'" by (simp add: covers_def merge_spec_def merge_field_def)
  then show ?thesis using assms(3-5) by (intro covered_denies) auto
qed

theorem release_blocks_peers_witness:
  "(let l = \<lparr>l_name = Some ''mcpg-operator'', l_spec = Some (default_lease_spec\<lparr>holder_identity := Some ''p''\<rparr>)\<rparr>;
        st' = snd (lease_store (release_write (sample_cfg 0) 100) (Some l))
    in attempt lease_store (sample_cfg 2) (100 + 30 * 10 ^ 9) st' = (Inr False, st'))"
proof -
  let ?l = "\<lparr>l_name = Some ''mcpg-operator'', l_spec = Some (default_lease_spec\<lparr>holder_identity := Some ''p''\<rparr>)\<rparr>"
  let ?st' = "snd (lease_store (release_write (sample_cfg 0) 100) (Some ?l))"
  have "lease_store (release_write (sample_cfg 0) 100) (Some ?l) = (Inr (), ?st')"
    by (simp add: release_write_def)
  from release_blocks_peers [OF lease_server_store this, of "sample_cfg 2" "100 + 30 * 10 ^ 9"]
  show ?thesis by (simp add: sample_cfg_def Let_def)
qed

text \<open>One attempt, on every branch: it reports leadership exactly when its write was accepted
  and the lease was absent, its own, or expired; it reports a peer exactly when the lease
  exists, is not its own and has not expired, and then writes nothing; every write it sends
  claims the lease for its own identity at the time of the write.\<close>

theorem attempt_outcome:
  "(snd (try_acquire_or_renew c now now' g ans) = Inr True \<longleftrightarrow>
      ans = Inr () \<and> (case g of
         Inl e \<Rightarrow> is_not_found e
       | Inr l \<Rightarrow> lease_holder l = identity c \<or> has_expired now (lease_renewed l) (lease_duration c)))
   \<and> (snd (try_acquire_or_renew c now now' g ans) = Inr False \<longleftrightarrow>
      (\<exists>l. g = Inr l \<and> lease_holder l \<noteq> identity c
         \<and> \<not> has_expired now (lease_renewed l) (lease_duration c)))
   \<and> (snd (try_acquire_or_renew c now now' g ans) = Inr False \<longrightarrow>
      fst (try_acquire_or_renew c now now' g ans) = [])
   \<and> (\<forall>w \<in> set (fst (try_acquire_or_renew c now now' g ans)). write_claims (identity c) now' w)"
  by (cases g; cases ans) (auto simp: try_acquire_simps split: if_splits)

theorem attempt_outcome_witness:
  "(let l = \<lparr>l_name = None, l_spec = None\<rparr>; c = sample_cfg 0
    in \<forall>w \<in> set (fst (try_acquire_or_renew c 0 0 (Inr l) (Inr ()))). write_claims (identity c) 0 w)"
  using attempt_outcome [of "sample_cfg 0" 0 0 "Inr \<lparr>l_name = None, l_spec = None\<rparr>" "Inr ()"]
  by (simp add: Let_def)

lemma run_loop_notify:
  "NotifyTransition \<in> set (fst (run_loop c r e)) \<longleftrightarrow> is_leader (snd (run_loop c r e)) \<noteq> is_leader r"
  by (cases e) (auto simp: set_leader_def release_lease_def Let_def
      split: loop_phase.splits sum.splits bool.splits prod.splits)

lemma run_loop_notify_count:
  "length (filter (\<lambda>x. x = NotifyTransition) (fst (run_loop c r e)))
     = (if is_leader (snd (run_loop c r e)) \<noteq> is_leader r then 1 else 0)"
  by (cases e) (auto simp: set_leader_def release_lease_def Let_def filter_map o_def
      split: loop_phase.splits sum.splits bool.splits prod.splits)

lemma run_loop_exited:
  "(phase r = Exited \<longrightarrow> \<not> is_leader r) \<Longrightarrow>
   phase (snd (run_loop c r e)) = Exited \<longrightarrow> \<not> is_leader (snd (run_loop c r e))"
  by (cases e) (auto simp: set_leader_def Let_def
      split: loop_phase.splits sum.splits bool.splits prod.splits)

lemma run_events_notify:
  "(odd (length (filter (\<lambda>x. x = NotifyTransition) (fst (run_events c r es)))) \<longleftrightarrow>
     is_leader (snd (run_events c r es)) \<noteq> is_leader r)
   \<and> ((phase r = Exited \<longrightarrow> \<not> is_leader r) \<longrightarrow>
      phase (snd (run_events c r es)) = Exited \<longrightarrow> \<not> is_leader (snd (run_events c r es)))"
proof (induction es arbitrary: r)
  case (Cons e es)
  obtain fs r' where s: "run_loop c r e = (fs, r')" by fastforce
  obtain gs r'' where g: "run_events c r' es = (gs, r'')" by fastforce
  have "length (filter (\<lambda>x. x = NotifyTransition) fs) = (if is_leader r' \<noteq> is_leader r then 1 else 0)"
    using run_loop_notify_count [of c r e] s by simp
  moreover have "(phase r = Exited \<longrightarrow> \<not> is_leader r) \<longrightarrow> phase r' = Exited \<longrightarrow> \<not> is_leader r'"
    using run_loop_exited [of r c e] s by simp
  ultimately show ?case using Cons.IH [of r'] s g by auto
qed simp

text \<open>The election loop: a step notifies the waiters exactly when it flips the leader flag, an
  exited loop is not leading, and the flag is set only by an attempt that won. So after any
  sequence of events the number of notifications has the parity of the flag.\<close>

theorem election_loop_flag:
  "(odd (length (filter (\<lambda>x. x = NotifyTransition) (fst (run_events c loop_start es)))) \<longleftrightarrow>
     is_leader (snd (run_events c loop_start es)))
   \<and> \<not> (phase (snd (run_events c loop_start es)) = Exited \<and> is_leader (snd (run_events c loop_start es)))
   \<and> (\<forall>r e. is_leader (snd (run_loop c r e)) \<longrightarrow> is_leader r \<or>
        (\<exists>now now' g ans. e = AttemptDone now now' g ans
           \<and> snd (try_acquire_or_renew c now now' g ans) = Inr True))"
proof -
  have "is_leader r \<or> (\<exists>now now' g ans. e = AttemptDone now now' g ans
           \<and> snd (try_acquire_or_renew c now now' g ans) = Inr True)"
    if "is_leader (snd (run_loop c r e))" for r e
    using that by (cases e) (auto simp: set_leader_def Let_def
        split: loop_phase.splits sum.splits bool.splits prod.splits if_splits)
  then show ?thesis using run_events_notify [of c loop_start es] by (auto simp: loop_start_def)
qed

theorem election_loop_flag_witness:
  "(let es = [AttemptDone 0 0 (Inl (KubeApi 404)) (Inr ())]
    in odd (length (filter (\<lambda>x. x = NotifyTransition) (fst (run_events (sample_cfg 0) loop_start es))))
       \<and> is_leader (snd (run_events (sample_cfg 0) loop_start es)))"
proof -
  let ?es = "[AttemptDone 0 0 (Inl (KubeApi 404)) (Inr ())]"
  have "is_leader (snd (run_events (sample_cfg 0) loop_start ?es))"
    by (simp add: loop_start_def try_acquire_simps is_not_found_def set_leader_def Let_def)
  with election_loop_flag [of "sample_cfg 0" ?es] show ?thesis by simp
qed

text \<open>A shutdown request that arrives while the loop sleeps is lost: the sleep consumes the
  notification, the leader renews its lease on the next attempt and goes on leading; it
  neither releases the lease nor exits. (A shutdown request during an attempt does both.)\<close>

theorem shutdown_lost_while_sleeping:
  assumes "phase r = Sleeping d" and "is_leader r" and "lease_holder l = identity c"
  shows "run_events c r [ShutdownNotified now ans, AttemptDone now1 now2 (Inr l) (Inr ())]
     = ([LeaseWrite (renew_lease c now2 l)], r\<lparr>phase := Sleeping (renew_deadline c)\<rparr>)
   \<and> run_loop c (r\<lparr>phase := Attempting\<rparr>) (ShutdownNotified now ans)
     = ([LeaseWrite (release_write c now), NotifyTransition], r\<lparr>is_leader := False, phase := Exited\<rparr>)"
  using assms by (simp add: try_acquire_simps set_leader_def release_lease_def Let_def)

theorem shutdown_lost_while_sleeping_witness:
  "(let l = \<lparr>l_name = None, l_spec = Some (default_lease_spec\<lparr>holder_identity := Some ''p''\<rparr>)\<rparr>;
        c = sample_cfg 0; r = \<lparr>is_leader = True, phase = Sleeping 20\<rparr>
    in snd (run_events c r [ShutdownNotified 5 (Inr ()), AttemptDone 6 6 (Inr l) (Inr ())])
       = \<lparr>is_leader = True, phase = Sleeping (20 * 10 ^ 9)\<rparr>)"
  using shutdown_lost_while_sleeping [of "\<lparr>is_leader = True, phase = Sleeping 20\<rparr>" 20
      "\<lparr>l_name = None, l_spec = Some (default_lease_spec\<lparr>holder_identity := Some ''p''\<rparr>)\<rparr>"
      "sample_cfg 0" 5 "Inr ()" 6 6]
  by (simp add: lease_holder_def sample_cfg_def)

text \<open>\<open>wait_until_leader\<close> returns only on a step that saw the flag set, but it can miss the
  acquisition: a transition between reading the flag and registering for notification is
  lost, and the resulting state, a leader whose waiter waits, is left only by losing the
  lease.\<close>

theorem wait_until_leader_can_miss:
  "(\<forall>s b. wait_until_leader s (b, Returned) \<and> snd s \<noteq> Returned \<longrightarrow> s = (True, Checking) \<and> b)
   \<and> wait_until_leader\<^sup>*\<^sup>* (False, Checking) (True, Waiting)
   \<and> (\<forall>s. wait_until_leader (True, Waiting) s \<longrightarrow> s = (False, Checking))"
proof (intro conjI)
  have n: "w = Returned" if "Returned = notify_waiter w" for w using that by (cases w) auto
  show "\<forall>s b. wait_until_leader s (b, Returned) \<and> snd s \<noteq> Returned \<longrightarrow> s = (True, Checking) \<and> b"
  proof (intro allI impI, elim conjE)
    fix s b
    assume "wait_until_leader s (b, Returned)" and "snd s \<noteq> Returned"
    then show "s = (True, Checking) \<and> b" by cases (auto dest: n)
  qed
  have a: "wait_until_leader (False, Checking) (False, FlagRead)"
    by (rule wait_until_leader.see_follower)
  have b: "wait_until_leader (False, FlagRead) (True, FlagRead)"
    using wait_until_leader.acquired [of FlagRead] by simp
  have c: "wait_until_leader (True, FlagRead) (True, Waiting)"
    by (rule wait_until_leader.register)
  from a b c show "wait_until_leader\<^sup>*\<^sup>* (False, Checking) (True, Waiting)"
    by (rule converse_rtranclp_into_rtranclp [OF _ converse_rtranclp_into_rtranclp [OF _ r_into_rtranclp]])
  show "\<forall>s. wait_until_leader (True, Waiting) s \<longrightarrow> s = (False, Checking)"
    by (auto elim: from_leader_waiting)
qed

theorem wait_until_leader_can_miss_witness:
  "wait_until_leader (True, Checking) (True, Returned)
   \<and> (\<forall>s. wait_until_leader (True, Waiting) s \<longrightarrow> s = (False, Checking))"
  using wait_until_leader_can_miss by (blast intro: wait_until_leader.see_leader)

end
