(* ===== verification/Oci.thy ===== *)
theory Oci
  imports Kube
begin

text \<open>
  OCI references and the pull pipeline (\<open>src/src/oci_pull.rs\<close>): the reference helpers
  (registry, repository, digest, pinning), the choice of registry credentials from a
  docker-config Secret, and \<open>pull_and_unpack\<close> with every early return.

  The registry client, the package unpacker, the JSON and base64 decoders and the file
  system are not in the sources: \<open>pull_env\<close> holds their answers.
\<close>

section \<open>References\<close>

definition resolve_reference :: "string \<Rightarrow> string" where
  "resolve_reference img = img"

definition registry_from_reference :: "string \<Rightarrow> string" where
  "registry_from_reference reference =
     (case split_once (CHR ''/'') reference of
        Some (host, rest) \<Rightarrow>
          if contains_char (CHR ''.'') host \<or> contains_char (CHR '':'') host then host
          else ''index.docker.io''
      | None \<Rightarrow> ''index.docker.io'')"

definition repository_of :: "string \<Rightarrow> string" where
  "repository_of reference =
     (let repo = (case split_once (CHR ''@'') reference of
                    Some (repo, _) \<Rightarrow> repo | None \<Rightarrow> reference);
          tag_search_from = (case rfind_char (CHR ''/'') repo of Some i \<Rightarrow> i + 1 | None \<Rightarrow> 0)
      in case find_char (CHR '':'') (drop tag_search_from repo) of
           Some i \<Rightarrow> take (tag_search_from + i) repo
         | None \<Rightarrow> repo)"

definition digest_of :: "string \<Rightarrow> string option" where
  "digest_of reference = map_option snd (split_once (CHR ''@'') reference)"

definition pin_to_digest :: "string \<Rightarrow> string \<Rightarrow> string" where
  "pin_to_digest reference digest = repository_of reference @ ''@'' @ digest"

definition strip_sha256 :: "string \<Rightarrow> string" where
  "strip_sha256 s = (case strip_prefix ''sha256:'' s of Some t \<Rightarrow> t | None \<Rightarrow> s)"

definition digests_match :: "string \<Rightarrow> string \<Rightarrow> bool" where
  "digests_match a b = eq_ignore_ascii_case (strip_sha256 a) (strip_sha256 b)"

section \<open>Credentials\<close>

datatype oci_auth = Anonymous | Basic string string

record docker_auth =
  da_username :: "string option"
  da_password :: "string option"
  da_auth :: "string option"

text \<open>\<open>auths\<close> is a \<open>BTreeMap\<close>: its entries in key order.\<close>

type_synonym docker_config = "(string \<times> docker_auth) list"

datatype pull_error =
    Upstream string
  | Unpack string
  | MissingSecretKey string string
  | MalformedDockerConfig string
  | PullKube kube_error
  | PullIo string
  | UnexpectedWasmArtifact string
  | Timeout string nat

text \<open>\<open>String::from_utf8\<close>: the well-formed byte sequences of the Unicode standard.\<close>

definition byte_in :: "char \<Rightarrow> nat \<Rightarrow> nat \<Rightarrow> bool" where
  "byte_in c lo hi \<longleftrightarrow> lo \<le> of_char c \<and> of_char c \<le> hi"

fun utf8_tail :: "nat \<Rightarrow> string \<Rightarrow> string option" where
  "utf8_tail 0 s = Some s"
| "utf8_tail (Suc n) [] = None"
| "utf8_tail (Suc n) (b # s) = (if is_cont b then utf8_tail n s else None)"

definition utf8_char :: "string \<Rightarrow> string option" where
  "utf8_char s =
     (case s of
        [] \<Rightarrow> None
      | [a] \<Rightarrow> if byte_in a 0 127 then Some [] else None
      | a # b # r \<Rightarrow>
          if byte_in a 0 127 then Some (b # r)
          else if byte_in a 194 223 \<and> is_cont b then Some r
          else if (byte_in a 224 224 \<and> byte_in b 160 191)
               \<or> (byte_in a 225 236 \<and> is_cont b) \<or> (byte_in a 237 237 \<and> byte_in b 128 159)
               \<or> (byte_in a 238 239 \<and> is_cont b) then utf8_tail 1 r
          else if (byte_in a 240 240 \<and> byte_in b 144 191)
               \<or> (byte_in a 241 243 \<and> is_cont b) \<or> (byte_in a 244 244 \<and> byte_in b 128 143)
               then utf8_tail 2 r
          else None)"

lemma utf8_tail_shorter: "utf8_tail n s = Some r \<Longrightarrow> length r \<le> length s"
  by (induction n s rule: utf8_tail.induct) (auto split: if_splits)

lemma utf8_char_shorter: "utf8_char s = Some r \<Longrightarrow> length r < length s"
  by (auto simp: utf8_char_def split: list.splits if_splits dest!: utf8_tail_shorter)

function valid_utf8 :: "string \<Rightarrow> bool" where
  "valid_utf8 s =
     (if s = [] then True
      else case utf8_char s of None \<Rightarrow> False | Some r \<Rightarrow> valid_utf8 r)"
  by pat_completeness auto
termination
  by (relation "measure length") (auto dest: utf8_char_shorter)

declare valid_utf8.simps [simp del]

definition resolve_pull_auth ::
  "(string \<Rightarrow> docker_config option) \<Rightarrow> (string \<Rightarrow> string option)
    \<Rightarrow> kube_error + (string \<rightharpoonup> string) option \<Rightarrow> string \<Rightarrow> string \<Rightarrow> pull_error + oci_auth" where
  "resolve_pull_auth parse b64 secret_ans secret_name registry =
     bindE (map_err PullKube secret_ans) (\<lambda>data_opt.
     let data = (case data_opt of Some d \<Rightarrow> d | None \<Rightarrow> Map.empty);
         found = (case data ''.dockerconfigjson'' of
                    Some b \<Rightarrow> Some b | None \<Rightarrow> data ''dockerconfigjson'')
     in case found of
       None \<Rightarrow> Inl (MissingSecretKey secret_name ''.dockerconfigjson'')
     | Some bytes \<Rightarrow>
       (case parse bytes of
          None \<Rightarrow> Inl (MalformedDockerConfig secret_name)
        | Some auths \<Rightarrow>
          (let entry = (case map_of auths registry of
                 Some e \<Rightarrow> Some e
               | None \<Rightarrow> map_option snd (find (\<lambda>(host, _). starts_with registry host) auths))
           in case entry of
             None \<Rightarrow> Inr Anonymous
           | Some e \<Rightarrow>
             (case da_auth e of
                Some token \<Rightarrow>
                  if \<not> blank token
                  then (case b64 (trim token) of
                     None \<Rightarrow> Inl (MalformedDockerConfig secret_name)
                   | Some raw \<Rightarrow>
                       if \<not> valid_utf8 raw then Inl (MalformedDockerConfig secret_name)
                       else (case split_once (CHR '':'') raw of
                          None \<Rightarrow> Inl (MalformedDockerConfig secret_name)
                        | Some (user, pass) \<Rightarrow> Inr (Basic user pass)))
                  else (case (da_username e, da_password e) of
                     (Some user, Some pass) \<Rightarrow> Inr (Basic user pass) | _ \<Rightarrow> Inr Anonymous)
              | None \<Rightarrow>
                  (case (da_username e, da_password e) of
                     (Some user, Some pass) \<Rightarrow> Inr (Basic user pass) | _ \<Rightarrow> Inr Anonymous)))))"

section \<open>The pull\<close>

definition DEFAULT_PULL_TIMEOUT_SECS :: nat where
  "DEFAULT_PULL_TIMEOUT_SECS = 300"

record pull_options =
  insecure_registries :: "string list"
  timeout_secs :: nat

definition default_pull_options :: pull_options where
  "default_pull_options = \<lparr>insecure_registries = [], timeout_secs = DEFAULT_PULL_TIMEOUT_SECS\<rparr>"

record oci_image_ref =
  oci_image :: string
  pull_secret_ref :: "string option"
  mirror_ref :: "string option"

record unpacked_package =
  up_is_wasm :: bool
  up_artifact_path :: string
  up_signature_path :: "string option"
  up_descriptor_path :: string

record pull_artefact =
  manifest_digest :: string
  artifact_sha256 :: "string option"
  artifact_bytes :: string
  signature_bytes :: "string option"
  descriptor_bytes :: string
  unpacked :: unpacked_package

text \<open>\<open>PullElapsed\<close> is the outer \<open>tokio::time::timeout\<close> firing.\<close>

datatype pull_reply = PullElapsed | PullRefused string | PullOk string

record pull_env =
  pe_secret :: "string \<Rightarrow> kube_error + (string \<rightharpoonup> string) option"
  pe_parse_docker :: "string \<Rightarrow> docker_config option"
  pe_base64 :: "string \<Rightarrow> string option"
  pe_tempdir :: "string option"
  pe_pull :: "string \<Rightarrow> oci_auth \<Rightarrow> string list \<Rightarrow> string option \<Rightarrow> pull_reply"
  pe_unpack :: "string + unpacked_package"
  pe_read :: "string \<Rightarrow> string option"

definition read_path :: "pull_env \<Rightarrow> string \<Rightarrow> pull_error + string" where
  "read_path env p = (case pe_read env p of None \<Rightarrow> Inl (PullIo p) | Some b \<Rightarrow> Inr b)"

definition pull_and_unpack ::
  "pull_env \<Rightarrow> oci_image_ref \<Rightarrow> pull_options \<Rightarrow> ('st, 'ob, pull_error, pull_artefact) ctl" where
  "pull_and_unpack env spec options =
     (let reference = resolve_reference (oci_image spec) in
      bindT ([], case pull_secret_ref spec of
               Some secret_name \<Rightarrow>
                 resolve_pull_auth (pe_parse_docker env) (pe_base64 env)
                   (pe_secret env secret_name) secret_name (registry_from_reference reference)
             | None \<Rightarrow> Inr Anonymous) (\<lambda>auth.
      case pe_tempdir env of
        None \<Rightarrow> throw (PullIo ''tempdir'')
      | Some _ \<Rightarrow>
        after [Pull reference]
          (case pe_pull env reference auth (insecure_registries options) (digest_of reference) of
             PullElapsed \<Rightarrow> throw (Timeout reference (timeout_secs options))
           | PullRefused e \<Rightarrow> throw (Upstream e)
           | PullOk digest \<Rightarrow>
             (case pe_unpack env of
                Inl e \<Rightarrow> throw (Unpack e)
              | Inr up \<Rightarrow>
                if up_is_wasm up then throw (UnexpectedWasmArtifact reference)
                else ([],
                  bindE (read_path env (up_artifact_path up)) (\<lambda>art.
                  bindE (case up_signature_path up of
                           Some p \<Rightarrow> bindE (read_path env p) (\<lambda>b. Inr (Some b))
                         | None \<Rightarrow> Inr None) (\<lambda>sig.
                  bindE (read_path env (up_descriptor_path up)) (\<lambda>desc.
                  Inr \<lparr>manifest_digest = digest, artifact_sha256 = None, artifact_bytes = art,
                       signature_bytes = sig, descriptor_bytes = desc, unpacked = up\<rparr>))))))))"

section \<open>Facts and properties\<close>

lemma rfind_char_drop_free:
  "rfind_char c s = Some i \<Longrightarrow> i < length s \<and> c \<notin> set (drop (Suc i) s)"
proof -
  assume "rfind_char c s = Some i"
  then obtain k where k: "find_char c (rev s) = Some k" "i = length s - Suc k"
    by (auto simp: rfind_char_def)
  have "k < length s" "c \<notin> set (take k (rev s))"
    using find_char_SomeD [OF k(1)] by auto
  moreover have "drop (Suc i) s = rev (take k (rev s))"
    using \<open>k < length s\<close> k(2) by (simp add: take_rev Suc_diff_Suc)
  ultimately show ?thesis using k(2) by simp
qed

lemma rfind_char_None: "rfind_char c s = None \<longleftrightarrow> c \<notin> set s"
  by (simp add: rfind_char_def)

lemma rfind_char_unique:
  assumes "i < length s" "s ! i = c" "c \<notin> set (drop (Suc i) s)"
  shows "rfind_char c s = Some i"
proof -
  have s: "s = take i s @ c # drop (Suc i) s"
    using assms(1,2) by (metis id_take_nth_drop)
  have "rev s = rev (drop (Suc i) s) @ c # rev (take i s)"
    by (subst s) simp
  then have "find_char c (rev s) = Some (length s - Suc i)"
    using assms by (simp add: find_char_append_notin)
  then show ?thesis using assms(1) by (simp add: rfind_char_def)
qed

definition before_at :: "string \<Rightarrow> string" where
  "before_at r = (case split_once (CHR ''@'') r of Some (repo, _) \<Rightarrow> repo | None \<Rightarrow> r)"

definition strip_tag :: "string \<Rightarrow> string" where
  "strip_tag repo =
     (let k = (case rfind_char (CHR ''/'') repo of Some i \<Rightarrow> i + 1 | None \<Rightarrow> 0)
      in case find_char (CHR '':'') (drop k repo) of Some i \<Rightarrow> take (k + i) repo | None \<Rightarrow> repo)"

lemma repository_of_alt: "repository_of r = strip_tag (before_at r)"
  by (simp add: repository_of_def strip_tag_def before_at_def Let_def)

lemma before_at_free: "CHR ''@'' \<notin> set (before_at r)"
  by (auto simp: before_at_def split: option.splits dest: split_once_SomeD)

lemma before_at_id: "CHR ''@'' \<notin> set r \<Longrightarrow> before_at r = r"
  by (simp add: before_at_def split: option.splits)
    (metis option.distinct(1) split_once_None)

lemma strip_tag_subset: "set (strip_tag r) \<subseteq> set r"
  by (auto simp: strip_tag_def Let_def split: option.splits dest: in_set_takeD)

lemma strip_tag_no_slash:
  "CHR ''/'' \<notin> set r \<Longrightarrow> CHR '':'' \<notin> set r \<Longrightarrow> strip_tag r = r"
  by (simp add: strip_tag_def Let_def split: option.splits)
    (metis find_char_None option.distinct(1) rfind_char_None drop_0 set_drop_subset subsetD)

lemma strip_tag_idem [simp]: "strip_tag (strip_tag r) = strip_tag r"
proof (cases "rfind_char (CHR ''/'') r")
  case None
  show ?thesis
  proof (cases "find_char (CHR '':'') r")
    case (Some i)
    with None have R: "strip_tag r = take i r" by (simp add: strip_tag_def)
    have "CHR ''/'' \<notin> set (take i r)" using None by (auto simp: rfind_char_None dest: in_set_takeD)
    then show ?thesis using find_char_SomeD [OF Some] R by (simp add: strip_tag_no_slash)
  qed (use None in \<open>simp add: strip_tag_def\<close>)
next
  case (Some j)
  note j = this rfind_char_drop_free [OF this]
  show ?thesis
  proof (cases "find_char (CHR '':'') (drop (Suc j) r)")
    case (Some i)
    let ?R = "take (Suc (j + i)) r"
    have R: "strip_tag r = ?R" using j Some by (simp add: strip_tag_def)
    have tail: "drop (Suc j) ?R = take i (drop (Suc j) r)" by (simp add: take_drop add.commute)
    have "r ! j = CHR ''/''"
    proof -
      obtain k where k: "find_char (CHR ''/'') (rev r) = Some k" "j = length r - Suc k"
        using j(1) by (auto simp: rfind_char_def)
      then show ?thesis using find_char_SomeD [OF k(1)] by (auto simp: rev_nth)
    qed
    then have "rfind_char (CHR ''/'') ?R = Some j"
      using j(2) by (intro rfind_char_unique) (auto simp: tail dest: in_set_takeD)
    moreover have "find_char (CHR '':'') (drop (Suc j) ?R) = None"
      unfolding tail using find_char_SomeD [OF Some] by simp
    ultimately have "strip_tag ?R = ?R" by (simp add: strip_tag_def)
    then show ?thesis by (simp add: R)
  qed (use j in \<open>simp add: strip_tag_def\<close>)
qed

lemma repository_of_free: "CHR ''@'' \<notin> set (repository_of r)"
  using before_at_free strip_tag_subset by (auto simp: repository_of_alt)

text \<open>Pinning: the digest of a pinned reference is the digest it was pinned to, its repository
  is the repository of the original reference, and pinning again replaces the digest; so
  whatever tag or digest a reference carried, the pinned one names exactly the given
  manifest.\<close>

theorem pin_to_digest_roundtrip:
  "digest_of (pin_to_digest r d) = Some d
   \<and> repository_of (pin_to_digest r d) = repository_of r
   \<and> pin_to_digest (pin_to_digest r d) d' = pin_to_digest r d'"
proof -
  have split: "split_once (CHR ''@'') (pin_to_digest r d) = Some (repository_of r, d)"
    using split_once_append [OF repository_of_free] by (simp add: pin_to_digest_def)
  then have "before_at (pin_to_digest r d) = repository_of r"
    by (simp add: before_at_def)
  then have repo: "repository_of (pin_to_digest r d) = repository_of r"
    using repository_of_alt by simp
  show ?thesis using split repo by (simp add: digest_of_def pin_to_digest_def)
qed

lemma digests_match_equivp: "equivp digests_match"
  by (intro equivpI) (auto simp: reflp_def symp_def transp_def digests_match_def
      eq_ignore_ascii_case_def)

lemma strip_sha256_prefixed [simp]: "strip_sha256 (''sha256:'' @ d) = d"
  by (simp add: strip_sha256_def strip_prefix_def starts_with_def)

text \<open>A successful pull made exactly one registry request, for the image of the spec, and
  passed the digest that the reference pins (if any) to the registry client; the manifest
  digest is the client's answer, the package is a native one, and the artefact and
  descriptor bytes are the files of the unpacked package.\<close>

lemma pull_success_facts:
  assumes "snd (pull_and_unpack env spec options) = Inr art"
  shows "fst (pull_and_unpack env spec options) = [Pull (oci_image spec)]
     \<and> (\<exists>auth. pe_pull env (oci_image spec) auth (insecure_registries options)
            (digest_of (oci_image spec)) = PullOk (manifest_digest art))
     \<and> pe_unpack env = Inr (unpacked art) \<and> \<not> up_is_wasm (unpacked art)
     \<and> pe_read env (up_artifact_path (unpacked art)) = Some (artifact_bytes art)
     \<and> pe_read env (up_descriptor_path (unpacked art)) = Some (descriptor_bytes art)
     \<and> artifact_sha256 art = None"
  using assms
  by (auto simp: pull_and_unpack_def resolve_reference_def run_simps Let_def bindE_Inr read_path_def
      split: sum.splits option.splits pull_reply.splits if_splits)

definition sample_pull_env :: pull_env where
  "sample_pull_env = \<lparr>pe_secret = (\<lambda>_. Inr None), pe_parse_docker = (\<lambda>_. None),
     pe_base64 = (\<lambda>_. None), pe_tempdir = Some ''/tmp/x'',
     pe_pull = (\<lambda>_ _ _ _. PullOk ''sha256:ab''),
     pe_unpack = Inr \<lparr>up_is_wasm = False, up_artifact_path = ''plugin.so'',
       up_signature_path = None, up_descriptor_path = ''plugin.yaml''\<rparr>,
     pe_read = (\<lambda>p. Some (p @ ''!''))\<rparr>"

text \<open>Credentials of another host: when the docker config does not name the registry but some
  host in it merely starts with the registry's name, the first such host's credentials are
  returned for the registry, although the comment says that an unnamed registry is pulled
  anonymously.\<close>

theorem pull_auth_of_prefixed_host:
  assumes "parse bytes = Some auths" and "data ''.dockerconfigjson'' = Some bytes"
    and "map_of auths registry = None"
    and "find (\<lambda>(host, _). starts_with registry host) auths = Some (host, e)"
    and "da_auth e = None" and "da_username e = Some user" and "da_password e = Some pass"
  shows "resolve_pull_auth parse b64 (Inr (Some data)) secret_name registry = Inr (Basic user pass)
     \<and> host \<noteq> registry"
proof -
  have "(host, e) \<in> set auths" using assms(4) by (auto simp: find_Some_iff in_set_conv_nth)
  then have "host \<noteq> registry" using assms(3) by (auto simp: map_of_eq_None_iff image_iff)
  with assms show ?thesis by (simp add: resolve_pull_auth_def map_err_def)
qed

theorem pull_auth_of_prefixed_host_witness:
  "(let e = \<lparr>da_username = Some ''u'', da_password = Some ''p'', da_auth = None\<rparr>
    in resolve_pull_auth (\<lambda>_. Some [(''reg.io.example.com'', e)]) (\<lambda>_. None)
         (Inr (Some [''.dockerconfigjson'' \<mapsto> ''{}''])) ''s'' ''reg.io'' = Inr (Basic ''u'' ''p''))"
  using pull_auth_of_prefixed_host [of "\<lambda>_. Some [(''reg.io.example.com'',
      \<lparr>da_username = Some ''u'', da_password = Some ''p'', da_auth = None\<rparr>)]" "''{}''"
      "[(''reg.io.example.com'', \<lparr>da_username = Some ''u'', da_password = Some ''p'', da_auth = None\<rparr>)]"
      "[''.dockerconfigjson'' \<mapsto> ''{}'']" "''reg.io''" "''reg.io.example.com''"
      "\<lparr>da_username = Some ''u'', da_password = Some ''p'', da_auth = None\<rparr>" "''u''" "''p''" "\<lambda>_. None" "''s''"]
  by (simp add: starts_with_def)

end
