(* ===== verification/Crd.thy ===== *)
theory Crd
  imports Oci Json
begin

text \<open>
  The custom resources as the operator reads them. The types and their methods belong to the
  API crate, which is not part of the sources: a record holds the fields the operator uses,
  under the names the code uses, and \<open>api_crate\<close> holds the methods and constants it calls, as
  parameters. A status that a component reads back is a record here too; maps that are read in key
  order are association lists in key order.
\<close>

section \<open>Plugins\<close>

record signing_key_ref =
  sk_secret_name :: string
  sk_key :: string

record cosign_identity =
  certificate_identity_regexp :: string
  oidc_issuer :: string

record slsa_policy =
  config_map_name :: string
  source_uri :: string
  source_tag :: string

record plugin_trust =
  signing_key :: signing_key_ref
  trust_cosign_identity :: "cosign_identity option"
  trust_slsa_provenance :: "slsa_policy option"

record plugin_spec =
  plugin_id :: string
  plugin_version :: string
  plugin_class :: string
  p_oci :: oci_image_ref
  p_trust :: plugin_trust

record plugin_status =
  ps_conditions :: "condition list"
  ps_observed_generation :: "int option"
  ps_resolved_digest :: "string option"
  ps_signature_valid :: "bool option"
  ps_revoked_by_sha :: "bool option"
  ps_cosign_verified :: "bool option"
  ps_slsa_verified :: "bool option"
  ps_artefact_secret_name :: "string option"

definition default_plugin_status :: plugin_status where
  "default_plugin_status = \<lparr>ps_conditions = [], ps_observed_generation = None,
     ps_resolved_digest = None, ps_signature_valid = None, ps_revoked_by_sha = None,
     ps_cosign_verified = None, ps_slsa_verified = None, ps_artefact_secret_name = None\<rparr>"

record plugin =
  pl_meta :: object_meta
  pl_spec :: plugin_spec
  pl_status :: "plugin_status option"

section \<open>Plugin sets\<close>

record plugin_set_entry =
  entry_id :: string
  entry_plugin_ref :: string
  entry_enabled :: bool
  entry_config :: "json option"

record plugin_set_spec =
  set_entries :: "plugin_set_entry list"
  capability_grants :: "(string \<times> string list) list"

record plugin_set =
  set_meta :: object_meta
  set_spec :: plugin_set_spec
  set_conditions :: "condition list option"
  set_resolved_hash :: "string option"

section \<open>Revocation lists, mirrors\<close>

text \<open>Timestamps as their RFC 3339 text.\<close>

record revocation_entry =
  re_artifact_sha256 :: string
  re_reason :: string
  re_revoked_at :: "string option"

record revocation_list_spec =
  rl_version :: nat
  rl_issued_at :: "string option"
  rl_revocations :: "revocation_entry list"

record revocation_list =
  rl_meta :: object_meta
  rl_spec :: revocation_list_spec
  rl_conditions :: "condition list option"

record mirror_service =
  svc_namespace :: string
  svc_name :: string
  svc_port :: nat

record mirror_spec =
  endpoint_service :: mirror_service
  endpoint_insecure :: bool
  upstream_registry :: string
  upstream_namespace :: string
  mirror_auth_secret :: "string option"

record plugin_mirror =
  pm_meta :: object_meta
  pm_spec :: mirror_spec
  pm_conditions :: "condition list option"

section \<open>Clusters, tenants, routes, servers\<close>

record gateway_resources =
  res_requests :: "(string \<times> string) list"
  res_limits :: "(string \<times> string) list"

record issuer_ref =
  iss_name :: string
  iss_kind :: string
  iss_group :: string

record managed_coordinator =
  mc_replicas :: "int option"
  mc_image :: "string option"
  mc_storage_size :: "string option"
  mc_storage_class :: "string option"
  mc_resources :: "gateway_resources option"
  mc_tls :: "issuer_ref option option"

record credential_ref =
  cr_name :: string
  cr_secret_name :: string

record cluster_spec =
  cl_managed :: "managed_coordinator option"
  cl_backend :: string
  cl_config :: "(string \<times> json) list"
  cl_credential_refs :: "credential_ref list"
  cl_plugin_ref :: "string option"

record cluster =
  cl_meta :: object_meta
  cl_spec :: cluster_spec
  cl_conditions :: "condition list option"

record allowed_plugin =
  ap_name :: "string option"
  ap_registry_prefix :: "string option"

record tenant_quotas =
  max_gateways :: "int option"
  max_plugin_sets :: "int option"
  max_routes :: "int option"
  max_replicas_per_gateway :: "int option"

record tenant_spec =
  tn_namespaces :: "string list"
  tn_allowed_plugins :: "allowed_plugin list"
  tn_quotas :: "tenant_quotas option"
  tn_identity_attribute_key :: "string option"

record tenant =
  tn_meta :: object_meta
  tn_spec :: tenant_spec
  tn_conditions :: "condition list option"

record route_spec =
  rt_gateway_ref :: string
  rt_tools :: "string list"
  rt_identity_chain :: "string list"
  rt_policy_chain :: "string list"
  rt_audit_chain :: "string list"
  rt_attributes :: "(string \<times> string) list"

record route =
  rt_meta :: object_meta
  rt_spec :: route_spec
  rt_conditions :: "condition list option"

record server_federate =
  fed_gateway_ref :: string
  fed_name_override :: "string option"
  fed_governance :: "json option"
  fed_import :: "json option"
  fed_auth :: "json option"
  fed_tool_prefix :: "string option"

record server_spec =
  sv_image :: string
  sv_verify :: "cosign_identity option"
  sv_port :: "int option"
  sv_replicas :: "int option"
  sv_env :: "(string \<times> string) list"
  sv_env_from_secrets :: "string list"
  sv_resources :: "gateway_resources option"
  sv_service_account :: "string option"
  sv_image_pull_secrets :: "string list"
  sv_federate :: "server_federate option"

record mcp_server =
  sv_meta :: object_meta
  sv_spec :: server_spec
  sv_conditions :: "condition list option"

text \<open>A server spec with nothing optional set.\<close>

definition bare_server_spec :: "string \<Rightarrow> server_spec" where
  "bare_server_spec img = \<lparr>sv_image = img, sv_verify = None, sv_port = None, sv_replicas = None,
     sv_env = [], sv_env_from_secrets = [], sv_resources = None, sv_service_account = None,
     sv_image_pull_secrets = [], sv_federate = None\<rparr>"

section \<open>Gateways\<close>

record secret_mount =
  sm_name :: string
  sm_mount_path :: string

record workload_identity =
  wi_aws :: "string option"
  wi_gcp :: "string option"
  wi_azure :: "string option"
  wi_spiffe :: "(string \<times> string) option"

record ingress_host =
  ih_host :: string
  ih_paths :: "(string \<times> string) list"

record gateway_ingress =
  ingress_class_name :: string
  ingress_hosts :: "ingress_host list"

record gateway_cloud =
  instance_slug :: string
  org_slug :: string
  external_url :: string
  canonical_url :: "string option"
  custom_domains :: "string list"

record gateway_service =
  gs_port :: "int option"
  gs_type :: "string option"
  gs_annotations :: "str_map"

record gateway_probe =
  gp_path :: "string option"
  gp_initial_delay :: "int option"
  gp_period :: "int option"
  gp_timeout :: "int option"
  gp_failure_threshold :: "int option"
  gp_success_threshold :: "int option"

record gateway_probes =
  gp_liveness :: "gateway_probe option"
  gp_readiness :: "gateway_probe option"
  gp_startup :: "gateway_probe option"

record spread_constraint =
  tc_max_skew :: int
  tc_topology_key :: string
  tc_when_unsatisfiable :: string
  tc_match_labels :: "(string \<times> string) list"

record gateway_scheduling =
  sd_node_selector :: "(string \<times> string) list"
  sd_priority_class :: "string option"
  sd_termination_grace :: "int option"
  sd_spread :: "spread_constraint list"

record autoscaler_metric =
  am_type :: string
  am_resource :: "json option"
  am_pods :: "json option"
  am_object :: "json option"
  am_external :: "json option"

record gateway_autoscaling =
  as_enabled :: bool
  as_min :: "int option"
  as_max :: "int option"
  as_metrics :: "autoscaler_metric list"

record gateway_pdb =
  pb_enabled :: bool
  pb_min_available :: "json option"
  pb_max_unavailable :: "json option"

record gateway_spec =
  gw_image_repository :: "string option"
  gw_image_tag :: "string option"
  gw_image_pull_policy :: "string option"
  gw_image_pull_secrets :: "string list"
  gw_replicas :: int
  gw_autoscaling :: "gateway_autoscaling option"
  gw_pod_disruption_budget :: "gateway_pdb option"
  gw_resources :: "gateway_resources option"
  gw_workload_identity :: "workload_identity option"
  gw_service :: "gateway_service option"
  gw_probes :: "gateway_probes option"
  gw_scheduling :: "gateway_scheduling option"
  gw_pod_labels :: "(string \<times> string) list"
  gw_pod_annotations :: "str_map"
  gw_env_from_secrets :: "string list"
  gw_secret_mounts :: "secret_mount list"
  gw_ingress :: "gateway_ingress option"
  gw_cloud :: "gateway_cloud option"
  gw_cluster_ref :: "string option"
  gw_plugin_set_ref :: "string option"
  gw_revocation_list_ref :: "string option"
  gw_accepted_route_namespaces :: "string list"
  gw_config :: json

text \<open>A spec with nothing optional set.\<close>

definition bare_gateway_spec :: gateway_spec where
  "bare_gateway_spec = \<lparr>gw_image_repository = None, gw_image_tag = None, gw_image_pull_policy = None,
     gw_image_pull_secrets = [], gw_replicas = 1, gw_autoscaling = None, gw_pod_disruption_budget = None,
     gw_resources = None, gw_workload_identity = None, gw_service = None, gw_probes = None,
     gw_scheduling = None, gw_pod_labels = [], gw_pod_annotations = Map.empty, gw_env_from_secrets = [],
     gw_secret_mounts = [], gw_ingress = None, gw_cloud = None, gw_cluster_ref = None,
     gw_plugin_set_ref = None, gw_revocation_list_ref = None, gw_accepted_route_namespaces = [],
     gw_config = JNull\<rparr>"

record gateway_status =
  gst_conditions :: "condition list"
  gst_observed_generation :: "int option"
  gst_replicas :: "int option"
  gst_ready_replicas :: "int option"
  gst_updated_replicas :: "int option"
  gst_available_replicas :: "int option"
  gst_config_hash :: "string option"
  gst_plugin_set_hash :: "string option"
  gst_revocation_list_hash :: "string option"

definition default_gateway_status :: gateway_status where
  "default_gateway_status = \<lparr>gst_conditions = [], gst_observed_generation = None, gst_replicas = None,
     gst_ready_replicas = None, gst_updated_replicas = None, gst_available_replicas = None,
     gst_config_hash = None, gst_plugin_set_hash = None, gst_revocation_list_hash = None\<rparr>"

record gateway =
  gw_meta :: object_meta
  gw_spec :: gateway_spec
  gw_status :: "gateway_status option"

section \<open>What the API and protocol crates provide\<close>

record api_crate =
  effective_replica_ceiling :: "gateway_spec \<Rightarrow> int \<times> string"
  owns_namespace :: "tenant_spec \<Rightarrow> string \<Rightarrow> bool"
  plugin_allowed :: "tenant_spec \<Rightarrow> string \<Rightarrow> string \<Rightarrow> string option \<Rightarrow> bool"
  overlapping_namespaces :: "tenant_spec \<Rightarrow> tenant_spec \<Rightarrow> string list"
  backend_is_single_node :: "string \<Rightarrow> bool"
  is_effectively_single_node :: "cluster_spec \<Rightarrow> bool"
  insecure_transport_reason :: "cluster_spec \<Rightarrow> string option"
  federation_name :: "server_spec \<Rightarrow> string \<Rightarrow> string"
  route_tenant :: "route_spec \<Rightarrow> string option"
  server_port :: "server_spec \<Rightarrow> int"
  capability_parses :: "string \<Rightarrow> bool"
  ALL_KINDS :: "string list"
  regex_compiles :: "string \<Rightarrow> bool"
  governance_refused :: "json \<Rightarrow> string option"
  gateway_namespace :: "route_spec \<Rightarrow> string \<Rightarrow> string"
  server_endpoint :: "server_spec \<Rightarrow> string \<Rightarrow> string \<Rightarrow> string"
  render_cluster_block_with :: "cluster_spec \<Rightarrow> string \<Rightarrow> string \<Rightarrow> json"
  managed_coordination_secret_name :: "string \<Rightarrow> string"
  managed_nats_config_name :: "string \<Rightarrow> string"
  managed_nats_service_name :: "string \<Rightarrow> string"
  managed_nats_headless_service_name :: "string \<Rightarrow> string"
  managed_nats_statefulset_name :: "string \<Rightarrow> string"
  managed_nats_tls_secret_name :: "string \<Rightarrow> string"
  effective_backend :: "cluster_spec \<Rightarrow> string"
  backend_plugin_id :: "string \<Rightarrow> string option"
  managed_tls_enabled :: "cluster_spec \<Rightarrow> bool"
  managed_nats_replicas :: "cluster_spec \<Rightarrow> int option"
  managed_replicas_capped :: "cluster_spec \<Rightarrow> bool"
  DEFAULT_MANAGED_NATS_IMAGE :: string
  DEFAULT_MANAGED_STORAGE_SIZE :: string
  MANAGED_NATS_CLIENT_PORT :: int
  MANAGED_NATS_TOKEN_ENV :: string
  MANAGED_STATE_KEY_ENV :: string
  MANAGED_NATS_CA_ENV :: string
  server_replicas :: "server_spec \<Rightarrow> int"
  all_chain_plugins :: "route_spec \<Rightarrow> string list"

text \<open>An instance of the parameters, for the witnesses.\<close>

definition sample_api :: api_crate where
  "sample_api = \<lparr>effective_replica_ceiling = (\<lambda>s. (gw_replicas s, ''spec.replicas'')),
     owns_namespace = (\<lambda>s ns. ns \<in> set (tn_namespaces s)),
     plugin_allowed = (\<lambda>s name i img. list_ex (\<lambda>a. ap_name a = Some name) (tn_allowed_plugins s)),
     overlapping_namespaces = (\<lambda>a b. filter (\<lambda>n. n \<in> set (tn_namespaces b)) (tn_namespaces a)),
     backend_is_single_node = (\<lambda>b. b = ''single_node''),
     is_effectively_single_node = (\<lambda>s. cl_managed s = None \<and> cl_backend s = ''single_node''),
     insecure_transport_reason = (\<lambda>_. None),
     federation_name = (\<lambda>_ n. n), route_tenant = (\<lambda>s. map_of (rt_attributes s) ''tenant''),
     server_port = (\<lambda>s. case sv_port s of Some p \<Rightarrow> p | None \<Rightarrow> 8080),
     capability_parses = (\<lambda>_. True), ALL_KINDS = [''identity_provider''],
     regex_compiles = (\<lambda>_. True), governance_refused = (\<lambda>_. None),
     gateway_namespace = (\<lambda>s ns. ns), server_endpoint = (\<lambda>s child ns. ''http://'' @ child @ ''.'' @ ns),
     render_cluster_block_with = (\<lambda>s n ns. JObj [(''kind'', JStr (cl_backend s))]),
     managed_coordination_secret_name = (\<lambda>n. n @ ''-coordination''),
     managed_nats_config_name = (\<lambda>n. n @ ''-nats-config''), managed_nats_service_name = (\<lambda>n. n @ ''-nats''),
     managed_nats_headless_service_name = (\<lambda>n. n @ ''-nats-headless''),
     managed_nats_statefulset_name = (\<lambda>n. n @ ''-nats''), managed_nats_tls_secret_name = (\<lambda>n. n @ ''-nats-tls''),
     effective_backend = (\<lambda>s. if cl_managed s = None then cl_backend s else ''nats''),
     backend_plugin_id = (\<lambda>b. if b = ''single_node'' then None else Some (''dev.mcpg.cluster.'' @ b)),
     managed_tls_enabled = (\<lambda>s. case cl_managed s of
       Some m \<Rightarrow> (case mc_tls m of Some (Some _) \<Rightarrow> True | _ \<Rightarrow> False) | None \<Rightarrow> False),
     managed_nats_replicas = (\<lambda>s. map_option (\<lambda>_. 1) (cl_managed s)), managed_replicas_capped = (\<lambda>_. False),
     DEFAULT_MANAGED_NATS_IMAGE = ''nats'', DEFAULT_MANAGED_STORAGE_SIZE = ''1Gi'', MANAGED_NATS_CLIENT_PORT = 4222,
     MANAGED_NATS_TOKEN_ENV = ''NATS_TOKEN'', MANAGED_STATE_KEY_ENV = ''STATE_KEY'', MANAGED_NATS_CA_ENV = ''NATS_CA'',
     server_replicas = (\<lambda>s. case sv_replicas s of Some n \<Rightarrow> n | None \<Rightarrow> 1),
     all_chain_plugins = (\<lambda>s. rt_identity_chain s @ rt_policy_chain s @ rt_audit_chain s)\<rparr>"

end
