(* ===== verification/Verify.thy ===== *)
theory Verify
  imports Crd
begin

text \<open>
  The three trust layers (\<open>src/src/verify/\<close>): the Ed25519 gate with its key loader and
  error classification (\<open>mod.rs\<close>), SLSA provenance (\<open>slsa.rs\<close>), and cosign keyless
  verification with the process-wide trust root (\<open>cosign.rs\<close>).

  The plugin host's verifier, the YAML, JSON, base64 and hex decoders, the regex engine and
  the Sigstore client are not in the sources; each is a parameter.
\<close>

section \<open>Ed25519\<close>

datatype verify_error =
    VerifyKube kube_error
  | KeyMissing string string
  | InvalidKeyLength string string nat
  | RevocationListInvalid string
  | Verifier string
  | Revoked string string
  | PluginIdMismatch string string

record verify_result =
  artifact_hash :: string
  signature_verified :: bool

text \<open>The options handed to \<open>verify_native_artifact\<close>; \<open>'rl\<close> is the host's indexed
  revocation list.\<close>

record 'rl verify_options =
  vo_expected_sha256 :: "string option"
  vo_trusted_public_keys :: "string list"
  vo_enforce :: bool
  vo_revocation_list :: "'rl option"

text \<open>\<open>yaml_id\<close> is the string value of the descriptor's \<open>id\<close> key: an outer \<open>None\<close> for
  text that is not YAML, an inner one for a missing or non-string id.\<close>

definition parse_descriptor_id ::
  "(string \<Rightarrow> string option option) \<Rightarrow> string \<Rightarrow> verify_error + string" where
  "parse_descriptor_id yaml_id bytes =
     (if \<not> valid_utf8 bytes then Inl (Verifier ''descriptor not UTF-8'')
      else case yaml_id bytes of
        None \<Rightarrow> Inl (Verifier ''descriptor YAML parse'')
      | Some None \<Rightarrow> Inl (Verifier ''descriptor.id field is missing or not a string'')
      | Some (Some i) \<Rightarrow> Inr i)"

definition revocation_reason_from_error :: "string \<Rightarrow> string option" where
  "revocation_reason_from_error msg =
     (case find_sub ''is revoked: '' msg of
        None \<Rightarrow> None
      | Some i \<Rightarrow> (let s = trim (drop (i + length ''is revoked: '') msg)
                   in if s = [] then None else Some s))"

text \<open>\<open>split_whitespace\<close>: the length of the white space at the head, then the words.\<close>

definition ws_head :: "string \<Rightarrow> nat" where
  "ws_head s =
     (case s of
        [] \<Rightarrow> 0
      | [a] \<Rightarrow> if is_ascii_ws a then 1 else 0
      | [a, b] \<Rightarrow> if is_ascii_ws a then 1 else if is_ws2 a b then 2 else 0
      | a # b # c # _ \<Rightarrow> if is_ascii_ws a then 1 else if is_ws2 a b then 2
                         else if is_ws3 a b c then 3 else 0)"

function split_ws :: "string \<Rightarrow> string \<Rightarrow> string list" where
  "split_ws cur [] = (if cur = [] then [] else [rev cur])"
| "split_ws cur (x # xs) =
     (let n = ws_head (x # xs)
      in if n = 0 then split_ws (x # cur) xs
         else (if cur = [] then [] else [rev cur]) @ split_ws [] (drop (n - 1) xs))"
  by pat_completeness auto
termination
  by (relation "measure (\<lambda>(cur, s). length s)") auto

definition split_whitespace :: "string \<Rightarrow> string list" where
  "split_whitespace s = split_ws [] s"

definition artefact_sha_from_error :: "string \<Rightarrow> string option" where
  "artefact_sha_from_error msg =
     (case find_sub ''sha256'' (to_ascii_lowercase msg) of
        None \<Rightarrow> None
      | Some idx \<Rightarrow> find (\<lambda>t. length t = 64 \<and> list_all is_ascii_hexdigit t)
                       (split_whitespace (drop idx msg)))"

definition verify_artefact ::
  "(string \<Rightarrow> string option option) \<Rightarrow> (string \<Rightarrow> 'rl verify_options \<Rightarrow> string + verify_result)
    \<Rightarrow> pull_artefact \<Rightarrow> string \<Rightarrow> 'rl option \<Rightarrow> string \<Rightarrow> verify_error + verify_result" where
  "verify_artefact yaml_id host art public_key revocation_list expected_plugin_id =
     bindE (parse_descriptor_id yaml_id (descriptor_bytes art)) (\<lambda>descriptor_id.
     if descriptor_id \<noteq> expected_plugin_id
     then Inl (PluginIdMismatch expected_plugin_id descriptor_id)
     else case host (up_artifact_path (unpacked art))
                 \<lparr>vo_expected_sha256 = None, vo_trusted_public_keys = [public_key],
                  vo_enforce = True, vo_revocation_list = revocation_list\<rparr> of
       Inr r \<Rightarrow> Inr r
     | Inl msg \<Rightarrow>
         (case revocation_reason_from_error msg of
            Some reason \<Rightarrow>
              Inl (Revoked (case artefact_sha_from_error msg of Some s \<Rightarrow> s | None \<Rightarrow> []) reason)
          | None \<Rightarrow> Inl (Verifier msg)))"

record key_decoders =
  kd_base64 :: "string \<Rightarrow> string option"
  kd_base64_url :: "string \<Rightarrow> string option"
  kd_hex :: "string \<Rightarrow> string option"

definition decoded32 :: "string option \<Rightarrow> string option" where
  "decoded32 d = (case d of Some b \<Rightarrow> if length b = 32 then Some b else None | None \<Rightarrow> None)"

definition load_signing_key ::
  "key_decoders \<Rightarrow> kube_error + (string \<rightharpoonup> string) option \<Rightarrow> string \<Rightarrow> string \<Rightarrow> verify_error + string" where
  "load_signing_key dec secret_ans secret_name key =
     bindE (map_err VerifyKube secret_ans) (\<lambda>data_opt.
     let data = (case data_opt of Some d \<Rightarrow> d | None \<Rightarrow> Map.empty)
     in case data key of
       None \<Rightarrow> Inl (KeyMissing secret_name key)
     | Some bytes \<Rightarrow>
         if length bytes = 32 then Inr bytes
         else case decoded32 (kd_base64 dec bytes) of
           Some k \<Rightarrow> Inr k
         | None \<Rightarrow>
           (case decoded32 (kd_base64_url dec bytes) of
              Some k \<Rightarrow> Inr k
            | None \<Rightarrow>
              (if valid_utf8 bytes \<and> length (trim bytes) = 64
               then (case decoded32 (kd_hex dec (trim bytes)) of
                       Some k \<Rightarrow> Inr k
                     | None \<Rightarrow> Inl (InvalidKeyLength secret_name key (length bytes)))
               else Inl (InvalidKeyLength secret_name key (length bytes)))))"

definition revocation_list_from_api ::
  "(revocation_list_spec \<Rightarrow> string + 'rl) \<Rightarrow> revocation_list_spec \<Rightarrow> verify_error + 'rl" where
  "revocation_list_from_api from_file spec =
     map_err RevocationListInvalid
       (from_file \<lparr>rl_version = 1, rl_issued_at = rl_issued_at spec,
          rl_revocations = map (\<lambda>e. \<lparr>re_artifact_sha256 = re_artifact_sha256 e,
            re_reason = re_reason e, re_revoked_at = re_revoked_at e\<rparr>) (rl_revocations spec)\<rparr>)"

section \<open>SLSA provenance\<close>

definition SLSA_V1_PREDICATE :: string where
  "SLSA_V1_PREDICATE = ''https://slsa.dev/provenance/v1''"

definition SLSA_V02_PREDICATE :: string where
  "SLSA_V02_PREDICATE = ''https://slsa.dev/provenance/v0.2''"

record in_toto_statement =
  predicate_type :: string
  subject_sha256s :: "string option list"
  predicate :: json

datatype slsa_error =
    EnvelopeEmpty
  | EnvelopeJson nat
  | PayloadBase64 nat
  | StatementJson nat
  | NoMatchingStatement nat nat string string

record slsa_verify_result =
  envelopes_total :: nat
  matched_predicate_type :: string

definition subject_matches :: "string option list \<Rightarrow> string \<Rightarrow> bool" where
  "subject_matches subjects sha =
     list_ex (\<lambda>s. case s of Some h \<Rightarrow> eq_ignore_ascii_case h sha | None \<Rightarrow> False) subjects"

definition slsa_v1_source_matches :: "json \<Rightarrow> slsa_policy \<Rightarrow> bool" where
  "slsa_v1_source_matches p policy =
     (case json_path [''buildDefinition'', ''externalParameters'', ''source''] p of
        None \<Rightarrow> False
      | Some source \<Rightarrow>
          (let repo = Option.bind (json_get ''repository'' source) json_as_str;
               r = (case Option.bind (json_get ''ref'' source) json_as_str of
                      Some x \<Rightarrow> Some x
                    | None \<Rightarrow> Option.bind (json_get ''digest'' source) json_as_str)
           in repo = Some (source_uri policy) \<and> r = Some (source_tag policy)))"

definition slsa_v02_source_matches :: "json \<Rightarrow> slsa_policy \<Rightarrow> bool" where
  "slsa_v02_source_matches p policy =
     (case json_path [''invocation'', ''configSource''] p of
        None \<Rightarrow> False
      | Some cfg \<Rightarrow>
          (let uri = Option.bind (json_get ''uri'' cfg) json_as_str;
               r = (case Option.bind (json_get ''entryPoint'' cfg) json_as_str of
                      Some x \<Rightarrow> Some x
                    | None \<Rightarrow> Option.bind (json_get ''ref'' cfg) json_as_str)
           in uri = Some (source_uri policy) \<and> r = Some (source_tag policy)))"

definition predicate_source_matches :: "string \<Rightarrow> json \<Rightarrow> slsa_policy \<Rightarrow> bool" where
  "predicate_source_matches pt p policy =
     (if pt = SLSA_V1_PREDICATE then slsa_v1_source_matches p policy
      else if pt = SLSA_V02_PREDICATE then slsa_v02_source_matches p policy
      else False)"

text \<open>The decoders: the payload of a DSSE envelope, base64, the in-toto statement.\<close>

record slsa_decoders =
  sd_envelope :: "string \<Rightarrow> string option"
  sd_base64 :: "string \<Rightarrow> string option"
  sd_statement :: "string \<Rightarrow> in_toto_statement option"

definition decode_line ::
  "slsa_decoders \<Rightarrow> nat \<Rightarrow> string \<Rightarrow> slsa_error + in_toto_statement" where
  "decode_line dec n line =
     (case sd_envelope dec line of
        None \<Rightarrow> Inl (EnvelopeJson n)
      | Some payload \<Rightarrow>
        (case sd_base64 dec (trim payload) of
           None \<Rightarrow> Inl (PayloadBase64 n)
         | Some bytes \<Rightarrow>
           (case sd_statement dec bytes of
              None \<Rightarrow> Inl (StatementJson n)
            | Some stmt \<Rightarrow> Inr stmt)))"

definition accepted_predicate :: "string \<Rightarrow> bool" where
  "accepted_predicate pt \<longleftrightarrow> pt = SLSA_V1_PREDICATE \<or> pt = SLSA_V02_PREDICATE"

text \<open>The loop over the lines: \<open>i\<close> is the line index, \<open>tot\<close> and \<open>matched\<close> the two
  counters; a match breaks out.\<close>

fun slsa_lines ::
  "slsa_decoders \<Rightarrow> string \<Rightarrow> slsa_policy \<Rightarrow> nat \<Rightarrow> nat \<Rightarrow> nat \<Rightarrow> string list
    \<Rightarrow> slsa_error + slsa_verify_result" where
  "slsa_lines dec sha policy i tot matched [] =
     Inl (NoMatchingStatement tot matched (source_uri policy) (source_tag policy))"
| "slsa_lines dec sha policy i tot matched (l # ls) =
     (let line = trim l in
      if line = [] then slsa_lines dec sha policy (Suc i) tot matched ls
      else bindE (decode_line dec (Suc i) line) (\<lambda>stmt.
        if \<not> accepted_predicate (predicate_type stmt)
        then slsa_lines dec sha policy (Suc i) (Suc tot) matched ls
        else if \<not> subject_matches (subject_sha256s stmt) sha
        then slsa_lines dec sha policy (Suc i) (Suc tot) (Suc matched) ls
        else if \<not> predicate_source_matches (predicate_type stmt) (predicate stmt) policy
        then slsa_lines dec sha policy (Suc i) (Suc tot) (Suc matched) ls
        else Inr \<lparr>envelopes_total = Suc tot, matched_predicate_type = predicate_type stmt\<rparr>))"

definition verify_slsa_provenance ::
  "slsa_decoders \<Rightarrow> string \<Rightarrow> string \<Rightarrow> slsa_policy \<Rightarrow> slsa_error + slsa_verify_result" where
  "verify_slsa_provenance dec jsonl sha policy =
     (if blank jsonl then Inl EnvelopeEmpty
      else slsa_lines dec sha policy 0 0 0 (str_lines jsonl))"

section \<open>Cosign keyless\<close>

datatype certificate_subject = Uri string | Email string

record cert_signature =
  cs_subject :: certificate_subject
  cs_issuer :: "string option"

type_synonym signature_layer = "cert_signature option"

datatype cosign_error =
    CosignInvalidRegex string
  | CosignInvalidReference string
  | CosignTrustRoot string
  | CosignClientBuild string
  | CosignTriangulate string
  | CosignLayers string
  | CosignConstraint string nat nat
  | CosignEmptyIdentity
  | CosignDigestMismatch string string string
  | CosignMissingDigest string

record cosign_verify_result =
  signature_layer_count :: nat
  source_digest :: string

definition matches_subject_and_issuer ::
  "(string \<Rightarrow> bool) \<Rightarrow> string \<Rightarrow> string \<Rightarrow> string option \<Rightarrow> bool" where
  "matches_subject_and_issuer re expected_issuer layer_subject layer_issuer =
     (if layer_issuer \<noteq> Some expected_issuer then False else re layer_subject)"

definition subject_text :: "certificate_subject \<Rightarrow> string" where
  "subject_text s = (case s of Uri u \<Rightarrow> u | Email e \<Rightarrow> e)"

definition cert_subject_regex_verify ::
  "(string \<Rightarrow> bool) \<Rightarrow> string \<Rightarrow> signature_layer \<Rightarrow> bool" where
  "cert_subject_regex_verify re issuer layer =
     (case layer of
        None \<Rightarrow> False
      | Some c \<Rightarrow> matches_subject_and_issuer re issuer (subject_text (cs_subject c)) (cs_issuer c))"

text \<open>The process-wide trust root: the offline path is set once (\<open>OnceLock\<close>), the root is
  built on first use and cached (\<open>OnceCell\<close>). \<open>NetworkFetch\<close> is the online path.\<close>

record 'root trust_state =
  offline_path :: "string option option"
  trust_cached :: "'root option"

datatype trust_effect = ReadFile string | NetworkFetch

definition set_offline_trust_root_path :: "string option \<Rightarrow> 'root trust_state \<Rightarrow> 'root trust_state" where
  "set_offline_trust_root_path p st =
     (case offline_path st of None \<Rightarrow> st\<lparr>offline_path := Some p\<rparr> | Some _ \<Rightarrow> st)"

definition trust_root ::
  "(string \<Rightarrow> string option) \<Rightarrow> (string \<Rightarrow> string + 'root) \<Rightarrow> string + 'root \<Rightarrow> 'root trust_state
    \<Rightarrow> trust_effect list \<times> (cosign_error + 'root) \<times> 'root trust_state" where
  "trust_root read parse online st =
     (case trust_cached st of
        Some r \<Rightarrow> ([], Inr r, st)
      | None \<Rightarrow>
        (case (case offline_path st of Some (Some p) \<Rightarrow> Some p | _ \<Rightarrow> None) of
           Some path \<Rightarrow>
             (case read path of
                None \<Rightarrow> ([ReadFile path], Inl (CosignTrustRoot path), st)
              | Some bytes \<Rightarrow>
                (case parse bytes of
                   Inl e \<Rightarrow> ([ReadFile path], Inl (CosignTrustRoot e), st)
                 | Inr r \<Rightarrow> ([ReadFile path], Inr r, st\<lparr>trust_cached := Some r\<rparr>)))
         | None \<Rightarrow>
             (case online of
                Inl e \<Rightarrow> ([NetworkFetch], Inl (CosignTrustRoot e), st)
              | Inr r \<Rightarrow> ([NetworkFetch], Inr r, st\<lparr>trust_cached := Some r\<rparr>))))"

text \<open>The Sigstore side of a verification: regex engine, reference parser, trust-root
  sources, client, the signature image with the digest it belongs to, its trusted layers,
  and \<open>verify_constraints\<close>.\<close>

record 'root cosign_env =
  ce_regex :: "string \<Rightarrow> (string \<Rightarrow> bool) option"
  ce_reference_ok :: "string \<Rightarrow> bool"
  ce_read :: "string \<Rightarrow> string option"
  ce_parse_root :: "string \<Rightarrow> string + 'root"
  ce_online :: "string + 'root"
  ce_client :: "'root \<Rightarrow> string + unit"
  ce_triangulate :: "string \<Rightarrow> (string \<times> string) option"
  ce_layers :: "string \<Rightarrow> signature_layer list option"
  ce_verify_constraints :: "signature_layer list \<Rightarrow> (signature_layer \<Rightarrow> bool) list \<Rightarrow> bool"

definition verify_cosign_keyless ::
  "'root cosign_env \<Rightarrow> 'root trust_state \<Rightarrow> string \<Rightarrow> cosign_identity \<Rightarrow> string
    \<Rightarrow> trust_effect list \<times> (cosign_error + cosign_verify_result) \<times> 'root trust_state" where
  "verify_cosign_keyless env st img ident expected_digest =
     (if certificate_identity_regexp ident = [] \<and> oidc_issuer ident = []
      then ([], Inl CosignEmptyIdentity, st)
      else if blank expected_digest then ([], Inl (CosignMissingDigest img), st)
      else case ce_regex env (certificate_identity_regexp ident) of
        None \<Rightarrow> ([], Inl (CosignInvalidRegex (certificate_identity_regexp ident)), st)
      | Some subject_re \<Rightarrow>
        (let pinned = pin_to_digest img expected_digest in
         if \<not> ce_reference_ok env pinned then ([], Inl (CosignInvalidReference pinned), st)
         else case trust_root (ce_read env) (ce_parse_root env) (ce_online env) st of
           (eff, trust, st') \<Rightarrow>
           (eff,
            bindE trust (\<lambda>root.
            bindE (map_err CosignClientBuild (ce_client env root)) (\<lambda>_.
            case ce_triangulate env pinned of
              None \<Rightarrow> Inl (CosignTriangulate pinned)
            | Some (cosign_image, src_digest) \<Rightarrow>
              if \<not> digests_match src_digest expected_digest
              then Inl (CosignDigestMismatch img expected_digest src_digest)
              else case ce_layers env cosign_image of
                None \<Rightarrow> Inl (CosignLayers pinned)
              | Some layers \<Rightarrow>
                (let constraints = [cert_subject_regex_verify subject_re (oidc_issuer ident)];
                     matched = length (filter (\<lambda>l. list_all (\<lambda>c. c l) constraints) layers)
                 in if \<not> ce_verify_constraints env layers constraints
                    then Inl (CosignConstraint pinned matched (length layers))
                    else Inr \<lparr>signature_layer_count = length layers,
                              source_digest = src_digest\<rparr>))),
            st')))"

section \<open>Properties\<close>

lemma decoded32_Some: "decoded32 d = Some k \<longleftrightarrow> d = Some k \<and> length k = 32"
  by (auto simp: decoded32_def split: option.splits)

text \<open>The signing key used by the Ed25519 gate is always 32 bytes and comes from the named
  key of the Secret: verbatim when the value has 32 bytes, otherwise what one of the three
  decoders makes of it. No other value is accepted.\<close>

theorem load_signing_key_32_bytes:
  assumes "load_signing_key dec ans secret_name key = Inr k"
  shows "length k = 32 \<and> (\<exists>data bytes. ans = Inr (Some data) \<and> data key = Some bytes
     \<and> (if length bytes = 32 then k = bytes
        else kd_base64 dec bytes = Some k \<or> kd_base64_url dec bytes = Some k
          \<or> (valid_utf8 bytes \<and> length (trim bytes) = 64 \<and> kd_hex dec (trim bytes) = Some k)))"
proof -
  obtain d where d: "ans = Inr d"
    using assms by (cases ans) (auto simp: load_signing_key_def map_err_def)
  obtain data where data: "d = Some data"
    using assms d by (cases d) (auto simp: load_signing_key_def map_err_def)
  obtain bytes where b: "data key = Some bytes"
    using assms d data by (cases "data key") (auto simp: load_signing_key_def map_err_def)
  show ?thesis
  proof (cases "length bytes = 32")
    case True
    with assms d data b show ?thesis by (simp add: load_signing_key_def map_err_def)
  next
    case False
    with assms d data b have "length k = 32 \<and> (kd_base64 dec bytes = Some k
        \<or> kd_base64_url dec bytes = Some k
        \<or> (valid_utf8 bytes \<and> length (trim bytes) = 64 \<and> kd_hex dec (trim bytes) = Some k))"
      by (simp add: load_signing_key_def map_err_def decoded32_Some split: option.splits if_splits)
    with False d data b show ?thesis by auto
  qed
qed

theorem load_signing_key_32_bytes_witness:
  "(let raw = replicate 32 (CHR ''k'');
        dec = \<lparr>kd_base64 = (\<lambda>_. None), kd_base64_url = (\<lambda>_. None), kd_hex = (\<lambda>_. None)\<rparr>
    in load_signing_key dec (Inr (Some [''pub'' \<mapsto> raw])) ''s'' ''pub'' = Inr raw \<and> length raw = 32)"
proof -
  let ?raw = "replicate 32 (CHR ''k'')"
  let ?dec = "\<lparr>kd_base64 = (\<lambda>_. None), kd_base64_url = (\<lambda>_. None), kd_hex = (\<lambda>_. None)\<rparr>"
  have "load_signing_key ?dec (Inr (Some [''pub'' \<mapsto> ?raw])) ''s'' ''pub'' = Inr ?raw"
    by (simp add: load_signing_key_def map_err_def)
  with load_signing_key_32_bytes [OF this] show ?thesis by simp
qed

text \<open>The statement of a line, whatever its number, and the test a statement has to pass.\<close>

definition line_statement :: "slsa_decoders \<Rightarrow> string \<Rightarrow> in_toto_statement option" where
  "line_statement dec line =
     Option.bind (sd_envelope dec line) (\<lambda>p. Option.bind (sd_base64 dec (trim p)) (sd_statement dec))"

definition statement_accepted :: "string \<Rightarrow> slsa_policy \<Rightarrow> in_toto_statement \<Rightarrow> bool" where
  "statement_accepted sha policy stmt \<longleftrightarrow>
     accepted_predicate (predicate_type stmt) \<and> subject_matches (subject_sha256s stmt) sha
     \<and> predicate_source_matches (predicate_type stmt) (predicate stmt) policy"

definition provenance_lines :: "string list \<Rightarrow> string list" where
  "provenance_lines ls = filter (\<lambda>l. l \<noteq> []) (map trim ls)"

definition passed_over :: "slsa_decoders \<Rightarrow> string \<Rightarrow> slsa_policy \<Rightarrow> string \<Rightarrow> bool" where
  "passed_over dec sha policy line \<longleftrightarrow>
     (case line_statement dec line of Some s \<Rightarrow> \<not> statement_accepted sha policy s | None \<Rightarrow> False)"

lemma decode_line_Inr: "decode_line dec n line = Inr s \<longleftrightarrow> line_statement dec line = Some s"
  by (auto simp: decode_line_def line_statement_def split: option.splits)

lemma ex_nat_split: "(\<exists>k :: nat. P k) \<longleftrightarrow> P 0 \<or> (\<exists>k. P (Suc k))"
  by (metis not0_implies_Suc)

lemma slsa_lines_Inr:
  "slsa_lines dec sha policy i tot m ls = Inr r \<longleftrightarrow>
     (\<exists>k s. k < length (provenance_lines ls)
       \<and> list_all (passed_over dec sha policy) (take k (provenance_lines ls))
       \<and> line_statement dec (provenance_lines ls ! k) = Some s \<and> statement_accepted sha policy s
       \<and> r = \<lparr>envelopes_total = tot + Suc k, matched_predicate_type = predicate_type s\<rparr>)"
proof (induction ls arbitrary: i tot m)
  case (Cons l ls)
  show ?case
  proof (cases "trim l = []")
    case True
    with Cons.IH show ?thesis by (simp add: provenance_lines_def)
  next
    case False
    then have pl: "provenance_lines (l # ls) = trim l # provenance_lines ls"
      by (simp add: provenance_lines_def)
    show ?thesis
    proof (cases "decode_line dec (Suc i) (trim l)")
      case (Inl e)
      then have "line_statement dec (trim l) = None"
        using decode_line_Inr [of dec "Suc i" "trim l"] by (cases "line_statement dec (trim l)") auto
      with Inl False show ?thesis
        by (subst ex_nat_split) (simp add: pl passed_over_def)
    next
      case (Inr s)
      then have ls: "line_statement dec (trim l) = Some s" by (simp add: decode_line_Inr)
      show ?thesis
      proof (cases "statement_accepted sha policy s")
        case True
        with Inr False ls show ?thesis
          by (subst ex_nat_split) (auto simp: pl statement_accepted_def passed_over_def)
      next
        case nacc: False
        have "slsa_lines dec sha policy i tot m (l # ls)
            = slsa_lines dec sha policy (Suc i) (Suc tot)
                (if accepted_predicate (predicate_type s) then Suc m else m) ls"
          using Inr False nacc by (auto simp: statement_accepted_def)
        then obtain m' where step: "slsa_lines dec sha policy i tot m (l # ls)
            = slsa_lines dec sha policy (Suc i) (Suc tot) m' ls" ..
        show ?thesis
          unfolding step Cons.IH pl using ls nacc
          by (subst (2) ex_nat_split) (simp add: passed_over_def)
      qed
    qed
  qed
qed (simp add: provenance_lines_def)

text \<open>C29. SLSA provenance passes exactly when the first accepted statement is reached with every
  earlier line well formed: some non-blank line decodes to a statement with one of the two
  SLSA predicate types, a subject with the artefact's hash, and the configured source URI
  and tag, and every line before it decodes to a statement that is not accepted. A malformed
  line before the match fails the whole verification. The result counts the lines read and
  names the predicate type.\<close>

theorem slsa_passes_iff:
  "verify_slsa_provenance dec jsonl sha policy = Inr r \<longleftrightarrow>
     \<not> blank jsonl \<and>
     (\<exists>before line after s. provenance_lines (str_lines jsonl) = before @ line # after
       \<and> list_all (passed_over dec sha policy) before
       \<and> line_statement dec line = Some s \<and> statement_accepted sha policy s
       \<and> r = \<lparr>envelopes_total = Suc (length before), matched_predicate_type = predicate_type s\<rparr>)"
    (is "_ \<longleftrightarrow> _ \<and> ?R")
proof -
  let ?L = "provenance_lines (str_lines jsonl)"
  have "(\<exists>k s. k < length ?L \<and> list_all (passed_over dec sha policy) (take k ?L)
       \<and> line_statement dec (?L ! k) = Some s \<and> statement_accepted sha policy s
       \<and> r = \<lparr>envelopes_total = Suc k, matched_predicate_type = predicate_type s\<rparr>) \<longleftrightarrow> ?R" (is "?K \<longleftrightarrow> _")
  proof
    assume ?K
    then obtain k s where "k < length ?L" "list_all (passed_over dec sha policy) (take k ?L)"
      "line_statement dec (?L ! k) = Some s" "statement_accepted sha policy s"
      "r = \<lparr>envelopes_total = Suc k, matched_predicate_type = predicate_type s\<rparr>" by blast
    then show ?R
      by (intro exI [of _ "take k ?L"] exI [of _ "?L ! k"] exI [of _ "drop (Suc k) ?L"] exI [of _ s])
        (simp add: id_take_nth_drop)
  next
    assume ?R
    then obtain b l a s where "?L = b @ l # a" "list_all (passed_over dec sha policy) b"
      "line_statement dec l = Some s" "statement_accepted sha policy s"
      "r = \<lparr>envelopes_total = Suc (length b), matched_predicate_type = predicate_type s\<rparr>" by blast
    then show ?K by (intro exI [of _ "length b"] exI [of _ s]) simp
  qed
  then show ?thesis by (simp add: verify_slsa_provenance_def slsa_lines_Inr)
qed

lemma cosign_success:
  assumes "\<And>ls cs. ce_verify_constraints env ls cs \<Longrightarrow> \<forall>c \<in> set cs. \<exists>l \<in> set ls. c l"
    and "fst (snd (verify_cosign_keyless env st img ident d)) = Inr r"
  shows "digests_match (source_digest r) d
     \<and> (\<exists>re cosign_image layers c. ce_regex env (certificate_identity_regexp ident) = Some re
          \<and> ce_triangulate env (pin_to_digest img d) = Some (cosign_image, source_digest r)
          \<and> ce_layers env cosign_image = Some layers \<and> Some c \<in> set layers
          \<and> cs_issuer c = Some (oidc_issuer ident) \<and> re (subject_text (cs_subject c)))"
proof -
  obtain re cosign_image layers where ok:
      "ce_regex env (certificate_identity_regexp ident) = Some re"
      "ce_triangulate env (pin_to_digest img d) = Some (cosign_image, source_digest r)"
      "digests_match (source_digest r) d" "ce_layers env cosign_image = Some layers"
      "ce_verify_constraints env layers [cert_subject_regex_verify re (oidc_issuer ident)]"
    using assms(2)
    by (auto simp: verify_cosign_keyless_def Let_def bindE_Inr
        split: if_splits option.splits prod.splits)
  from assms(1) [OF ok(5)] obtain l
    where "l \<in> set layers" "cert_subject_regex_verify re (oidc_issuer ident) l" by auto
  then obtain c where "Some c \<in> set layers" "cs_issuer c = Some (oidc_issuer ident)"
      "re (subject_text (cs_subject c))"
    by (auto simp: cert_subject_regex_verify_def matches_subject_and_issuer_def
        split: option.splits if_splits)
  with ok show ?thesis by blast
qed

text \<open>Cosign keyless: a success is about the digest the caller pinned. The signature image was
  looked up for the reference pinned to that digest, the verified digest agrees with it, and
  some trusted layer carries a certificate with exactly the configured issuer and a subject
  that the configured regular expression matches. Sigstore's \<open>verify_constraints\<close> accepts
  only when every constraint holds of some layer.\<close>

theorem cosign_success_binds_digest:
  assumes "\<And>ls cs. ce_verify_constraints env ls cs \<Longrightarrow> \<forall>c \<in> set cs. \<exists>l \<in> set ls. c l"
    and "fst (snd (verify_cosign_keyless env st img ident d)) = Inr r"
  shows "digests_match (source_digest r) d
     \<and> (\<exists>re cosign_image layers c. ce_regex env (certificate_identity_regexp ident) = Some re
          \<and> ce_triangulate env (pin_to_digest img d) = Some (cosign_image, source_digest r)
          \<and> ce_layers env cosign_image = Some layers \<and> Some c \<in> set layers
          \<and> cs_issuer c = Some (oidc_issuer ident) \<and> re (subject_text (cs_subject c)))"
  using assms by (rule cosign_success)

definition sample_cosign_env :: "unit cosign_env" where
  "sample_cosign_env = \<lparr>ce_regex = (\<lambda>p. Some (starts_with p)), ce_reference_ok = (\<lambda>_. True),
     ce_read = (\<lambda>_. None), ce_parse_root = (\<lambda>_. Inr ()), ce_online = Inr (),
     ce_client = (\<lambda>_. Inr ()), ce_triangulate = (\<lambda>r. Some (''sig'', ''sha256:ab'')),
     ce_layers = (\<lambda>_. Some [Some \<lparr>cs_subject = Uri ''https://gh/rel'', cs_issuer = Some ''iss''\<rparr>]),
     ce_verify_constraints = (\<lambda>ls cs. list_all (\<lambda>c. list_ex c ls) cs)\<rparr>"

theorem cosign_success_binds_digest_witness:
  "\<exists>r. fst (snd (verify_cosign_keyless sample_cosign_env \<lparr>offline_path = None, trust_cached = None\<rparr>
        ''reg.io/p:1'' \<lparr>certificate_identity_regexp = ''https://gh/'', oidc_issuer = ''iss''\<rparr>
        ''sha256:ab'')) = Inr r \<and> digests_match (source_digest r) ''sha256:ab''"
proof -
  let ?run = "verify_cosign_keyless sample_cosign_env \<lparr>offline_path = None, trust_cached = None\<rparr>
        ''reg.io/p:1'' \<lparr>certificate_identity_regexp = ''https://gh/'', oidc_issuer = ''iss''\<rparr>
        ''sha256:ab''"
  have ok: "fst (snd ?run) = Inr \<lparr>signature_layer_count = 1, source_digest = ''sha256:ab''\<rparr>" (is "_ = Inr ?r")
    by (simp add: verify_cosign_keyless_def sample_cosign_env_def trust_root_def Let_def blank_def
        trim_def trim_end_def char_class_defs is_ws2_def is_ws3_def digests_match_def strip_sha256_def
        strip_prefix_def starts_with_def cert_subject_regex_verify_def matches_subject_and_issuer_def subject_text_def
        map_err_def)
  have "\<And>ls cs. ce_verify_constraints sample_cosign_env ls cs \<Longrightarrow> \<forall>c \<in> set cs. \<exists>l \<in> set ls. c l"
    by (simp add: sample_cosign_env_def list_all_iff list_ex_iff)
  from cosign_success_binds_digest [OF this ok] ok show ?thesis by blast
qed

text \<open>A life of the process-wide trust root: configuration calls and verifications, each with
  the answers of the file system, the parser and the network at that time. The trace holds,
  per verification, the effects and the result.\<close>

datatype 'root trust_op =
    SetPath "string option"
  | UseRoot "string \<Rightarrow> string option" "string \<Rightarrow> string + 'root" "string + 'root"

fun trust_trace ::
  "'root trust_state \<Rightarrow> 'root trust_op list \<Rightarrow> (trust_effect list \<times> (cosign_error + 'root)) list" where
  "trust_trace st [] = []"
| "trust_trace st (SetPath p # ops) = trust_trace (set_offline_trust_root_path p st) ops"
| "trust_trace st (UseRoot rd ps onl # ops) =
     (case trust_root rd ps onl st of (eff, r, st') \<Rightarrow> (eff, r) # trust_trace st' ops)"

lemma trust_trace_cached:
  "trust_cached st = Some r \<Longrightarrow> x \<in> set (trust_trace st ops) \<Longrightarrow> x = ([], Inr r)"
  by (induction st ops rule: trust_trace.induct)
    (auto simp: trust_root_def set_offline_trust_root_path_def split: option.splits)

lemma trust_root_keeps_path:
  "trust_root rd ps onl st = (eff, r, st') \<Longrightarrow> offline_path st' = offline_path st"
  by (auto simp: trust_root_def split: option.splits sum.splits)

lemma trust_root_ok_caches:
  "trust_root rd ps onl st = (eff, Inr r, st') \<Longrightarrow> trust_cached st' = Some r"
  by (auto simp: trust_root_def split: option.splits sum.splits)

lemma trust_root_no_network:
  "offline_path st = Some (Some p) \<Longrightarrow> trust_root rd ps onl st = (eff, r, st') \<Longrightarrow> NetworkFetch \<notin> set eff"
  by (auto simp: trust_root_def split: option.splits sum.splits)

lemma trust_trace_offline:
  "offline_path st = Some (Some p) \<Longrightarrow> (eff, r) \<in> set (trust_trace st ops) \<Longrightarrow> NetworkFetch \<notin> set eff"
proof (induction st ops rule: trust_trace.induct)
  case (3 st rd ps onl ops)
  obtain e x st' where u: "trust_root rd ps onl st = (e, x, st')" by (metis prod_cases3)
  with 3 trust_root_keeps_path [OF u] trust_root_no_network [OF 3(2) u] show ?case by auto
qed (auto simp: set_offline_trust_root_path_def)

lemma trust_trace_one_root:
  "i < j \<Longrightarrow> j < length (trust_trace st ops) \<Longrightarrow> snd (trust_trace st ops ! i) = Inr r
    \<Longrightarrow> trust_trace st ops ! j = ([], Inr r)"
proof (induction st ops arbitrary: i j rule: trust_trace.induct)
  case (3 st rd ps onl ops)
  obtain eff x st' where u: "trust_root rd ps onl st = (eff, x, st')" by (metis prod_cases3)
  show ?case
  proof (cases i)
    case 0
    with 3 u have "trust_cached st' = Some r" by (auto dest: trust_root_ok_caches)
    with 3(2,3) 0 u show ?thesis
      by (cases j) (auto dest: trust_trace_cached nth_mem)
  next
    case (Suc i')
    then obtain j' where "j = Suc j'" using 3(2) by (cases j) auto
    with Suc 3 u show ?thesis by auto
  qed
qed simp_all

text \<open>The trust source is fixed at boot: once an offline trust root is configured before
  anything else, no verification of the process reaches the network, whatever is configured
  later; and the first root that is built is the one every later verification uses.\<close>

theorem trust_root_fixed_at_boot:
  "((eff, r) \<in> set (trust_trace \<lparr>offline_path = None, trust_cached = None\<rparr> (SetPath (Some p) # ops))
      \<longrightarrow> NetworkFetch \<notin> set eff)
   \<and> (i < j \<and> j < length (trust_trace \<lparr>offline_path = None, trust_cached = None\<rparr> ops)
        \<and> snd (trust_trace \<lparr>offline_path = None, trust_cached = None\<rparr> ops ! i) = Inr rt
      \<longrightarrow> trust_trace \<lparr>offline_path = None, trust_cached = None\<rparr> ops ! j = ([], Inr rt))"
  by (auto simp: set_offline_trust_root_path_def intro: trust_trace_one_root
      dest: trust_trace_offline [rotated])

theorem trust_root_fixed_at_boot_witness:
  "trust_trace \<lparr>offline_path = None, trust_cached = None\<rparr>
      [SetPath (Some ''/r''), SetPath None, UseRoot (\<lambda>_. Some ''x'') (\<lambda>b. Inr b) (Inl ''net''),
       UseRoot (\<lambda>_. Some ''y'') (\<lambda>b. Inr b) (Inr ''net'')]
    = [([ReadFile ''/r''], Inr ''x''), ([], Inr ''x'')]
   \<and> NetworkFetch \<notin> set [ReadFile ''/r'']"
proof -
  let ?ops = "[SetPath None, UseRoot (\<lambda>_. Some ''x'') (\<lambda>b. Inr b) (Inl ''net''),
       UseRoot (\<lambda>_. Some ''y'') (\<lambda>b. Inr b) (Inr ''net'')]"
  have t: "trust_trace \<lparr>offline_path = None, trust_cached = None\<rparr> (SetPath (Some ''/r'') # ?ops)
    = [([ReadFile ''/r''], Inr ''x''), ([], Inr ''x'')]"
    by (simp add: set_offline_trust_root_path_def trust_root_def)
  then have "([ReadFile ''/r''], Inr ''x'') \<in> set (trust_trace \<lparr>offline_path = None, trust_cached = None\<rparr>
      (SetPath (Some ''/r'') # ?ops))" by simp
  with trust_root_fixed_at_boot t show ?thesis by simp
qed

end
