(* ===== verification/Admission.thy ===== *)
theory Admission
  imports Crd
begin

text \<open>
  The validating webhooks (\<open>src/src/admission/\<close>): the per-kind spec checks with every early
  return in source order, the tenant guard, the nine handlers, and the HTTP side (routes,
  health endpoints, the TLS gate).

  A denial names the rule and the offending field or index; the wording of the message is
  left out. \<open>admission_webhook\<close> is the contract all nine handlers share, interpreted on each
  of them. The API server's list and get calls are parameters; \<open>Inl\<close> is a failed read.
\<close>

section \<open>Requests and responses\<close>

text \<open>A review that does not convert to a request is \<open>None\<close>; a request without an object is
  a DELETE.\<close>

record 'o admission_request =
  req_object :: "'o option"
  req_old_object :: "'o option"

datatype dns_error = DnsEmpty | DnsTooLong | DnsBadChar | DnsBadEnd | DnsLabel string dns_error

datatype denial =
    FieldEmpty string "nat option"
  | FieldInvalid string "nat option" string
  | Repeated string "nat option" string
  | MutuallyExclusive string string
  | TagOnlyWithoutCosign string
  | UnknownGrant string
  | EmptyGrant string
  | BadCapability string string
  | InsecureTransport string
  | NotDnsLabel string dns_error
  | NotDnsHostname nat dns_error
  | NoCoordination string int
  | SingleNodeBackend string int
  | ClusterMissing string
  | ClusterNotReady string
  | NamespaceOwned "string list" string
  | PluginNotAllowed string string string
  | ReplicaCapExceeded string int int
  | GovernanceRefused string

datatype admission_response = InvalidReview | Allowed "string list" | Denied denial

section \<open>DNS names (\<open>validators/gateway.rs\<close>)\<close>

definition dns_char :: "char \<Rightarrow> bool" where
  "dns_char c \<longleftrightarrow> is_ascii_lowercase c \<or> is_ascii_digit c \<or> c = CHR ''-''"

definition validate_dns_label :: "string \<Rightarrow> dns_error + unit" where
  "validate_dns_label s =
     first_err
       [ensure (s \<noteq> []) DnsEmpty,
        ensure (\<not> 63 < length s) DnsTooLong,
        ensure (list_all dns_char s) DnsBadChar,
        ensure (\<not> (starts_with ''-'' s \<or> ends_with ''-'' s)) DnsBadEnd]"

definition validate_dns_hostname :: "string \<Rightarrow> dns_error + unit" where
  "validate_dns_hostname s =
     first_err
       [ensure (s \<noteq> []) DnsEmpty,
        ensure (\<not> 253 < length s) DnsTooLong,
        for_each (\<lambda>_ part. map_err (DnsLabel part) (validate_dns_label part)) 0
          (split_on (CHR ''.'') s)]"

section \<open>Plugin (\<open>validators/plugin.rs\<close>)\<close>

definition plugin_validate_cosign :: "api_crate \<Rightarrow> cosign_identity \<Rightarrow> denial + unit" where
  "plugin_validate_cosign api cosign =
     (let regex_str = trim (certificate_identity_regexp cosign);
          field = ''spec.trust.cosignIdentity.certificateIdentityRegexp''
      in first_err
        [ensure (regex_str \<noteq> []) (FieldEmpty field None),
         ensure (regex_compiles api regex_str) (FieldInvalid field None regex_str),
         ensure (starts_with ''^'' regex_str) (FieldInvalid field None regex_str),
         ensure (ends_with ''$'' regex_str) (FieldInvalid field None regex_str),
         ensure (\<not> blank (oidc_issuer cosign)) (FieldEmpty ''spec.trust.cosignIdentity.oidcIssuer'' None)])"

definition plugin_validate_spec :: "api_crate \<Rightarrow> plugin \<Rightarrow> denial + unit" where
  "plugin_validate_spec api obj =
     (let spec = pl_spec obj;
          img = trim (oci_image (p_oci spec));
          trust = p_trust spec;
          tag_only = \<not> contains_sub ''@sha256:'' img
      in first_err
        [ensure (\<not> blank (plugin_id spec)) (FieldEmpty ''spec.pluginId'' None),
         ensure (contains_char (CHR ''.'') (plugin_id spec))
           (FieldInvalid ''spec.pluginId'' None (plugin_id spec)),
         ensure (\<not> blank (plugin_version spec)) (FieldEmpty ''spec.version'' None),
         ensure (plugin_class spec \<in> set (ALL_KINDS api))
           (FieldInvalid ''spec.pluginClass'' None (plugin_class spec)),
         ensure (img \<noteq> []) (FieldEmpty ''spec.oci.image'' None),
         ensure (contains_char (CHR ''/'') img) (FieldInvalid ''spec.oci.image'' None img),
         ensure (contains_char (CHR '':'') img \<or> contains_char (CHR ''@'') img)
           (FieldInvalid ''spec.oci.image'' None img),
         ensure (\<not> (tag_only \<and> trust_cosign_identity trust = None)) (TagOnlyWithoutCosign img),
         ensure (\<not> blank (sk_secret_name (signing_key trust)))
           (FieldEmpty ''spec.trust.signingKeyRef.secretName'' None),
         ensure (\<not> blank (sk_key (signing_key trust)))
           (FieldEmpty ''spec.trust.signingKeyRef.key'' None),
         (case trust_cosign_identity trust of
            None \<Rightarrow> Inr () | Some cosign \<Rightarrow> plugin_validate_cosign api cosign),
         (case trust_slsa_provenance trust of
            None \<Rightarrow> Inr ()
          | Some slsa \<Rightarrow> first_err
              [ensure (\<not> blank (config_map_name slsa))
                 (FieldEmpty ''spec.trust.slsaProvenance.configMapName'' None),
               ensure (\<not> blank (source_uri slsa))
                 (FieldEmpty ''spec.trust.slsaProvenance.sourceUri'' None),
               ensure (\<not> blank (source_tag slsa))
                 (FieldEmpty ''spec.trust.slsaProvenance.sourceTag'' None)])])"

section \<open>Plugin set (\<open>validators/plugin_set.rs\<close>)\<close>

definition grant_check :: "api_crate \<Rightarrow> string set \<Rightarrow> string \<times> string list \<Rightarrow> denial + unit" where
  "grant_check api seen g =
     (case g of (i, capabilities) \<Rightarrow>
        first_err
          [ensure (i \<in> seen) (UnknownGrant i),
           ensure (capabilities \<noteq> []) (EmptyGrant i),
           for_each (\<lambda>_ cap. ensure (capability_parses api cap) (BadCapability i cap)) 0 capabilities])"

definition plugin_set_validate_spec :: "api_crate \<Rightarrow> plugin_set \<Rightarrow> denial + unit" where
  "plugin_set_validate_spec api obj =
     (let spec = set_spec obj in
      bindE (ensure (set_entries spec \<noteq> []) (FieldEmpty ''spec.entries'' None)) (\<lambda>_.
      bindE (scan_seen
         (\<lambda>i e. first_err
            [ensure (\<not> blank (entry_id e)) (FieldEmpty ''spec.entries.id'' (Some i)),
             ensure (contains_char (CHR ''.'') (entry_id e))
               (FieldInvalid ''spec.entries.id'' (Some i) (entry_id e))])
         entry_id
         (\<lambda>i e. Repeated ''spec.entries.id'' (Some i) (entry_id e))
         (\<lambda>i e. ensure (\<not> blank (entry_plugin_ref e)) (FieldEmpty ''spec.entries.pluginRef.name'' (Some i)))
         {} 0 (set_entries spec)) (\<lambda>seen.
      for_each (\<lambda>_. grant_check api seen) 0 (capability_grants spec))))"

section \<open>Plugin mirror, revocation list\<close>

definition plugin_mirror_validate_spec :: "plugin_mirror \<Rightarrow> denial + unit" where
  "plugin_mirror_validate_spec obj =
     (let spec = pm_spec obj; svc = endpoint_service spec in
      first_err
        [ensure (\<not> blank (svc_namespace svc)) (FieldEmpty ''spec.endpoint.service.namespace'' None),
         ensure (\<not> blank (svc_name svc)) (FieldEmpty ''spec.endpoint.service.name'' None),
         ensure (svc_port svc \<noteq> 0) (FieldInvalid ''spec.endpoint.service.port'' None ''0''),
         ensure (\<not> blank (upstream_registry spec)) (FieldEmpty ''spec.upstream.registry'' None),
         ensure (contains_char (CHR ''.'') (upstream_registry spec)
              \<or> contains_char (CHR '':'') (upstream_registry spec))
           (FieldInvalid ''spec.upstream.registry'' None (upstream_registry spec)),
         ensure (\<not> blank (upstream_namespace spec)) (FieldEmpty ''spec.upstream.namespace'' None),
         (case mirror_auth_secret spec of
            None \<Rightarrow> Inr ()
          | Some s \<Rightarrow> ensure (\<not> blank s) (FieldEmpty ''spec.auth.secretRef.secretName'' None))])"

definition SUPPORTED_VERSION :: nat where
  "SUPPORTED_VERSION = 1"

definition SHA256_HEX_LEN :: nat where
  "SHA256_HEX_LEN = 64"

definition revocation_list_validate_spec :: "revocation_list \<Rightarrow> denial + unit" where
  "revocation_list_validate_spec obj =
     (let spec = rl_spec obj in
      bindE (ensure (rl_version spec = SUPPORTED_VERSION) (FieldInvalid ''spec.version'' None [])) (\<lambda>_.
      bindE (scan_seen
         (\<lambda>i e. let sha = trim (re_artifact_sha256 e) in first_err
            [ensure (length sha = SHA256_HEX_LEN)
               (FieldInvalid ''spec.revocations.artifactSha256'' (Some i) sha),
             ensure (list_all is_ascii_hexdigit sha)
               (FieldInvalid ''spec.revocations.artifactSha256'' (Some i) sha)])
         (\<lambda>e. to_ascii_lowercase (trim (re_artifact_sha256 e)))
         (\<lambda>i e. Repeated ''spec.revocations.artifactSha256'' (Some i)
            (to_ascii_lowercase (trim (re_artifact_sha256 e))))
         (\<lambda>i e. ensure (\<not> blank (re_reason e)) (FieldEmpty ''spec.revocations.reason'' (Some i)))
         {} 0 (rl_revocations spec)) (\<lambda>_. Inr ())))"

section \<open>Cluster (\<open>validators/cluster.rs\<close>)\<close>

definition validate_managed :: "managed_coordinator \<Rightarrow> denial + unit" where
  "validate_managed m =
     first_err
       [ensure (mc_replicas m \<noteq> Some 0) (FieldInvalid ''spec.managed.replicas'' None ''0''),
        (case mc_tls m of
           Some (Some issuer) \<Rightarrow>
             ensure (\<not> blank (iss_name issuer)) (FieldEmpty ''spec.managed.tls.issuerRef.name'' None)
         | _ \<Rightarrow> Inr ())]"

definition cluster_validate_spec :: "api_crate \<Rightarrow> cluster \<Rightarrow> denial + unit" where
  "cluster_validate_spec api obj =
     (let spec = cl_spec obj in
      bindE (case cl_managed spec of
         Some managed \<Rightarrow> first_err
           [ensure (backend_is_single_node api (cl_backend spec))
              (MutuallyExclusive ''spec.managed'' ''spec.backend''),
            ensure (cl_config spec = []) (MutuallyExclusive ''spec.managed'' ''spec.config''),
            validate_managed managed]
       | None \<Rightarrow>
           if backend_is_single_node api (cl_backend spec)
           then ensure (cl_config spec = []) (FieldInvalid ''spec.config'' None (cl_backend spec))
           else ensure (cl_config spec \<noteq> []) (FieldEmpty ''spec.config'' None)) (\<lambda>_.
      bindE (case insecure_transport_reason api spec of
         Some reason \<Rightarrow> Inl (InsecureTransport reason) | None \<Rightarrow> Inr ()) (\<lambda>_.
      bindE (scan_seen
         (\<lambda>i c. first_err
            [ensure (\<not> blank (cr_name c)) (FieldEmpty ''spec.credentialRefs.name'' (Some i)),
             ensure (\<not> blank (cr_secret_name c)) (FieldEmpty ''spec.credentialRefs.secretName'' (Some i))])
         cr_name
         (\<lambda>i c. Repeated ''spec.credentialRefs.name'' (Some i) (cr_name c))
         (\<lambda>_ _. Inr ()) {} 0 (cl_credential_refs spec)) (\<lambda>_. Inr ()))))"

section \<open>Route, server\<close>

definition TENANT_UNSET_WARNING :: string where
  "TENANT_UNSET_WARNING = ''spec.attributes.tenant is unset''"

definition NOT_PINNED_WARNING :: string where
  "NOT_PINNED_WARNING = ''spec.image is not digest-pinned''"

definition route_validate_spec :: "api_crate \<Rightarrow> route \<Rightarrow> denial + string list" where
  "route_validate_spec api obj =
     (let spec = rt_spec obj in
      bindE (first_err
        [ensure (\<not> blank (rt_gateway_ref spec)) (FieldEmpty ''spec.gatewayRef.name'' None),
         ensure (rt_tools spec \<noteq> []) (FieldEmpty ''spec.match.tools'' None)]) (\<lambda>_.
      bindE (scan_seen
         (\<lambda>i t. ensure (trim t \<noteq> []) (FieldEmpty ''spec.match.tools.id'' (Some i)))
         trim
         (\<lambda>_ t. Repeated ''spec.match.tools'' None (trim t))
         (\<lambda>_ _. Inr ()) {} 0 (rt_tools spec)) (\<lambda>_.
      bindE (for_each (\<lambda>_ (chain_name, chain).
               for_each (\<lambda>i pid. ensure (\<not> blank pid) (FieldEmpty chain_name (Some i))) 0 chain) 0
             [(''spec.identityChain'', rt_identity_chain spec),
              (''spec.policyChain'', rt_policy_chain spec),
              (''spec.auditChain'', rt_audit_chain spec)]) (\<lambda>_.
      Inr (if route_tenant api spec = None then [TENANT_UNSET_WARNING] else [])))))"

definition federation_char :: "char \<Rightarrow> bool" where
  "federation_char c \<longleftrightarrow> is_ascii_alphanumeric c \<or> c = CHR ''-'' \<or> c = CHR ''_'' \<or> c = CHR ''.''"

text \<open>\<open>templates/server.rs\<close>: the gateway's own validation decides.\<close>

definition federate_governance_error :: "api_crate \<Rightarrow> server_federate \<Rightarrow> string option" where
  "federate_governance_error api fed = Option.bind (fed_governance fed) (governance_refused api)"

definition federate_check ::
  "api_crate \<Rightarrow> server_spec \<Rightarrow> string \<Rightarrow> mcp_server option \<Rightarrow> server_federate \<Rightarrow> denial + unit" where
  "federate_check api spec object_name old federate =
     (let fed_name = federation_name api spec object_name;
          unchanged = (case old of
             None \<Rightarrow> False
           | Some o' \<Rightarrow> (case sv_federate (sv_spec o') of
               None \<Rightarrow> False
             | Some previous \<Rightarrow> fed_governance previous = fed_governance federate))
      in first_err
        [ensure (\<not> blank (fed_gateway_ref federate)) (FieldEmpty ''spec.federate.gatewayRef.name'' None),
         ensure (\<not> blank fed_name) (FieldEmpty ''federation name'' None),
         ensure (list_all federation_char fed_name) (FieldInvalid ''federation name'' None fed_name),
         for_each (\<lambda>_ (field, v). case v of
               None \<Rightarrow> Inr ()
             | Some j \<Rightarrow> ensure (json_is_object j) (FieldInvalid field None [])) 0
           [(''spec.federate.governance'', fed_governance federate),
            (''spec.federate.import'', fed_import federate),
            (''spec.federate.auth'', fed_auth federate)],
         (if unchanged then Inr ()
          else case federate_governance_error api federate of
            Some e \<Rightarrow> Inl (GovernanceRefused e) | None \<Rightarrow> Inr ())])"

definition server_validate_spec ::
  "api_crate \<Rightarrow> mcp_server \<Rightarrow> mcp_server option \<Rightarrow> denial + string list" where
  "server_validate_spec api obj old =
     (let spec = sv_spec obj;
          digest_pinned = contains_sub ''@sha256:'' (sv_image spec);
          port = server_port api spec
      in bindE (first_err
        [ensure (\<not> blank (sv_image spec)) (FieldEmpty ''spec.image'' None),
         ensure (\<not> (sv_verify spec \<noteq> None \<and> \<not> digest_pinned)) (FieldInvalid ''spec.image'' None (sv_image spec)),
         ensure (1 \<le> port \<and> port \<le> 65535) (FieldInvalid ''spec.port'' None []),
         (case sv_replicas spec of
            None \<Rightarrow> Inr () | Some r \<Rightarrow> ensure (\<not> r < 0) (FieldInvalid ''spec.replicas'' None [])),
         (case sv_federate spec of
            None \<Rightarrow> Inr ()
          | Some federate \<Rightarrow> federate_check api spec
              (case meta_name (sv_meta obj) of Some n \<Rightarrow> n | None \<Rightarrow> []) old federate)]) (\<lambda>_.
      Inr (if sv_verify spec = None \<and> \<not> digest_pinned then [NOT_PINNED_WARNING] else [])))"

section \<open>Tenant (\<open>validators/tenant.rs\<close>)\<close>

definition tenant_validate_spec :: "tenant \<Rightarrow> denial + unit" where
  "tenant_validate_spec obj =
     (let spec = tn_spec obj;
          set_nonblank = (\<lambda>v. case v of None \<Rightarrow> False | Some s \<Rightarrow> \<not> blank s)
      in bindE (ensure (tn_namespaces spec \<noteq> []) (FieldEmpty ''spec.namespaces'' None)) (\<lambda>_.
      bindE (scan_seen
         (\<lambda>_ ns. ensure (\<not> blank ns) (FieldEmpty ''spec.namespaces[]'' None))
         (\<lambda>ns. ns) (\<lambda>_ ns. Repeated ''spec.namespaces'' None ns) (\<lambda>_ _. Inr ()) {} 0
         (tn_namespaces spec)) (\<lambda>_.
      first_err
        [for_each (\<lambda>i a. ensure (set_nonblank (ap_name a) \<or> set_nonblank (ap_registry_prefix a))
             (FieldEmpty ''spec.allowedPlugins'' (Some i))) 0 (tn_allowed_plugins spec),
         (case tn_quotas spec of
            None \<Rightarrow> Inr ()
          | Some q \<Rightarrow> for_each (\<lambda>_ (field, v). case v of
                None \<Rightarrow> Inr () | Some n \<Rightarrow> ensure (\<not> n < 0) (FieldInvalid field None [])) 0
              [(''spec.quotas.maxGateways'', max_gateways q),
               (''spec.quotas.maxPluginSets'', max_plugin_sets q),
               (''spec.quotas.maxRoutes'', max_routes q),
               (''spec.quotas.maxReplicasPerGateway'', max_replicas_per_gateway q)]),
         (case tn_identity_attribute_key spec of
            None \<Rightarrow> Inr ()
          | Some key \<Rightarrow> ensure (\<not> blank key) (FieldEmpty ''spec.identityAttribute.key'' None))])))"

definition check_namespace_exclusivity ::
  "api_crate \<Rightarrow> kube_error + tenant list \<Rightarrow> tenant \<Rightarrow> string \<Rightarrow> denial + unit" where
  "check_namespace_exclusivity api list_ans obj self_name =
     (case list_ans of
        Inl _ \<Rightarrow> Inr ()
      | Inr existing \<Rightarrow>
          for_each (\<lambda>_ other.
            let other_name = (case meta_name (tn_meta other) of Some n \<Rightarrow> n | None \<Rightarrow> []) in
            if other_name = self_name then Inr ()
            else let overlap = overlapping_namespaces api (tn_spec obj) (tn_spec other)
                 in ensure (overlap = []) (NamespaceOwned overlap other_name)) 0 existing)"

section \<open>Tenant guard (\<open>tenant_guard.rs\<close>)\<close>

definition owning_tenant :: "api_crate \<Rightarrow> kube_error + tenant list \<Rightarrow> string \<Rightarrow> tenant option" where
  "owning_tenant api list_ans namespace =
     (case list_ans of
        Inr items \<Rightarrow> find (\<lambda>t. owns_namespace api (tn_spec t) namespace) items
      | Inl _ \<Rightarrow> None)"

definition tenant_display_name :: "tenant \<Rightarrow> string" where
  "tenant_display_name t = (case meta_name (tn_meta t) of Some n \<Rightarrow> n | None \<Rightarrow> ''<tenant>'')"

definition enforce_pluginset_allowlist ::
  "api_crate \<Rightarrow> kube_error + tenant list \<Rightarrow> (string \<Rightarrow> kube_error + plugin option) \<Rightarrow> plugin_set
    \<Rightarrow> denial + unit" where
  "enforce_pluginset_allowlist api list_ans get_plugin obj =
     (case meta_namespace (set_meta obj) of
        None \<Rightarrow> Inr ()
      | Some namespace \<Rightarrow>
        (case owning_tenant api list_ans namespace of
           None \<Rightarrow> Inr ()
         | Some t \<Rightarrow>
           for_each (\<lambda>_ entry.
             let img = (case get_plugin (entry_plugin_ref entry) of
                          Inr (Some p) \<Rightarrow> Some (oci_image (p_oci (pl_spec p))) | _ \<Rightarrow> None)
             in ensure (plugin_allowed api (tn_spec t) (entry_plugin_ref entry) (entry_id entry) img)
                  (PluginNotAllowed (entry_plugin_ref entry) (entry_id entry) (tenant_display_name t)))
             0 (set_entries (set_spec obj))))"

definition enforce_gateway_replica_cap ::
  "api_crate \<Rightarrow> kube_error + tenant list \<Rightarrow> gateway \<Rightarrow> denial + unit" where
  "enforce_gateway_replica_cap api list_ans obj =
     (case meta_namespace (gw_meta obj) of
        None \<Rightarrow> Inr ()
      | Some namespace \<Rightarrow>
        (case owning_tenant api list_ans namespace of
           None \<Rightarrow> Inr ()
         | Some t \<Rightarrow>
           (case Option.bind (tn_quotas (tn_spec t)) max_replicas_per_gateway of
              None \<Rightarrow> Inr ()
            | Some cap \<Rightarrow>
              (let (ceil, field) = effective_replica_ceiling api (gw_spec obj)
               in ensure (\<not> cap < ceil) (ReplicaCapExceeded field ceil cap)))))"

section \<open>Gateway (\<open>validators/gateway.rs\<close>)\<close>

definition validate_cloud :: "gateway_cloud \<Rightarrow> denial + unit" where
  "validate_cloud cloud =
     (let url = trim (external_url cloud) in
      first_err
        [map_err (NotDnsLabel ''spec.cloud.instanceSlug'') (validate_dns_label (instance_slug cloud)),
         map_err (NotDnsLabel ''spec.cloud.orgSlug'') (validate_dns_label (org_slug cloud)),
         ensure (url \<noteq> []) (FieldEmpty ''spec.cloud.externalUrl'' None),
         ensure (starts_with ''https://'' url \<or> starts_with ''http://'' url)
           (FieldInvalid ''spec.cloud.externalUrl'' None url),
         for_each (\<lambda>i d. map_err (NotDnsHostname i) (validate_dns_hostname d)) 0 (custom_domains cloud)])"

text \<open>The loop over the secret mounts keeps two sets: names, and paths without trailing
  slashes.\<close>

fun scan_mounts :: "string set \<Rightarrow> string set \<Rightarrow> nat \<Rightarrow> secret_mount list \<Rightarrow> denial + unit" where
  "scan_mounts names paths i [] = Inr ()"
| "scan_mounts names paths i (m # ms) =
     (let p = trim_end_matches (CHR ''/'') (sm_mount_path m) in
      if blank (sm_name m) then Inl (FieldEmpty ''spec.secretMounts.name'' (Some i))
      else if \<not> starts_with ''/'' (sm_mount_path m)
      then Inl (FieldInvalid ''spec.secretMounts.mountPath'' (Some i) (sm_mount_path m))
      else if sm_name m \<in> names then Inl (Repeated ''spec.secretMounts.name'' (Some i) (sm_name m))
      else if p \<in> paths then Inl (Repeated ''spec.secretMounts.mountPath'' (Some i) (sm_mount_path m))
      else scan_mounts (insert (sm_name m) names) (insert p paths) (Suc i) ms)"

definition ingress_check :: "gateway_ingress \<Rightarrow> denial + unit" where
  "ingress_check ing =
     first_err
       [ensure (\<not> blank (ingress_class_name ing)) (FieldEmpty ''spec.ingress.ingressClassName'' None),
        ensure (ingress_hosts ing \<noteq> []) (FieldEmpty ''spec.ingress.hosts'' None),
        for_each (\<lambda>i h. first_err
          [ensure (\<not> blank (ih_host h)) (FieldEmpty ''spec.ingress.hosts.host'' (Some i)),
           ensure (ih_paths h \<noteq> []) (FieldEmpty ''spec.ingress.hosts.paths'' (Some i))]) 0
          (ingress_hosts ing)]"

text \<open>The comparison of resource requests with limits has no effect: the loop only
  continues.\<close>

definition resources_check :: "gateway_resources \<Rightarrow> denial + unit" where
  "resources_check rr =
     for_each (\<lambda>_ (k, req). case map_of (res_limits rr) k of
        None \<Rightarrow> Inr () | Some l \<Rightarrow> if req = l then Inr () else Inr ()) 0 (res_requests rr)"

definition gateway_validate_spec :: "gateway \<Rightarrow> denial + unit" where
  "gateway_validate_spec obj =
     (let spec = gw_spec obj in
      first_err
        [ensure (\<not> gw_replicas spec < 1) (FieldInvalid ''spec.replicas'' None []),
         ensure (case gw_image_tag spec of None \<Rightarrow> False | Some t \<Rightarrow> \<not> blank t)
           (FieldEmpty ''spec.image.tag'' None),
         (case gw_resources spec of None \<Rightarrow> Inr () | Some rr \<Rightarrow> resources_check rr),
         (case gw_workload_identity spec of
            None \<Rightarrow> Inr ()
          | Some wi \<Rightarrow>
              ensure (length (filter id [wi_aws wi \<noteq> None, wi_gcp wi \<noteq> None, wi_azure wi \<noteq> None,
                wi_spiffe wi \<noteq> None]) \<le> 1) (FieldInvalid ''spec.workloadIdentity'' None [])),
         for_each (\<lambda>i s. ensure (\<not> blank s) (FieldEmpty ''spec.envFromSecrets.name'' (Some i))) 0
           (gw_env_from_secrets spec),
         scan_mounts {} {} 0 (gw_secret_mounts spec),
         (case gw_ingress spec of None \<Rightarrow> Inr () | Some ing \<Rightarrow> ingress_check ing),
         (case gw_cloud spec of
            None \<Rightarrow> Inr ()
          | Some cloud \<Rightarrow> first_err
              [ensure (gw_ingress spec = None) (MutuallyExclusive ''spec.ingress'' ''spec.cloud''),
               validate_cloud cloud])])"

datatype coordination = SingleReplica | InlineBackend | RefTo string

definition inline_cluster_kind :: "json \<Rightarrow> string option" where
  "inline_cluster_kind config =
     (case json_get ''cluster'' config of
        None \<Rightarrow> None
      | Some cl \<Rightarrow>
          if \<not> json_is_object cl then None
          else Some (case Option.bind (json_get ''kind'' cl) json_as_str of
                       Some k \<Rightarrow> k | None \<Rightarrow> ''single_node''))"

definition coordination_path :: "api_crate \<Rightarrow> gateway_spec \<Rightarrow> denial + coordination" where
  "coordination_path api spec =
     (let (ceil, field) = effective_replica_ceiling api spec in
      if ceil \<le> 1 then Inr SingleReplica
      else case gw_cluster_ref spec of
        Some r \<Rightarrow> Inr (RefTo r)
      | None \<Rightarrow>
        (case inline_cluster_kind (gw_config spec) of
           None \<Rightarrow> Inl (NoCoordination field ceil)
         | Some k \<Rightarrow> if k = ''single_node'' then Inl (SingleNodeBackend field ceil)
                     else Inr InlineBackend))"

definition binding_already_admitted :: "api_crate \<Rightarrow> gateway option \<Rightarrow> gateway \<Rightarrow> bool" where
  "binding_already_admitted api old new =
     (case old of
        None \<Rightarrow> False
      | Some g \<Rightarrow> 1 < fst (effective_replica_ceiling api (gw_spec g))
          \<and> gw_cluster_ref (gw_spec g) = gw_cluster_ref (gw_spec new))"

definition judge_referenced_cluster ::
  "api_crate \<Rightarrow> string \<Rightarrow> int \<Rightarrow> string \<Rightarrow> cluster option \<Rightarrow> denial + unit" where
  "judge_referenced_cluster api name ceil field found =
     (case found of
        None \<Rightarrow> Inl (ClusterMissing name)
      | Some c \<Rightarrow>
          if is_effectively_single_node api (cl_spec c) then Inl (SingleNodeBackend field ceil)
          else if \<not> (case cl_conditions c of None \<Rightarrow> False | Some cs \<Rightarrow> cond_true ''Ready'' cs)
          then Inl (ClusterNotReady name)
          else Inr ())"

definition enforce_multi_replica_coordination ::
  "api_crate \<Rightarrow> (string \<Rightarrow> kube_error + cluster option) \<Rightarrow> gateway \<Rightarrow> gateway option \<Rightarrow> denial + unit" where
  "enforce_multi_replica_coordination api get_cluster obj old =
     bindE (coordination_path api (gw_spec obj)) (\<lambda>path.
     case path of
       SingleReplica \<Rightarrow> Inr ()
     | InlineBackend \<Rightarrow> Inr ()
     | RefTo name \<Rightarrow>
         if binding_already_admitted api old obj then Inr ()
         else let (ceil, field) = effective_replica_ceiling api (gw_spec obj) in
           (case get_cluster name of
              Inr found \<Rightarrow> judge_referenced_cluster api name ceil field found
            | Inl _ \<Rightarrow> Inr ()))"

section \<open>The nine handlers\<close>

definition deny_or_allow :: "denial + string list \<Rightarrow> admission_response" where
  "deny_or_allow r = (case r of Inl reason \<Rightarrow> Denied reason | Inr ws \<Rightarrow> Allowed ws)"

definition no_warnings :: "denial + unit \<Rightarrow> denial + string list" where
  "no_warnings r = bindE r (\<lambda>_. Inr [])"

definition gateway_validate ::
  "api_crate \<Rightarrow> (string \<Rightarrow> kube_error + cluster option) \<Rightarrow> kube_error + tenant list
    \<Rightarrow> gateway admission_request option \<Rightarrow> admission_response" where
  "gateway_validate api get_cluster tenants review =
     (case review of
        None \<Rightarrow> InvalidReview
      | Some req \<Rightarrow>
        (case req_object req of
           None \<Rightarrow> Allowed []
         | Some obj \<Rightarrow>
           (case gateway_validate_spec obj of
              Inl reason \<Rightarrow> Denied reason
            | Inr _ \<Rightarrow>
              (case enforce_multi_replica_coordination api get_cluster obj (req_old_object req) of
                 Inl reason \<Rightarrow> Denied reason
               | Inr _ \<Rightarrow> deny_or_allow (no_warnings (enforce_gateway_replica_cap api tenants obj))))))"

definition plugin_set_validate ::
  "api_crate \<Rightarrow> kube_error + tenant list \<Rightarrow> (string \<Rightarrow> kube_error + plugin option)
    \<Rightarrow> plugin_set admission_request option \<Rightarrow> admission_response" where
  "plugin_set_validate api tenants get_plugin review =
     (case review of
        None \<Rightarrow> InvalidReview
      | Some req \<Rightarrow>
        (case req_object req of
           None \<Rightarrow> Allowed []
         | Some obj \<Rightarrow>
           (case plugin_set_validate_spec api obj of
              Inl reason \<Rightarrow> Denied reason
            | Inr _ \<Rightarrow> deny_or_allow (no_warnings (enforce_pluginset_allowlist api tenants get_plugin obj)))))"

definition tenant_validate ::
  "api_crate \<Rightarrow> kube_error + tenant list \<Rightarrow> tenant admission_request option \<Rightarrow> admission_response" where
  "tenant_validate api tenants review =
     (case review of
        None \<Rightarrow> InvalidReview
      | Some req \<Rightarrow>
        (case req_object req of
           None \<Rightarrow> Allowed []
         | Some obj \<Rightarrow>
           (case tenant_validate_spec obj of
              Inl reason \<Rightarrow> Denied reason
            | Inr _ \<Rightarrow>
              (let self_name = (case meta_name (tn_meta obj) of Some n \<Rightarrow> n | None \<Rightarrow> [])
               in deny_or_allow (no_warnings (check_namespace_exclusivity api tenants obj self_name))))))"

definition plugin_validate ::
  "api_crate \<Rightarrow> plugin admission_request option \<Rightarrow> admission_response" where
  "plugin_validate api review =
     (case review of
        None \<Rightarrow> InvalidReview
      | Some req \<Rightarrow>
        (case req_object req of
           None \<Rightarrow> Allowed []
         | Some obj \<Rightarrow> deny_or_allow (no_warnings (plugin_validate_spec api obj))))"

definition plugin_mirror_validate :: "plugin_mirror admission_request option \<Rightarrow> admission_response" where
  "plugin_mirror_validate review =
     (case review of
        None \<Rightarrow> InvalidReview
      | Some req \<Rightarrow>
        (case req_object req of
           None \<Rightarrow> Allowed []
         | Some obj \<Rightarrow> deny_or_allow (no_warnings (plugin_mirror_validate_spec obj))))"

definition revocation_list_validate ::
  "revocation_list admission_request option \<Rightarrow> admission_response" where
  "revocation_list_validate review =
     (case review of
        None \<Rightarrow> InvalidReview
      | Some req \<Rightarrow>
        (case req_object req of
           None \<Rightarrow> Allowed []
         | Some obj \<Rightarrow> deny_or_allow (no_warnings (revocation_list_validate_spec obj))))"

definition cluster_validate ::
  "api_crate \<Rightarrow> cluster admission_request option \<Rightarrow> admission_response" where
  "cluster_validate api review =
     (case review of
        None \<Rightarrow> InvalidReview
      | Some req \<Rightarrow>
        (case req_object req of
           None \<Rightarrow> Allowed []
         | Some obj \<Rightarrow> deny_or_allow (no_warnings (cluster_validate_spec api obj))))"

definition route_validate ::
  "api_crate \<Rightarrow> route admission_request option \<Rightarrow> admission_response" where
  "route_validate api review =
     (case review of
        None \<Rightarrow> InvalidReview
      | Some req \<Rightarrow>
        (case req_object req of
           None \<Rightarrow> Allowed []
         | Some obj \<Rightarrow> deny_or_allow (route_validate_spec api obj)))"

definition server_validate ::
  "api_crate \<Rightarrow> mcp_server admission_request option \<Rightarrow> admission_response" where
  "server_validate api review =
     (case review of
        None \<Rightarrow> InvalidReview
      | Some req \<Rightarrow>
        (case req_object req of
           None \<Rightarrow> Allowed []
         | Some obj \<Rightarrow> deny_or_allow (server_validate_spec api obj (req_old_object req))))"

section \<open>The HTTP side (\<open>server.rs\<close>, \<open>metrics.rs\<close>)\<close>

datatype crd_kind = Gateway | RevocationList | Plugin | PluginSet | Cluster | Route
  | PluginMirror | Tenant | Server

datatype endpoint = Validate crd_kind | MetricsPage | Healthz | Readyz | Reconcilez

definition admission_routes :: "(string \<times> endpoint) list" where
  "admission_routes =
     [(''/validate-mcpg-dev-v1alpha1-mcpggateway'', Validate Gateway),
      (''/validate-mcpg-dev-v1alpha1-mcpgrevocationlist'', Validate RevocationList),
      (''/validate-mcpg-dev-v1alpha1-mcpgplugin'', Validate Plugin),
      (''/validate-mcpg-dev-v1alpha1-mcpgpluginset'', Validate PluginSet),
      (''/validate-mcpg-dev-v1alpha1-mcpgcluster'', Validate Cluster),
      (''/validate-mcpg-dev-v1alpha1-mcpgroute'', Validate Route),
      (''/validate-mcpg-dev-v1alpha1-mcpgpluginmirror'', Validate PluginMirror),
      (''/validate-mcpg-dev-v1alpha1-mcpgtenant'', Validate Tenant),
      (''/validate-mcpg-dev-v1alpha1-mcpgserver'', Validate Server)]"

definition metrics_router :: "(string \<times> endpoint) list" where
  "metrics_router = [(''/metrics'', MetricsPage), (''/healthz'', Healthz), (''/readyz'', Readyz),
     (''/reconcilez'', Reconcilez)]"

text \<open>What a server start does: refuse, or serve a route table with or without TLS.
  \<open>is_file\<close> and \<open>load_pem\<close> are the file system and the TLS library.\<close>

datatype server_start = MissingTls string | TlsLoadError string
  | Serve bool "(string \<times> endpoint) list"

definition start_with :: "(string \<Rightarrow> bool) \<Rightarrow> (string \<Rightarrow> string \<Rightarrow> bool) \<Rightarrow> string
    \<Rightarrow> (string \<times> endpoint) list \<Rightarrow> server_start" where
  "start_with is_file load_pem cert_dir app =
     (let cert = cert_dir @ ''/tls.crt''; key = cert_dir @ ''/tls.key'' in
      if \<not> is_file cert \<or> \<not> is_file key then MissingTls cert_dir
      else if \<not> load_pem cert key then TlsLoadError cert_dir
      else Serve True app)"

definition run_webhook_server ::
  "(string \<Rightarrow> bool) \<Rightarrow> (string \<Rightarrow> string \<Rightarrow> bool) \<Rightarrow> string option \<Rightarrow> server_start" where
  "run_webhook_server is_file load_pem tls_cert_dir =
     (case tls_cert_dir of
        Some cert_dir \<Rightarrow> start_with is_file load_pem cert_dir (admission_routes @ metrics_router)
      | None \<Rightarrow> Serve False metrics_router)"

definition run_metrics ::
  "(string \<Rightarrow> bool) \<Rightarrow> (string \<Rightarrow> string \<Rightarrow> bool) \<Rightarrow> string option \<Rightarrow> server_start" where
  "run_metrics is_file load_pem tls_cert_dir =
     (case tls_cert_dir of
        Some cert_dir \<Rightarrow> start_with is_file load_pem cert_dir metrics_router
      | None \<Rightarrow> Serve False metrics_router)"

record health_flags =
  healthy :: bool
  ready :: bool
  reconcile_ready :: bool

definition healthz_handler :: "health_flags \<Rightarrow> nat" where
  "healthz_handler s = (if healthy s then 200 else 503)"

definition readyz_handler :: "health_flags \<Rightarrow> nat" where
  "readyz_handler s = (if ready s then 200 else 503)"

definition reconcilez_handler :: "health_flags \<Rightarrow> nat" where
  "reconcilez_handler s = (if reconcile_ready s then 200 else 503)"

end
