(* ===== verification/AdmissionFacts.thy ===== *)
theory AdmissionFacts
  imports Admission
begin

text \<open>
  What the webhooks guarantee. \<open>admission_webhook\<close> is the contract of a handler: it is
  interpreted on each of the nine handlers. The characterisations of the spec checks then
  give, for an admitted object, the facts the controllers and the gateway rely on.
\<close>

section \<open>The contract of a handler\<close>

text \<open>\<open>check obj old\<close> is the handler's verdict on an object.\<close>

locale admission_webhook =
  fixes handler :: "'o admission_request option \<Rightarrow> admission_response"
    and check :: "'o \<Rightarrow> 'o option \<Rightarrow> denial + string list"
  assumes malformed: "handler None = InvalidReview"
    and deletion: "req_object req = None \<Longrightarrow> handler (Some req) = Allowed []"
    and verdict: "req_object req = Some obj \<Longrightarrow>
      handler (Some req) = deny_or_allow (check obj (req_old_object req))"
begin

lemma allowed_iff:
  "handler (Some req) = Allowed ws \<longleftrightarrow>
     (case req_object req of
        None \<Rightarrow> ws = [] | Some obj \<Rightarrow> check obj (req_old_object req) = Inr ws)"
  using deletion verdict by (auto simp: deny_or_allow_def split: option.splits sum.splits)

lemma admitted:
  "handler (Some req) = Allowed ws \<Longrightarrow> req_object req = Some obj
    \<Longrightarrow> check obj (req_old_object req) = Inr ws"
  by (simp add: allowed_iff)

lemma denied_iff:
  "handler review = Denied e \<longleftrightarrow>
     (\<exists>req obj. review = Some req \<and> req_object req = Some obj
        \<and> check obj (req_old_object req) = Inl e)"
proof (cases review)
  case (Some req)
  then show ?thesis
    using deletion [of req] verdict [of req]
    by (cases "req_object req") (auto simp: deny_or_allow_def split: sum.splits)
qed (simp add: malformed)

lemma total: "handler review = InvalidReview \<longleftrightarrow> review = None"
proof (cases review)
  case (Some req)
  then show ?thesis
    using deletion [of req] verdict [of req]
    by (cases "req_object req") (auto simp: deny_or_allow_def split: sum.splits)
qed (simp add: malformed)

end

text \<open>The verdicts of the handlers.\<close>

definition gateway_verdict ::
  "api_crate \<Rightarrow> (string \<Rightarrow> kube_error + cluster option) \<Rightarrow> kube_error + tenant list
    \<Rightarrow> gateway \<Rightarrow> gateway option \<Rightarrow> denial + unit" where
  "gateway_verdict api get_cluster tenants obj old =
     bindE (gateway_validate_spec obj) (\<lambda>_.
     bindE (enforce_multi_replica_coordination api get_cluster obj old) (\<lambda>_.
     enforce_gateway_replica_cap api tenants obj))"

definition plugin_set_verdict ::
  "api_crate \<Rightarrow> kube_error + tenant list \<Rightarrow> (string \<Rightarrow> kube_error + plugin option)
    \<Rightarrow> plugin_set \<Rightarrow> denial + unit" where
  "plugin_set_verdict api tenants get_plugin obj =
     bindE (plugin_set_validate_spec api obj) (\<lambda>_.
     enforce_pluginset_allowlist api tenants get_plugin obj)"

definition tenant_verdict :: "api_crate \<Rightarrow> kube_error + tenant list \<Rightarrow> tenant \<Rightarrow> denial + unit" where
  "tenant_verdict api tenants obj =
     bindE (tenant_validate_spec obj) (\<lambda>_.
     check_namespace_exclusivity api tenants obj
       (case meta_name (tn_meta obj) of Some n \<Rightarrow> n | None \<Rightarrow> []))"

lemma no_warnings_Inr [simp]: "no_warnings r = Inr ws \<longleftrightarrow> r = Inr () \<and> ws = []"
  by (cases r) (auto simp: no_warnings_def)

lemma no_warnings_Inl [simp]: "no_warnings r = Inl e \<longleftrightarrow> r = Inl e"
  by (cases r) (auto simp: no_warnings_def)

lemma deny_or_allow_no_warnings:
  "deny_or_allow (no_warnings r) = (case r of Inl e \<Rightarrow> Denied e | Inr _ \<Rightarrow> Allowed [])"
  by (cases r) (auto simp: deny_or_allow_def no_warnings_def)

interpretation gateway_hook: admission_webhook "gateway_validate api get_cluster tenants"
  "\<lambda>obj old. no_warnings (gateway_verdict api get_cluster tenants obj old)"
  for api get_cluster tenants
  by unfold_locales (auto simp: gateway_validate_def gateway_verdict_def deny_or_allow_no_warnings
      bindE_def split: sum.splits)

interpretation plugin_set_hook: admission_webhook "plugin_set_validate api tenants get_plugin"
  "\<lambda>obj _. no_warnings (plugin_set_verdict api tenants get_plugin obj)"
  for api tenants get_plugin
  by unfold_locales (auto simp: plugin_set_validate_def plugin_set_verdict_def
      deny_or_allow_no_warnings bindE_def split: sum.splits)

interpretation tenant_hook: admission_webhook "tenant_validate api tenants"
  "\<lambda>obj _. no_warnings (tenant_verdict api tenants obj)"
  for api tenants
  by unfold_locales (auto simp: tenant_validate_def tenant_verdict_def deny_or_allow_no_warnings
      bindE_def Let_def split: sum.splits)

interpretation plugin_hook: admission_webhook "plugin_validate api"
  "\<lambda>obj _. no_warnings (plugin_validate_spec api obj)" for api
  by unfold_locales (auto simp: plugin_validate_def)

interpretation plugin_mirror_hook: admission_webhook plugin_mirror_validate
  "\<lambda>obj _. no_warnings (plugin_mirror_validate_spec obj)"
  by unfold_locales (auto simp: plugin_mirror_validate_def)

interpretation revocation_list_hook: admission_webhook revocation_list_validate
  "\<lambda>obj _. no_warnings (revocation_list_validate_spec obj)"
  by unfold_locales (auto simp: revocation_list_validate_def)

interpretation cluster_hook: admission_webhook "cluster_validate api"
  "\<lambda>obj _. no_warnings (cluster_validate_spec api obj)" for api
  by unfold_locales (auto simp: cluster_validate_def)

interpretation route_hook: admission_webhook "route_validate api"
  "\<lambda>obj _. route_validate_spec api obj" for api
  by unfold_locales (auto simp: route_validate_def)

interpretation server_hook: admission_webhook "server_validate api"
  "\<lambda>obj old. server_validate_spec api obj old" for api
  by unfold_locales (auto simp: server_validate_def)

section \<open>DNS names\<close>

definition dns_label :: "string \<Rightarrow> bool" where
  "dns_label s \<longleftrightarrow> s \<noteq> [] \<and> length s \<le> 63 \<and> list_all dns_char s
     \<and> hd s \<noteq> CHR ''-'' \<and> last s \<noteq> CHR ''-''"

lemma validate_dns_label_iff: "validate_dns_label s = Inr () \<longleftrightarrow> dns_label s"
proof (cases s rule: rev_cases)
  case (snoc t x)
  then show ?thesis
    by (cases t) (auto simp: validate_dns_label_def dns_label_def scan_simps starts_with_def
        ends_with_def)
qed (simp add: validate_dns_label_def dns_label_def scan_simps)

lemma dns_label_no_dot: "dns_label s \<Longrightarrow> CHR ''.'' \<notin> set s"
  by (auto simp: dns_label_def list_all_iff dns_char_def char_class_defs)

lemma validate_dns_hostname_ok:
  "validate_dns_hostname s = Inr () \<longleftrightarrow>
     s \<noteq> [] \<and> length s \<le> 253 \<and> list_all dns_label (split_on (CHR ''.'') s)"
  by (auto simp: validate_dns_hostname_def scan_simps for_each_ok validate_dns_label_iff
      list_all_length)

text \<open>A custom domain is accepted exactly when it is a dotted sequence of DNS labels of at
  most 253 bytes: each label has 1 to 63 lowercase letters, digits or hyphens, with no
  hyphen at either end.\<close>

theorem dns_hostname_iff_labels:
  "validate_dns_hostname s = Inr () \<longleftrightarrow>
     length s \<le> 253 \<and> (\<exists>labels. labels \<noteq> [] \<and> list_all dns_label labels
        \<and> s = join_with (CHR ''.'') labels)" (is "_ \<longleftrightarrow> ?R")
proof
  assume "validate_dns_hostname s = Inr ()"
  then show ?R
    unfolding validate_dns_hostname_ok
    by (intro conjI exI [of _ "split_on (CHR ''.'') s"]) auto
next
  assume ?R
  then obtain ls where ls: "length s \<le> 253" "ls \<noteq> []" "list_all dns_label ls"
      "s = join_with (CHR ''.'') ls" by blast
  have split: "split_on (CHR ''.'') s = ls"
    using ls by (auto simp: list_all_iff intro!: split_on_join_with dns_label_no_dot)
  have "s \<noteq> []"
    using ls by (cases "(CHR ''.'', ls)" rule: join_with.cases) (auto simp: dns_label_def)
  with ls split show "validate_dns_hostname s = Inr ()"
    by (simp add: validate_dns_hostname_ok)
qed

section \<open>Samples\<close>

text \<open>A concrete gateway, cluster and tenant for the witnesses.\<close>

definition sample_gateway :: gateway where
  "sample_gateway = \<lparr>gw_meta = default_meta\<lparr>meta_name := Some ''gw'', meta_namespace := Some ''team-a''\<rparr>,
     gw_spec = bare_gateway_spec\<lparr>gw_image_tag := Some ''v1'', gw_replicas := 3,
       gw_secret_mounts := [\<lparr>sm_name = ''s1'', sm_mount_path = ''/etc/a/''\<rparr>,
         \<lparr>sm_name = ''s2'', sm_mount_path = ''/etc/b''\<rparr>],
       gw_cloud := Some \<lparr>instance_slug = ''i1'', org_slug = ''org'', external_url = ''https://i1.x'',
         canonical_url = None, custom_domains = [''a.example'']\<rparr>,
       gw_cluster_ref := Some ''nats''\<rparr>, gw_status = None\<rparr>"

definition sample_clusters :: "string \<Rightarrow> kube_error + cluster option" where
  "sample_clusters n = Inr (if n = ''nats'' then Some \<lparr>cl_meta = default_meta,
     cl_spec = \<lparr>cl_managed = None, cl_backend = ''nats'', cl_config = [], cl_credential_refs = [],
       cl_plugin_ref = None\<rparr>,
     cl_conditions = Some [cond ''Ready'' ''True'' ''Reconciled'' 1]\<rparr> else None)"

definition sample_tenant :: tenant where
  "sample_tenant = \<lparr>tn_meta = default_meta\<lparr>meta_name := Some ''a''\<rparr>,
     tn_spec = \<lparr>tn_namespaces = [''team-a''],
       tn_allowed_plugins = [\<lparr>ap_name = Some ''p1'', ap_registry_prefix = None\<rparr>],
       tn_quotas = Some \<lparr>max_gateways = None, max_plugin_sets = None, max_routes = None,
         max_replicas_per_gateway = Some 4\<rparr>,
       tn_identity_attribute_key = None\<rparr>, tn_conditions = None\<rparr>"

lemma sample_gateway_admitted:
  "gateway_validate sample_api sample_clusters (Inr [sample_tenant])
     (Some \<lparr>req_object = Some sample_gateway, req_old_object = None\<rparr>) = Allowed []"
  by code_simp

section \<open>Gateways\<close>

definition mount_key :: "secret_mount \<Rightarrow> string" where
  "mount_key m = trim_end_matches (CHR ''/'') (sm_mount_path m)"

lemma scan_mounts_ok:
  "scan_mounts names paths i ms = Inr () \<longleftrightarrow>
     (\<forall>m \<in> set ms. \<not> blank (sm_name m) \<and> starts_with ''/'' (sm_mount_path m)
        \<and> sm_name m \<notin> names \<and> mount_key m \<notin> paths)
     \<and> distinct (map sm_name ms) \<and> distinct (map mount_key ms)"
proof (induction ms arbitrary: names paths i)
  case (Cons m ms)
  show ?case
    by (auto simp: Cons.IH Let_def mount_key_def [symmetric]) (metis image_eqI)+
qed simp

lemma resources_unchecked: "resources_check rr = Inr ()"
  by (auto simp: resources_check_def for_each_ok split: option.splits prod.splits)

definition well_formed_cloud :: "gateway_cloud \<Rightarrow> bool" where
  "well_formed_cloud c \<longleftrightarrow> dns_label (instance_slug c) \<and> dns_label (org_slug c)
     \<and> (starts_with ''https://'' (trim (external_url c)) \<or> starts_with ''http://'' (trim (external_url c)))
     \<and> list_all (\<lambda>d. validate_dns_hostname d = Inr ()) (custom_domains c)"

lemma validate_cloud_ok: "validate_cloud c = Inr () \<longleftrightarrow> well_formed_cloud c"
  by (auto simp: validate_cloud_def well_formed_cloud_def scan_simps Let_def validate_dns_label_iff
      for_each_ok list_all_length starts_with_def)

text \<open>The shape of an admitted gateway: at least one replica and a non-blank image tag; at
  most one workload-identity provider; secret mounts with distinct names and distinct
  absolute paths (up to trailing slashes); an ingress and a managed-cloud block never
  together; and a managed-cloud block with DNS-label slugs, an http(s) URL and well-formed
  custom domains.\<close>

theorem gateway_admitted_shape:
  assumes "gateway_validate api get_cluster tenants (Some req) = Allowed ws"
    and "req_object req = Some obj"
  shows "1 \<le> gw_replicas (gw_spec obj)
     \<and> (\<exists>t. gw_image_tag (gw_spec obj) = Some t \<and> \<not> blank t)
     \<and> (case gw_workload_identity (gw_spec obj) of
          None \<Rightarrow> True
        | Some wi \<Rightarrow> length (filter id [wi_aws wi \<noteq> None, wi_gcp wi \<noteq> None, wi_azure wi \<noteq> None, wi_spiffe wi \<noteq> None]) \<le> 1)
     \<and> distinct (map sm_name (gw_secret_mounts (gw_spec obj)))
     \<and> distinct (map mount_key (gw_secret_mounts (gw_spec obj)))
     \<and> list_all (\<lambda>m. starts_with ''/'' (sm_mount_path m)) (gw_secret_mounts (gw_spec obj))
     \<and> (case gw_cloud (gw_spec obj) of
          None \<Rightarrow> True | Some c \<Rightarrow> gw_ingress (gw_spec obj) = None \<and> well_formed_cloud c)"
proof -
  have "gateway_validate_spec obj = Inr ()"
    using gateway_hook.admitted [OF assms] by (simp add: gateway_verdict_def scan_simps)
  then show ?thesis
    by (auto simp: gateway_validate_spec_def Let_def scan_simps scan_mounts_ok validate_cloud_ok
        list_all_iff split: option.splits)
qed

theorem gateway_admitted_shape_witness:
  "1 \<le> gw_replicas (gw_spec sample_gateway)
   \<and> distinct (map mount_key (gw_secret_mounts (gw_spec sample_gateway)))"
  using gateway_admitted_shape [OF sample_gateway_admitted] by simp

text \<open>C15. Several replicas never start without coordination: an admitted gateway whose replica
  ceiling exceeds one either declares an inline backend other than \<open>single_node\<close>, or names
  a cluster which, at admission, was found, was Ready and was not single-node; the only
  exceptions are an update that keeps an already admitted binding and a failed read of the
  cluster.\<close>

theorem gateway_admitted_coordinated:
  assumes "gateway_validate api get_cluster tenants (Some req) = Allowed ws"
    and "req_object req = Some obj"
    and "1 < fst (effective_replica_ceiling api (gw_spec obj))"
  shows "case gw_cluster_ref (gw_spec obj) of
       None \<Rightarrow> (\<exists>k. inline_cluster_kind (gw_config (gw_spec obj)) = Some k \<and> k \<noteq> ''single_node'')
     | Some r \<Rightarrow>
         (\<exists>c cs. get_cluster r = Inr (Some c) \<and> \<not> is_effectively_single_node api (cl_spec c)
            \<and> cl_conditions c = Some cs \<and> cond_true ''Ready'' cs)
         \<or> (\<exists>old. req_old_object req = Some old
            \<and> 1 < fst (effective_replica_ceiling api (gw_spec old))
            \<and> gw_cluster_ref (gw_spec old) = Some r)
         \<or> (\<exists>e. get_cluster r = Inl e)"
proof -
  have "enforce_multi_replica_coordination api get_cluster obj (req_old_object req) = Inr ()"
    using gateway_hook.admitted [OF assms(1,2)] by (simp add: gateway_verdict_def scan_simps)
  with assms(3) show ?thesis
    by (auto simp: enforce_multi_replica_coordination_def coordination_path_def
        judge_referenced_cluster_def binding_already_admitted_def Let_def
        split: option.splits sum.splits if_splits prod.splits)
qed

theorem gateway_admitted_coordinated_witness:
  "\<exists>c cs. sample_clusters ''nats'' = Inr (Some c) \<and> \<not> is_effectively_single_node sample_api (cl_spec c)
     \<and> cl_conditions c = Some cs \<and> cond_true ''Ready'' cs"
  using gateway_admitted_coordinated [OF sample_gateway_admitted, of sample_gateway]
  by (simp add: sample_gateway_def sample_api_def sample_clusters_def)

section \<open>Tenants\<close>

text \<open>The tenant guards: when the tenant list was read and the namespace belongs to a tenant, an
  admitted gateway's replica ceiling is at most the tenant's cap, and an admitted plugin set
  references only plugins the tenant allows, each judged with the image of the plugin it
  resolves to.\<close>

theorem admitted_respects_tenant:
  assumes "owning_tenant api tenants ns = Some t"
  shows "(gateway_validate api get_cluster tenants (Some greq) = Allowed ws \<and> req_object greq = Some g
      \<and> meta_namespace (gw_meta g) = Some ns \<and> tn_quotas (tn_spec t) = Some q
      \<and> max_replicas_per_gateway q = Some cap
      \<longrightarrow> fst (effective_replica_ceiling api (gw_spec g)) \<le> cap)
   \<and> (plugin_set_validate api tenants get_plugin (Some preq) = Allowed ws \<and> req_object preq = Some s
      \<and> meta_namespace (set_meta s) = Some ns \<and> e \<in> set (set_entries (set_spec s))
      \<longrightarrow> plugin_allowed api (tn_spec t) (entry_plugin_ref e) (entry_id e)
           (case get_plugin (entry_plugin_ref e) of
              Inr (Some p) \<Rightarrow> Some (oci_image (p_oci (pl_spec p))) | _ \<Rightarrow> None))"
  using assms
  by (auto simp: gateway_verdict_def scan_simps enforce_gateway_replica_cap_def plugin_set_verdict_def
      enforce_pluginset_allowlist_def Let_def split: prod.splits
      dest!: gateway_hook.admitted plugin_set_hook.admitted)

theorem admitted_respects_tenant_witness:
  "owning_tenant sample_api (Inr [sample_tenant]) ''team-a'' = Some sample_tenant
   \<and> fst (effective_replica_ceiling sample_api (gw_spec sample_gateway)) \<le> 4"
proof -
  have own: "owning_tenant sample_api (Inr [sample_tenant]) ''team-a'' = Some sample_tenant"
    by (simp add: owning_tenant_def sample_api_def sample_tenant_def)
  let ?req = "\<lparr>req_object = Some sample_gateway, req_old_object = None\<rparr>"
  let ?q = "\<lparr>max_gateways = None, max_plugin_sets = None, max_routes = None,
         max_replicas_per_gateway = Some 4\<rparr>"
  have "gateway_validate sample_api sample_clusters (Inr [sample_tenant]) (Some ?req) = Allowed []
      \<and> req_object ?req = Some sample_gateway \<and> meta_namespace (gw_meta sample_gateway) = Some ''team-a''
      \<and> tn_quotas (tn_spec sample_tenant) = Some ?q \<and> max_replicas_per_gateway ?q = Some 4"
    using sample_gateway_admitted by (simp add: sample_gateway_def sample_tenant_def)
  with admitted_respects_tenant [OF own] have
    "fst (effective_replica_ceiling sample_api (gw_spec sample_gateway)) \<le> 4" by blast
  with own show ?thesis by blast
qed

text \<open>Every history of tenants that pass the webhook: created, updated in place, deleted. The list an
  admission gets is any answer: the current tenants, a list that was read before a concurrent
  write, or an error, on which the webhook admits. \<open>blind\<close> holds the names whose last write was
  not judged with the current list.\<close>

inductive tenant_store :: "api_crate \<Rightarrow> string option set \<Rightarrow> tenant list \<Rightarrow> bool" for api where
  ts_empty: "tenant_store api {} []"
| ts_create: "tenant_store api (if seen = Inr ts then blind - {Some n} else insert (Some n) blind) (ts @ [t])"
  if "tenant_store api blind ts" "meta_name (tn_meta t) = Some n" "Some n \<notin> (meta_name \<circ> tn_meta) ` set ts"
    "tenant_validate api seen (Some \<lparr>req_object = Some t, req_old_object = None\<rparr>) = Allowed ws"
| ts_update: "tenant_store api (if seen = Inr ts then blind - {meta_name (tn_meta t)} else insert (meta_name (tn_meta t)) blind)
    (ts[i := t])"
  if "tenant_store api blind ts" "i < length ts" "meta_name (tn_meta t) = meta_name (tn_meta (ts ! i))"
    "tenant_validate api seen (Some \<lparr>req_object = Some t, req_old_object = Some (ts ! i)\<rparr>) = Allowed ws"
| ts_delete: "tenant_store api blind (xs @ ys)" if "tenant_store api blind (xs @ t # ys)"

lemma check_namespace_exclusivity_ok:
  "check_namespace_exclusivity api (Inr ts) obj self = Inr () \<longleftrightarrow>
     (\<forall>t \<in> set ts. (case meta_name (tn_meta t) of Some n \<Rightarrow> n | None \<Rightarrow> []) = self
        \<or> overlapping_namespaces api (tn_spec obj) (tn_spec t) = [])"
  by (auto simp: check_namespace_exclusivity_def for_each_ok all_set_conv_all_nth Let_def)

lemma tenant_admitted_disjoint:
  assumes "\<And>a b. overlapping_namespaces api a b = [] \<longleftrightarrow> set (tn_namespaces a) \<inter> set (tn_namespaces b) = {}"
    and "tenant_validate api (Inr ts) (Some \<lparr>req_object = Some t, req_old_object = old\<rparr>) = Allowed ws"
    and "meta_name (tn_meta t) = Some n" "u \<in> set ts" "meta_name (tn_meta u) = Some m" "m \<noteq> n"
  shows "set (tn_namespaces (tn_spec t)) \<inter> set (tn_namespaces (tn_spec u)) = {}"
proof -
  have "check_namespace_exclusivity api (Inr ts) t n = Inr ()"
    using tenant_hook.admitted [OF assms(2), of t] assms(3) by (simp add: tenant_verdict_def scan_simps)
  then have "overlapping_namespaces api (tn_spec t) (tn_spec u) = []"
    unfolding check_namespace_exclusivity_ok using assms(4-6) by force
  then show ?thesis by (simp add: assms(1))
qed

definition tenants_disjoint :: "string option set \<Rightarrow> tenant list \<Rightarrow> bool" where
  "tenants_disjoint blind ts \<longleftrightarrow> distinct (map (meta_name \<circ> tn_meta) ts)
     \<and> (\<forall>t \<in> set ts. meta_name (tn_meta t) \<noteq> None)
     \<and> (\<forall>t \<in> set ts. \<forall>u \<in> set ts. meta_name (tn_meta t) \<noteq> meta_name (tn_meta u)
          \<and> meta_name (tn_meta t) \<notin> blind \<and> meta_name (tn_meta u) \<notin> blind
          \<longrightarrow> set (tn_namespaces (tn_spec t)) \<inter> set (tn_namespaces (tn_spec u)) = {})"

lemma distinct_map_set_update:
  assumes "distinct (map f xs)" "i < length xs" "f y = f (xs ! i)"
  shows "distinct (map f (xs[i := y]))" "x \<in> set (xs[i := y]) \<Longrightarrow> x = y \<or> (x \<in> set xs \<and> f x \<noteq> f y)"
proof -
  have "map f (xs[i := y]) = map f xs" using assms(2,3) by (simp add: map_update list_update_same_conv)
  with assms(1) show "distinct (map f (xs[i := y]))" by simp
  assume "x \<in> set (xs[i := y])"
  then obtain j where j: "j < length xs" "x = (xs[i := y]) ! j" by (auto simp: in_set_conv_nth)
  show "x = y \<or> (x \<in> set xs \<and> f x \<noteq> f y)"
  proof (cases "j = i")
    case False
    with j assms have "x = xs ! j" "f (xs ! j) \<noteq> f (xs ! i)"
      by (auto simp: nth_eq_iff_index_eq [of "map f xs" j i, simplified])
    with j(1) assms(3) show ?thesis by (metis nth_mem)
  qed (use j in simp)
qed

lemma tenants_disjoint_write:
  assumes inv: "tenants_disjoint blind ts" and n: "meta_name (tn_meta t) = Some n"
    and judged: "\<And>u. current \<Longrightarrow> u \<in> set ts \<Longrightarrow> meta_name (tn_meta u) \<noteq> Some n
      \<Longrightarrow> set (tn_namespaces (tn_spec t)) \<inter> set (tn_namespaces (tn_spec u)) = {}"
    and names: "distinct (map (meta_name \<circ> tn_meta) ts')"
    and old: "\<And>u. u \<in> set ts' \<Longrightarrow> u = t \<or> u \<in> set ts \<and> meta_name (tn_meta u) \<noteq> Some n"
  shows "tenants_disjoint (if current then blind - {Some n} else insert (Some n) blind) ts'" (is "tenants_disjoint ?blind _")
  unfolding tenants_disjoint_def
proof (intro conjI ballI impI)
  fix u assume "u \<in> set ts'"
  with old n inv show "meta_name (tn_meta u) \<noteq> None" by (auto simp: tenants_disjoint_def)
next
  fix u v assume uv: "u \<in> set ts'" "v \<in> set ts'"
    and ne: "meta_name (tn_meta u) \<noteq> meta_name (tn_meta v) \<and> meta_name (tn_meta u) \<notin> ?blind \<and> meta_name (tn_meta v) \<notin> ?blind"
  note o = old [OF uv(1)] old [OF uv(2)]
  have cur: "current" if "u = t \<or> v = t" using ne that n by (auto split: if_splits)
  have "u \<noteq> t \<or> v \<noteq> t" using ne by auto
  moreover have "set (tn_namespaces (tn_spec u)) \<inter> set (tn_namespaces (tn_spec v)) = {}" if "u \<noteq> t" "v \<noteq> t"
  proof -
    have "meta_name (tn_meta u) \<notin> blind" "meta_name (tn_meta v) \<notin> blind"
      using ne o that by (auto split: if_splits)
    with inv ne o that show ?thesis unfolding tenants_disjoint_def by blast
  qed
  ultimately show "set (tn_namespaces (tn_spec u)) \<inter> set (tn_namespaces (tn_spec v)) = {}"
    using judged [OF cur] o by blast
qed (rule names)

lemma disjoint_named: "tenants_disjoint blind ts \<Longrightarrow> u \<in> set ts \<Longrightarrow> \<exists>m. meta_name (tn_meta u) = Some m"
  unfolding tenants_disjoint_def by blast

lemma tenant_store_disjoint:
  assumes ov: "\<And>a b. overlapping_namespaces api a b = [] \<longleftrightarrow> set (tn_namespaces a) \<inter> set (tn_namespaces b) = {}"
    and "tenant_store api blind ts"
  shows "tenants_disjoint blind ts"
  using assms(2)
proof (induction rule: tenant_store.induct)
  case (ts_create blind ts t n seen ws)
  have judged: "set (tn_namespaces (tn_spec t)) \<inter> set (tn_namespaces (tn_spec u)) = {}"
    if "seen = Inr ts" "u \<in> set ts" "meta_name (tn_meta u) \<noteq> Some n" for u
  proof -
    from disjoint_named [OF ts_create.IH that(2)] obtain m where "meta_name (tn_meta u) = Some m" by blast
    with that tenant_admitted_disjoint [OF ov ts_create.hyps(4) [unfolded that(1)] ts_create.hyps(2) that(2)] show ?thesis by blast
  qed
  show ?case
  proof (rule tenants_disjoint_write [OF ts_create.IH ts_create.hyps(2) judged])
    show "distinct (map (meta_name \<circ> tn_meta) (ts @ [t]))"
      using ts_create.IH ts_create.hyps(2,3) by (simp add: tenants_disjoint_def)
  next
    fix u assume "u \<in> set (ts @ [t])"
    with ts_create.hyps(3) show "u = t \<or> u \<in> set ts \<and> meta_name (tn_meta u) \<noteq> Some n" by force
  qed
next
  case (ts_update blind ts i t seen ws)
  let ?f = "meta_name \<circ> tn_meta"
  have f: "?f t = ?f (ts ! i)" using ts_update.hyps by simp
  note upd = distinct_map_set_update [of ?f ts i t, OF _ ts_update.hyps(2) f]
  obtain n where n: "meta_name (tn_meta t) = Some n"
    using ts_update.IH ts_update.hyps(2,3) by (force simp: tenants_disjoint_def)
  have judged: "set (tn_namespaces (tn_spec t)) \<inter> set (tn_namespaces (tn_spec u)) = {}"
    if "seen = Inr ts" "u \<in> set ts" "meta_name (tn_meta u) \<noteq> Some n" for u
  proof -
    from disjoint_named [OF ts_update.IH that(2)] obtain m where "meta_name (tn_meta u) = Some m" by blast
    with that tenant_admitted_disjoint [OF ov ts_update.hyps(4) [unfolded that(1)] n that(2)] show ?thesis by blast
  qed
  show ?case unfolding n
  proof (rule tenants_disjoint_write [OF ts_update.IH n judged])
    show "distinct (map ?f (ts[i := t]))" using upd(1) ts_update.IH by (simp add: tenants_disjoint_def)
  next
    fix u assume "u \<in> set (ts[i := t])"
    then show "u = t \<or> u \<in> set ts \<and> meta_name (tn_meta u) \<noteq> Some n"
      using upd(2) [of u] ts_update.IH n by (simp add: tenants_disjoint_def)
  qed
next
  case (ts_delete blind xs t ys)
  then show ?case by (auto simp: tenants_disjoint_def)
qed (simp add: tenants_disjoint_def)

text \<open>C16. Namespaces are exclusively owned, in every history of admitted creations, updates and deletions,
  including admissions on a failed or outdated list: as long as the tenants that declare a namespace
  were each last written with the current list read, there is only one of them, and it is the one the
  guards find, whatever the order of the list.\<close>

theorem tenant_namespace_exclusive:
  assumes "\<And>a b. overlapping_namespaces api a b = [] \<longleftrightarrow>
      set (tn_namespaces a) \<inter> set (tn_namespaces b) = {}"
    and "\<And>s ns. owns_namespace api s ns \<longleftrightarrow> ns \<in> set (tn_namespaces s)"
    and "tenant_store api blind ts" and "t \<in> set ts" and "ns \<in> set (tn_namespaces (tn_spec t))"
    and "\<And>u. u \<in> set ts \<Longrightarrow> ns \<in> set (tn_namespaces (tn_spec u)) \<Longrightarrow> meta_name (tn_meta u) \<notin> blind"
  shows "owning_tenant api (Inr ts) ns = Some t \<and> (\<forall>u \<in> set ts. ns \<in> set (tn_namespaces (tn_spec u)) \<longrightarrow> u = t)"
proof -
  have inv: "tenants_disjoint blind ts" using tenant_store_disjoint [OF assms(1,3)] .
  have uniq: "u = t" if "u \<in> set ts" "ns \<in> set (tn_namespaces (tn_spec u))" for u
  proof -
    have "meta_name (tn_meta u) = meta_name (tn_meta t)"
      using inv that assms(4-6) unfolding tenants_disjoint_def by blast
    moreover have "inj_on (meta_name \<circ> tn_meta) (set ts)"
      using inv by (simp add: tenants_disjoint_def distinct_map)
    ultimately show ?thesis using that(1) assms(4) by (metis comp_apply inj_onD)
  qed
  obtain u where u: "find (\<lambda>t. owns_namespace api (tn_spec t) ns) ts = Some u"
    using assms(2,4,5) by (cases "find (\<lambda>t. owns_namespace api (tn_spec t) ns) ts")
      (auto simp: find_None_iff)
  then have "u \<in> set ts" "ns \<in> set (tn_namespaces (tn_spec u))"
    using assms(2) by (auto simp: find_Some_iff)
  with u uniq show ?thesis by (simp add: owning_tenant_def)
qed

lemma sample_api_overlap:
  "overlapping_namespaces sample_api a b = [] \<longleftrightarrow> set (tn_namespaces a) \<inter> set (tn_namespaces b) = {}"
  by (auto simp: sample_api_def filter_empty_conv)

lemma sample_tenant_created: "tenant_store sample_api {} [sample_tenant]"
proof -
  have "tenant_validate sample_api (Inr []) (Some \<lparr>req_object = Some sample_tenant, req_old_object = None\<rparr>)
      = Allowed []"
    by code_simp
  from ts_create [OF ts_empty _ _ this, of "''a''"] show ?thesis by (simp add: sample_tenant_def)
qed

definition intruding_tenant :: tenant where
  "intruding_tenant = sample_tenant\<lparr>tn_meta := (tn_meta sample_tenant)\<lparr>meta_name := Some ''b''\<rparr>\<rparr>"

lemma intruder_admitted_blindly: "tenant_store sample_api {Some ''b''} [sample_tenant, intruding_tenant]"
proof -
  have "tenant_validate sample_api (Inl (KubeApi 500)) (Some \<lparr>req_object = Some intruding_tenant, req_old_object = None\<rparr>)
      = Allowed []"
    by code_simp
  from ts_create [OF sample_tenant_created _ _ this, of "''b''"] show ?thesis
    by (simp add: sample_tenant_def intruding_tenant_def)
qed

theorem tenant_namespace_exclusive_witness:
  "tenant_store sample_api {} [sample_tenant] \<and> owning_tenant sample_api (Inr [sample_tenant]) ''team-a'' = Some sample_tenant"
  using tenant_namespace_exclusive [OF sample_api_overlap _ sample_tenant_created, of sample_tenant "''team-a''"]
    sample_tenant_created
  by (simp add: sample_tenant_def sample_api_def)

text \<open>The restriction is needed: with the list unreadable a second owner is admitted.\<close>

lemma fail_open_shares_namespace:
  "\<exists>blind ts t u. tenant_store sample_api blind ts \<and> t \<in> set ts \<and> u \<in> set ts \<and> meta_name (tn_meta t) \<noteq> meta_name (tn_meta u)
     \<and> ''team-a'' \<in> set (tn_namespaces (tn_spec t)) \<inter> set (tn_namespaces (tn_spec u))"
  by (intro exI conjI, rule intruder_admitted_blindly, rule list.set_intros(1), rule list.set_intros(2), rule list.set_intros(1))
    (simp_all add: intruding_tenant_def sample_tenant_def)

section \<open>Plugins, plugin sets, revocation lists, servers\<close>

lemma grant_check_ok:
  "grant_check api seen g = Inr () \<longleftrightarrow>
     (case g of (i, caps) \<Rightarrow> i \<in> seen \<and> caps \<noteq> [] \<and> list_all (capability_parses api) caps)"
  by (auto simp: grant_check_def scan_simps list_all_iff split: prod.splits)

lemma for_each_grant_check:
  "for_each (\<lambda>_. grant_check api seen) k gs = Inr () \<longleftrightarrow>
     list_all (\<lambda>(i, caps). i \<in> seen \<and> caps \<noteq> [] \<and> list_all (capability_parses api) caps) gs"
  by (simp add: for_each_const grant_check_ok)

text \<open>A plugin set passes the spec check exactly when it has entries, every entry has a dotted,
  non-blank id and a non-blank plugin reference, no id occurs twice, and every capability
  grant is non-empty, names an id of the set and lists only capabilities the gateway
  parses.\<close>

theorem plugin_set_spec_ok:
  "plugin_set_validate_spec api s = Inr () \<longleftrightarrow>
     set_entries (set_spec s) \<noteq> []
     \<and> list_all (\<lambda>e. \<not> blank (entry_id e) \<and> CHR ''.'' \<in> set (entry_id e)
          \<and> \<not> blank (entry_plugin_ref e)) (set_entries (set_spec s))
     \<and> distinct (map entry_id (set_entries (set_spec s)))
     \<and> list_all (\<lambda>(i, caps). i \<in> entry_id ` set (set_entries (set_spec s)) \<and> caps \<noteq> []
          \<and> list_all (capability_parses api) caps) (capability_grants (set_spec s))"
  by (auto simp: plugin_set_validate_spec_def for_each_grant_check scan_seen_ok_nth bindE_Inr scan_simps
      list_all_length [of _ "set_entries (set_spec s)"] contains_char_def Let_def)

lemma revocation_list_validate_spec_ok:
  "revocation_list_validate_spec rl = Inr () \<longleftrightarrow>
     rl_version (rl_spec rl) = 1
     \<and> list_all (\<lambda>e. length (trim (re_artifact_sha256 e)) = 64
          \<and> list_all is_ascii_hexdigit (trim (re_artifact_sha256 e)) \<and> \<not> blank (re_reason e))
         (rl_revocations (rl_spec rl))
     \<and> distinct (map (\<lambda>e. to_ascii_lowercase (trim (re_artifact_sha256 e))) (rl_revocations (rl_spec rl)))"
  by (auto simp: revocation_list_validate_spec_def scan_seen_ok_nth
      bindE_Inr scan_simps list_all_length Let_def SUPPORTED_VERSION_def SHA256_HEX_LEN_def)

text \<open>A revocation list passes exactly when its version is 1 and every entry has a non-blank reason
  and a hash that is 64 hex digits once trimmed, no two of them equal up to case. The check
  reads the trimmed hash: neither lower case nor the absence of surrounding white space is
  required of the stored value.\<close>

theorem revocation_list_spec_ok:
  "revocation_list_validate (Some \<lparr>req_object = Some rl, req_old_object = old\<rparr>) = Allowed [] \<longleftrightarrow>
     rl_version (rl_spec rl) = 1
     \<and> list_all (\<lambda>e. length (trim (re_artifact_sha256 e)) = 64
          \<and> list_all is_ascii_hexdigit (trim (re_artifact_sha256 e)) \<and> \<not> blank (re_reason e))
         (rl_revocations (rl_spec rl))
     \<and> distinct (map (\<lambda>e. to_ascii_lowercase (trim (re_artifact_sha256 e))) (rl_revocations (rl_spec rl)))"
  by (simp add: revocation_list_hook.allowed_iff revocation_list_validate_spec_ok)

text \<open>The trust posture of an admitted plugin: its image carries a digest or a cosign identity
  is configured; the signing key reference is complete; and a configured identity has a
  compiling pattern that starts with a caret and ends with a dollar sign (once trimmed) and
  a non-blank issuer.\<close>

theorem plugin_admitted_trust:
  assumes "plugin_validate api (Some req) = Allowed ws" and "req_object req = Some p"
  shows "(contains_sub ''@sha256:'' (trim (oci_image (p_oci (pl_spec p))))
       \<or> trust_cosign_identity (p_trust (pl_spec p)) \<noteq> None)
     \<and> \<not> blank (sk_secret_name (signing_key (p_trust (pl_spec p))))
     \<and> \<not> blank (sk_key (signing_key (p_trust (pl_spec p))))
     \<and> (case trust_cosign_identity (p_trust (pl_spec p)) of
          None \<Rightarrow> True
        | Some c \<Rightarrow> (let re = trim (certificate_identity_regexp c) in
            regex_compiles api re \<and> prefix ''^'' re \<and> suffix ''$'' re \<and> \<not> blank (oidc_issuer c)))"
proof -
  have "plugin_validate_spec api p = Inr ()"
    using plugin_hook.admitted [OF assms] by simp
  then show ?thesis
    by (auto simp: plugin_validate_spec_def plugin_validate_cosign_def scan_simps Let_def
        starts_with_prefix ends_with_suffix split: option.splits)
qed

definition sample_plugin :: plugin where
  "sample_plugin = \<lparr>pl_meta = default_meta\<lparr>meta_name := Some ''p1''\<rparr>,
     pl_spec = \<lparr>plugin_id = ''dev.mcpg.x'', plugin_version = ''1'', plugin_class = ''identity_provider'',
       p_oci = \<lparr>oci_image = ''reg.io/p:1'', pull_secret_ref = None, mirror_ref = None\<rparr>,
       p_trust = \<lparr>signing_key = \<lparr>sk_secret_name = ''keys'', sk_key = ''pub''\<rparr>,
         trust_cosign_identity = Some \<lparr>certificate_identity_regexp = ''^a$'', oidc_issuer = ''iss''\<rparr>,
         trust_slsa_provenance = None\<rparr>\<rparr>,
     pl_status = None\<rparr>"

theorem plugin_admitted_trust_witness:
  "\<exists>ws. plugin_validate sample_api (Some \<lparr>req_object = Some sample_plugin, req_old_object = None\<rparr>) = Allowed ws
   \<and> trust_cosign_identity (p_trust (pl_spec sample_plugin)) \<noteq> None"
proof -
  have ok: "plugin_validate sample_api (Some \<lparr>req_object = Some sample_plugin, req_old_object = None\<rparr>)
      = Allowed []"
    by code_simp
  have "\<not> contains_sub ''@sha256:'' (trim (oci_image (p_oci (pl_spec sample_plugin))))"
    by code_simp
  with plugin_admitted_trust [OF ok, of sample_plugin] ok show ?thesis by auto
qed

lemma federate_check_governance:
  assumes "federate_check api spec n old fed = Inr ()"
  shows "federate_governance_error api fed = None
     \<or> (\<exists>o' f'. old = Some o' \<and> sv_federate (sv_spec o') = Some f' \<and> fed_governance f' = fed_governance fed)"
  using assms by (auto simp: federate_check_def scan_simps Let_def split: option.splits if_splits)

text \<open>An admitted server with signature verification is pinned by digest; one without a digest
  is admitted with a warning; its port is a TCP port; and a federation block is
  one the gateway accepts, unless an update carries the stored block unchanged.\<close>

theorem server_admitted_facts:
  assumes "server_validate api (Some req) = Allowed ws" and "req_object req = Some obj"
  shows "(sv_verify (sv_spec obj) \<noteq> None \<longrightarrow> contains_sub ''@sha256:'' (sv_image (sv_spec obj)))
     \<and> (ws \<noteq> [] \<longleftrightarrow> \<not> contains_sub ''@sha256:'' (sv_image (sv_spec obj)))
     \<and> 1 \<le> server_port api (sv_spec obj) \<and> server_port api (sv_spec obj) \<le> 65535
     \<and> (case sv_federate (sv_spec obj) of
          None \<Rightarrow> True
        | Some fed \<Rightarrow> federate_governance_error api fed = None
            \<or> (\<exists>old f'. req_old_object req = Some old \<and> sv_federate (sv_spec old) = Some f'
                 \<and> fed_governance f' = fed_governance fed))"
  using server_hook.admitted [OF assms]
  by (auto simp: server_validate_spec_def Let_def scan_simps split: option.splits if_splits
      dest: federate_check_governance)

theorem server_admitted_facts_witness:
  "\<exists>ws. server_validate sample_api (Some \<lparr>req_object = Some \<lparr>sv_meta = default_meta,
      sv_spec = bare_server_spec ''reg.io/s:1'', sv_conditions = None\<rparr>, req_old_object = None\<rparr>) = Allowed ws \<and> ws \<noteq> []"
proof -
  let ?obj = "\<lparr>sv_meta = default_meta, sv_spec = bare_server_spec ''reg.io/s:1'', sv_conditions = None\<rparr>"
  have ok: "server_validate sample_api (Some \<lparr>req_object = Some ?obj, req_old_object = None\<rparr>)
      = Allowed [NOT_PINNED_WARNING]"
    by code_simp
  have "req_object \<lparr>req_object = Some ?obj, req_old_object = None\<rparr> = Some ?obj" by simp
  note server_admitted_facts [OF ok this]
  with ok show ?thesis by blast
qed

text \<open>Webhooks are served only over TLS: a started webhook server has a validation route exactly
  when it serves TLS, and then one for each of the nine kinds; without certificates nothing
  but the metrics and health pages is served, and the metrics server never serves a
  validation route.\<close>

theorem webhooks_only_over_tls:
  "(run_webhook_server is_file load_pem d = Serve tls app \<longrightarrow>
      (if tls then (\<forall>k. \<exists>!p. (p, Validate k) \<in> set app) else (\<forall>p k. (p, Validate k) \<notin> set app)))
   \<and> (run_metrics is_file load_pem d = Serve tls app \<longrightarrow> (\<forall>p k. (p, Validate k) \<notin> set app))"
proof -
  have routes: "\<exists>!p. (p, Validate k) \<in> set (admission_routes @ metrics_router)" for k
    by (cases k) (simp_all add: admission_routes_def metrics_router_def)
  have none: "(p, Validate k) \<notin> set metrics_router" for p k
    by (simp add: metrics_router_def)
  show ?thesis
  proof (intro conjI impI)
    assume "run_webhook_server is_file load_pem d = Serve tls app"
    then have "app = (if tls then admission_routes @ metrics_router else metrics_router)"
      by (auto simp: run_webhook_server_def start_with_def Let_def split: option.splits if_splits)
    with routes none
    show "if tls then \<forall>k. \<exists>!p. (p, Validate k) \<in> set app else \<forall>p k. (p, Validate k) \<notin> set app"
      by (cases tls) (simp_all only: if_True if_False simp_thms)
  next
    assume "run_metrics is_file load_pem d = Serve tls app"
    then have "app = metrics_router"
      by (auto simp: run_metrics_def start_with_def Let_def split: option.splits if_splits)
    with none show "\<forall>p k. (p, Validate k) \<notin> set app" by simp
  qed
qed

theorem webhooks_only_over_tls_witness:
  "run_webhook_server (\<lambda>_. True) (\<lambda>_ _. True) (Some ''/certs'') = Serve True (admission_routes @ metrics_router)
   \<and> (\<exists>!p. (p, Validate Tenant) \<in> set (admission_routes @ metrics_router))"
proof -
  have s: "run_webhook_server (\<lambda>_. True) (\<lambda>_ _. True) (Some ''/certs'')
      = Serve True (admission_routes @ metrics_router)"
    by (simp add: run_webhook_server_def start_with_def)
  with webhooks_only_over_tls [of "\<lambda>_. True" "\<lambda>_ _. True" "Some ''/certs''" True] show ?thesis
    by (metis (full_types))
qed

end
