(* ===== verification/Reconciler.thy ===== *)
theory Reconciler
  imports Crd
begin

text \<open>
  What the controllers share: the wrapper that records one reconcile metric, the error policy
  with the backoff map, and the contract of a reconcile body (\<open>cleanup_reconciler\<close>): nothing
  happens to an object without a name, a deleted object only has its finalizer released after the
  clean-up of its controller, and otherwise the finalizer is in place before anything else happens.
  \<open>reconciler\<close> is the contract of the controllers with nothing to clean up.
\<close>

type_synonym ('e) outcome_result = "'e + reconcile_action \<times> reconcile_outcome"

definition observed :: "string \<Rightarrow> ('e outcome_result \<Rightarrow> reconcile_outcome)
    \<Rightarrow> ('st, 'ob, 'e, reconcile_action \<times> reconcile_outcome) ctl
    \<Rightarrow> ('st, 'ob, 'e, reconcile_action) ctl" where
  "observed controller classify m =
     (fst m @ [ObserveReconcile controller (classify (snd m))], case snd m of
        Inl e \<Rightarrow> Inl e | Inr (action, _) \<Rightarrow> Inr action)"

text \<open>\<open>permanent\<close> errors wait for a change, the others are counted and requeued at the
  backoff delay; \<open>r\<close> is the random number of the jitter.\<close>

definition error_policy :: "('e \<Rightarrow> bool) \<Rightarrow> string \<Rightarrow> real \<Rightarrow> 'e \<Rightarrow> backoff_map
    \<Rightarrow> reconcile_action \<times> backoff_map" where
  "error_policy permanent key r err m =
     (if permanent err then (AwaitChange, m)
      else case error_backoff r key m of (delay, m') \<Rightarrow> (Requeue delay, m'))"

text \<open>The periodic resync, spread by a random number drawn from 0 to 0.4.\<close>

definition jittered_resync :: "real \<Rightarrow> nat \<Rightarrow> real" where
  "jittered_resync r base_secs = real base_secs * (8 / 10 + r)"

lemma jittered_resync_bounds:
  assumes "0 \<le> r" and "r < 4 / 10"
  shows "8 / 10 * real n \<le> jittered_resync r n" "jittered_resync r n \<le> 12 / 10 * real n"
  using assms mult_left_mono [of "8 / 10" "8 / 10 + r" "real n"] mult_left_mono [of "8 / 10 + r" "12 / 10" "real n"]
  by (simp_all add: jittered_resync_def mult.commute)

text \<open>\<open>cleanup\<close> is what a controller does for a deleted object besides releasing its finalizer.\<close>

locale cleanup_reconciler =
  fixes inner :: "'env \<Rightarrow> 'obj \<Rightarrow> ('st, 'ob, 'e, reconcile_action \<times> reconcile_outcome) ctl"
    and meta :: "'obj \<Rightarrow> object_meta"
    and cleanup :: "'env \<Rightarrow> 'obj \<Rightarrow> ('st, 'ob) effect list"
  assumes nameless: "meta_name (meta obj) = None \<Longrightarrow> fst (inner env obj) = [] \<and> isl (snd (inner env obj))"
    and cleaning: "meta_deletion_timestamp (meta obj) \<noteq> None \<Longrightarrow> x \<in> set (fst (inner env obj))
      \<Longrightarrow> x \<in> set (cleanup env obj)
        \<or> (\<exists>fs. x = MergeFinalizers (name_any (meta obj)) fs \<and> OPERATOR_FINALIZER \<notin> set fs)"
    and protected: "meta_deletion_timestamp (meta obj) = None
      \<Longrightarrow> \<not> has_finalizer (meta obj) OPERATOR_FINALIZER
      \<Longrightarrow> (fst (inner env obj) = [] \<and> isl (snd (inner env obj)))
        \<or> (\<exists>ops rest. fst (inner env obj) = PatchFinalizers (name_any (meta obj)) ops # rest)"
begin

text \<open>A child object is applied only while the finalizer protects the parent: it was there, or
  the first request of the reconcile put it there.\<close>

lemma applies_protected:
  assumes "Apply ob fm \<in> set (fst (inner env obj))" and "Apply ob fm \<notin> set (cleanup env obj)"
  shows "meta_deletion_timestamp (meta obj) = None \<and> (has_finalizer (meta obj) OPERATOR_FINALIZER
    \<or> (\<exists>ops rest. fst (inner env obj) = PatchFinalizers (name_any (meta obj)) ops # rest))"
proof -
  have "meta_deletion_timestamp (meta obj) = None"
    using cleaning [OF _ assms(1)] assms(2) by fastforce
  moreover from this protected [of obj env] assms(1)
  have "has_finalizer (meta obj) OPERATOR_FINALIZER
    \<or> (\<exists>ops rest. fst (inner env obj) = PatchFinalizers (name_any (meta obj)) ops # rest)"
    by force
  ultimately show ?thesis by blast
qed

end

locale reconciler =
  fixes inner :: "'env \<Rightarrow> 'obj \<Rightarrow> ('st, 'ob, 'e, reconcile_action \<times> reconcile_outcome) ctl"
    and meta :: "'obj \<Rightarrow> object_meta"
  assumes unnamed: "meta_name (meta obj) = None \<Longrightarrow> fst (inner env obj) = [] \<and> isl (snd (inner env obj))"
    and deleting: "meta_deletion_timestamp (meta obj) \<noteq> None \<Longrightarrow> x \<in> set (fst (inner env obj))
      \<Longrightarrow> \<exists>fs. x = MergeFinalizers (name_any (meta obj)) fs \<and> OPERATOR_FINALIZER \<notin> set fs"
    and finalizer_first: "meta_deletion_timestamp (meta obj) = None
      \<Longrightarrow> \<not> has_finalizer (meta obj) OPERATOR_FINALIZER
      \<Longrightarrow> (fst (inner env obj) = [] \<and> isl (snd (inner env obj)))
        \<or> (\<exists>ops rest. fst (inner env obj) = PatchFinalizers (name_any (meta obj)) ops # rest)"

sublocale reconciler \<subseteq> plain: cleanup_reconciler inner meta "\<lambda>_ _. []"
  by unfold_locales (use unnamed deleting finalizer_first in auto)

context reconciler
begin

lemmas applies_under_finalizer = plain.applies_protected [simplified]

lemma deleting_inert:
  assumes "meta_deletion_timestamp (meta obj) \<noteq> None"
  shows "Apply ob fm \<notin> set (fst (inner env obj))" "Pull r \<notin> set (fst (inner env obj))"
    "PatchStatus n st fm \<notin> set (fst (inner env obj))" "DeleteObj d \<notin> set (fst (inner env obj))"
  using deleting [OF assms] by fastforce+

end

text \<open>How a body opens, in every controller.\<close>

definition guarded ::
  "('fe \<Rightarrow> 'e) \<Rightarrow> (string \<Rightarrow> ('st, 'ob, 'fe, unit) ctl) \<Rightarrow> (string \<Rightarrow> ('st, 'ob, 'fe, bool) ctl)
    \<Rightarrow> object_meta \<Rightarrow> string
    \<Rightarrow> ('st, 'ob, 'e, reconcile_action \<times> reconcile_outcome) ctl
    \<Rightarrow> ('st, 'ob, 'e, reconcile_action \<times> reconcile_outcome) ctl" where
  "guarded err release ensure_fin m name body =
     (if meta_deletion_timestamp m \<noteq> None
      then bindT (lift_run err (release name)) (\<lambda>_. ret (AwaitChange, Success))
      else bindT (lift_run err (ensure_fin name)) (\<lambda>_. body))"

lemma guarded_deleting:
  assumes "meta_deletion_timestamp m = Some t"
    and "x \<in> set (fst (guarded err (\<lambda>n. remove_finalizer g p n OPERATOR_FINALIZER) en m name body))"
  shows "\<exists>fs. x = MergeFinalizers name fs \<and> OPERATOR_FINALIZER \<notin> set fs"
  using assms remove_finalizer_eff
  by (auto simp: guarded_def bindT_effects run_simps ret_def)

lemma guarded_finalizer_first:
  assumes "meta_deletion_timestamp m = None" and "\<not> has_finalizer m OPERATOR_FINALIZER"
  shows "(fst (guarded err rel (\<lambda>n. ensure_finalizer a n m OPERATOR_FINALIZER) m name body) = []
      \<and> isl (snd (guarded err rel (\<lambda>n. ensure_finalizer a n m OPERATOR_FINALIZER) m name body)))
    \<or> (\<exists>ops rest. fst (guarded err rel (\<lambda>n. ensure_finalizer a n m OPERATOR_FINALIZER) m name body)
        = PatchFinalizers name ops # rest)"
  using assms
  by (auto simp: guarded_def ensure_finalizer_def has_finalizer_def run_simps map_err_def Let_def
      split: option.splits sum.splits if_splits)

text \<open>What the body issues beside finalizer patches comes from a live object, and the result of a
  live object is the one of the body.\<close>

lemma guarded_body:
  assumes "x \<in> set (fst (guarded err (\<lambda>n. remove_finalizer g p n OPERATOR_FINALIZER)
      (\<lambda>n. ensure_finalizer a n m OPERATOR_FINALIZER) m name body))"
    and "\<And>n ops. x \<noteq> PatchFinalizers n ops" and "\<And>n fs. x \<noteq> MergeFinalizers n fs"
  shows "meta_deletion_timestamp m = None \<and> x \<in> set (fst body)"
  using assms by (auto simp: guarded_def bindT_effects run_simps split: if_splits
      dest!: remove_finalizer_eff ensure_finalizer_eff)

lemma guarded_live:
  assumes "meta_deletion_timestamp m = None" and "has_finalizer m OPERATOR_FINALIZER"
  shows "guarded err rel (\<lambda>n. ensure_finalizer a n m OPERATOR_FINALIZER) m name body = body"
  using assms by (simp add: guarded_def ensure_finalizer_def has_finalizer_def bindT_def lift_run_def ret_def
      map_err_def after_def split: option.splits)

lemma guarded_deleted:
  assumes "meta_deletion_timestamp m \<noteq> None"
  shows "guarded err rel en m name body = bindT (lift_run err (rel name)) (\<lambda>_. ret (AwaitChange, Success))"
  using assms by (simp add: guarded_def)

lemma observed_effects:
  "x \<in> set (fst (observed c f m)) \<longleftrightarrow> x \<in> set (fst m) \<or> x = ObserveReconcile c (f (snd m))"
  by (auto simp: observed_def)

lemma observed_result:
  "snd (observed c f m) = (case snd m of Inl e \<Rightarrow> Inl e | Inr r \<Rightarrow> Inr (fst r))"
  by (auto simp: observed_def split: sum.split prod.split)

text \<open>The shape of a reconcile with a clean-up, and where its effects come from.\<close>

definition guarded_cleanup ::
  "string \<Rightarrow> ('e outcome_result \<Rightarrow> reconcile_outcome) \<Rightarrow> 'e \<Rightarrow> (finalizer_error \<Rightarrow> 'e) \<Rightarrow> ('st, 'ob) effect list
    \<Rightarrow> kube_error + object_meta option \<Rightarrow> kube_error + unit \<Rightarrow> kube_error + unit \<Rightarrow> object_meta
    \<Rightarrow> (string \<Rightarrow> ('st, 'ob, 'e, reconcile_action \<times> reconcile_outcome) ctl)
    \<Rightarrow> ('st, 'ob, 'e, reconcile_action) ctl" where
  "guarded_cleanup c classify missing err cleanup get patch add m body =
     observed c classify (case meta_name m of None \<Rightarrow> throw missing
       | Some name \<Rightarrow> guarded err (\<lambda>n. after cleanup (remove_finalizer get patch n OPERATOR_FINALIZER))
           (\<lambda>n. ensure_finalizer add n m OPERATOR_FINALIZER) m name (body name))"

lemma guarded_cleanup_effects:
  fixes body :: "string \<Rightarrow> ('st, 'ob, 'e, reconcile_action \<times> reconcile_outcome) ctl"
  assumes "x \<in> set (fst (guarded_cleanup c classify missing err cleanup get patch add m body))"
  obtains (finalizer) "\<exists>n ops. x = PatchFinalizers n ops" | (released) "\<exists>n fs. x = MergeFinalizers n fs"
    | (observed) "\<exists>o'. x = ObserveReconcile c o'"
    | (cleanup) "meta_deletion_timestamp m \<noteq> None" "x \<in> set cleanup"
    | (body) name where "meta_deletion_timestamp m = None" "meta_name m = Some name" "x \<in> set (fst (body name))"
        "\<exists>pre rest. fst (guarded_cleanup c classify missing err cleanup get patch add m body)
           = pre @ fst (body name) @ rest"
proof -
  let ?inner = "case meta_name m of None \<Rightarrow> throw missing
    | Some name \<Rightarrow> guarded err (\<lambda>n. after cleanup (remove_finalizer get patch n OPERATOR_FINALIZER))
        (\<lambda>n. ensure_finalizer add n m OPERATOR_FINALIZER) m name (body name)"
  let ?en = "\<lambda>name. lift_run err (ensure_finalizer add name m OPERATOR_FINALIZER) :: ('st, 'ob, 'e, bool) ctl"
  consider "x \<in> set (fst ?inner)" | "\<exists>o'. x = ObserveReconcile c o'"
    using assms by (auto simp: guarded_cleanup_def observed_effects)
  then show thesis
  proof cases
    case 1
    then obtain name where n: "meta_name m = Some name" by (auto simp: run_simps split: option.splits)
    show thesis
    proof (cases "meta_deletion_timestamp m = None")
      case True
      let ?e = "?en name"
      have eq: "?inner = bindT ?e (\<lambda>_. body name)" using n True by (simp add: guarded_def)
      show thesis
      proof (cases "x \<in> set (fst ?e)")
        case True
        then show thesis using finalizer ensure_finalizer_eff [of x] unfolding lift_run_sel by blast
      next
        case False
        with 1 eq obtain b where "snd ?e = Inr b" "x \<in> set (fst (body name))" by (auto simp: bindT_effects)
        moreover from this have "fst (guarded_cleanup c classify missing err cleanup get patch add m body)
            = fst ?e @ fst (body name) @ [ObserveReconcile c (classify (snd ?inner))]"
          by (simp add: guarded_cleanup_def observed_def eq bindT_sel)
        ultimately show thesis using body [OF True n] by blast
      qed
    next
      case False
      with 1 n have "x \<in> set cleanup \<or> (\<exists>n fs. x = MergeFinalizers n fs)"
        using remove_finalizer_eff by (auto simp: guarded_deleted bindT_effects run_simps) blast+
      with False show thesis using cleanup released by blast
    qed
  next
    case 2
    then show thesis by (rule observed)
  qed
qed

text \<open>The helper that writes a condition from a flag.\<close>

definition set_cond ::
  "(condition \<Rightarrow> condition list \<Rightarrow> condition list) \<Rightarrow> string \<Rightarrow> bool \<Rightarrow> string \<Rightarrow> int
    \<Rightarrow> condition list \<Rightarrow> condition list" where
  "set_cond setter ty ok reason gen conditions =
     setter (cond ty (if ok then ''True'' else ''False'') reason gen) conditions"

lemma cond_true_set_cond:
  assumes "condition_setter setter"
  shows "cond_true t (set_cond setter ty ok reason gen cs) \<longleftrightarrow> (if ty = t then ok else cond_true t cs)"
  by (simp add: set_cond_def cond_true_set [OF assms])

end
