(* ===== verification/Plugin.thy ===== *)
theory Plugin
  imports Verify Reconciler
begin

text \<open>
  The plugin controller (\<open>src/src/controllers/plugin.rs\<close>): resolve where to pull from, pull,
  check the three trust layers, materialise the verified bytes as a Secret in the operator
  namespace, and report the status.

  \<open>plugin_env\<close> holds the answers of the API server, the registry, the verifiers and the API
  crate for one reconcile. A body that returns from its middle is a run whose error is
  either an error or the value returned (\<open>return_run\<close>, \<open>run_body\<close>). Timestamps and message texts
  are left out of the statuses, conditions and events.
\<close>

section \<open>Errors and the environment\<close>

datatype plugin_error =
    PKube kube_error
  | PApply apply_error
  | PStatus status_error
  | PFinalizer finalizer_error
  | PPull pull_error
  | PVerify verify_error
  | PMissingName
  | PJoin string
  | PPanic

record ('rl, 'root) plugin_env =
  pn_remove_get :: "kube_error + object_meta option"
  pn_remove_patch :: "kube_error + unit"
  pn_finalizer :: "kube_error + unit"
  pn_status_pulling :: "(kube_error + unit) \<times> (kube_error + unit)"
  pn_status_final :: "(kube_error + unit) \<times> (kube_error + unit)"
  pn_mirror :: "string \<Rightarrow> kube_error + plugin_mirror option"
  pn_rewrite :: "mirror_spec \<Rightarrow> string \<Rightarrow> string option"
  pn_svc_host :: "mirror_service \<Rightarrow> string"
  pn_pull :: pull_env
  pn_key_secret :: "string \<Rightarrow> kube_error + (string \<rightharpoonup> string) option"
  pn_decoders :: key_decoders
  pn_revocation :: "kube_error + revocation_list option"
  pn_from_file :: "revocation_list_spec \<Rightarrow> string + 'rl"
  pn_join :: "string option"
  pn_yaml_id :: "string \<Rightarrow> string option option"
  pn_host_verify :: "string \<Rightarrow> 'rl verify_options \<Rightarrow> string + verify_result"
  pn_cosign :: "'root cosign_env"
  pn_trust_state :: "'root trust_state"
  pn_config_map :: "string \<Rightarrow> kube_error + (string \<rightharpoonup> string) option"
  pn_slsa :: slsa_decoders
  pn_sha256_hex :: "string \<Rightarrow> string"
  pn_apply :: "kube_error + unit"
  pn_set_condition :: "condition \<Rightarrow> condition list \<Rightarrow> condition list"

type_synonym 'a plugin_run =
  "(plugin_status, k8s_object, plugin_error + reconcile_action \<times> reconcile_outcome, 'a) ctl"

type_synonym plugin_result =
  "(plugin_status, k8s_object, plugin_error, reconcile_action \<times> reconcile_outcome) ctl"

abbreviation plugin_fm :: string where
  "plugin_fm \<equiv> field_manager ''plugin-controller''"

definition DEFAULT_OPERATOR_NAMESPACE :: string where
  "DEFAULT_OPERATOR_NAMESPACE = ''mcpg-system''"

definition plugin_operator_namespace :: string where
  "plugin_operator_namespace = DEFAULT_OPERATOR_NAMESPACE"

section \<open>Names and the Secret\<close>

text \<open>\<open>None\<close> is a panic of a byte slice inside a character.\<close>

definition truncate_kube_name :: "(string \<Rightarrow> string) \<Rightarrow> string \<Rightarrow> nat \<Rightarrow> string option" where
  "truncate_kube_name sha_hex name max_len =
     (if length name \<le> max_len then Some name
      else Option.bind (slice_to (max_len - 9) name) (\<lambda>a.
           Option.bind (slice_to 8 (sha_hex name)) (\<lambda>b. Some (a @ ''-'' @ b))))"

definition artefact_secret_name :: "(string \<Rightarrow> string) \<Rightarrow> string \<Rightarrow> string \<Rightarrow> string option" where
  "artefact_secret_name sha_hex plugin_name sha =
     (let p = take_chars 8 sha; pre = (if p = [] then ''unknown'' else p)
      in map_option (\<lambda>truncated. ''mcpg-plugin-'' @ truncated @ ''-'' @ pre)
           (truncate_kube_name sha_hex plugin_name 50))"

definition build_artefact_secret ::
  "plugin \<Rightarrow> string \<Rightarrow> string \<Rightarrow> pull_artefact \<Rightarrow> secret" where
  "build_artefact_secret parent namespace name art =
     (let data = [''plugin.so'' \<mapsto> artifact_bytes art, ''plugin.yaml'' \<mapsto> descriptor_bytes art];
          data = (case signature_bytes art of Some sig \<Rightarrow> data(''plugin.sig'' \<mapsto> sig) | None \<Rightarrow> data);
          labels = [''app.kubernetes.io/managed-by'' \<mapsto> ''mcpg-operator'',
            ''mcpg.dev/plugin'' \<mapsto> replace_char (CHR ''.'') (CHR ''-'') (plugin_id (pl_spec parent)),
            ''mcpg.dev/version'' \<mapsto> plugin_version (pl_spec parent)];
          labels = (case artifact_sha256 art of
            Some sha \<Rightarrow> labels(''mcpg.dev/digest-prefix'' \<mapsto> take_chars 8 sha) | None \<Rightarrow> labels);
          labels = labels(''mcpg.dev/manifest-digest'' \<mapsto>
            take_chars 63 (replace_char (CHR '':'') (CHR ''-'') (manifest_digest art)))
      in \<lparr>sec_meta = default_meta\<lparr>meta_name := Some name, meta_namespace := Some namespace,
              meta_labels := Some labels\<rparr>,
          sec_type = Some ''mcpg.dev/plugin'', sec_immutable = Some True, sec_data = Some data\<rparr>)"

section \<open>Status helpers\<close>

definition plugin_conditions :: "plugin \<Rightarrow> condition list" where
  "plugin_conditions obj = (case pl_status obj of None \<Rightarrow> [] | Some s \<Rightarrow> ps_conditions s)"

definition plugin_patch ::
  "(kube_error + unit) \<times> (kube_error + unit) \<Rightarrow> plugin \<Rightarrow> plugin_status
    \<Rightarrow> (plugin_status, k8s_object) effect list" where
  "plugin_patch ans obj st =
     patch_status_logged (fst ans) (snd ans) (name_any (pl_meta obj)) st plugin_fm"

definition record_pulling ::
  "('rl, 'root) plugin_env \<Rightarrow> plugin \<Rightarrow> int \<Rightarrow> (plugin_status, k8s_object) effect list" where
  "record_pulling env obj gen =
     plugin_patch (pn_status_pulling env) obj
       (default_plugin_status
          \<lparr>ps_conditions := pn_set_condition env (cond ''Progressing'' ''True'' ''PullingArtefact'' gen)
             (plugin_conditions obj),
           ps_observed_generation := Some gen\<rparr>)"

definition record_mirror_failure ::
  "('rl, 'root) plugin_env \<Rightarrow> plugin \<Rightarrow> int \<Rightarrow> plugin_result" where
  "record_mirror_failure env obj gen =
     (let sc = pn_set_condition env;
          cs = sc (cond ''Ready'' ''False'' ''MirrorUnresolved'' gen)
                 (sc (cond ''Pulled'' ''False'' ''MirrorUnresolved'' gen) (plugin_conditions obj))
      in after (plugin_patch (pn_status_final env) obj
                  (default_plugin_status\<lparr>ps_conditions := cs, ps_observed_generation := Some gen\<rparr>)
                @ [Publish \<lparr>ev_type = Warning, ev_reason = ''MirrorUnresolved'', ev_action = ''Pull''\<rparr>])
           (ret (Requeue 60, DependencyPending)))"

definition record_pull_failure ::
  "('rl, 'root) plugin_env \<Rightarrow> plugin \<Rightarrow> int \<Rightarrow> plugin_result" where
  "record_pull_failure env obj gen =
     (let sc = pn_set_condition env;
          cs = sc (cond ''Ready'' ''False'' ''PullFailed'' gen)
                 (sc (cond ''Pulled'' ''False'' ''PullFailed'' gen) (plugin_conditions obj))
      in after (plugin_patch (pn_status_final env) obj
                  (default_plugin_status\<lparr>ps_conditions := cs, ps_observed_generation := Some gen\<rparr>)
                @ [Publish \<lparr>ev_type = Warning, ev_reason = ''PullFailed'', ev_action = ''Pull''\<rparr>])
           (ret (Requeue 60, TransientError)))"

definition record_verify_failure ::
  "('rl, 'root) plugin_env \<Rightarrow> plugin \<Rightarrow> int \<Rightarrow> string \<Rightarrow> plugin_result" where
  "record_verify_failure env obj gen digest =
     (let sc = pn_set_condition env;
          cs = sc (cond ''Ready'' ''False'' ''VerificationFailed'' gen)
                 (sc (cond ''Verified'' ''False'' ''SignatureFailed'' gen)
                   (sc (cond ''Pulled'' ''True'' ''Reconciled'' gen) (plugin_conditions obj)))
      in after (plugin_patch (pn_status_final env) obj
                  (default_plugin_status\<lparr>ps_conditions := cs, ps_observed_generation := Some gen,
                     ps_signature_valid := Some False, ps_resolved_digest := Some digest\<rparr>)
                @ [Publish \<lparr>ev_type = Warning, ev_reason = ''TrustGateFailed'', ev_action = ''Verify''\<rparr>])
           (ret (Requeue 600, PermanentError)))"

definition record_revoked ::
  "('rl, 'root) plugin_env \<Rightarrow> plugin \<Rightarrow> int \<Rightarrow> string \<Rightarrow> string \<Rightarrow> plugin_result" where
  "record_revoked env obj gen digest sha =
     (let sc = pn_set_condition env;
          cs = sc (cond ''Ready'' ''False'' ''ArtefactRevoked'' gen)
                 (sc (cond ''Revoked'' ''True'' ''ArtefactRevoked'' gen)
                   (sc (cond ''Verified'' ''True'' ''Reconciled'' gen)
                     (sc (cond ''Pulled'' ''True'' ''Reconciled'' gen) (plugin_conditions obj))))
      in after (plugin_patch (pn_status_final env) obj
                  (default_plugin_status\<lparr>ps_conditions := cs, ps_observed_generation := Some gen,
                     ps_resolved_digest := Some (if sha = [] then digest else sha),
                     ps_signature_valid := Some True, ps_revoked_by_sha := Some True\<rparr>)
                @ [Publish \<lparr>ev_type = Warning, ev_reason = ''ArtefactRevoked'', ev_action = ''Revoke''\<rparr>])
           (ret (Requeue 600, Success)))"

definition success_conditions ::
  "(condition \<Rightarrow> condition list \<Rightarrow> condition list) \<Rightarrow> int \<Rightarrow> condition list" where
  "success_conditions sc gen =
     sc (cond ''Ready'' ''True'' ''Reconciled'' gen)
       (sc (cond ''Revoked'' ''False'' ''Reconciled'' gen)
         (sc (cond ''Verified'' ''True'' ''Reconciled'' gen)
           (sc (cond ''Pulled'' ''True'' ''Reconciled'' gen) [])))"

section \<open>The steps of a reconcile\<close>

definition resolve_pull_target ::
  "('rl, 'root) plugin_env \<Rightarrow> oci_image_ref \<Rightarrow> int \<Rightarrow> plugin
    \<Rightarrow> (oci_image_ref \<times> pull_options) plugin_run" where
  "resolve_pull_target env upstream gen obj =
     (case mirror_ref upstream of
        None \<Rightarrow> ret (upstream, default_pull_options)
      | Some mname \<Rightarrow>
        (case pn_mirror env mname of
           Inl _ \<Rightarrow> throw (Inr (Requeue 30, TransientError))
         | Inr None \<Rightarrow> return_run (record_mirror_failure env obj gen)
         | Inr (Some m) \<Rightarrow>
           (case pn_rewrite env (pm_spec m) (oci_image upstream) of
              Some img \<Rightarrow>
                ret (\<lparr>oci_image = img, pull_secret_ref = mirror_auth_secret (pm_spec m), mirror_ref = None\<rparr>,
                     default_pull_options\<lparr>insecure_registries :=
                       (if endpoint_insecure (pm_spec m)
                        then [pn_svc_host env (endpoint_service (pm_spec m))] else [])\<rparr>)
            | None \<Rightarrow> return_run (record_mirror_failure env obj gen))))"

definition plugin_pull_step ::
  "('rl, 'root) plugin_env \<Rightarrow> plugin \<Rightarrow> int \<Rightarrow> oci_image_ref \<times> pull_options \<Rightarrow> pull_artefact plugin_run" where
  "plugin_pull_step env obj gen target =
     (case pull_and_unpack (pn_pull env) (fst target) (snd target) of
        (eff, Inr a) \<Rightarrow> after (eff @ [ObservePull ''success'']) (ret a)
      | (eff, Inl e) \<Rightarrow>
          after (eff @ [ObservePull ''failed'']) (return_run (record_pull_failure env obj gen)))"

text \<open>A list that the host refuses counts as no list.\<close>

definition plugin_revocations :: "('rl, 'root) plugin_env \<Rightarrow> kube_error + 'rl option" where
  "plugin_revocations env =
     (case pn_revocation env of
        Inl e \<Rightarrow> Inl e
      | Inr None \<Rightarrow> Inr None
      | Inr (Some rl) \<Rightarrow>
          (case revocation_list_from_api (pn_from_file env) (rl_spec rl) of
             Inr parsed \<Rightarrow> Inr (Some parsed) | Inl _ \<Rightarrow> Inr None))"

definition plugin_key :: "('rl, 'root) plugin_env \<Rightarrow> plugin \<Rightarrow> verify_error + string" where
  "plugin_key env obj =
     (let k = signing_key (p_trust (pl_spec obj))
      in load_signing_key (pn_decoders env) (pn_key_secret env (sk_secret_name k)) (sk_secret_name k) (sk_key k))"

definition plugin_verify_step ::
  "('rl, 'root) plugin_env \<Rightarrow> plugin \<Rightarrow> int \<Rightarrow> pull_artefact \<Rightarrow> verify_result plugin_run" where
  "plugin_verify_step env obj gen art =
     (case plugin_key env obj of
        Inl e \<Rightarrow> return_run (record_verify_failure env obj gen (manifest_digest art))
      | Inr pk \<Rightarrow>
        (case plugin_revocations env of
           Inl e \<Rightarrow> throw (Inl (PKube e))
         | Inr rl \<Rightarrow>
           (case pn_join env of
              Some e \<Rightarrow> throw (Inl (PJoin e))
            | None \<Rightarrow>
              (case verify_artefact (pn_yaml_id env) (pn_host_verify env) art pk rl
                      (plugin_id (pl_spec obj)) of
                 Inr r \<Rightarrow> ret r
               | Inl (Revoked sha _) \<Rightarrow>
                   return_run (record_revoked env obj gen (manifest_digest art) sha)
               | Inl _ \<Rightarrow> return_run (record_verify_failure env obj gen (manifest_digest art))))))"

definition plugin_cosign_step ::
  "('rl, 'root) plugin_env \<Rightarrow> plugin \<Rightarrow> int \<Rightarrow> pull_artefact \<Rightarrow> bool option plugin_run" where
  "plugin_cosign_step env obj gen art =
     (case trust_cosign_identity (p_trust (pl_spec obj)) of
        None \<Rightarrow> ret None
      | Some ident \<Rightarrow>
        (case fst (snd (verify_cosign_keyless (pn_cosign env) (pn_trust_state env)
                 (oci_image (p_oci (pl_spec obj))) ident (manifest_digest art))) of
           Inr _ \<Rightarrow> ret (Some True)
         | Inl _ \<Rightarrow> return_run (record_verify_failure env obj gen (manifest_digest art))))"

definition run_slsa_verify ::
  "('rl, 'root) plugin_env \<Rightarrow> slsa_policy \<Rightarrow> string \<Rightarrow> slsa_verify_result option" where
  "run_slsa_verify env cfg sha =
     (case pn_config_map env (config_map_name cfg) of
        Inl _ \<Rightarrow> None
      | Inr data \<Rightarrow>
        (case Option.bind data (\<lambda>d. d ''provenance.intoto.jsonl'') of
           None \<Rightarrow> None
         | Some jsonl \<Rightarrow>
           (case verify_slsa_provenance (pn_slsa env) jsonl sha cfg of
              Inr r \<Rightarrow> Some r | Inl _ \<Rightarrow> None)))"

definition plugin_slsa_step ::
  "('rl, 'root) plugin_env \<Rightarrow> plugin \<Rightarrow> int \<Rightarrow> pull_artefact \<Rightarrow> string \<Rightarrow> bool option plugin_run" where
  "plugin_slsa_step env obj gen art sha =
     (case trust_slsa_provenance (p_trust (pl_spec obj)) of
        None \<Rightarrow> ret None
      | Some cfg \<Rightarrow>
        (case run_slsa_verify env cfg sha of
           Some _ \<Rightarrow> ret (Some True)
         | None \<Rightarrow> return_run (record_verify_failure env obj gen (manifest_digest art))))"

definition plugin_materialise ::
  "('rl, 'root) plugin_env \<Rightarrow> plugin \<Rightarrow> string \<Rightarrow> int \<Rightarrow> pull_artefact \<Rightarrow> verify_result
    \<Rightarrow> bool option \<Rightarrow> bool option \<Rightarrow> (reconcile_action \<times> reconcile_outcome) plugin_run" where
  "plugin_materialise env obj name gen art vr cosign_verified slsa_verified =
     (case artefact_secret_name (pn_sha256_hex env) name (artifact_hash vr) of
        None \<Rightarrow> throw (Inl PPanic)
      | Some sname \<Rightarrow>
        bindT (question PApply (apply_owned (pn_apply env) ob_meta
                 (ObSecret (build_artefact_secret obj plugin_operator_namespace sname art)) plugin_fm)) (\<lambda>_.
        after (plugin_patch (pn_status_final env) obj
                 \<lparr>ps_conditions = success_conditions (pn_set_condition env) gen,
                  ps_observed_generation = Some gen,
                  ps_resolved_digest = Some (artifact_hash vr),
                  ps_signature_valid = Some (signature_verified vr),
                  ps_revoked_by_sha = Some False,
                  ps_cosign_verified = cosign_verified,
                  ps_slsa_verified = slsa_verified,
                  ps_artefact_secret_name = Some sname\<rparr>
               @ [Publish \<lparr>ev_type = Normal, ev_reason = ''Pulled'', ev_action = ''PullVerifyMaterialise''\<rparr>,
                  BackoffReset (resource_key ''plugin'' '''' name)])
          (ret (Requeue 600, Success))))"

definition plugin_body ::
  "('rl, 'root) plugin_env \<Rightarrow> plugin \<Rightarrow> string \<Rightarrow> plugin_result" where
  "plugin_body env obj name =
     (let gen = generation_of (pl_meta obj) in
      run_body (after (record_pulling env obj gen)
        (bindT (resolve_pull_target env (p_oci (pl_spec obj)) gen obj) (\<lambda>target.
         bindT (plugin_pull_step env obj gen target) (\<lambda>art.
         bindT (plugin_verify_step env obj gen art) (\<lambda>vr.
         let art' = art\<lparr>artifact_sha256 := Some (artifact_hash vr)\<rparr> in
         bindT (plugin_cosign_step env obj gen art') (\<lambda>cv.
         bindT (plugin_slsa_step env obj gen art' (artifact_hash vr)) (\<lambda>sv.
         plugin_materialise env obj name gen art' vr cv sv))))))))"

definition plugin_reconcile_inner ::
  "('rl, 'root) plugin_env \<Rightarrow> plugin \<Rightarrow> plugin_result" where
  "plugin_reconcile_inner env obj =
     (case meta_name (pl_meta obj) of
        None \<Rightarrow> throw PMissingName
      | Some name \<Rightarrow>
          guarded PFinalizer
            (\<lambda>n. remove_finalizer (pn_remove_get env) (pn_remove_patch env) n OPERATOR_FINALIZER)
            (\<lambda>n. ensure_finalizer (pn_finalizer env) n (pl_meta obj) OPERATOR_FINALIZER)
            (pl_meta obj) name (plugin_body env obj name))"

definition plugin_classify_outcome :: "plugin_error outcome_result \<Rightarrow> reconcile_outcome" where
  "plugin_classify_outcome r =
     (case r of Inr (_, o') \<Rightarrow> o' | Inl PMissingName \<Rightarrow> PermanentError | Inl _ \<Rightarrow> TransientError)"

definition plugin_reconcile ::
  "('rl, 'root) plugin_env \<Rightarrow> plugin \<Rightarrow> (plugin_status, k8s_object, plugin_error, reconcile_action) ctl" where
  "plugin_reconcile env obj = observed ''plugin'' plugin_classify_outcome (plugin_reconcile_inner env obj)"

definition plugin_error_policy ::
  "real \<Rightarrow> plugin \<Rightarrow> plugin_error \<Rightarrow> backoff_map \<Rightarrow> reconcile_action \<times> backoff_map" where
  "plugin_error_policy r obj err m =
     error_policy (\<lambda>e. e = PMissingName) (resource_key ''plugin'' '''' (name_any (pl_meta obj))) r err m"

section \<open>The contract of a reconciler\<close>

interpretation plugin_ctl: reconciler plugin_reconcile_inner pl_meta
proof
  fix obj :: plugin and env :: "('a, 'b) plugin_env"
  assume "meta_name (pl_meta obj) = None"
  then show "fst (plugin_reconcile_inner env obj) = [] \<and> isl (snd (plugin_reconcile_inner env obj))"
    by (simp add: plugin_reconcile_inner_def run_simps)
next
  fix obj :: plugin and env :: "('a, 'b) plugin_env" and x
  assume "meta_deletion_timestamp (pl_meta obj) \<noteq> None"
    and "x \<in> set (fst (plugin_reconcile_inner env obj))"
  then show "\<exists>fs. x = MergeFinalizers (name_any (pl_meta obj)) fs \<and> OPERATOR_FINALIZER \<notin> set fs"
    by (auto simp: plugin_reconcile_inner_def run_simps split: option.splits dest: guarded_deleting)
next
  fix obj :: plugin and env :: "('a, 'b) plugin_env"
  assume "meta_deletion_timestamp (pl_meta obj) = None" "\<not> has_finalizer (pl_meta obj) OPERATOR_FINALIZER"
  then show "fst (plugin_reconcile_inner env obj) = [] \<and> isl (snd (plugin_reconcile_inner env obj))
    \<or> (\<exists>ops rest. fst (plugin_reconcile_inner env obj)
         = PatchFinalizers (name_any (pl_meta obj)) ops # rest)"
    by (cases "meta_name (pl_meta obj)")
      (auto simp: plugin_reconcile_inner_def run_simps dest: guarded_finalizer_first)
qed

section \<open>Effects of the steps\<close>

lemma plugin_patch_eff [simp]:
  "x \<in> set (plugin_patch a obj st) \<longleftrightarrow> x = PatchStatus (name_any (pl_meta obj)) st plugin_fm"
  by (simp add: plugin_patch_def patch_status_logged_eff)

lemmas plugin_failures = record_mirror_failure_def record_pull_failure_def record_verify_failure_def
  record_revoked_def

text \<open>What only a materialised artefact leads to: an applied object, or a status that names an
  artefact Secret.\<close>

fun published :: "(plugin_status, k8s_object) effect \<Rightarrow> bool" where
  "published (Apply ob fm) = True"
| "published (PatchStatus n st fm) = (ps_artefact_secret_name st \<noteq> None)"
| "published _ = False"

lemma failures_unpublished:
  "x \<in> set (fst (record_mirror_failure env obj gen)) \<Longrightarrow> \<not> published x"
  "x \<in> set (fst (record_pull_failure env obj gen)) \<Longrightarrow> \<not> published x"
  "x \<in> set (fst (record_verify_failure env obj gen d)) \<Longrightarrow> \<not> published x"
  "x \<in> set (fst (record_revoked env obj gen d sha)) \<Longrightarrow> \<not> published x"
  by (auto simp: plugin_failures run_simps Let_def default_plugin_status_def)

lemma pull_and_unpack_eff:
  "x \<in> set (fst (pull_and_unpack pe spec options)) \<Longrightarrow> x = Pull (oci_image spec)"
  by (auto simp: pull_and_unpack_def resolve_reference_def Let_def run_simps
      split: sum.splits option.splits pull_reply.splits if_splits)

lemma resolve_unpublished:
  "x \<in> set (fst (resolve_pull_target env up gen obj)) \<Longrightarrow> \<not> published x \<and> (\<forall>r. x \<noteq> Pull r)"
  using failures_unpublished(1) [of x env obj gen]
  by (auto simp: resolve_pull_target_def run_simps record_mirror_failure_def Let_def
      split: option.splits sum.splits)

lemma pull_step_unpublished:
  assumes "x \<in> set (fst (plugin_pull_step env obj gen target))"
  shows "\<not> published x \<and> (\<forall>r. x = Pull r \<longrightarrow> r = oci_image (fst target))"
proof -
  obtain eff r where p: "(pull_and_unpack (pn_pull env) (fst target) (snd target)
      :: (plugin_status, k8s_object, pull_error, pull_artefact) ctl) = (eff, r)"
    by (metis surj_pair)
  have "\<not> published y \<and> (\<forall>r. y = Pull r \<longrightarrow> r = oci_image (fst target))" if "y \<in> set eff" for y
    using pull_and_unpack_eff [of y "pn_pull env" "fst target" "snd target"] p that by simp
  with assms p show ?thesis
    by (auto simp: plugin_pull_step_def run_simps record_pull_failure_def Let_def
        default_plugin_status_def split: sum.splits)
qed

lemma verify_step_unpublished:
  "x \<in> set (fst (plugin_verify_step env obj gen art)) \<Longrightarrow> \<not> published x \<and> (\<forall>r. x \<noteq> Pull r)"
  by (auto simp: plugin_verify_step_def run_simps plugin_failures Let_def default_plugin_status_def
      split: sum.splits option.splits verify_error.splits)

lemma cosign_step_unpublished:
  "x \<in> set (fst (plugin_cosign_step env obj gen art)) \<Longrightarrow> \<not> published x \<and> (\<forall>r. x \<noteq> Pull r)"
  by (auto simp: plugin_cosign_step_def run_simps plugin_failures Let_def default_plugin_status_def
      split: sum.splits option.splits)

lemma slsa_step_unpublished:
  "x \<in> set (fst (plugin_slsa_step env obj gen art sha)) \<Longrightarrow> \<not> published x \<and> (\<forall>r. x \<noteq> Pull r)"
  by (auto simp: plugin_slsa_step_def run_simps plugin_failures Let_def default_plugin_status_def
      split: sum.splits option.splits)

lemma pulling_unpublished: "x \<in> set (record_pulling env obj gen) \<Longrightarrow> \<not> published x \<and> (\<forall>r. x \<noteq> Pull r)"
  by (auto simp: record_pulling_def default_plugin_status_def)

lemma ensure_unpublished:
  "x \<in> set (fst (ensure_finalizer a n m fin)) \<Longrightarrow> \<not> published x \<and> (\<forall>r. x \<noteq> Pull r)"
  by (auto dest!: ensure_finalizer_eff)

section \<open>Only verified artefacts are materialised\<close>

text \<open>The three gates on a pulled artefact: the Ed25519 and revocation check with the key and list
  loaded for this reconcile, the cosign identity at the pulled manifest digest, and the
  provenance at the hash the first gate reported.\<close>

definition trust_gates ::
  "('rl, 'root) plugin_env \<Rightarrow> plugin \<Rightarrow> pull_artefact \<Rightarrow> verify_result \<Rightarrow> bool" where
  "trust_gates env obj art vr \<longleftrightarrow>
     (\<exists>pk rl. plugin_key env obj = Inr pk \<and> plugin_revocations env = Inr rl
        \<and> verify_artefact (pn_yaml_id env) (pn_host_verify env) art pk rl (plugin_id (pl_spec obj)) = Inr vr)
     \<and> (\<forall>ident. trust_cosign_identity (p_trust (pl_spec obj)) = Some ident \<longrightarrow>
          (\<exists>r. fst (snd (verify_cosign_keyless (pn_cosign env) (pn_trust_state env)
             (oci_image (p_oci (pl_spec obj))) ident (manifest_digest art))) = Inr r))
     \<and> (\<forall>cfg. trust_slsa_provenance (p_trust (pl_spec obj)) = Some cfg \<longrightarrow>
          run_slsa_verify env cfg (artifact_hash vr) \<noteq> None)"

definition plugin_pulled ::
  "('rl, 'root) plugin_env \<Rightarrow> plugin \<Rightarrow> oci_image_ref \<Rightarrow> pull_options \<Rightarrow> pull_artefact \<Rightarrow> bool" where
  "plugin_pulled env obj ref options art \<longleftrightarrow>
     snd (resolve_pull_target env (p_oci (pl_spec obj)) (generation_of (pl_meta obj)) obj) = Inr (ref, options)
     \<and> snd (pull_and_unpack (pn_pull env) ref options
         :: (plugin_status, k8s_object, pull_error, pull_artefact) ctl) = Inr art"

lemma pull_step_Inr:
  "snd (plugin_pull_step env obj gen target) = Inr art \<longleftrightarrow>
     snd (pull_and_unpack (pn_pull env) (fst target) (snd target)
       :: (plugin_status, k8s_object, pull_error, pull_artefact) ctl) = Inr art"
  by (auto simp: plugin_pull_step_def run_simps split: prod.splits sum.splits)

lemma verify_step_Inr:
  "snd (plugin_verify_step env obj gen art) = Inr vr \<longleftrightarrow>
     (\<exists>pk rl. plugin_key env obj = Inr pk \<and> plugin_revocations env = Inr rl \<and> pn_join env = None
        \<and> verify_artefact (pn_yaml_id env) (pn_host_verify env) art pk rl (plugin_id (pl_spec obj)) = Inr vr)"
  by (auto simp: plugin_verify_step_def run_simps split: sum.splits option.splits verify_error.splits)

lemma cosign_step_Inr:
  "snd (plugin_cosign_step env obj gen art) = Inr cv \<Longrightarrow>
     trust_cosign_identity (p_trust (pl_spec obj)) = Some ident \<Longrightarrow>
     \<exists>r. fst (snd (verify_cosign_keyless (pn_cosign env) (pn_trust_state env)
        (oci_image (p_oci (pl_spec obj))) ident (manifest_digest art))) = Inr r"
  by (auto simp: plugin_cosign_step_def run_simps split: sum.splits)

lemma slsa_step_Inr:
  "snd (plugin_slsa_step env obj gen art sha) = Inr sv \<Longrightarrow>
     trust_slsa_provenance (p_trust (pl_spec obj)) = Some cfg \<Longrightarrow> run_slsa_verify env cfg sha \<noteq> None"
  by (auto simp: plugin_slsa_step_def run_simps split: option.splits)

definition quiet :: "((plugin_status, k8s_object) effect, 'e, 'a) run \<Rightarrow> bool" where
  "quiet m \<longleftrightarrow> (\<forall>y \<in> set (fst m). \<not> published y)"

lemma quiet_steps:
  "quiet (resolve_pull_target env up gen obj)" "quiet (plugin_pull_step env obj gen target)"
  "quiet (plugin_verify_step env obj gen art)" "quiet (plugin_cosign_step env obj gen art)"
  "quiet (plugin_slsa_step env obj gen art sha)"
  by (auto simp: quiet_def dest: resolve_unpublished pull_step_unpublished verify_step_unpublished
      cosign_step_unpublished slsa_step_unpublished)

lemma published_bind:
  assumes "x \<in> set (fst (bindT m f))" and "published x"
    and "quiet m"
  shows "\<exists>a. snd m = Inr a \<and> x \<in> set (fst (f a)) \<and> fst (bindT m f) = fst m @ fst (f a)"
  using assms by (cases "snd m") (auto simp: run_simps quiet_def)

text \<open>A published effect comes out of the last step, after every gate.\<close>

lemma body_published:
  assumes "x \<in> set (fst (plugin_body env obj name))" and "published x"
  shows "\<exists>ref options art vr cv sv pre.
      plugin_pulled env obj ref options art \<and> trust_gates env obj art vr
      \<and> fst (plugin_body env obj name) = pre @ fst (plugin_materialise env obj name
           (generation_of (pl_meta obj)) (art\<lparr>artifact_sha256 := Some (artifact_hash vr)\<rparr>) vr cv sv)
      \<and> x \<in> set (fst (plugin_materialise env obj name
           (generation_of (pl_meta obj)) (art\<lparr>artifact_sha256 := Some (artifact_hash vr)\<rparr>) vr cv sv))"
proof -
  let ?gen = "generation_of (pl_meta obj)"
  define T5 where "T5 = plugin_materialise env obj name ?gen"
  define T4 where "T4 art vr cv = bindT (plugin_slsa_step env obj ?gen art (artifact_hash vr)) (T5 art vr cv)" for art vr cv
  define T3 where "T3 art vr = bindT (plugin_cosign_step env obj ?gen art) (T4 art vr)" for art vr
  define T2 where "T2 art = bindT (plugin_verify_step env obj ?gen art)
      (\<lambda>vr. T3 (art\<lparr>artifact_sha256 := Some (artifact_hash vr)\<rparr>) vr)" for art
  define T1 where "T1 target = bindT (plugin_pull_step env obj ?gen target) T2" for target
  let ?all = "bindT (resolve_pull_target env (p_oci (pl_spec obj)) ?gen obj) T1"
  have body: "fst (plugin_body env obj name) = record_pulling env obj ?gen @ fst ?all"
    by (simp add: plugin_body_def Let_def run_simps T1_def [abs_def] T2_def [abs_def] T3_def [abs_def]
        T4_def [abs_def] T5_def)
  then have px: "x \<in> set (fst ?all)" using assms pulling_unpublished [of x env obj ?gen] by auto
  obtain target where t: "snd (resolve_pull_target env (p_oci (pl_spec obj)) ?gen obj) = Inr target"
      "x \<in> set (fst (T1 target))"
      "fst ?all = fst (resolve_pull_target env (p_oci (pl_spec obj)) ?gen obj) @ fst (T1 target)"
    using published_bind [OF px assms(2) quiet_steps(1)] by blast
  obtain art where a: "snd (plugin_pull_step env obj ?gen target) = Inr art"
      "x \<in> set (fst (T2 art))"
      "fst (T1 target) = fst (plugin_pull_step env obj ?gen target) @ fst (T2 art)"
    using published_bind [OF t(2) [unfolded T1_def] assms(2) quiet_steps(2), folded T1_def] by blast
  obtain vr where v: "snd (plugin_verify_step env obj ?gen art) = Inr vr"
      "x \<in> set (fst (T3 (art\<lparr>artifact_sha256 := Some (artifact_hash vr)\<rparr>) vr))"
      "fst (T2 art) = fst (plugin_verify_step env obj ?gen art)
         @ fst (T3 (art\<lparr>artifact_sha256 := Some (artifact_hash vr)\<rparr>) vr)"
    using published_bind [OF a(2) [unfolded T2_def] assms(2) quiet_steps(3), folded T2_def] by blast
  let ?art = "art\<lparr>artifact_sha256 := Some (artifact_hash vr)\<rparr>"
  obtain cv where c: "snd (plugin_cosign_step env obj ?gen ?art) = Inr cv"
      "x \<in> set (fst (T4 ?art vr cv))"
      "fst (T3 ?art vr) = fst (plugin_cosign_step env obj ?gen ?art) @ fst (T4 ?art vr cv)"
    using published_bind [OF v(2) [unfolded T3_def] assms(2) quiet_steps(4), folded T3_def] by blast
  obtain sv where s: "snd (plugin_slsa_step env obj ?gen ?art (artifact_hash vr)) = Inr sv"
      "x \<in> set (fst (T5 ?art vr cv sv))"
      "fst (T4 ?art vr cv) = fst (plugin_slsa_step env obj ?gen ?art (artifact_hash vr))
         @ fst (T5 ?art vr cv sv)"
    using published_bind [OF c(2) [unfolded T4_def] assms(2) quiet_steps(5), folded T4_def] by blast
  have "plugin_pulled env obj (fst target) (snd target) art"
    using t(1) a(1) by (simp add: plugin_pulled_def pull_step_Inr)
  moreover have "trust_gates env obj art vr"
    using v(1) cosign_step_Inr [OF c(1)] slsa_step_Inr [OF s(1)]
    by (auto simp: trust_gates_def verify_step_Inr)
  moreover have "\<exists>pre. fst (plugin_body env obj name) = pre @ fst (T5 ?art vr cv sv)"
    unfolding body t(3) a(3) v(3) c(3) s(3) by (metis append_assoc)
  ultimately show ?thesis using s(2) unfolding T5_def by blast
qed

lemma reconcile_published:
  assumes "x \<in> set (fst (plugin_reconcile env obj))" and "published x"
  shows "\<exists>name pre post. meta_name (pl_meta obj) = Some name \<and> x \<in> set (fst (plugin_body env obj name))
     \<and> fst (plugin_reconcile env obj) = pre @ fst (plugin_body env obj name) @ post"
proof -
  have x: "x \<in> set (fst (plugin_reconcile_inner env obj))"
    using assms by (auto simp: plugin_reconcile_def observed_def)
  then obtain name where n: "meta_name (pl_meta obj) = Some name"
    by (cases "meta_name (pl_meta obj)") (auto simp: plugin_reconcile_inner_def run_simps)
  have del: "meta_deletion_timestamp (pl_meta obj) = None"
    using plugin_ctl.deleting [OF _ x] assms(2) by fastforce
  let ?e = "lift_run PFinalizer (ensure_finalizer (pn_finalizer env) name (pl_meta obj) OPERATOR_FINALIZER)
      :: (plugin_status, k8s_object, plugin_error, bool) ctl"
  have inner: "plugin_reconcile_inner env obj = bindT ?e (\<lambda>_. plugin_body env obj name)"
    using n del by (simp add: plugin_reconcile_inner_def guarded_def)
  have "quiet ?e" by (auto simp: quiet_def run_simps dest: ensure_unpublished)
  from published_bind [OF x [unfolded inner] assms(2) this] n inner show ?thesis
    by (auto simp: plugin_reconcile_def observed_def)
qed

lemma materialise_published:
  assumes "x \<in> set (fst (plugin_materialise env obj name gen art vr cv sv))" and "published x"
  shows "\<exists>sname rest. artefact_secret_name (pn_sha256_hex env) name (artifact_hash vr) = Some sname
     \<and> fst (plugin_materialise env obj name gen art vr cv sv)
        = Apply (ObSecret (build_artefact_secret obj plugin_operator_namespace sname art)) plugin_fm # rest
     \<and> (x = Apply (ObSecret (build_artefact_secret obj plugin_operator_namespace sname art)) plugin_fm
        \<or> (pn_apply env = Inr () \<and> x \<in> set rest
           \<and> (\<exists>n st fm. x = PatchStatus n st fm \<and> ps_artefact_secret_name st = Some sname)))"
  using assms
  by (auto simp: plugin_materialise_def apply_owned_def build_artefact_secret_def Let_def ob_meta_def
      run_simps map_err_def split: option.splits sum.splits)

lemma build_artefact_secret_name [simp]:
  "meta_name (sec_meta (build_artefact_secret obj ns sname art)) = Some sname"
  by (simp add: build_artefact_secret_def Let_def)

lemma reconcile_applies:
  assumes "Apply ob fm \<in> set (fst (plugin_reconcile env obj))"
  shows "\<exists>name ref options art vr sname. meta_name (pl_meta obj) = Some name
     \<and> plugin_pulled env obj ref options art \<and> trust_gates env obj art vr
     \<and> artefact_secret_name (pn_sha256_hex env) name (artifact_hash vr) = Some sname
     \<and> ob = ObSecret (build_artefact_secret obj plugin_operator_namespace sname
            (art\<lparr>artifact_sha256 := Some (artifact_hash vr)\<rparr>))"
proof -
  have "published (Apply ob fm)" by simp
  from reconcile_published [OF assms this] obtain name where n: "meta_name (pl_meta obj) = Some name"
      "Apply ob fm \<in> set (fst (plugin_body env obj name))" by blast
  from body_published [OF n(2)] obtain ref options art vr cv sv where g:
      "plugin_pulled env obj ref options art" "trust_gates env obj art vr"
      "Apply ob fm \<in> set (fst (plugin_materialise env obj name (generation_of (pl_meta obj))
         (art\<lparr>artifact_sha256 := Some (artifact_hash vr)\<rparr>) vr cv sv))" by auto
  from materialise_published [OF g(3)] n(1) g(1,2) show ?thesis by fastforce
qed

text \<open>C2. Only verified bytes are materialised: whenever a plugin reconcile applies an object, the
  artefact was pulled from the resolved target and passed every configured gate (Ed25519
  with the revocation list, cosign at the pulled manifest digest, provenance at the verified
  hash), and the object is the immutable Secret with exactly those bytes, in the operator
  namespace, under the name made of the plugin and the verified hash.\<close>

theorem artefact_applied_only_verified:
  assumes "Apply ob fm \<in> set (fst (plugin_reconcile env obj))"
  shows "\<exists>name ref options art vr sname. meta_name (pl_meta obj) = Some name
     \<and> plugin_pulled env obj ref options art \<and> trust_gates env obj art vr
     \<and> artefact_secret_name (pn_sha256_hex env) name (artifact_hash vr) = Some sname
     \<and> ob = ObSecret (build_artefact_secret obj plugin_operator_namespace sname
            (art\<lparr>artifact_sha256 := Some (artifact_hash vr)\<rparr>))"
  using assms by (rule reconcile_applies)

text \<open>A status that names no artefact Secret is Ready only if the plugin was.\<close>

definition readiness_kept :: "plugin \<Rightarrow> (plugin_status, k8s_object) effect \<Rightarrow> bool" where
  "readiness_kept obj x \<longleftrightarrow> (\<forall>n st fm. x = PatchStatus n st fm \<and> ps_artefact_secret_name st = None
     \<and> cond_true ''Ready'' (ps_conditions st) \<longrightarrow> cond_true ''Ready'' (plugin_conditions obj))"

lemma failures_keep_readiness:
  assumes "condition_setter (pn_set_condition env)"
  shows "x \<in> set (fst (record_mirror_failure env obj gen)) \<Longrightarrow> readiness_kept obj x"
    "x \<in> set (fst (record_pull_failure env obj gen)) \<Longrightarrow> readiness_kept obj x"
    "x \<in> set (fst (record_verify_failure env obj gen d)) \<Longrightarrow> readiness_kept obj x"
    "x \<in> set (fst (record_revoked env obj gen d sha)) \<Longrightarrow> readiness_kept obj x"
    "x \<in> set (record_pulling env obj gen) \<Longrightarrow> readiness_kept obj x"
  by (auto simp: plugin_failures record_pulling_def run_simps Let_def readiness_kept_def
      default_plugin_status_def cond_true_set [OF assms])

lemma steps_keep_readiness:
  assumes "condition_setter (pn_set_condition env)"
  shows "x \<in> set (fst (resolve_pull_target env up gen obj)) \<Longrightarrow> readiness_kept obj x"
    "x \<in> set (fst (plugin_pull_step env obj gen target)) \<Longrightarrow> readiness_kept obj x"
    "x \<in> set (fst (plugin_verify_step env obj gen art)) \<Longrightarrow> readiness_kept obj x"
    "x \<in> set (fst (plugin_cosign_step env obj gen art)) \<Longrightarrow> readiness_kept obj x"
    "x \<in> set (fst (plugin_slsa_step env obj gen art sha)) \<Longrightarrow> readiness_kept obj x"
    "x \<in> set (fst (plugin_materialise env obj name gen art vr cv sv)) \<Longrightarrow> readiness_kept obj x"
proof -
  note fk = failures_keep_readiness [OF assms]
  show "x \<in> set (fst (resolve_pull_target env up gen obj)) \<Longrightarrow> readiness_kept obj x"
    by (auto simp: resolve_pull_target_def run_simps split: option.splits sum.splits intro: fk)
  show "x \<in> set (fst (plugin_pull_step env obj gen target)) \<Longrightarrow> readiness_kept obj x"
  proof -
    assume x: "x \<in> set (fst (plugin_pull_step env obj gen target))"
    obtain eff r where p: "(pull_and_unpack (pn_pull env) (fst target) (snd target)
        :: (plugin_status, k8s_object, pull_error, pull_artefact) ctl) = (eff, r)"
      by (metis surj_pair)
    have "readiness_kept obj y" if "y \<in> set eff" for y
      using pull_and_unpack_eff [of y "pn_pull env" "fst target" "snd target"] p that
      by (simp add: readiness_kept_def)
    with x p show ?thesis
      by (auto simp: plugin_pull_step_def run_simps readiness_kept_def [of _ "ObservePull _"]
          split: sum.splits intro: fk)
  qed
  show "x \<in> set (fst (plugin_verify_step env obj gen art)) \<Longrightarrow> readiness_kept obj x"
    by (auto simp: plugin_verify_step_def run_simps
        split: sum.splits option.splits verify_error.splits intro: fk)
  show "x \<in> set (fst (plugin_cosign_step env obj gen art)) \<Longrightarrow> readiness_kept obj x"
    by (auto simp: plugin_cosign_step_def run_simps split: sum.splits option.splits intro: fk)
  show "x \<in> set (fst (plugin_slsa_step env obj gen art sha)) \<Longrightarrow> readiness_kept obj x"
    by (auto simp: plugin_slsa_step_def run_simps split: sum.splits option.splits intro: fk)
  show "x \<in> set (fst (plugin_materialise env obj name gen art vr cv sv)) \<Longrightarrow> readiness_kept obj x"
    by (auto simp: plugin_materialise_def apply_owned_def run_simps readiness_kept_def
        split: option.splits sum.splits)
qed

lemma reconcile_keeps_readiness:
  assumes "condition_setter (pn_set_condition env)" and "x \<in> set (fst (plugin_reconcile env obj))"
  shows "readiness_kept obj x"
proof -
  note sk = steps_keep_readiness [OF assms(1)] failures_keep_readiness(5) [OF assms(1)]
  have body: "readiness_kept obj y" if "y \<in> set (fst (plugin_body env obj name))" for y name
    using that by (auto simp: plugin_body_def Let_def run_simps(1-13) bindT_effects intro: sk)
  have other: "readiness_kept obj (PatchFinalizers n ops)" "readiness_kept obj (MergeFinalizers n fs)"
    "readiness_kept obj (ObserveReconcile n oc)" for n ops fs oc
    by (simp_all add: readiness_kept_def)
  have "readiness_kept obj y" if "y \<in> set (fst (plugin_reconcile_inner env obj))" for y
    using that
    by (auto simp: plugin_reconcile_inner_def guarded_def bindT_effects run_simps(1-13) other
        split: option.splits if_splits intro: body dest!: ensure_finalizer_eff remove_finalizer_eff)
  with assms(2) show ?thesis by (auto simp: plugin_reconcile_def observed_def other)
qed

text \<open>A plugin becomes Ready only with its Secret in place: when a reconcile of a plugin that was
  not Ready writes a status with Ready=True, that status names an artefact Secret, and the
  apply of the Secret of that name was issued before it and accepted.\<close>

theorem ready_only_after_apply:
  assumes "condition_setter (pn_set_condition env)" and "\<not> cond_true ''Ready'' (plugin_conditions obj)"
    and "PatchStatus n st fm \<in> set (fst (plugin_reconcile env obj))"
    and "cond_true ''Ready'' (ps_conditions st)"
  shows "\<exists>s sec pre post. ps_artefact_secret_name st = Some s
     \<and> fst (plugin_reconcile env obj) = pre @ Apply (ObSecret sec) plugin_fm # post
     \<and> PatchStatus n st fm \<in> set post \<and> meta_name (sec_meta sec) = Some s \<and> pn_apply env = Inr ()"
proof -
  have pub: "published (PatchStatus n st fm)"
    using reconcile_keeps_readiness [OF assms(1,3)] assms(2,4) by (auto simp: readiness_kept_def)
  from reconcile_published [OF assms(3) pub] obtain name pre post where n:
      "PatchStatus n st fm \<in> set (fst (plugin_body env obj name))"
      "fst (plugin_reconcile env obj) = pre @ fst (plugin_body env obj name) @ post" by blast
  from body_published [OF n(1) pub] obtain art vr cv sv pre' where g:
      "fst (plugin_body env obj name) = pre' @ fst (plugin_materialise env obj name
         (generation_of (pl_meta obj)) art vr cv sv)"
      "PatchStatus n st fm \<in> set (fst (plugin_materialise env obj name
         (generation_of (pl_meta obj)) art vr cv sv))" by blast
  from materialise_published [OF g(2) pub] obtain sname rest where m:
      "fst (plugin_materialise env obj name (generation_of (pl_meta obj)) art vr cv sv)
         = Apply (ObSecret (build_artefact_secret obj plugin_operator_namespace sname art)) plugin_fm # rest"
      "pn_apply env = Inr ()" "PatchStatus n st fm \<in> set rest" "ps_artefact_secret_name st = Some sname"
    by auto
  have "fst (plugin_reconcile env obj) = (pre @ pre')
      @ Apply (ObSecret (build_artefact_secret obj plugin_operator_namespace sname art)) plugin_fm
      # (rest @ post)"
    unfolding n(2) g(1) m(1) by simp
  with m(2-4) show ?thesis
    by (intro exI [of _ sname]
        exI [of _ "build_artefact_secret obj plugin_operator_namespace sname art"]
        exI [of _ "pre @ pre'"] exI [of _ "rest @ post"]) simp
qed

section \<open>Mirrors, revocation, names\<close>

lemma body_pull:
  assumes "Pull r \<in> set (fst (plugin_body env obj name))"
  shows "\<exists>ref options. snd (resolve_pull_target env (p_oci (pl_spec obj)) (generation_of (pl_meta obj)) obj)
      = Inr (ref, options) \<and> r = oci_image ref"
proof -
  have *: "Pull r \<notin> set (record_pulling env obj g)" "Pull r \<notin> set (fst (resolve_pull_target env up g obj))"
    "Pull r \<notin> set (fst (plugin_verify_step env obj g art))"
    "Pull r \<notin> set (fst (plugin_cosign_step env obj g art))"
    "Pull r \<notin> set (fst (plugin_slsa_step env obj g art sha))"
    "Pull r \<notin> set (fst (plugin_materialise env obj name g art vr cv sv))" for g up art sha vr cv sv
    using pulling_unpublished [of "Pull r" env obj g] resolve_unpublished [of "Pull r" env up g obj]
      verify_step_unpublished [of "Pull r" env obj g art]
      cosign_step_unpublished [of "Pull r" env obj g art]
      slsa_step_unpublished [of "Pull r" env obj g art sha]
    by (auto simp: plugin_materialise_def apply_owned_def run_simps split: option.splits sum.splits)
  obtain target where "snd (resolve_pull_target env (p_oci (pl_spec obj)) (generation_of (pl_meta obj)) obj)
      = Inr target"
    and "Pull r \<in> set (fst (plugin_pull_step env obj (generation_of (pl_meta obj)) target))"
    using assms by (auto simp: plugin_body_def Let_def run_simps(1-13) bindT_effects *)
  with pull_step_unpublished show ?thesis by (cases target) fastforce
qed

text \<open>C13. The air gap: a plugin with a mirror reference is pulled only through that mirror. Every
  registry pull of such a reconcile is for the reference that the named, existing mirror
  rewrites the image to; a missing mirror, a failed lookup or an image the mirror does not
  serve leads to no pull at all, and never to the upstream registry. Without a mirror
  reference the image itself is pulled.\<close>

theorem mirrored_pull_never_upstream:
  assumes "Pull r \<in> set (fst (plugin_reconcile env obj))"
  shows "case mirror_ref (p_oci (pl_spec obj)) of
       None \<Rightarrow> r = oci_image (p_oci (pl_spec obj))
     | Some m \<Rightarrow> (\<exists>mir. pn_mirror env m = Inr (Some mir)
           \<and> pn_rewrite env (pm_spec mir) (oci_image (p_oci (pl_spec obj))) = Some r)"
proof -
  have "\<exists>name. Pull r \<in> set (fst (plugin_body env obj name))"
    using assms
    by (auto simp: plugin_reconcile_def observed_def plugin_reconcile_inner_def guarded_def bindT_effects
        run_simps(1-13) split: option.splits if_splits
        dest!: ensure_finalizer_eff remove_finalizer_eff)
  then obtain ref options where
    "snd (resolve_pull_target env (p_oci (pl_spec obj)) (generation_of (pl_meta obj)) obj) = Inr (ref, options)"
    "r = oci_image ref" using body_pull by blast
  then show ?thesis
    by (auto simp: resolve_pull_target_def run_simps split: option.splits sum.splits)
qed

text \<open>A malformed revocation list fails open: when the cluster's list is present but refused by the
  host's parser, the reconcile is the same as if there were no list, so nothing is blocked.\<close>

theorem malformed_revocation_list_fails_open:
  assumes "pn_revocation env = Inr (Some rl)"
    and "revocation_list_from_api (pn_from_file env) (rl_spec rl) = Inl e"
  shows "plugin_reconcile env obj = plugin_reconcile (env\<lparr>pn_revocation := Inr None\<rparr>) obj"
proof -
  have rev: "plugin_revocations env = plugin_revocations (env\<lparr>pn_revocation := Inr None\<rparr>)"
    using assms by (simp add: plugin_revocations_def)
  have fail: "record_mirror_failure (env\<lparr>pn_revocation := Inr None\<rparr>) = record_mirror_failure env"
    "record_pull_failure (env\<lparr>pn_revocation := Inr None\<rparr>) = record_pull_failure env"
    "record_verify_failure (env\<lparr>pn_revocation := Inr None\<rparr>) = record_verify_failure env"
    "record_revoked (env\<lparr>pn_revocation := Inr None\<rparr>) = record_revoked env"
    "record_pulling (env\<lparr>pn_revocation := Inr None\<rparr>) = record_pulling env"
    by (intro ext, simp add: plugin_failures record_pulling_def)+
  have steps: "resolve_pull_target (env\<lparr>pn_revocation := Inr None\<rparr>) = resolve_pull_target env"
    "plugin_pull_step (env\<lparr>pn_revocation := Inr None\<rparr>) = plugin_pull_step env"
    "plugin_verify_step (env\<lparr>pn_revocation := Inr None\<rparr>) = plugin_verify_step env"
    "plugin_cosign_step (env\<lparr>pn_revocation := Inr None\<rparr>) = plugin_cosign_step env"
    "plugin_slsa_step (env\<lparr>pn_revocation := Inr None\<rparr>) = plugin_slsa_step env"
    "plugin_materialise (env\<lparr>pn_revocation := Inr None\<rparr>) = plugin_materialise env"
    by (auto simp: fun_eq_iff resolve_pull_target_def plugin_pull_step_def plugin_verify_step_def
        plugin_cosign_step_def plugin_slsa_step_def plugin_materialise_def run_slsa_verify_def
        plugin_key_def fail rev [symmetric] split: option.splits sum.splits prod.splits verify_error.splits)
  show ?thesis
    by (cases "meta_name (pl_meta obj)")
      (simp_all add: plugin_reconcile_def plugin_reconcile_inner_def plugin_body_def steps fail)
qed

lemma take_chars_length: "list_all (\<lambda>c. \<not> is_cont c) s \<Longrightarrow> take_chars n s = take n s"
  by (induction n s rule: take_chars.induct) auto

text \<open>Artefact Secret names: for a plugin name without multi-byte characters and a hash of at
  least eight hex digits the name exists, has at most 71 bytes, and, for names of at most 50
  bytes, determines both the plugin and the first eight digits of the hash.\<close>

theorem artefact_secret_name_bounds:
  assumes "list_all (\<lambda>c. \<not> is_cont c) name" and "list_all (\<lambda>c. \<not> is_cont c) sha" and "8 \<le> length sha"
    and "length (sha_hex name) = 64" and "list_all (\<lambda>c. \<not> is_cont c) (sha_hex name)"
  shows "\<exists>s. artefact_secret_name sha_hex name sha = Some s \<and> length s \<le> 71
     \<and> (length name \<le> 50 \<longrightarrow> (\<forall>name' sha'. length name' \<le> 50 \<and> 8 \<le> length sha'
          \<and> list_all (\<lambda>c. \<not> is_cont c) sha' \<and> artefact_secret_name sha_hex name' sha' = Some s
          \<longrightarrow> name' = name \<and> take 8 sha' = take 8 sha))"
proof -
  have pre: "take_chars 8 t = take 8 t" "take 8 t \<noteq> []"
    if "list_all (\<lambda>c. \<not> is_cont c) t" "8 \<le> length t" for t
    using that by (auto simp: take_chars_length)
  have "\<exists>t. truncate_kube_name sha_hex name 50 = Some t \<and> length t \<le> 50"
    using assms(1,4,5) by (auto simp: truncate_kube_name_def slice_to_def list_all_length)
  then obtain t where t: "truncate_kube_name sha_hex name 50 = Some t" "length t \<le> 50" by blast
  have s: "artefact_secret_name sha_hex name sha = Some (''mcpg-plugin-'' @ t @ ''-'' @ take 8 sha)"
    using t(1) pre [OF assms(2,3)] by (simp add: artefact_secret_name_def Let_def)
  have "name' = name \<and> take 8 sha' = take 8 sha"
    if short: "length name \<le> 50" "length name' \<le> 50" and sha': "8 \<le> length sha'" "list_all (\<lambda>c. \<not> is_cont c) sha'"
      and eq: "artefact_secret_name sha_hex name' sha' = Some (''mcpg-plugin-'' @ t @ ''-'' @ take 8 sha)"
    for name' sha'
  proof -
    have tn: "t = name" using t(1) short(1) by (simp add: truncate_kube_name_def)
    have "name' @ ''-'' @ take 8 sha' = name @ ''-'' @ take 8 sha"
      using eq short(2) pre [OF sha'(2,1)] tn
      by (simp add: artefact_secret_name_def truncate_kube_name_def Let_def)
    then show ?thesis using sha'(1) assms(3) by (simp add: append_eq_append_conv)
  qed
  with s t(2) show ?thesis by auto
qed

section \<open>Witnesses\<close>

definition sample_plugin_env :: "(unit, unit) plugin_env" where
  "sample_plugin_env = \<lparr>pn_remove_get = Inr None, pn_remove_patch = Inr (), pn_finalizer = Inr (),
     pn_status_pulling = (Inr (), Inr ()), pn_status_final = (Inr (), Inr ()),
     pn_mirror = (\<lambda>n. Inr (Some \<lparr>pm_meta = default_meta, pm_spec = \<lparr>endpoint_service =
       \<lparr>svc_namespace = ''m'', svc_name = ''m'', svc_port = 5000\<rparr>, endpoint_insecure = False,
       upstream_registry = ''reg.io'', upstream_namespace = ''x'', mirror_auth_secret = None\<rparr>,
       pm_conditions = None\<rparr>)),
     pn_rewrite = (\<lambda>_ i. Some (''mirror.local/'' @ i)), pn_svc_host = (\<lambda>s. svc_name s),
     pn_pull = sample_pull_env,
     pn_key_secret = (\<lambda>_. Inr (Some [''pub'' \<mapsto> replicate 32 (CHR ''k'')])),
     pn_decoders = \<lparr>kd_base64 = (\<lambda>_. None), kd_base64_url = (\<lambda>_. None), kd_hex = (\<lambda>_. None)\<rparr>,
     pn_revocation = Inr (Some \<lparr>rl_meta = default_meta,
       rl_spec = \<lparr>rl_version = 1, rl_issued_at = None, rl_revocations = []\<rparr>, rl_conditions = None\<rparr>),
     pn_from_file = (\<lambda>_. Inl ''refused''), pn_join = None,
     pn_yaml_id = (\<lambda>_. Some (Some ''dev.x'')),
     pn_host_verify = (\<lambda>_ _. Inr \<lparr>artifact_hash = ''0123456789'', signature_verified = True\<rparr>),
     pn_cosign = sample_cosign_env, pn_trust_state = \<lparr>offline_path = None, trust_cached = None\<rparr>,
     pn_config_map = (\<lambda>_. Inr None),
     pn_slsa = \<lparr>sd_envelope = (\<lambda>_. None), sd_base64 = (\<lambda>_. None), sd_statement = (\<lambda>_. None)\<rparr>,
     pn_sha256_hex = (\<lambda>_. replicate 64 (CHR ''0'')), pn_apply = Inr (),
     pn_set_condition = upsert_condition\<rparr>"

definition sample_mirrored_plugin :: plugin where
  "sample_mirrored_plugin = \<lparr>pl_meta = default_meta\<lparr>meta_name := Some ''p1'',
       meta_finalizers := Some [OPERATOR_FINALIZER], meta_generation := Some 1\<rparr>,
     pl_spec = \<lparr>plugin_id = ''dev.x'', plugin_version = ''1'', plugin_class = ''identity_provider'',
       p_oci = \<lparr>oci_image = ''reg.io/x/p:1'', pull_secret_ref = None, mirror_ref = Some ''m1''\<rparr>,
       p_trust = \<lparr>signing_key = \<lparr>sk_secret_name = ''keys'', sk_key = ''pub''\<rparr>,
         trust_cosign_identity = None, trust_slsa_provenance = None\<rparr>\<rparr>,
     pl_status = None\<rparr>"

text \<open>The shape of the sample's effects, without the functions inside the objects.\<close>

fun effect_tag :: "(plugin_status, k8s_object) effect \<Rightarrow> string \<times> string" where
  "effect_tag (Apply ob fm) = (''apply'', name_any (ob_meta ob))"
| "effect_tag (Pull r) = (''pull'', r)"
| "effect_tag (PatchStatus n st fm) =
     (if cond_true ''Ready'' (ps_conditions st) then ''ready'' else ''status'', n)"
| "effect_tag _ = (''other'', [])"

lemma sample_plugin_effects:
  "map effect_tag (fst (plugin_reconcile sample_plugin_env sample_mirrored_plugin)) =
     [(''status'', ''p1''), (''pull'', ''mirror.local/reg.io/x/p:1''), (''other'', []),
      (''apply'', ''mcpg-plugin-p1-01234567''), (''ready'', ''p1''), (''other'', []), (''other'', []),
      (''other'', [])]"
  by code_simp

lemma effect_tag_inv:
  "(''apply'', n) = effect_tag x \<Longrightarrow> \<exists>ob fm. x = Apply ob fm"
  "(''pull'', n) = effect_tag x \<Longrightarrow> x = Pull n"
  "(''ready'', n) = effect_tag x \<Longrightarrow> \<exists>st fm. x = PatchStatus n st fm \<and> cond_true ''Ready'' (ps_conditions st)"
  by (cases x; auto split: if_splits)+

theorem artefact_applied_only_verified_witness:
  "\<exists>ob fm art vr. Apply ob fm \<in> set (fst (plugin_reconcile sample_plugin_env sample_mirrored_plugin))
     \<and> trust_gates sample_plugin_env sample_mirrored_plugin art vr"
proof -
  have "(''apply'', ''mcpg-plugin-p1-01234567'')
      \<in> set (map effect_tag (fst (plugin_reconcile sample_plugin_env sample_mirrored_plugin)))"
    unfolding sample_plugin_effects by simp
  then obtain ob fm where a: "Apply ob fm \<in> set (fst (plugin_reconcile sample_plugin_env sample_mirrored_plugin))"
    by (auto dest!: effect_tag_inv)
  with artefact_applied_only_verified [OF a] show ?thesis by blast
qed

theorem ready_only_after_apply_witness:
  "\<exists>n st fm s. PatchStatus n st fm \<in> set (fst (plugin_reconcile sample_plugin_env sample_mirrored_plugin))
     \<and> cond_true ''Ready'' (ps_conditions st) \<and> ps_artefact_secret_name st = Some s"
proof -
  have "(''ready'', ''p1'')
      \<in> set (map effect_tag (fst (plugin_reconcile sample_plugin_env sample_mirrored_plugin)))"
    unfolding sample_plugin_effects by simp
  then obtain n st fm where a:
      "PatchStatus n st fm \<in> set (fst (plugin_reconcile sample_plugin_env sample_mirrored_plugin))"
      "cond_true ''Ready'' (ps_conditions st)"
    by (auto dest!: effect_tag_inv)
  have "condition_setter (pn_set_condition sample_plugin_env)"
    by (simp add: sample_plugin_env_def)
  moreover have "\<not> cond_true ''Ready'' (plugin_conditions sample_mirrored_plugin)"
    by (simp add: plugin_conditions_def sample_mirrored_plugin_def cond_true_def)
  ultimately show ?thesis using ready_only_after_apply [OF _ _ a] a by blast
qed

theorem mirrored_pull_never_upstream_witness:
  "\<exists>r. Pull r \<in> set (fst (plugin_reconcile sample_plugin_env sample_mirrored_plugin))
     \<and> r = ''mirror.local/reg.io/x/p:1''"
proof -
  have "(''pull'', ''mirror.local/reg.io/x/p:1'')
      \<in> set (map effect_tag (fst (plugin_reconcile sample_plugin_env sample_mirrored_plugin)))"
    unfolding sample_plugin_effects by simp
  then obtain r where a: "Pull r \<in> set (fst (plugin_reconcile sample_plugin_env sample_mirrored_plugin))"
    by (auto dest!: effect_tag_inv)
  with mirrored_pull_never_upstream [OF a] show ?thesis
    by (auto simp: sample_mirrored_plugin_def sample_plugin_env_def)
qed

theorem malformed_revocation_list_fails_open_witness:
  "plugin_reconcile sample_plugin_env sample_mirrored_plugin
     = plugin_reconcile (sample_plugin_env\<lparr>pn_revocation := Inr None\<rparr>) sample_mirrored_plugin"
proof -
  let ?rl = "\<lparr>rl_meta = default_meta, rl_spec = \<lparr>rl_version = 1, rl_issued_at = None,
      rl_revocations = []\<rparr>, rl_conditions = None\<rparr>"
  have "pn_revocation sample_plugin_env = Inr (Some ?rl)"
    by (simp add: sample_plugin_env_def)
  moreover have "revocation_list_from_api (pn_from_file sample_plugin_env) (rl_spec ?rl)
      = Inl (RevocationListInvalid ''refused'')"
    by (simp add: revocation_list_from_api_def sample_plugin_env_def map_err_def)
  ultimately show ?thesis by (rule malformed_revocation_list_fails_open)
qed

theorem artefact_secret_name_bounds_witness:
  "\<exists>s. artefact_secret_name (\<lambda>_. replicate 64 (CHR ''0'')) (replicate 60 (CHR ''p'')) ''0123456789'' = Some s
     \<and> length s \<le> 71"
  using artefact_secret_name_bounds [of "replicate 60 (CHR ''p'')" "''0123456789''"
      "\<lambda>_. replicate 64 (CHR ''0'')"]
  by (auto simp: is_cont_def list_all_iff)

end
