(* ===== verification/PluginSet.thy ===== *)
theory PluginSet
  imports Reconciler
begin

text \<open>
  The plugin-set controller (\<open>src/src/controllers/plugin_set.rs\<close>) and the tenant role binding
  it relies on (\<open>src/src/rbac.rs\<close>): resolve every entry against its plugin, copy the verified
  Secrets into the set's namespace, publish the resolved set as a ConfigMap, prune what is
  no longer wanted and report the status.

  \<open>set_env\<close> holds the answers of one reconcile; \<open>sn_render\<close> and \<open>sn_sha256_hex\<close> are the JSON
  printer and the hash of the libraries.
\<close>

section \<open>Tenant role binding (\<open>rbac.rs\<close>)\<close>

definition TENANT_SECRETS_CLUSTER_ROLE :: string where
  "TENANT_SECRETS_CLUSTER_ROLE = ''mcpg-operator-tenant-secrets''"

definition TENANT_SECRETS_BINDING_NAME :: string where
  "TENANT_SECRETS_BINDING_NAME = ''mcpg-operator-tenant-secrets''"

definition build_tenant_binding :: "string \<Rightarrow> string \<Rightarrow> string \<Rightarrow> role_binding" where
  "build_tenant_binding namespace operator_ns service_account =
     \<lparr>rb_meta = default_meta\<lparr>meta_name := Some TENANT_SECRETS_BINDING_NAME,
        meta_namespace := Some namespace,
        meta_labels := Some [''app.kubernetes.io/managed-by'' \<mapsto> ''mcpg-operator'',
          ''app.kubernetes.io/component'' \<mapsto> ''tenant-rbac'']\<rparr>,
      rb_role_kind = ''ClusterRole'', rb_role_name = TENANT_SECRETS_CLUSTER_ROLE,
      rb_subjects = [\<lparr>sub_kind = ''ServiceAccount'', sub_name = service_account,
        sub_namespace = Some operator_ns\<rparr>]\<rparr>"

definition ensure_tenant_secret_binding ::
  "kube_error + unit \<Rightarrow> string \<Rightarrow> string \<Rightarrow> string \<Rightarrow> string
    \<Rightarrow> ('st, k8s_object, kube_error, unit) ctl" where
  "ensure_tenant_secret_binding ans namespace operator_ns service_account fm =
     (if namespace = operator_ns then ret ()
      else after [Apply (ObRoleBinding (build_tenant_binding namespace operator_ns service_account)) fm]
             ([], ans))"

section \<open>Resolution of the entries\<close>

record resolved_entry =
  r_entry_id :: string
  r_plugin_name :: string
  r_plugin_version :: string
  r_plugin_class :: string
  r_secret_name :: string
  r_digest :: string
  r_config :: json

definition resolve_entry ::
  "kube_error + plugin option \<Rightarrow> plugin_set_entry \<Rightarrow> string + resolved_entry" where
  "resolve_entry ans entry =
     (case ans of
        Inl _ \<Rightarrow> Inl ''PluginNotFound''
      | Inr None \<Rightarrow> Inl ''PluginNotFound''
      | Inr (Some p) \<Rightarrow>
        (let status = pl_status p;
             revoked = (case Option.bind status ps_revoked_by_sha of Some b \<Rightarrow> b | None \<Rightarrow> False);
             is_ready = (case status of Some s \<Rightarrow> cond_true ''Ready'' (ps_conditions s) | None \<Rightarrow> False)
         in if plugin_id (pl_spec p) \<noteq> entry_id entry then Inl ''PluginIdMismatch''
            else if revoked then Inl ''PluginRevoked''
            else if \<not> is_ready then Inl ''PluginNotReady''
            else case Option.bind status ps_artefact_secret_name of
              Some s \<Rightarrow>
                if s \<noteq> []
                then Inr \<lparr>r_entry_id = entry_id entry, r_plugin_name = entry_plugin_ref entry,
                       r_plugin_version = plugin_version (pl_spec p),
                       r_plugin_class = plugin_class (pl_spec p), r_secret_name = s,
                       r_digest = (case Option.bind status ps_resolved_digest of Some d \<Rightarrow> d | None \<Rightarrow> []),
                       r_config = (case entry_config entry of Some c \<Rightarrow> c | None \<Rightarrow> JNull)\<rparr>
                else Inl ''ArtefactSecretMissing''
            | None \<Rightarrow> Inl ''ArtefactSecretMissing''))"

record plugin_set_status =
  ss_conditions :: "condition list"
  ss_observed_generation :: "int option"
  ss_resolved_entries :: "int option"
  ss_total_entries :: "int option"
  ss_resolved_hash :: "string option"
  ss_failed_entries :: "(string \<times> string) list"

datatype set_error =
    SKube kube_error
  | SApply apply_error
  | SStatus status_error
  | SFinalizer finalizer_error
  | SMissingName
  | SMissingNamespace string
  | STenantRbac kube_error

record set_env =
  sn_remove_get :: "kube_error + object_meta option"
  sn_remove_patch :: "kube_error + unit"
  sn_finalizer :: "kube_error + unit"
  sn_status :: "(kube_error + unit) \<times> (kube_error + unit)"
  sn_plugin :: "string \<Rightarrow> kube_error + plugin option"
  sn_binding :: "kube_error + unit"
  sn_service_account :: string
  sn_source :: "string \<Rightarrow> kube_error + secret option"
  sn_apply :: "k8s_object \<Rightarrow> kube_error + unit"
  sn_list :: "string \<Rightarrow> kube_error + secret list"
  sn_render :: "json \<Rightarrow> string"
  sn_sha256_hex :: "string \<Rightarrow> string"
  sn_set_condition :: "condition \<Rightarrow> condition list \<Rightarrow> condition list"

abbreviation set_fm :: string where
  "set_fm \<equiv> field_manager ''plugin-set-controller''"

text \<open>The loop over the entries: the effects, the resolved and the failed entries.\<close>

fun resolve_entries ::
  "set_env \<Rightarrow> plugin_set_entry list
    \<Rightarrow> (plugin_set_status, k8s_object) effect list \<times> resolved_entry list \<times> (string \<times> string) list" where
  "resolve_entries env [] = ([], [], [])"
| "resolve_entries env (e # es) =
     (case resolve_entries env es of (eff, rs, fs) \<Rightarrow>
        if \<not> entry_enabled e then (eff, rs, fs)
        else case resolve_entry (sn_plugin env (entry_plugin_ref e)) e of
          Inr r \<Rightarrow> (eff, r # rs, fs)
        | Inl reason \<Rightarrow>
            (ObserveDependency ''plugin-set'' ''MCPGPlugin'' reason # eff, rs, (entry_id e, reason) # fs))"

section \<open>Materialisation\<close>

definition set_operator_namespace :: string where
  "set_operator_namespace = ''mcpg-system''"

definition MANAGED_BY_SET_LABEL :: string where
  "MANAGED_BY_SET_LABEL = ''mcpg.dev/managed-by-set''"

definition RESOLVED_HASH_LABEL :: string where
  "RESOLVED_HASH_LABEL = ''mcpg.dev/resolved-hash''"

definition set_owner_ref :: "plugin_set \<Rightarrow> string \<Rightarrow> owner_ref" where
  "set_owner_ref parent name =
     \<lparr>or_api_version = ''mcpg.dev/v1alpha1'', or_kind = ''MCPGPluginSet'', or_name = name,
      or_uid = (case meta_uid (set_meta parent) of Some u \<Rightarrow> u | None \<Rightarrow> []), or_controller = Some True,
      or_block_owner_deletion = Some True\<rparr>"

definition build_namespace_copy ::
  "plugin_set \<Rightarrow> string \<Rightarrow> secret \<Rightarrow> resolved_entry \<Rightarrow> secret" where
  "build_namespace_copy parent namespace source entry =
     \<lparr>sec_meta = default_meta\<lparr>meta_name := Some (r_secret_name entry),
        meta_namespace := Some namespace,
        meta_labels := Some [''app.kubernetes.io/managed-by'' \<mapsto> ''mcpg-operator'',
          MANAGED_BY_SET_LABEL \<mapsto> (case meta_name (set_meta parent) of Some n \<Rightarrow> n | None \<Rightarrow> ''unknown''),
          ''mcpg.dev/plugin'' \<mapsto> replace_char (CHR ''.'') (CHR ''-'') (r_entry_id entry),
          ''mcpg.dev/version'' \<mapsto> r_plugin_version entry,
          ''mcpg.dev/source-namespace'' \<mapsto> set_operator_namespace],
        meta_owner_references := Some [set_owner_ref parent (name_any (set_meta parent))]\<rparr>,
      sec_type = Some ''mcpg.dev/plugin'', sec_immutable = Some True, sec_data = sec_data source\<rparr>"

definition render_resolved_set ::
  "set_env \<Rightarrow> plugin_set \<Rightarrow> resolved_entry list \<Rightarrow> string \<times> string" where
  "render_resolved_set env parent resolved =
     (let entries = map (\<lambda>r. JObj
            [(''id'', JStr (r_entry_id r)), (''pluginName'', JStr (r_plugin_name r)),
             (''pluginVersion'', JStr (r_plugin_version r)), (''pluginClass'', JStr (r_plugin_class r)),
             (''artefactSecretName'', JStr (r_secret_name r)), (''resolvedDigest'', JStr (r_digest r)),
             (''config'', r_config r),
             (''capabilityGrants'', JArr (map JStr
                (case map_of (capability_grants (set_spec parent)) (r_entry_id r) of
                   Some g \<Rightarrow> g | None \<Rightarrow> [])))]) resolved;
          text = sn_render env (JObj [(''version'', JNum 1), (''entries'', JArr entries)])
      in (text, sn_sha256_hex env text))"

definition build_resolved_configmap :: "plugin_set \<Rightarrow> string \<Rightarrow> string \<Rightarrow> string \<Rightarrow> config_map" where
  "build_resolved_configmap parent namespace rendered resolved_hash =
     (let parent_name = (case meta_name (set_meta parent) of Some n \<Rightarrow> n | None \<Rightarrow> ''unknown'')
      in \<lparr>cm_meta = default_meta\<lparr>meta_name := Some (parent_name @ ''-resolved''),
            meta_namespace := Some namespace,
            meta_labels := Some [''app.kubernetes.io/managed-by'' \<mapsto> ''mcpg-operator'',
              MANAGED_BY_SET_LABEL \<mapsto> parent_name, RESOLVED_HASH_LABEL \<mapsto> resolved_hash],
            meta_owner_references := Some [set_owner_ref parent parent_name]\<rparr>,
          cm_data = Some [''plugins.json'' \<mapsto> rendered]\<rparr>)"

text \<open>The loop over the resolved entries; a source that vanished is skipped.\<close>

fun copy_secrets ::
  "set_env \<Rightarrow> plugin_set \<Rightarrow> string \<Rightarrow> resolved_entry list \<Rightarrow> (plugin_set_status, k8s_object, set_error, unit) ctl" where
  "copy_secrets env obj namespace [] = ret ()"
| "copy_secrets env obj namespace (r # rs) =
     (case sn_source env (r_secret_name r) of
        Inl e \<Rightarrow> throw (SKube e)
      | Inr None \<Rightarrow> copy_secrets env obj namespace rs
      | Inr (Some source) \<Rightarrow>
          (let copy = ObSecret (build_namespace_copy obj namespace source r) in
           bindT (lift_run SApply (apply_owned (sn_apply env copy) ob_meta copy set_fm)) (\<lambda>_.
             copy_secrets env obj namespace rs)))"

definition prune_stale_secrets ::
  "kube_error + secret list \<Rightarrow> string set \<Rightarrow> (plugin_set_status, k8s_object) effect list" where
  "prune_stale_secrets listed desired =
     (case listed of
        Inl _ \<Rightarrow> []
      | Inr items \<Rightarrow>
          concat (map (\<lambda>s. case meta_name (sec_meta s) of
             None \<Rightarrow> [] | Some n \<Rightarrow> if n \<in> desired then [] else [DeleteObj n]) items))"

section \<open>The reconcile\<close>

definition set_conditions_of :: "plugin_set \<Rightarrow> condition list" where
  "set_conditions_of obj = (case set_conditions obj of Some cs \<Rightarrow> cs | None \<Rightarrow> [])"

definition set_final_conditions ::
  "set_env \<Rightarrow> plugin_set \<Rightarrow> int \<Rightarrow> bool \<Rightarrow> bool \<Rightarrow> condition list" where
  "set_final_conditions env obj gen all_resolved none_failed =
     (let sc = sn_set_condition env in
      if all_resolved
      then sc (cond ''EntriesResolved'' ''True'' ''Reconciled'' gen)
             (sc (cond ''Ready'' ''True'' ''Reconciled'' gen) (set_conditions_of obj))
      else sc (cond ''EntriesResolved'' ''False''
                (if none_failed then ''DependencyPending'' else ''EntriesFailed'') gen)
             (sc (cond ''Ready'' ''False'' ''Progressing'' gen) (set_conditions_of obj)))"

definition set_status_of ::
  "set_env \<Rightarrow> plugin_set \<Rightarrow> resolved_entry list \<Rightarrow> (string \<times> string) list \<Rightarrow> plugin_set_status" where
  "set_status_of env obj resolved failed =
     (let gen = generation_of (set_meta obj);
          tot = int (length (set_entries (set_spec obj)));
          resolved_count = int (length resolved);
          all_resolved = (failed = [] \<and> resolved_count + (tot - resolved_count - int (length failed)) = tot)
      in \<lparr>ss_conditions = set_final_conditions env obj gen all_resolved (failed = []),
          ss_observed_generation = Some gen, ss_resolved_entries = Some resolved_count,
          ss_total_entries = Some tot, ss_resolved_hash = Some (snd (render_resolved_set env obj resolved)),
          ss_failed_entries = failed\<rparr>)"

definition set_materialise ::
  "set_env \<Rightarrow> plugin_set \<Rightarrow> string \<Rightarrow> resolved_entry list
    \<Rightarrow> (plugin_set_status, k8s_object, set_error, unit) ctl" where
  "set_materialise env obj namespace resolved =
     bindT (lift_run STenantRbac (ensure_tenant_secret_binding (sn_binding env) namespace
              set_operator_namespace (sn_service_account env) set_fm)) (\<lambda>_.
     bindT (copy_secrets env obj namespace resolved) (\<lambda>_.
     let (doc, hash) = render_resolved_set env obj resolved;
         cm = ObConfigMap (build_resolved_configmap obj namespace doc hash)
     in lift_run SApply (apply_owned (sn_apply env cm) ob_meta cm set_fm)))"

definition set_body ::
  "set_env \<Rightarrow> plugin_set \<Rightarrow> string \<Rightarrow> string
    \<Rightarrow> (plugin_set_status, k8s_object, set_error, reconcile_action \<times> reconcile_outcome) ctl" where
  "set_body env obj name namespace =
     (case resolve_entries env (set_entries (set_spec obj)) of (eff, resolved, failed) \<Rightarrow>
        let outc = (if failed = [] then Success else DependencyPending) in
        after eff
          (bindT (set_materialise env obj namespace resolved) (\<lambda>_.
           after (prune_stale_secrets (sn_list env (MANAGED_BY_SET_LABEL @ ''='' @ name))
                    (r_secret_name ` set resolved)
                  @ patch_status_logged (fst (sn_status env)) (snd (sn_status env)) name
                      (set_status_of env obj resolved failed) set_fm
                  @ (if outc = Success
                     then [Publish \<lparr>ev_type = Normal, ev_reason = ''Reconciled'', ev_action = ''Resolve''\<rparr>,
                           BackoffReset (resource_key ''plugin-set'' namespace name)]
                     else []))
             (ret (Requeue 300, outc)))))"

definition set_reconcile_inner ::
  "set_env \<Rightarrow> plugin_set
    \<Rightarrow> (plugin_set_status, k8s_object, set_error, reconcile_action \<times> reconcile_outcome) ctl" where
  "set_reconcile_inner env obj =
     (case meta_name (set_meta obj) of
        None \<Rightarrow> throw SMissingName
      | Some name \<Rightarrow>
        (case meta_namespace (set_meta obj) of
           None \<Rightarrow> throw (SMissingNamespace name)
         | Some namespace \<Rightarrow>
             guarded SFinalizer
               (\<lambda>n. remove_finalizer (sn_remove_get env) (sn_remove_patch env) n OPERATOR_FINALIZER)
               (\<lambda>n. ensure_finalizer (sn_finalizer env) n (set_meta obj) OPERATOR_FINALIZER)
               (set_meta obj) name (set_body env obj name namespace)))"

definition set_permanent :: "set_error \<Rightarrow> bool" where
  "set_permanent e = (case e of SMissingName \<Rightarrow> True | SMissingNamespace _ \<Rightarrow> True | _ \<Rightarrow> False)"

definition set_reconcile ::
  "set_env \<Rightarrow> plugin_set \<Rightarrow> (plugin_set_status, k8s_object, set_error, reconcile_action) ctl" where
  "set_reconcile env obj =
     observed ''plugin-set'' (\<lambda>r. case r of Inr (_, o') \<Rightarrow> o'
       | Inl e \<Rightarrow> if set_permanent e then PermanentError else TransientError)
       (set_reconcile_inner env obj)"

definition set_error_policy ::
  "real \<Rightarrow> plugin_set \<Rightarrow> set_error \<Rightarrow> backoff_map \<Rightarrow> reconcile_action \<times> backoff_map" where
  "set_error_policy r obj err m =
     error_policy set_permanent
       (resource_key ''plugin-set'' (case meta_namespace (set_meta obj) of Some n \<Rightarrow> n | None \<Rightarrow> [])
         (name_any (set_meta obj))) r err m"

section \<open>The watch on plugins\<close>

definition plugin_set_references :: "plugin_set \<Rightarrow> string \<Rightarrow> bool" where
  "plugin_set_references s plugin_name =
     list_ex (\<lambda>e. entry_plugin_ref e = plugin_name) (set_entries (set_spec s))"

definition map_plugin_to_plugin_sets ::
  "plugin_set list \<Rightarrow> plugin \<Rightarrow> (string option \<times> string) list" where
  "map_plugin_to_plugin_sets store p =
     (case meta_name (pl_meta p) of
        None \<Rightarrow> []
      | Some plugin_name \<Rightarrow>
          map (\<lambda>s. (meta_namespace (set_meta s), name_any (set_meta s)))
            (filter (\<lambda>s. plugin_set_references s plugin_name) store))"

section \<open>The contract of a reconciler\<close>

interpretation set_ctl: reconciler set_reconcile_inner set_meta
proof
  fix obj :: plugin_set and env
  assume "meta_name (set_meta obj) = None"
  then show "fst (set_reconcile_inner env obj) = [] \<and> isl (snd (set_reconcile_inner env obj))"
    by (simp add: set_reconcile_inner_def run_simps)
next
  fix obj :: plugin_set and env x
  assume "meta_deletion_timestamp (set_meta obj) \<noteq> None"
    and "x \<in> set (fst (set_reconcile_inner env obj))"
  then show "\<exists>fs. x = MergeFinalizers (name_any (set_meta obj)) fs \<and> OPERATOR_FINALIZER \<notin> set fs"
    by (auto simp: set_reconcile_inner_def run_simps split: option.splits dest: guarded_deleting)
next
  fix obj :: plugin_set and env
  assume "meta_deletion_timestamp (set_meta obj) = None" "\<not> has_finalizer (set_meta obj) OPERATOR_FINALIZER"
  then show "fst (set_reconcile_inner env obj) = [] \<and> isl (snd (set_reconcile_inner env obj))
    \<or> (\<exists>ops rest. fst (set_reconcile_inner env obj)
         = PatchFinalizers (name_any (set_meta obj)) ops # rest)"
    by (cases "meta_name (set_meta obj)"; cases "meta_namespace (set_meta obj)")
      (auto simp: set_reconcile_inner_def run_simps dest: guarded_finalizer_first)
qed

section \<open>Resolution\<close>

text \<open>The answer an entry gets.\<close>

definition entry_verdict :: "set_env \<Rightarrow> plugin_set_entry \<Rightarrow> string + resolved_entry" where
  "entry_verdict env e = resolve_entry (sn_plugin env (entry_plugin_ref e)) e"

text \<open>A plugin that a set may use: the entry's id, Ready, not revoked, with the Secret named.\<close>

definition usable_plugin :: "plugin \<Rightarrow> plugin_set_entry \<Rightarrow> string \<Rightarrow> bool" where
  "usable_plugin p e secret \<longleftrightarrow> (\<exists>st. pl_status p = Some st \<and> plugin_id (pl_spec p) = entry_id e
     \<and> cond_true ''Ready'' (ps_conditions st) \<and> ps_revoked_by_sha st \<noteq> Some True
     \<and> ps_artefact_secret_name st = Some secret \<and> secret \<noteq> [])"

lemma entry_verdict_usable:
  "entry_verdict env e = Inr r \<Longrightarrow>
     r_entry_id r = entry_id e
     \<and> (\<exists>p. sn_plugin env (entry_plugin_ref e) = Inr (Some p) \<and> usable_plugin p e (r_secret_name r))"
  by (auto simp: entry_verdict_def resolve_entry_def usable_plugin_def Let_def
      split: sum.splits option.splits if_splits)

text \<open>The loop over the entries splits the enabled ones, in order, into those whose plugin resolves
  and those that fail with a reason; disabled entries are in neither list.\<close>

lemma resolve_entries_partition:
  "snd (resolve_entries env es) =
     (map (\<lambda>e. projr (entry_verdict env e)) (filter (\<lambda>e. entry_enabled e \<and> \<not> isl (entry_verdict env e)) es),
      map (\<lambda>e. (entry_id e, projl (entry_verdict env e)))
        (filter (\<lambda>e. entry_enabled e \<and> isl (entry_verdict env e)) es))"
  by (induction es) (auto simp: entry_verdict_def split: prod.splits sum.splits)

lemma resolved_from_entry:
  assumes "resolve_entries env es = (eff, rs, fs)" and "r \<in> set rs"
  shows "\<exists>e \<in> set es. entry_enabled e \<and> entry_verdict env e = Inr r"
proof -
  have "\<exists>e \<in> set es. entry_enabled e \<and> \<not> isl (entry_verdict env e) \<and> r = projr (entry_verdict env e)"
    using resolve_entries_partition [of env es] assms by auto
  then obtain e where "e \<in> set es" "entry_enabled e" "\<not> isl (entry_verdict env e)"
    "r = projr (entry_verdict env e)" by blast
  then show ?thesis by (cases "entry_verdict env e") auto
qed

lemma resolve_entries_eff:
  "x \<in> set (fst (resolve_entries env es)) \<Longrightarrow> \<exists>a b c. x = ObserveDependency a b c"
  by (induction es) (auto split: prod.splits sum.splits if_splits)

section \<open>Effects of a reconcile\<close>

lemma copy_secrets_eff:
  "x \<in> set (fst (copy_secrets env obj ns rs)) \<Longrightarrow>
     \<exists>r source. r \<in> set rs \<and> sn_source env (r_secret_name r) = Inr (Some source)
       \<and> x = Apply (ObSecret (build_namespace_copy obj ns source r)) set_fm"
  by (induction rs) (auto simp: run_simps Let_def apply_owned_def split: sum.splits option.splits)

lemma set_materialise_eff:
  assumes "x \<in> set (fst (set_materialise env obj ns rs))"
  shows "x = Apply (ObRoleBinding (build_tenant_binding ns set_operator_namespace (sn_service_account env))) set_fm
     \<or> (\<exists>r source. r \<in> set rs \<and> sn_source env (r_secret_name r) = Inr (Some source)
          \<and> x = Apply (ObSecret (build_namespace_copy obj ns source r)) set_fm)
     \<or> (\<exists>cm. x = Apply (ObConfigMap cm) set_fm)"
  using assms
  by (auto simp: set_materialise_def bindT_effects ensure_tenant_secret_binding_def apply_owned_eff
      run_simps(1-13) Let_def dest!: copy_secrets_eff split: if_splits prod.splits)

lemma prune_eff:
  "x \<in> set (prune_stale_secrets listed desired) \<longleftrightarrow>
     (\<exists>items s n. listed = Inr items \<and> s \<in> set items \<and> meta_name (sec_meta s) = Some n
        \<and> n \<notin> desired \<and> x = DeleteObj n)"
  by (cases listed) (force simp: prune_stale_secrets_def split: option.splits if_splits)+

text \<open>An effect other than on finalizers and metrics belongs to the body.\<close>

lemma set_reconcile_body:
  assumes "x \<in> set (fst (set_reconcile env obj))"
    and "\<And>n o'. x \<noteq> ObserveReconcile n o'" "\<And>n ops. x \<noteq> PatchFinalizers n ops" "\<And>n fs. x \<noteq> MergeFinalizers n fs"
  shows "\<exists>name ns pre post. meta_name (set_meta obj) = Some name \<and> meta_namespace (set_meta obj) = Some ns
     \<and> x \<in> set (fst (set_body env obj name ns))
     \<and> fst (set_reconcile env obj) = pre @ fst (set_body env obj name ns) @ post"
proof -
  have x: "x \<in> set (fst (set_reconcile_inner env obj))"
    using assms(1,2) by (auto simp: set_reconcile_def observed_def)
  then obtain name ns where n: "meta_name (set_meta obj) = Some name" "meta_namespace (set_meta obj) = Some ns"
    by (auto simp: set_reconcile_inner_def run_simps split: option.splits)
  have del: "meta_deletion_timestamp (set_meta obj) = None"
    using set_ctl.deleting [OF _ x] assms(4) by fastforce
  let ?e = "lift_run SFinalizer (ensure_finalizer (sn_finalizer env) name (set_meta obj) OPERATOR_FINALIZER)
      :: (plugin_set_status, k8s_object, set_error, bool) ctl"
  have inner: "set_reconcile_inner env obj = bindT ?e (\<lambda>_. set_body env obj name ns)"
    using n del by (simp add: set_reconcile_inner_def guarded_def)
  have "x \<notin> set (fst ?e)" using assms(3) ensure_finalizer_eff unfolding lift_run_sel by metis
  then have "x \<in> set (fst (set_body env obj name ns))
      \<and> fst (set_reconcile_inner env obj) = fst ?e @ fst (set_body env obj name ns)"
    using x unfolding inner by (cases "snd ?e") (auto simp: bindT_sel)
  with n show ?thesis by (auto simp: set_reconcile_def observed_def)
qed

lemma set_body_eff:
  assumes "resolve_entries env (set_entries (set_spec obj)) = (eff, rs, fs)"
    and "x \<in> set (fst (set_body env obj name ns))"
  shows "x \<in> set eff \<or> x \<in> set (fst (set_materialise env obj ns rs))
     \<or> x \<in> set (prune_stale_secrets (sn_list env (MANAGED_BY_SET_LABEL @ ''='' @ name)) (r_secret_name ` set rs))
     \<or> x = PatchStatus name (set_status_of env obj rs fs) set_fm
     \<or> (\<exists>e. x = Publish e) \<or> (\<exists>k. x = BackoffReset k)"
  using assms
  by (auto simp: set_body_def bindT_effects run_simps(1-13) patch_status_logged_eff Let_def split: if_splits)

text \<open>The status is the last thing a reconcile writes before it returns.\<close>

lemma set_status_means_done:
  assumes "PatchStatus n st fm \<in> set (fst (set_reconcile env obj))"
  shows "\<exists>action. snd (set_reconcile env obj) = Inr action"
proof -
  let ?x = "PatchStatus n st fm"
  have x: "?x \<in> set (fst (set_reconcile_inner env obj))"
    using assms by (auto simp: set_reconcile_def observed_def)
  obtain name ns where n: "meta_name (set_meta obj) = Some name" "meta_namespace (set_meta obj) = Some ns"
      "?x \<in> set (fst (set_body env obj name ns))"
    using set_reconcile_body [OF assms] by auto
  have "meta_deletion_timestamp (set_meta obj) = None"
    using set_ctl.deleting [OF _ x] by fastforce
  then have inner: "set_reconcile_inner env obj = bindT (lift_run SFinalizer (ensure_finalizer (sn_finalizer env)
      name (set_meta obj) OPERATOR_FINALIZER)) (\<lambda>_. set_body env obj name ns)" (is "_ = bindT ?e _")
    using n by (simp add: set_reconcile_inner_def guarded_def)
  obtain eff rs fs where r: "resolve_entries env (set_entries (set_spec obj)) = (eff, rs, fs)"
    by (metis prod_cases3)
  have "?x \<notin> set eff" "?x \<notin> set (fst (set_materialise env obj ns rs))"
    using resolve_entries_eff [of _ env "set_entries (set_spec obj)"] r set_materialise_eff
    by fastforce+
  then obtain u where "snd (set_materialise env obj ns rs) = Inr u"
    using n(3) r by (cases "snd (set_materialise env obj ns rs)") (auto simp: set_body_def after_sel bindT_sel Let_def)
  then have "\<exists>a. snd (set_body env obj name ns) = Inr a"
    using r by (simp add: set_body_def after_sel bindT_sel ret_sel Let_def)
  moreover have "?x \<notin> set (fst ?e)" by (auto simp: lift_run_sel dest: ensure_finalizer_eff)
  then obtain b where "snd ?e = Inr b" using x inner by (cases "snd ?e") (auto simp: bindT_sel)
  ultimately show ?thesis
    by (auto simp: set_reconcile_def observed_def inner bindT_sel)
qed

section \<open>Properties\<close>

lemma set_applies_secret:
  assumes "Apply (ObSecret s) fm \<in> set (fst (set_reconcile env obj))"
  shows "\<exists>name ns e p secret source. meta_name (set_meta obj) = Some name
     \<and> meta_namespace (set_meta obj) = Some ns \<and> e \<in> set (set_entries (set_spec obj)) \<and> entry_enabled e
     \<and> sn_plugin env (entry_plugin_ref e) = Inr (Some p) \<and> usable_plugin p e secret
     \<and> sn_source env secret = Inr (Some source) \<and> sec_data s = sec_data source \<and> sec_immutable s = Some True
     \<and> meta_name (sec_meta s) = Some secret \<and> meta_namespace (sec_meta s) = Some ns
     \<and> meta_owner_references (sec_meta s) = Some [set_owner_ref obj name]"
proof -
  obtain name ns where n: "meta_name (set_meta obj) = Some name" "meta_namespace (set_meta obj) = Some ns"
      "Apply (ObSecret s) fm \<in> set (fst (set_body env obj name ns))"
    using set_reconcile_body [OF assms] by auto
  obtain eff rs fs where r: "resolve_entries env (set_entries (set_spec obj)) = (eff, rs, fs)"
    by (metis prod_cases3)
  have "Apply (ObSecret s) fm \<notin> set eff"
    using resolve_entries_eff [of _ env "set_entries (set_spec obj)"] r by fastforce
  then have "Apply (ObSecret s) fm \<in> set (fst (set_materialise env obj ns rs))"
    using set_body_eff [OF r n(3)] by (auto simp: prune_eff)
  then obtain x source where x: "x \<in> set rs" "sn_source env (r_secret_name x) = Inr (Some source)"
      "s = build_namespace_copy obj ns source x"
    by (auto dest!: set_materialise_eff)
  obtain e where e: "e \<in> set (set_entries (set_spec obj))" "entry_enabled e" "entry_verdict env e = Inr x"
    using resolved_from_entry [OF r x(1)] by blast
  with entry_verdict_usable [OF e(3)] x n show ?thesis
    by (auto simp: build_namespace_copy_def)
qed

text \<open>C10. What a set puts into a tenant namespace is verified: every Secret a reconcile applies
  belongs to an enabled entry whose plugin exists, carries the entry's id, is Ready and not
  revoked; it is the operator's own Secret of the name the plugin reports, with the same
  data, immutable, in the namespace of the set and owned by it.\<close>

theorem set_copies_only_usable:
  assumes "Apply (ObSecret s) fm \<in> set (fst (set_reconcile env obj))"
  shows "\<exists>name ns e p secret source. meta_name (set_meta obj) = Some name
     \<and> meta_namespace (set_meta obj) = Some ns \<and> e \<in> set (set_entries (set_spec obj)) \<and> entry_enabled e
     \<and> sn_plugin env (entry_plugin_ref e) = Inr (Some p) \<and> usable_plugin p e secret
     \<and> sn_source env secret = Inr (Some source) \<and> sec_data s = sec_data source \<and> sec_immutable s = Some True
     \<and> meta_name (sec_meta s) = Some secret \<and> meta_namespace (sec_meta s) = Some ns
     \<and> meta_owner_references (sec_meta s) = Some [set_owner_ref obj name]"
  using assms by (rule set_applies_secret)

text \<open>The Secrets a finished reconcile deletes.\<close>

lemma set_prunes:
  assumes "snd (set_reconcile env obj) = Inr action" and "meta_deletion_timestamp (set_meta obj) = None"
  shows "\<exists>name rs. meta_name (set_meta obj) = Some name
     \<and> rs = fst (snd (resolve_entries env (set_entries (set_spec obj))))
     \<and> (DeleteObj n \<in> set (fst (set_reconcile env obj)) \<longleftrightarrow>
          (\<exists>items s. sn_list env (MANAGED_BY_SET_LABEL @ ''='' @ name) = Inr items \<and> s \<in> set items
             \<and> meta_name (sec_meta s) = Some n) \<and> n \<notin> r_secret_name ` set rs)
     \<and> (DeleteObj n \<in> set (fst (set_reconcile env obj)) \<longrightarrow>
          (\<forall>s fm. Apply (ObSecret s) fm \<in> set (fst (set_reconcile env obj)) \<longrightarrow> meta_name (sec_meta s) \<noteq> Some n))"
proof -
  obtain a where a: "snd (set_reconcile_inner env obj) = Inr a"
    using assms(1) by (auto simp: set_reconcile_def observed_def split: sum.splits)
  then obtain name ns where n: "meta_name (set_meta obj) = Some name" "meta_namespace (set_meta obj) = Some ns"
    by (auto simp: set_reconcile_inner_def run_simps split: option.splits)
  then have "set_reconcile_inner env obj = bindT (lift_run SFinalizer (ensure_finalizer (sn_finalizer env) name
      (set_meta obj) OPERATOR_FINALIZER)) (\<lambda>_. set_body env obj name ns)" (is "_ = bindT ?e _")
    using assms(2) by (simp add: set_reconcile_inner_def guarded_def)
  with a have b: "snd (set_body env obj name ns) = Inr a"
      "set (fst (set_body env obj name ns)) \<subseteq> set (fst (set_reconcile_inner env obj))"
    by (cases "snd ?e"; simp add: bindT_sel)+
  obtain eff rs fs where r: "resolve_entries env (set_entries (set_spec obj)) = (eff, rs, fs)"
    by (metis prod_cases3)
  let ?prune = "prune_stale_secrets (sn_list env (MANAGED_BY_SET_LABEL @ ''='' @ name)) (r_secret_name ` set rs)"
  have prune: "set ?prune \<subseteq> set (fst (set_body env obj name ns))"
    using b(1) r by (auto simp: set_body_def bindT_Inr bindT_effects run_simps(1-13) Let_def)
  have eff: "DeleteObj n \<notin> set eff" "Apply (ObSecret s) fm \<notin> set eff" for s fm
    using resolve_entries_eff [of _ env "set_entries (set_spec obj)"] r by fastforce+
  have only: "DeleteObj n \<in> set ?prune" if asm: "DeleteObj n \<in> set (fst (set_reconcile env obj))"
  proof -
    obtain ns' where "DeleteObj n \<in> set (fst (set_body env obj name ns'))"
      using set_reconcile_body [OF asm] n by auto
    with set_body_eff [OF r] eff show ?thesis by (fastforce dest!: set_materialise_eff)
  qed
  have iff: "DeleteObj n \<in> set (fst (set_reconcile env obj)) \<longleftrightarrow> DeleteObj n \<in> set ?prune"
    using only prune b(2) by (auto simp: set_reconcile_def observed_def)
  have applied: "meta_name (sec_meta s) = Some m \<longrightarrow> m \<in> r_secret_name ` set rs"
    if asm: "Apply (ObSecret s) fm \<in> set (fst (set_reconcile env obj))" for s fm m
  proof -
    obtain ns' where "Apply (ObSecret s) fm \<in> set (fst (set_body env obj name ns'))"
      using set_reconcile_body [OF asm] n by auto
    then have "Apply (ObSecret s) fm \<in> set (fst (set_materialise env obj ns' rs))"
      using set_body_eff [OF r] eff by (fastforce simp: prune_eff)
    then show ?thesis by (auto dest!: set_materialise_eff simp: build_namespace_copy_def)
  qed
  show ?thesis
    unfolding iff using n r by (auto simp: prune_eff dest: applied)
qed

text \<open>C26. Pruning is safe and complete: a reconcile deletes only Secrets that the server listed under
  the set's label, never one that an enabled entry resolves to and never one it has applied
  itself; and once the listing succeeded and the reconcile reached its end, every listed
  Secret that no enabled entry resolves to is deleted.\<close>

theorem set_prune_exact:
  assumes "snd (set_reconcile env obj) = Inr action" and "meta_deletion_timestamp (set_meta obj) = None"
  shows "\<exists>name rs. meta_name (set_meta obj) = Some name
     \<and> rs = fst (snd (resolve_entries env (set_entries (set_spec obj))))
     \<and> (DeleteObj n \<in> set (fst (set_reconcile env obj)) \<longleftrightarrow>
          (\<exists>items s. sn_list env (MANAGED_BY_SET_LABEL @ ''='' @ name) = Inr items \<and> s \<in> set items
             \<and> meta_name (sec_meta s) = Some n) \<and> n \<notin> r_secret_name ` set rs)
     \<and> (DeleteObj n \<in> set (fst (set_reconcile env obj)) \<longrightarrow>
          (\<forall>s fm. Apply (ObSecret s) fm \<in> set (fst (set_reconcile env obj)) \<longrightarrow> meta_name (sec_meta s) \<noteq> Some n))"
  using assms by (rule set_prunes)

lemma set_status_ready:
  assumes "condition_setter (sn_set_condition env)"
  shows "cond_true ''Ready'' (ss_conditions (set_status_of env obj rs fs)) \<longleftrightarrow> fs = []"
  by (auto simp: set_status_of_def set_final_conditions_def Let_def cond_true_set [OF assms])

text \<open>The reported status is what was resolved: in every status a reconcile writes, Ready holds
  exactly when every enabled entry resolved, the failed entries are exactly the enabled ones
  that did not, each with its reason, and resolved, failed and disabled entries add up to
  the total.\<close>

theorem set_status_faithful:
  assumes "condition_setter (sn_set_condition env)"
    and "PatchStatus n st fm \<in> set (fst (set_reconcile env obj))"
  shows "(cond_true ''Ready'' (ss_conditions st) \<longleftrightarrow>
        list_all (\<lambda>e. entry_enabled e \<longrightarrow> \<not> isl (entry_verdict env e)) (set_entries (set_spec obj)))
     \<and> ss_failed_entries st = map (\<lambda>e. (entry_id e, projl (entry_verdict env e)))
        (filter (\<lambda>e. entry_enabled e \<and> isl (entry_verdict env e)) (set_entries (set_spec obj)))
     \<and> (\<exists>k. ss_resolved_entries st = Some k
        \<and> ss_total_entries st = Some (k + int (length (ss_failed_entries st))
            + int (length (filter (\<lambda>e. \<not> entry_enabled e) (set_entries (set_spec obj))))))"
proof -
  obtain name ns where n: "PatchStatus n st fm \<in> set (fst (set_body env obj name ns))"
    using set_reconcile_body [OF assms(2)] by auto
  obtain eff rs fs where r: "resolve_entries env (set_entries (set_spec obj)) = (eff, rs, fs)"
    by (metis prod_cases3)
  have "PatchStatus n st fm \<notin> set eff"
    using resolve_entries_eff [of _ env "set_entries (set_spec obj)"] r by fastforce
  then have st: "st = set_status_of env obj rs fs"
    using set_body_eff [OF r n] by (auto simp: prune_eff dest!: set_materialise_eff)
  let ?es = "set_entries (set_spec obj)"
  have part: "rs = map (\<lambda>e. projr (entry_verdict env e)) (filter (\<lambda>e. entry_enabled e \<and> \<not> isl (entry_verdict env e)) ?es)"
      "fs = map (\<lambda>e. (entry_id e, projl (entry_verdict env e))) (filter (\<lambda>e. entry_enabled e \<and> isl (entry_verdict env e)) ?es)"
    using resolve_entries_partition [of env ?es] r by auto
  have count: "length xs = length (filter (\<lambda>e. P e \<and> \<not> Q e) xs) + length (filter (\<lambda>e. P e \<and> Q e) xs)
      + length (filter (\<lambda>e. \<not> P e) xs)" for P Q and xs :: "plugin_set_entry list"
    by (induction xs) auto
  have "fs = [] \<longleftrightarrow> list_all (\<lambda>e. entry_enabled e \<longrightarrow> \<not> isl (entry_verdict env e)) ?es"
    by (auto simp: part(2) filter_empty_conv list_all_iff)
  moreover have "ss_failed_entries st = fs" by (simp add: st set_status_of_def Let_def)
  moreover have "ss_resolved_entries st = Some (int (length rs))" "ss_total_entries st = Some (int (length ?es))"
    by (simp_all add: st set_status_of_def Let_def)
  moreover have "int (length ?es) = int (length rs) + int (length fs)
      + int (length (filter (\<lambda>e. \<not> entry_enabled e) ?es))"
    using count [of ?es entry_enabled "\<lambda>e. isl (entry_verdict env e)"] by (simp add: part)
  ultimately show ?thesis using set_status_ready [OF assms(1), of obj rs fs] st part(2) by simp
qed

text \<open>Writes stay within granted rights: outside the operator's namespace, no Secret is applied
  unless the role binding that grants the operator Secret writes in that namespace was
  applied before it and accepted.\<close>

theorem set_binding_before_secrets:
  assumes "Apply (ObSecret s) fm \<in> set (fst (set_reconcile env obj))"
    and "meta_namespace (set_meta obj) = Some ns" and "ns \<noteq> set_operator_namespace"
  shows "sn_binding env = Inr () \<and> (\<exists>pre post. fst (set_reconcile env obj)
     = pre @ Apply (ObRoleBinding (build_tenant_binding ns set_operator_namespace (sn_service_account env))) set_fm
       # post \<and> Apply (ObSecret s) fm \<in> set post)"
proof -
  obtain name pre post where n: "Apply (ObSecret s) fm \<in> set (fst (set_body env obj name ns))"
      "fst (set_reconcile env obj) = pre @ fst (set_body env obj name ns) @ post"
    using set_reconcile_body [OF assms(1)] assms(2) by auto
  obtain eff rs fs where r: "resolve_entries env (set_entries (set_spec obj)) = (eff, rs, fs)"
    by (metis prod_cases3)
  have ne: "Apply (ObSecret s) fm \<notin> set eff"
    using resolve_entries_eff [of _ env "set_entries (set_spec obj)"] r by fastforce
  let ?b = "Apply (ObRoleBinding (build_tenant_binding ns set_operator_namespace (sn_service_account env))) set_fm"
  have m: "Apply (ObSecret s) fm \<in> set (fst (set_materialise env obj ns rs))"
    using set_body_eff [OF r n(1)] ne by (auto simp: prune_eff)
  have "sn_binding env = Inr () \<and> (\<exists>rest. fst (set_materialise env obj ns rs) = ?b # rest
      \<and> Apply (ObSecret s) fm \<in> set rest)"
    using m assms(3)
    by (cases "sn_binding env")
      (auto simp: set_materialise_def ensure_tenant_secret_binding_def run_simps map_err_def)
  then obtain rest where "sn_binding env = Inr ()" and rest: "fst (set_materialise env obj ns rs) = ?b # rest"
      "Apply (ObSecret s) fm \<in> set rest" by blast
  moreover obtain tail where "fst (set_body env obj name ns) = eff @ fst (set_materialise env obj ns rs) @ tail"
    using r by (auto simp: set_body_def Let_def after_sel bindT_sel split: sum.splits)
  ultimately have "fst (set_reconcile env obj) = (pre @ eff) @ ?b # (rest @ tail @ post)"
    using n(2) by simp
  with \<open>sn_binding env = Inr ()\<close> rest(2) show ?thesis by fastforce
qed

section \<open>Witnesses\<close>

definition sample_ready_plugin :: plugin where
  "sample_ready_plugin = \<lparr>pl_meta = default_meta\<lparr>meta_name := Some ''p1''\<rparr>,
     pl_spec = \<lparr>plugin_id = ''dev.x'', plugin_version = ''1'', plugin_class = ''identity_provider'',
       p_oci = \<lparr>oci_image = ''reg.io/x/p:1'', pull_secret_ref = None, mirror_ref = None\<rparr>,
       p_trust = \<lparr>signing_key = \<lparr>sk_secret_name = ''keys'', sk_key = ''pub''\<rparr>,
         trust_cosign_identity = None, trust_slsa_provenance = None\<rparr>\<rparr>,
     pl_status = Some (default_plugin_status
       \<lparr>ps_conditions := [cond ''Ready'' ''True'' ''Reconciled'' 1],
        ps_artefact_secret_name := Some ''mcpg-plugin-p1-01234567''\<rparr>)\<rparr>"

definition sample_secret :: "string \<Rightarrow> secret" where
  "sample_secret n = \<lparr>sec_meta = default_meta\<lparr>meta_name := Some n\<rparr>, sec_type = None,
     sec_immutable = None, sec_data = Some [''plugin.so'' \<mapsto> ''bytes'']\<rparr>"

definition sample_set_env :: set_env where
  "sample_set_env = \<lparr>sn_remove_get = Inr None, sn_remove_patch = Inr (), sn_finalizer = Inr (),
     sn_status = (Inr (), Inr ()), sn_plugin = (\<lambda>n. Inr (if n = ''p1'' then Some sample_ready_plugin else None)),
     sn_binding = Inr (), sn_service_account = ''sa'', sn_source = (\<lambda>n. Inr (Some (sample_secret n))),
     sn_apply = (\<lambda>_. Inr ()), sn_list = (\<lambda>_. Inr [sample_secret ''stale'', sample_secret ''mcpg-plugin-p1-01234567'']),
     sn_render = (\<lambda>_. ''doc''), sn_sha256_hex = (\<lambda>_. ''h''), sn_set_condition = upsert_condition\<rparr>"

definition sample_set :: plugin_set where
  "sample_set = \<lparr>set_meta = default_meta\<lparr>meta_name := Some ''s'', meta_namespace := Some ''team-a'',
       meta_finalizers := Some [OPERATOR_FINALIZER]\<rparr>,
     set_spec = \<lparr>set_entries = [\<lparr>entry_id = ''dev.x'', entry_plugin_ref = ''p1'', entry_enabled = True,
         entry_config = None\<rparr>, \<lparr>entry_id = ''dev.y'', entry_plugin_ref = ''p2'', entry_enabled = False,
         entry_config = None\<rparr>], capability_grants = []\<rparr>,
     set_conditions = None, set_resolved_hash = None\<rparr>"

fun set_effect_tag :: "(plugin_set_status, k8s_object) effect \<Rightarrow> string \<times> string" where
  "set_effect_tag (Apply (ObSecret s) fm) = (''secret'', name_any (sec_meta s))"
| "set_effect_tag (DeleteObj n) = (''delete'', n)"
| "set_effect_tag (PatchStatus n st fm) =
     (if cond_true ''Ready'' (ss_conditions st) then ''ready'' else ''status'', n)"
| "set_effect_tag _ = (''other'', [])"

lemma sample_set_effects:
  "map set_effect_tag (fst (set_reconcile sample_set_env sample_set)) =
     [(''other'', []), (''secret'', ''mcpg-plugin-p1-01234567''), (''other'', []), (''delete'', ''stale''),
      (''ready'', ''s''), (''other'', []), (''other'', []), (''other'', [])]"
  by code_simp

lemma set_effect_tag_inv:
  "(''secret'', n) = set_effect_tag x \<Longrightarrow> \<exists>s fm. x = Apply (ObSecret s) fm"
  "(''delete'', n) = set_effect_tag x \<Longrightarrow> x = DeleteObj n"
  "(''ready'', n) = set_effect_tag x \<Longrightarrow> \<exists>st fm. x = PatchStatus n st fm \<and> cond_true ''Ready'' (ss_conditions st)"
  by (cases x rule: set_effect_tag.cases; auto split: if_splits)+

lemma sample_set_facts:
  "\<exists>s fm. Apply (ObSecret s) fm \<in> set (fst (set_reconcile sample_set_env sample_set))"
  "DeleteObj ''stale'' \<in> set (fst (set_reconcile sample_set_env sample_set))"
  "\<exists>n st fm. PatchStatus n st fm \<in> set (fst (set_reconcile sample_set_env sample_set))
     \<and> cond_true ''Ready'' (ss_conditions st)"
proof -
  have tags: "t \<in> set_effect_tag ` set (fst (set_reconcile sample_set_env sample_set))"
    if "t \<in> {(''secret'', ''mcpg-plugin-p1-01234567''), (''delete'', ''stale''), (''ready'', ''s'')}" for t
    using that unfolding set_map [symmetric] sample_set_effects by auto
  show "\<exists>s fm. Apply (ObSecret s) fm \<in> set (fst (set_reconcile sample_set_env sample_set))"
    using tags [of "(''secret'', ''mcpg-plugin-p1-01234567'')"] by (auto dest!: set_effect_tag_inv)
  show "DeleteObj ''stale'' \<in> set (fst (set_reconcile sample_set_env sample_set))"
    using tags [of "(''delete'', ''stale'')"] by (auto dest!: set_effect_tag_inv)
  show "\<exists>n st fm. PatchStatus n st fm \<in> set (fst (set_reconcile sample_set_env sample_set))
     \<and> cond_true ''Ready'' (ss_conditions st)"
    using tags [of "(''ready'', ''s'')"] by (auto dest!: set_effect_tag_inv)
qed

theorem set_copies_only_usable_witness:
  "\<exists>s fm p e secret. Apply (ObSecret s) fm \<in> set (fst (set_reconcile sample_set_env sample_set))
     \<and> usable_plugin p e secret \<and> meta_name (sec_meta s) = Some secret"
proof -
  obtain s fm where a: "Apply (ObSecret s) fm \<in> set (fst (set_reconcile sample_set_env sample_set))"
    using sample_set_facts(1) by blast
  from set_copies_only_usable [OF a] a show ?thesis by blast
qed

theorem set_prune_exact_witness:
  "DeleteObj ''stale'' \<in> set (fst (set_reconcile sample_set_env sample_set))
   \<and> ''stale'' \<notin> r_secret_name ` set (fst (snd (resolve_entries sample_set_env (set_entries (set_spec sample_set)))))"
proof -
  obtain action where "snd (set_reconcile sample_set_env sample_set) = Inr action"
    using sample_set_facts(3) set_status_means_done by blast
  moreover have "meta_deletion_timestamp (set_meta sample_set) = None"
    by (simp add: sample_set_def default_meta_def)
  ultimately show ?thesis
    using set_prune_exact [of sample_set_env sample_set action "''stale''"] sample_set_facts(2) by auto
qed

theorem set_status_faithful_witness:
  "list_all (\<lambda>e. entry_enabled e \<longrightarrow> \<not> isl (entry_verdict sample_set_env e)) (set_entries (set_spec sample_set))"
proof -
  obtain n st fm where a: "PatchStatus n st fm \<in> set (fst (set_reconcile sample_set_env sample_set))"
      "cond_true ''Ready'' (ss_conditions st)"
    using sample_set_facts(3) by blast
  have "condition_setter (sn_set_condition sample_set_env)" by (simp add: sample_set_env_def)
  from set_status_faithful [OF this a(1)] a(2) show ?thesis by blast
qed

theorem set_binding_before_secrets_witness:
  "\<exists>pre post s fm. fst (set_reconcile sample_set_env sample_set)
     = pre @ Apply (ObRoleBinding (build_tenant_binding ''team-a'' set_operator_namespace ''sa'')) set_fm # post
     \<and> Apply (ObSecret s) fm \<in> set post"
proof -
  obtain s fm where a: "Apply (ObSecret s) fm \<in> set (fst (set_reconcile sample_set_env sample_set))"
    using sample_set_facts(1) by blast
  have "meta_namespace (set_meta sample_set) = Some ''team-a''" "''team-a'' \<noteq> set_operator_namespace"
    "sn_service_account sample_set_env = ''sa''"
    by (simp_all add: set_operator_namespace_def sample_set_def sample_set_env_def)
  with set_binding_before_secrets [OF a] show ?thesis by metis
qed

end
