(* ===== verification/RevocationCtl.thy ===== *)
theory RevocationCtl
  imports Reconciler "HOL-Library.List_Lexorder" "HOL-Library.Char_ord"
begin

text \<open>
  The revocation-list controller (\<open>src/src/controllers/revocation_list.rs\<close>): render the list
  as JSON and fan it out as one ConfigMap per namespace that runs a gateway. Strings are
  ordered byte by byte, as in Rust. The JSON printer and the hash are parameters.
\<close>

section \<open>Rendering\<close>

definition entry_json :: "revocation_entry \<Rightarrow> json" where
  "entry_json e = JObj
     ([(''artifact_sha256'', JStr (to_ascii_lowercase (re_artifact_sha256 e))),
       (''reason'', JStr (re_reason e))]
      @ (case re_revoked_at e of Some t \<Rightarrow> [(''revoked_at'', JStr t)] | None \<Rightarrow> []))"

definition revocation_doc :: "revocation_list_spec \<Rightarrow> json" where
  "revocation_doc spec = JObj
     ([(''version'', JNum (int (rl_version spec)))]
      @ (case rl_issued_at spec of Some t \<Rightarrow> [(''issued_at'', JStr t)] | None \<Rightarrow> [])
      @ [(''revocations'', JArr (map entry_json (rl_revocations spec)))])"

definition render_revocation_json ::
  "(json \<Rightarrow> string) \<Rightarrow> (string \<Rightarrow> string) \<Rightarrow> revocation_list_spec \<Rightarrow> string \<times> string" where
  "render_revocation_json render sha_hex spec =
     (let text = render (revocation_doc spec) in (text, sha_hex text))"

definition CONFIGMAP_NAME :: string where
  "CONFIGMAP_NAME = ''mcpg-revocation-list''"

definition REVOCATIONS_FILE :: string where
  "REVOCATIONS_FILE = ''revocations.json''"

definition revocation_configmap :: "revocation_list \<Rightarrow> string \<Rightarrow> string \<Rightarrow> string \<Rightarrow> config_map" where
  "revocation_configmap parent namespace rendered content_hash =
     \<lparr>cm_meta = default_meta\<lparr>meta_name := Some CONFIGMAP_NAME, meta_namespace := Some namespace,
        meta_labels := Some [''app.kubernetes.io/managed-by'' \<mapsto> ''mcpg-operator'',
          ''mcpg.dev/revocation-list'' \<mapsto> (case meta_name (rl_meta parent) of Some n \<Rightarrow> n | None \<Rightarrow> ''unknown''),
          ''mcpg.dev/content-hash'' \<mapsto> content_hash]\<rparr>,
      cm_data = Some [REVOCATIONS_FILE \<mapsto> rendered]\<rparr>"

section \<open>The reconcile\<close>

datatype revocation_error =
    RApply apply_error
  | RStatus status_error
  | RFinalizer finalizer_error
  | RKube kube_error
  | RMissingName

record revocation_status =
  rs_conditions :: "condition list"
  rs_observed_generation :: "int option"
  rs_observed_revocations :: "int option"
  rs_materialised_namespaces :: "int option"
  rs_plugins_blocked :: "string list"
  rs_content_hash :: "string option"

record revocation_env =
  rn_remove_get :: "kube_error + object_meta option"
  rn_remove_patch :: "kube_error + unit"
  rn_finalizer :: "kube_error + unit"
  rn_status :: "(kube_error + unit) \<times> (kube_error + unit)"
  rn_gateways :: "kube_error + gateway list"
  rn_apply :: "string \<Rightarrow> kube_error + unit"
  rn_render :: "json \<Rightarrow> string"
  rn_sha256_hex :: "string \<Rightarrow> string"
  rn_set_condition :: "condition \<Rightarrow> condition list \<Rightarrow> condition list"

abbreviation revocation_fm :: string where
  "revocation_fm \<equiv> field_manager ''revocation-list-controller''"

text \<open>\<open>sort\<close>, then \<open>dedup\<close>.\<close>

definition list_namespaces_with_gateways :: "kube_error + gateway list \<Rightarrow> revocation_error + string list" where
  "list_namespaces_with_gateways ans =
     bindE (map_err RKube ans) (\<lambda>gateways.
     Inr (remdups_adj (sort (List.map_filter (\<lambda>g. meta_namespace (gw_meta g)) gateways))))"

text \<open>The loop over the namespaces: the effects and how many applies were accepted.\<close>

fun fan_out ::
  "revocation_env \<Rightarrow> revocation_list \<Rightarrow> string \<Rightarrow> string \<Rightarrow> string list
    \<Rightarrow> (revocation_status, k8s_object) effect list \<times> int" where
  "fan_out env obj rendered hash [] = ([], 0)"
| "fan_out env obj rendered hash (ns # nss) =
     (let cm = ObConfigMap (revocation_configmap obj ns rendered hash);
          here = (apply_owned (rn_apply env ns) ob_meta cm revocation_fm
            :: (revocation_status, k8s_object, apply_error, unit) ctl)
      in case fan_out env obj rendered hash nss of (eff, k) \<Rightarrow>
         (fst here @ eff, (if isl (snd here) then k else k + 1)))"

definition revocation_status_of ::
  "revocation_env \<Rightarrow> revocation_list \<Rightarrow> bool \<Rightarrow> int \<Rightarrow> string \<Rightarrow> revocation_status" where
  "revocation_status_of env obj is_ready materialised hash =
     (let gen = generation_of (rl_meta obj);
          old = (case rl_conditions obj of Some cs \<Rightarrow> cs | None \<Rightarrow> [])
      in \<lparr>rs_conditions = (if is_ready
             then rn_set_condition env (cond ''Ready'' ''True'' ''Reconciled'' gen) old
             else rn_set_condition env (cond ''Ready'' ''False'' ''Progressing'' gen) old),
          rs_observed_generation = Some gen,
          rs_observed_revocations = Some (int (length (rl_revocations (rl_spec obj)))),
          rs_materialised_namespaces = Some materialised, rs_plugins_blocked = [],
          rs_content_hash = Some hash\<rparr>)"

definition revocation_body ::
  "revocation_env \<Rightarrow> revocation_list \<Rightarrow> string
    \<Rightarrow> (revocation_status, k8s_object, revocation_error, reconcile_action \<times> reconcile_outcome) ctl" where
  "revocation_body env obj name =
     (let (rendered, hash) = render_revocation_json (rn_render env) (rn_sha256_hex env) (rl_spec obj)
      in bindT ([], list_namespaces_with_gateways (rn_gateways env)) (\<lambda>targets.
         case fan_out env obj rendered hash targets of (eff, materialised) \<Rightarrow>
         let is_ready = (nat materialised = length targets)
         in after (eff @ patch_status_logged (fst (rn_status env)) (snd (rn_status env)) name
                     (revocation_status_of env obj is_ready materialised hash) revocation_fm
                   @ [Publish \<lparr>ev_type = (if is_ready then Normal else Warning),
                        ev_reason = (if is_ready then ''Materialised'' else ''PartialMaterialisation''),
                        ev_action = ''Materialise''\<rparr>]
                   @ (if is_ready then [BackoffReset (resource_key ''revocation-list'' [] name)] else []))
              (ret (Requeue 60, if is_ready then Success else DependencyPending))))"

definition revocation_reconcile_inner ::
  "revocation_env \<Rightarrow> revocation_list
    \<Rightarrow> (revocation_status, k8s_object, revocation_error, reconcile_action \<times> reconcile_outcome) ctl" where
  "revocation_reconcile_inner env obj =
     (case meta_name (rl_meta obj) of
        None \<Rightarrow> throw RMissingName
      | Some name \<Rightarrow>
          guarded RFinalizer
            (\<lambda>n. remove_finalizer (rn_remove_get env) (rn_remove_patch env) n OPERATOR_FINALIZER)
            (\<lambda>n. ensure_finalizer (rn_finalizer env) n (rl_meta obj) OPERATOR_FINALIZER)
            (rl_meta obj) name (revocation_body env obj name))"

definition revocation_reconcile ::
  "revocation_env \<Rightarrow> revocation_list \<Rightarrow> (revocation_status, k8s_object, revocation_error, reconcile_action) ctl" where
  "revocation_reconcile env obj =
     observed ''revocation-list'' (\<lambda>r. case r of Inr (_, o') \<Rightarrow> o'
       | Inl e \<Rightarrow> if e = RMissingName then PermanentError else TransientError)
       (revocation_reconcile_inner env obj)"

definition revocation_error_policy ::
  "real \<Rightarrow> revocation_list \<Rightarrow> revocation_error \<Rightarrow> backoff_map \<Rightarrow> reconcile_action \<times> backoff_map" where
  "revocation_error_policy r obj err m =
     error_policy (\<lambda>e. e = RMissingName) (resource_key ''revocation-list'' [] (name_any (rl_meta obj))) r err m"

section \<open>The contract of a reconciler\<close>

interpretation revocation_ctl: reconciler revocation_reconcile_inner rl_meta
proof
  fix obj :: revocation_list and env
  assume "meta_name (rl_meta obj) = None"
  then show "fst (revocation_reconcile_inner env obj) = [] \<and> isl (snd (revocation_reconcile_inner env obj))"
    by (simp add: revocation_reconcile_inner_def run_simps)
next
  fix obj :: revocation_list and env x
  assume "meta_deletion_timestamp (rl_meta obj) \<noteq> None"
    and "x \<in> set (fst (revocation_reconcile_inner env obj))"
  then show "\<exists>fs. x = MergeFinalizers (name_any (rl_meta obj)) fs \<and> OPERATOR_FINALIZER \<notin> set fs"
    by (auto simp: revocation_reconcile_inner_def run_simps split: option.splits dest: guarded_deleting)
next
  fix obj :: revocation_list and env
  assume "meta_deletion_timestamp (rl_meta obj) = None" "\<not> has_finalizer (rl_meta obj) OPERATOR_FINALIZER"
  then show "fst (revocation_reconcile_inner env obj) = [] \<and> isl (snd (revocation_reconcile_inner env obj))
    \<or> (\<exists>ops rest. fst (revocation_reconcile_inner env obj)
         = PatchFinalizers (name_any (rl_meta obj)) ops # rest)"
    by (cases "meta_name (rl_meta obj)")
      (auto simp: revocation_reconcile_inner_def run_simps dest: guarded_finalizer_first)
qed

section \<open>Fan-out\<close>

lemma sorted_distinct_remdups_adj: "sorted xs \<Longrightarrow> distinct (remdups_adj (xs :: string list))"
  by (induction xs rule: remdups_adj.induct) auto

lemma apply_configmap:
  "apply_owned a ob_meta (ObConfigMap (revocation_configmap obj ns r h)) fm =
     ([Apply (ObConfigMap (revocation_configmap obj ns r h)) fm], map_err (ApplyFailed CONFIGMAP_NAME) a)"
  by (cases a) (simp_all add: apply_owned_def ob_meta_def revocation_configmap_def after_def ret_def
      throw_def map_err_def)

lemma fan_out_effects:
  "fst (fan_out env obj r h nss)
     = map (\<lambda>ns. Apply (ObConfigMap (revocation_configmap obj ns r h)) revocation_fm) nss"
  by (induction nss) (auto simp: apply_configmap Let_def split: prod.splits)

lemma fan_out_count:
  "snd (fan_out env obj r h nss) = int (length (filter (\<lambda>ns. \<not> isl (rn_apply env ns)) nss))"
proof (induction nss)
  case (Cons ns nss)
  then show ?case
    by (cases "rn_apply env ns") (auto simp: apply_configmap Let_def map_err_def split: prod.splits)
qed simp

lemma fan_out_all: "nat (snd (fan_out env obj r h nss)) = length nss \<longleftrightarrow> list_all (\<lambda>ns. \<not> isl (rn_apply env ns)) nss"
proof -
  have "length (filter P nss) = length nss \<longleftrightarrow> list_all P nss" for P :: "string \<Rightarrow> bool"
    by (metis filter_True length_filter_less less_irrefl list_all_iff)
  then show ?thesis by (simp add: fan_out_count)
qed

lemma set_map_filter: "set (List.map_filter f xs) = {y. \<exists>x \<in> set xs. f x = Some y}"
  by (induction xs) (auto simp: List.map_filter_simps split: option.splits)

text \<open>Fan-out covers every gateway: a reconcile that reaches its end has applied the rendered list,
  unchanged, as exactly one ConfigMap in each namespace that runs a gateway (in sorted order) and in
  no other, and the status it reports is Ready exactly when the server accepted all of
  them.\<close>

theorem revocation_fan_out_complete:
  assumes "condition_setter (rn_set_condition env)" and "rn_gateways env = Inr gateways"
  shows "\<exists>targets. sorted targets \<and> distinct targets
     \<and> set targets = {ns. \<exists>g \<in> set gateways. meta_namespace (gw_meta g) = Some ns}
     \<and> (\<exists>status post. fst (revocation_body env obj name)
          = map (\<lambda>ns. Apply (ObConfigMap (revocation_configmap obj ns
                (rn_render env (revocation_doc (rl_spec obj)))
                (rn_sha256_hex env (rn_render env (revocation_doc (rl_spec obj)))))) revocation_fm) targets
            @ PatchStatus name status revocation_fm # post
        \<and> (cond_true ''Ready'' (rs_conditions status) \<longleftrightarrow> list_all (\<lambda>ns. \<not> isl (rn_apply env ns)) targets)
        \<and> (snd (revocation_body env obj name) = Inr (Requeue 60, Success)
             \<longleftrightarrow> list_all (\<lambda>ns. \<not> isl (rn_apply env ns)) targets))"
proof -
  let ?t = "remdups_adj (sort (List.map_filter (\<lambda>g. meta_namespace (gw_meta g)) gateways))"
  let ?r = "rn_render env (revocation_doc (rl_spec obj))"
  obtain eff k where f: "fan_out env obj ?r (rn_sha256_hex env ?r) ?t = (eff, k)" by fastforce
  have eff: "eff = map (\<lambda>ns. Apply (ObConfigMap (revocation_configmap obj ns ?r (rn_sha256_hex env ?r))) revocation_fm) ?t"
    using fan_out_effects [of env obj ?r "rn_sha256_hex env ?r" ?t] f by simp
  have all: "nat k = length ?t \<longleftrightarrow> list_all (\<lambda>ns. \<not> isl (rn_apply env ns)) ?t"
    using fan_out_all [of env obj ?r "rn_sha256_hex env ?r" ?t] f by simp
  let ?st = "revocation_status_of env obj (nat k = length ?t) k (rn_sha256_hex env ?r)"
  have ready: "cond_true ''Ready'' (rs_conditions ?st) \<longleftrightarrow> nat k = length ?t"
    by (simp add: revocation_status_of_def Let_def cond_true_set [OF assms(1)])
  obtain more where ps: "(patch_status_logged (fst (rn_status env)) (snd (rn_status env)) name ?st revocation_fm
      :: (revocation_status, k8s_object) effect list) = PatchStatus name ?st revocation_fm # more"
    by (auto simp: patch_status_logged_def patch_status_def after_sel)
  have "sorted ?t" "distinct ?t" "set ?t = {ns. \<exists>g \<in> set gateways. meta_namespace (gw_meta g) = Some ns}"
    by (auto simp: set_map_filter sorted_remdups_adj sorted_distinct_remdups_adj)
  moreover have "\<exists>post. fst (revocation_body env obj name) = eff @ PatchStatus name ?st revocation_fm # post"
    using f assms(2) ps
    by (simp add: revocation_body_def render_revocation_json_def list_namespaces_with_gateways_def
        Let_def map_err_def bindT_sel after_sel)
  moreover have "snd (revocation_body env obj name) = Inr (Requeue 60, Success) \<longleftrightarrow> nat k = length ?t"
    using f assms(2)
    by (simp add: revocation_body_def render_revocation_json_def list_namespaces_with_gateways_def
        Let_def map_err_def bindT_sel after_sel ret_sel)
  ultimately show ?thesis using ready unfolding eff all by blast
qed

section \<open>The rendered hashes\<close>

definition rendered_hashes :: "json \<Rightarrow> string list" where
  "rendered_hashes doc =
     (case json_get ''revocations'' doc of
        Some (JArr es) \<Rightarrow> List.map_filter (\<lambda>e. Option.bind (json_get ''artifact_sha256'' e) json_as_str) es
      | _ \<Rightarrow> [])"

lemma rendered_hashes_doc:
  "rendered_hashes (revocation_doc spec) = map (\<lambda>e. to_ascii_lowercase (re_artifact_sha256 e)) (rl_revocations spec)"
proof -
  have "List.map_filter (\<lambda>e. Option.bind (json_get ''artifact_sha256'' e) json_as_str) (map entry_json es)
      = map (\<lambda>e. to_ascii_lowercase (re_artifact_sha256 e)) es" for es
    by (induction es) (simp_all add: List.map_filter_simps entry_json_def json_get_def json_as_str_def)
  then show ?thesis
    by (simp add: rendered_hashes_def revocation_doc_def json_get_def split: option.splits)
qed

section \<open>Witness\<close>

definition sample_revocation_env :: revocation_env where
  "sample_revocation_env = \<lparr>rn_remove_get = Inr None, rn_remove_patch = Inr (), rn_finalizer = Inr (),
     rn_status = (Inr (), Inr ()), rn_gateways = Inr [], rn_apply = (\<lambda>_. Inr ()),
     rn_render = (\<lambda>_. ''doc''), rn_sha256_hex = (\<lambda>_. ''h''), rn_set_condition = upsert_condition\<rparr>"

definition sample_gw_in :: "string \<Rightarrow> gateway" where
  "sample_gw_in ns = \<lparr>gw_meta = default_meta\<lparr>meta_namespace := Some ns\<rparr>,
     gw_spec = bare_gateway_spec, gw_status = None\<rparr>"

definition sample_revocation_list :: revocation_list where
  "sample_revocation_list = \<lparr>rl_meta = default_meta, rl_spec = \<lparr>rl_version = 1, rl_issued_at = None,
     rl_revocations = []\<rparr>, rl_conditions = None\<rparr>"

theorem revocation_fan_out_complete_witness:
  "\<exists>status post. fst (revocation_body
       (sample_revocation_env\<lparr>rn_gateways := Inr [sample_gw_in ''b'', sample_gw_in ''a'', sample_gw_in ''b'']\<rparr>)
       sample_revocation_list ''rl'')
     = Apply (ObConfigMap (revocation_configmap sample_revocation_list ''a'' ''doc'' ''h'')) revocation_fm
       # Apply (ObConfigMap (revocation_configmap sample_revocation_list ''b'' ''doc'' ''h'')) revocation_fm
       # PatchStatus ''rl'' status revocation_fm # post
     \<and> cond_true ''Ready'' (rs_conditions status)"
proof -
  let ?gs = "[sample_gw_in ''b'', sample_gw_in ''a'', sample_gw_in ''b'']"
  let ?env = "sample_revocation_env\<lparr>rn_gateways := Inr ?gs\<rparr>"
  have env: "condition_setter (rn_set_condition ?env)" "rn_gateways ?env = Inr ?gs"
    "rn_render ?env = (\<lambda>_. ''doc'')" "rn_sha256_hex ?env = (\<lambda>_. ''h'')" "rn_apply ?env = (\<lambda>_. Inr ())"
    by (simp_all add: sample_revocation_env_def)
  from revocation_fan_out_complete [OF env(1,2), of sample_revocation_list "''rl''"] obtain targets status post where
    t: "sorted targets" "distinct targets"
      "set targets = {ns. \<exists>g \<in> set ?gs. meta_namespace (gw_meta g) = Some ns}"
    and f: "fst (revocation_body ?env sample_revocation_list ''rl'')
        = map (\<lambda>ns. Apply (ObConfigMap (revocation_configmap sample_revocation_list ns ''doc'' ''h'')) revocation_fm)
            targets @ PatchStatus ''rl'' status revocation_fm # post"
      "cond_true ''Ready'' (rs_conditions status) \<longleftrightarrow> list_all (\<lambda>ns. \<not> isl (rn_apply ?env ns)) targets"
    unfolding env(3,4) by auto
  have set: "set targets = set [''a'', ''b'']" using t(3) by (auto simp: sample_gw_in_def)
  have "sorted [''a'', ''b'']" by code_simp
  from sorted_distinct_set_unique [OF t(1,2) this _ set] have "targets = [''a'', ''b'']" by simp
  with f env(5) show ?thesis by (simp add: list_all_iff)
qed

end
