(* ===== verification/MirrorCtl.thy ===== *)
theory MirrorCtl
  imports Reconciler
begin

text \<open>
  The plugin-mirror controller (\<open>src/src/controllers/plugin_mirror.rs\<close>): report whether the
  mirror's Service exists and how many plugins are pulled through it. It applies nothing.
\<close>

datatype mirror_error =
    MStatus status_error
  | MFinalizer finalizer_error
  | MKube kube_error
  | MMissingName

record mirror_status =
  ms_conditions :: "condition list"
  ms_observed_generation :: "int option"
  ms_reachable :: "bool option"
  ms_proxied_references :: "int option"
  ms_endpoint_host :: "string option"

record mirror_env =
  mn_remove_get :: "kube_error + object_meta option"
  mn_remove_patch :: "kube_error + unit"
  mn_finalizer :: "kube_error + unit"
  mn_status :: "(kube_error + unit) \<times> (kube_error + unit)"
  mn_service :: "string \<Rightarrow> string \<Rightarrow> kube_error + bool"
  mn_plugins :: "kube_error + plugin list"
  mn_svc_host :: "mirror_service \<Rightarrow> string"
  mn_resync_secs :: nat
  mn_random :: real
  mn_set_condition :: "condition \<Rightarrow> condition list \<Rightarrow> condition list"

abbreviation mirror_fm :: string where
  "mirror_fm \<equiv> field_manager ''plugin-mirror-controller''"

definition map_plugin_to_mirrors :: "plugin \<Rightarrow> string list" where
  "map_plugin_to_mirrors p = (case mirror_ref (p_oci (pl_spec p)) of Some r \<Rightarrow> [r] | None \<Rightarrow> [])"

definition count_proxied_plugins :: "kube_error + plugin list \<Rightarrow> string \<Rightarrow> mirror_error + int" where
  "count_proxied_plugins ans mirror_name =
     bindE (map_err MKube ans) (\<lambda>plugins.
     Inr (int (length (filter (\<lambda>p. mirror_ref (p_oci (pl_spec p)) = Some mirror_name) plugins))))"

definition mirror_status_of :: "mirror_env \<Rightarrow> plugin_mirror \<Rightarrow> bool \<Rightarrow> int \<Rightarrow> mirror_status" where
  "mirror_status_of env obj reachable proxied =
     (let gen = generation_of (pm_meta obj);
          old = (case pm_conditions obj of Some cs \<Rightarrow> cs | None \<Rightarrow> [])
      in \<lparr>ms_conditions = mn_set_condition env (cond ''Ready'' (if reachable then ''True'' else ''False'')
            (if reachable then ''Reconciled'' else ''MirrorServiceNotFound'') gen) old,
          ms_observed_generation = Some gen, ms_reachable = Some reachable,
          ms_proxied_references = Some proxied,
          ms_endpoint_host = Some (mn_svc_host env (endpoint_service (pm_spec obj)))\<rparr>)"

definition mirror_body ::
  "mirror_env \<Rightarrow> plugin_mirror \<Rightarrow> string
    \<Rightarrow> (mirror_status, k8s_object, mirror_error, reconcile_action \<times> reconcile_outcome) ctl" where
  "mirror_body env obj name =
     (let svc = endpoint_service (pm_spec obj) in
      bindT ([], map_err MKube (mn_service env (svc_namespace svc) (svc_name svc))) (\<lambda>reachable.
      bindT ([], count_proxied_plugins (mn_plugins env) name) (\<lambda>proxied.
      after (patch_status_logged (fst (mn_status env)) (snd (mn_status env)) name
               (mirror_status_of env obj reachable proxied) mirror_fm
             @ (if \<not> reachable
                then [Publish \<lparr>ev_type = Warning, ev_reason = ''MirrorServiceNotFound'', ev_action = ''Resolve''\<rparr>]
                else []))
        (ret (Requeue (jittered_resync (mn_random env) (mn_resync_secs env)),
              if reachable then Success else DependencyPending)))))"

definition mirror_reconcile_inner ::
  "mirror_env \<Rightarrow> plugin_mirror
    \<Rightarrow> (mirror_status, k8s_object, mirror_error, reconcile_action \<times> reconcile_outcome) ctl" where
  "mirror_reconcile_inner env obj =
     (case meta_name (pm_meta obj) of
        None \<Rightarrow> throw MMissingName
      | Some name \<Rightarrow>
          guarded MFinalizer
            (\<lambda>n. remove_finalizer (mn_remove_get env) (mn_remove_patch env) n OPERATOR_FINALIZER)
            (\<lambda>n. ensure_finalizer (mn_finalizer env) n (pm_meta obj) OPERATOR_FINALIZER)
            (pm_meta obj) name (mirror_body env obj name))"

definition mirror_reconcile ::
  "mirror_env \<Rightarrow> plugin_mirror \<Rightarrow> (mirror_status, k8s_object, mirror_error, reconcile_action) ctl" where
  "mirror_reconcile env obj =
     observed ''plugin-mirror'' (\<lambda>r. case r of Inr (_, o') \<Rightarrow> o'
       | Inl e \<Rightarrow> if e = MMissingName then PermanentError else TransientError)
       (mirror_reconcile_inner env obj)"

definition mirror_error_policy ::
  "real \<Rightarrow> plugin_mirror \<Rightarrow> mirror_error \<Rightarrow> backoff_map \<Rightarrow> reconcile_action \<times> backoff_map" where
  "mirror_error_policy r obj err m =
     error_policy (\<lambda>e. e = MMissingName) (resource_key ''plugin-mirror'' [] (name_any (pm_meta obj))) r err m"

section \<open>The contract of a reconciler\<close>

interpretation mirror_ctl: reconciler mirror_reconcile_inner pm_meta
proof
  fix obj :: plugin_mirror and env
  assume "meta_name (pm_meta obj) = None"
  then show "fst (mirror_reconcile_inner env obj) = [] \<and> isl (snd (mirror_reconcile_inner env obj))"
    by (simp add: mirror_reconcile_inner_def run_simps)
next
  fix obj :: plugin_mirror and env x
  assume "meta_deletion_timestamp (pm_meta obj) \<noteq> None"
    and "x \<in> set (fst (mirror_reconcile_inner env obj))"
  then show "\<exists>fs. x = MergeFinalizers (name_any (pm_meta obj)) fs \<and> OPERATOR_FINALIZER \<notin> set fs"
    by (auto simp: mirror_reconcile_inner_def run_simps split: option.splits dest: guarded_deleting)
next
  fix obj :: plugin_mirror and env
  assume "meta_deletion_timestamp (pm_meta obj) = None" "\<not> has_finalizer (pm_meta obj) OPERATOR_FINALIZER"
  then show "fst (mirror_reconcile_inner env obj) = [] \<and> isl (snd (mirror_reconcile_inner env obj))
    \<or> (\<exists>ops rest. fst (mirror_reconcile_inner env obj)
         = PatchFinalizers (name_any (pm_meta obj)) ops # rest)"
    by (cases "meta_name (pm_meta obj)")
      (auto simp: mirror_reconcile_inner_def run_simps dest: guarded_finalizer_first)
qed

text \<open>A mirror is reported Ready exactly when its Service was found in its namespace, with the
  number of plugins that name it; and the periodic resync stays within 20 percent of the
  configured interval.\<close>

theorem mirror_ready_iff_service:
  assumes "condition_setter (mn_set_condition env)"
    and "PatchStatus n st fm \<in> set (fst (mirror_reconcile env obj))"
    and "0 \<le> mn_random env" and "mn_random env < 4 / 10"
  shows "\<exists>found plugins. mn_service env (svc_namespace (endpoint_service (pm_spec obj)))
            (svc_name (endpoint_service (pm_spec obj))) = Inr found
     \<and> (cond_true ''Ready'' (ms_conditions st) \<longleftrightarrow> found)
     \<and> mn_plugins env = Inr plugins
     \<and> ms_proxied_references st = Some (int (length (filter (\<lambda>p. n \<in> set (map_plugin_to_mirrors p)) plugins)))
     \<and> (\<exists>secs. snd (mirror_reconcile env obj) = Inr (Requeue secs)
          \<and> 8 / 10 * real (mn_resync_secs env) \<le> secs \<and> secs \<le> 12 / 10 * real (mn_resync_secs env))"
proof -
  let ?x = "PatchStatus n st fm"
  have x: "?x \<in> set (fst (mirror_reconcile_inner env obj))"
    using assms(2) by (auto simp: mirror_reconcile_def observed_def)
  obtain name where nm: "meta_name (pm_meta obj) = Some name"
    using x by (cases "meta_name (pm_meta obj)") (auto simp: mirror_reconcile_inner_def run_simps)
  have del: "meta_deletion_timestamp (pm_meta obj) = None"
    using mirror_ctl.deleting [OF _ x] by fastforce
  have inner: "mirror_reconcile_inner env obj = bindT (lift_run MFinalizer (ensure_finalizer (mn_finalizer env)
      name (pm_meta obj) OPERATOR_FINALIZER)) (\<lambda>_. mirror_body env obj name)" (is "_ = bindT ?e _")
    using nm del by (simp add: mirror_reconcile_inner_def guarded_def)
  have "?x \<notin> set (fst ?e)" by (auto simp: lift_run_sel dest: ensure_finalizer_eff)
  then obtain b where e: "snd ?e = Inr b" and xb: "?x \<in> set (fst (mirror_body env obj name))"
    using x inner by (cases "snd ?e") (auto simp: bindT_sel)
  let ?svc = "endpoint_service (pm_spec obj)"
  obtain found plugins where ans: "mn_service env (svc_namespace ?svc) (svc_name ?svc) = Inr found"
      "mn_plugins env = Inr plugins"
    using xb by (cases "mn_service env (svc_namespace ?svc) (svc_name ?svc)"; cases "mn_plugins env")
      (auto simp: mirror_body_def count_proxied_plugins_def map_err_def run_simps)
  let ?k = "int (length (filter (\<lambda>p. mirror_ref (p_oci (pl_spec p)) = Some name) plugins))"
  have st: "n = name" "st = mirror_status_of env obj found ?k"
    using xb ans by (auto simp: mirror_body_def count_proxied_plugins_def map_err_def run_simps
        patch_status_logged_eff split: if_splits)
  have "(\<lambda>p. n \<in> set (map_plugin_to_mirrors p)) = (\<lambda>p. mirror_ref (p_oci (pl_spec p)) = Some name)"
    by (auto simp: map_plugin_to_mirrors_def st(1) fun_eq_iff split: option.splits)
  moreover have "cond_true ''Ready'' (ms_conditions st) \<longleftrightarrow> found"
    by (simp add: st(2) mirror_status_of_def Let_def cond_true_set [OF assms(1)])
  moreover have "ms_proxied_references st = Some ?k" by (simp add: st(2) mirror_status_of_def Let_def)
  moreover have "snd (mirror_reconcile env obj) = Inr (Requeue (jittered_resync (mn_random env) (mn_resync_secs env)))"
    using e ans by (simp add: mirror_reconcile_def observed_def inner mirror_body_def
        count_proxied_plugins_def map_err_def bindT_sel after_sel ret_sel Let_def)
  ultimately show ?thesis using ans jittered_resync_bounds [OF assms(3,4)] by auto
qed

definition sample_mirror_env :: mirror_env where
  "sample_mirror_env = \<lparr>mn_remove_get = Inr None, mn_remove_patch = Inr (), mn_finalizer = Inr (),
     mn_status = (Inr (), Inr ()), mn_service = (\<lambda>_ _. Inr True), mn_plugins = Inr [],
     mn_svc_host = svc_name, mn_resync_secs = 300, mn_random = 1 / 10, mn_set_condition = upsert_condition\<rparr>"

definition sample_mirror :: plugin_mirror where
  "sample_mirror = \<lparr>pm_meta = default_meta\<lparr>meta_name := Some ''m'', meta_finalizers := Some [OPERATOR_FINALIZER]\<rparr>,
     pm_spec = \<lparr>endpoint_service = \<lparr>svc_namespace = ''m'', svc_name = ''m'', svc_port = 5000\<rparr>,
       endpoint_insecure = False, upstream_registry = ''reg.io'', upstream_namespace = ''x'',
       mirror_auth_secret = None\<rparr>, pm_conditions = None\<rparr>"

theorem mirror_ready_iff_service_witness:
  "\<exists>n st fm. PatchStatus n st fm \<in> set (fst (mirror_reconcile sample_mirror_env sample_mirror))
     \<and> cond_true ''Ready'' (ms_conditions st)"
proof -
  have "\<exists>n st fm. PatchStatus n st fm \<in> set (fst (mirror_reconcile sample_mirror_env sample_mirror))"
    by (simp add: mirror_reconcile_def observed_def mirror_reconcile_inner_def guarded_def
        ensure_finalizer_def mirror_body_def count_proxied_plugins_def sample_mirror_env_def
        sample_mirror_def default_meta_def run_simps map_err_def patch_status_logged_eff)
  then obtain n st fm where p: "PatchStatus n st fm \<in> set (fst (mirror_reconcile sample_mirror_env sample_mirror))"
    by blast
  have "condition_setter (mn_set_condition sample_mirror_env)" "0 \<le> mn_random sample_mirror_env"
    "mn_random sample_mirror_env < 4 / 10" by (simp_all add: sample_mirror_env_def)
  with mirror_ready_iff_service [OF _ p] have "cond_true ''Ready'' (ms_conditions st)"
    by (auto simp: sample_mirror_env_def)
  with p show ?thesis by blast
qed

end
