(* ===== verification/Readiness.thy ===== *)
theory Readiness
  imports Prelude
begin

text \<open>
  The watch-readiness latch and its gate (\<open>src/src/readiness.rs\<close>), and the resolution of the
  image defaults (\<open>src/src/lib.rs\<close>).

  The latch is a \<open>watch\<close> channel: a value and a version that every send bumps. The gate task
  subscribes, reads the value together with the version, and waits for a version it has not
  seen; \<open>mark_synced\<close> may come between any two of these steps. \<open>gate_next\<close> is one step of the
  task, \<open>None\<close> when it is blocked or done.
\<close>

section \<open>The latch and the gate\<close>

record latch =
  synced :: bool
  version :: nat

definition latch_new :: latch where
  "latch_new = \<lparr>synced = False, version = 0\<rparr>"

definition is_synced :: "latch \<Rightarrow> bool" where
  "is_synced l = synced l"

definition mark_synced :: "latch \<Rightarrow> latch" where
  "mark_synced l = \<lparr>synced = True, version = Suc (version l)\<rparr>"

datatype gate_pc = GStart | GCheck nat | GAwait nat | GStore | GDone

record gate_state =
  g_latch :: latch
  g_pc :: gate_pc
  g_reconcile_ready :: bool

definition gate_init :: gate_state where
  "gate_init = \<lparr>g_latch = latch_new, g_pc = GStart, g_reconcile_ready = False\<rparr>"

text \<open>\<open>wait_until_synced\<close> is the part up to \<open>GStore\<close>.\<close>

definition wait_until_synced :: "latch \<Rightarrow> gate_pc \<Rightarrow> gate_pc option" where
  "wait_until_synced l pc =
     (case pc of
        GStart \<Rightarrow> Some (GCheck (version l))
      | GCheck _ \<Rightarrow> Some (if is_synced l then GStore else GAwait (version l))
      | GAwait seen \<Rightarrow> if version l \<noteq> seen then Some (GCheck (version l)) else None
      | _ \<Rightarrow> None)"

definition gate_ready :: "gate_state \<Rightarrow> gate_state option" where
  "gate_ready s =
     (case g_pc s of
        GStore \<Rightarrow> Some (s\<lparr>g_pc := GDone, g_reconcile_ready := True\<rparr>)
      | pc \<Rightarrow> map_option (\<lambda>pc'. s\<lparr>g_pc := pc'\<rparr>) (wait_until_synced (g_latch s) pc))"

inductive gate_step :: "gate_state \<Rightarrow> gate_state \<Rightarrow> bool" where
  gate_mark: "gate_step s (s\<lparr>g_latch := mark_synced (g_latch s)\<rparr>)"
| gate_task: "gate_ready s = Some s' \<Longrightarrow> gate_step s s'"

inductive_cases gate_step_cases: "gate_step s s'"

fun gate_run :: "nat \<Rightarrow> gate_state \<Rightarrow> gate_state" where
  "gate_run 0 s = s"
| "gate_run (Suc n) s = (case gate_ready s of None \<Rightarrow> s | Some s' \<Rightarrow> gate_run n s')"

definition gate_inv :: "gate_state \<Rightarrow> bool" where
  "gate_inv s \<longleftrightarrow>
     (g_reconcile_ready s \<longleftrightarrow> g_pc s = GDone)
     \<and> (g_pc s \<in> {GStore, GDone} \<longrightarrow> is_synced (g_latch s))
     \<and> (\<forall>seen. g_pc s = GAwait seen \<longrightarrow> seen \<le> version (g_latch s)
          \<and> (is_synced (g_latch s) \<longrightarrow> seen < version (g_latch s)))"

lemma gate_inv_step: "gate_step s s' \<Longrightarrow> gate_inv s \<Longrightarrow> gate_inv s'"
  by (erule gate_step_cases)
    (auto simp: gate_inv_def mark_synced_def is_synced_def gate_ready_def wait_until_synced_def
      split: gate_pc.splits if_splits)

lemma gate_inv_init: "gate_inv gate_init"
  by (simp add: gate_inv_def gate_init_def)

lemma gate_inv_reachable: "gate_step\<^sup>*\<^sup>* gate_init s \<Longrightarrow> gate_inv s"
  by (induction rule: rtranclp_induct) (blast intro: gate_inv_init gate_inv_step)+

text \<open>C37. The readiness gate loses no wake-up: in every interleaving of the gate task with
  \<open>mark_synced\<close>, the reconcile flag is set only once the store has synced; and once it has,
  four steps of the task set the flag, wherever the task was, also when the sync came between
  its check and its wait.\<close>

theorem gate_no_lost_wakeup:
  assumes "gate_step\<^sup>*\<^sup>* gate_init s"
  shows "(g_reconcile_ready s \<longrightarrow> is_synced (g_latch s))
     \<and> (is_synced (g_latch s) \<longrightarrow> g_reconcile_ready (gate_run 4 s))"
proof -
  have inv: "gate_inv s" using assms by (rule gate_inv_reachable)
  have "g_reconcile_ready (gate_run 4 s)" if syn: "is_synced (g_latch s)"
    using inv syn
    by (cases "g_pc s")
      (auto simp: gate_inv_def gate_ready_def wait_until_synced_def numeral_eq_Suc)
  with inv show ?thesis by (auto simp: gate_inv_def)
qed

theorem gate_no_lost_wakeup_witness:
  "\<exists>s. gate_step\<^sup>*\<^sup>* gate_init s \<and> \<not> g_reconcile_ready s \<and> g_reconcile_ready (gate_run 4 s)"
proof -
  let ?s = "gate_init\<lparr>g_latch := mark_synced latch_new\<rparr>"
  have r: "gate_step\<^sup>*\<^sup>* gate_init ?s"
    using gate_mark [of gate_init] by (simp add: gate_init_def r_into_rtranclp)
  moreover have "is_synced (g_latch ?s)" "\<not> g_reconcile_ready ?s"
    by (simp_all add: is_synced_def mark_synced_def gate_init_def)
  ultimately show ?thesis using gate_no_lost_wakeup [OF r] by blast
qed

section \<open>Image defaults\<close>

definition resolve_image_default :: "(string \<Rightarrow> string option) \<Rightarrow> string \<Rightarrow> string \<Rightarrow> string" where
  "resolve_image_default env var compiled =
     (case env var of
        Some raw \<Rightarrow>
          (let trimmed = trim_end_matches (CHR ''/'') (trim raw)
           in if trimmed = [] then compiled else trimmed)
      | None \<Rightarrow> compiled)"

text \<open>Resolved once per process: the first call fixes the value (\<open>OnceLock\<close>).\<close>

definition default_once ::
  "(string \<Rightarrow> string option) \<Rightarrow> string \<Rightarrow> string \<Rightarrow> string option \<Rightarrow> string \<times> string option" where
  "default_once env var compiled cell =
     (case cell of
        Some v \<Rightarrow> (v, cell)
      | None \<Rightarrow> (let v = resolve_image_default env var compiled in (v, Some v)))"

lemma trim_end_matches_last: "trim_end_matches c s \<noteq> [] \<Longrightarrow> last (trim_end_matches c s) \<noteq> c"
  unfolding trim_end_matches_def using hd_dropWhile [of "\<lambda>x. x = c" "rev s"] by (simp add: last_rev)

lemma resolve_image_default_usable:
  assumes "compiled \<noteq> []" and "last compiled \<noteq> CHR ''/''"
  shows "resolve_image_default env var compiled \<noteq> []
    \<and> last (resolve_image_default env var compiled) \<noteq> CHR ''/''"
  using assms by (auto simp: resolve_image_default_def Let_def trim_end_matches_last split: option.splits)

lemma default_once_stable:
  "default_once env var compiled cell = (v, cell') \<Longrightarrow> default_once env' var compiled cell' = (v, cell')"
  by (auto simp: default_once_def Let_def split: option.splits)

section \<open>Pod annotations (\<open>config.rs\<close>)\<close>

text \<open>Later pairs of the comma-separated list win; a pair without \<open>=\<close> or with a blank key is
  skipped.\<close>

definition gateway_pod_annotations_map :: "string option \<Rightarrow> (string \<rightharpoonup> string)" where
  "gateway_pod_annotations_map raw =
     (case raw of
        None \<Rightarrow> Map.empty
      | Some r \<Rightarrow>
          foldl (\<lambda>out pair. case split_once (CHR ''='') pair of
              Some (k, v) \<Rightarrow> if \<not> blank k then out(trim k \<mapsto> trim v) else out
            | None \<Rightarrow> out) Map.empty
            (filter (\<lambda>p. p \<noteq> []) (map trim (split_on (CHR '','') r))))"

lemma foldl_upd_dom:
  "foldl (\<lambda>out pair. case f pair of Some (k, v) \<Rightarrow> if P k then out(g k \<mapsto> h v) else out | None \<Rightarrow> out) m ps key = Some val
   \<Longrightarrow> m key = Some val \<or> (\<exists>p \<in> set ps. \<exists>k v. f p = Some (k, v) \<and> P k \<and> key = g k \<and> val = h v)"
proof (induction ps arbitrary: m)
  case (Cons p ps)
  from Cons.IH [OF Cons.prems [unfolded foldl_Cons]] show ?case
    by (auto split: option.splits if_splits prod.splits)
qed simp

lemma pod_annotations_nonblank:
  assumes "gateway_pod_annotations_map raw key = Some val"
  shows "key \<noteq> []"
  using assms
  by (auto simp: gateway_pod_annotations_map_def blank_def split: option.splits dest!: foldl_upd_dom)

end
