(* ===== verification/Templates.thy ===== *)
theory Templates
  imports Crd
begin

text \<open>
  The renderers of a gateway's child objects (\<open>src/src/templates/\<close>): names, labels and owner
  references (\<open>common.rs\<close>), the ConfigMap, the Deployment with its pod, the Service and the
  ServiceAccount, the autoscaler, the disruption budget, the HTTPRoute and the edge objects.

  \<open>image_defaults\<close> holds what the process resolved at boot (\<open>lib.rs\<close>). The YAML printer, the
  hash and the check of an autoscaler metric against the Kubernetes type are parameters.
\<close>

record image_defaults =
  default_gateway_image_repository :: string
  default_gateway_image_tag :: string
  default_plugin_version :: string

section \<open>Labels, names, owners (\<open>lib.rs\<close>, \<open>common.rs\<close>)\<close>

definition APP_NAME :: string where "APP_NAME = ''app.kubernetes.io/name''"
definition APP_INSTANCE :: string where "APP_INSTANCE = ''app.kubernetes.io/instance''"
definition APP_COMPONENT :: string where "APP_COMPONENT = ''app.kubernetes.io/component''"
definition APP_PART_OF :: string where "APP_PART_OF = ''app.kubernetes.io/part-of''"
definition APP_MANAGED_BY :: string where "APP_MANAGED_BY = ''app.kubernetes.io/managed-by''"
definition APP_VERSION :: string where "APP_VERSION = ''app.kubernetes.io/version''"
definition MCPG_GATEWAY :: string where "MCPG_GATEWAY = ''mcpg.dev/gateway''"
definition MCPG_CONFIG_HASH :: string where "MCPG_CONFIG_HASH = ''mcpg.dev/config-hash''"

lemmas label_defs = APP_NAME_def APP_INSTANCE_def APP_COMPONENT_def APP_PART_OF_def APP_MANAGED_BY_def
  APP_VERSION_def MCPG_GATEWAY_def MCPG_CONFIG_HASH_def

definition gateway_owner_ref :: "gateway \<Rightarrow> owner_ref" where
  "gateway_owner_ref parent =
     \<lparr>or_api_version = ''mcpg.dev/v1alpha1'', or_kind = ''MCPGGateway'', or_name = name_any (gw_meta parent),
      or_uid = (case meta_uid (gw_meta parent) of Some u \<Rightarrow> u | None \<Rightarrow> []),
      or_controller = Some True, or_block_owner_deletion = Some True\<rparr>"

definition standard_labels :: "gateway \<Rightarrow> str_map" where
  "standard_labels parent =
     (let name = name_any (gw_meta parent);
          labels = [APP_NAME \<mapsto> ''mcpg-gateway'', APP_INSTANCE \<mapsto> name, APP_COMPONENT \<mapsto> ''gateway'',
            APP_PART_OF \<mapsto> ''mcpg'', APP_MANAGED_BY \<mapsto> ''mcpg-operator''];
          labels = (case gw_image_tag (gw_spec parent) of
            Some tag \<Rightarrow> if tag \<noteq> [] then labels(APP_VERSION \<mapsto> tag) else labels | None \<Rightarrow> labels)
      in labels(MCPG_GATEWAY \<mapsto> name))"

definition selector_labels :: "gateway \<Rightarrow> str_map" where
  "selector_labels parent = [APP_NAME \<mapsto> ''mcpg-gateway'', APP_INSTANCE \<mapsto> name_any (gw_meta parent)]"

definition is_ascii_alphabetic :: "char \<Rightarrow> bool" where
  "is_ascii_alphabetic c \<longleftrightarrow> is_ascii_lowercase c \<or> is_ascii_uppercase c"

definition alpha_leading :: "string \<Rightarrow> string" where
  "alpha_leading raw =
     (if (case raw of c # _ \<Rightarrow> is_ascii_alphabetic c | [] \<Rightarrow> False) then raw else ''mcpg-'' @ raw)"

definition child_name :: "gateway \<Rightarrow> string \<Rightarrow> string" where
  "child_name parent suf =
     (let base = alpha_leading (name_any (gw_meta parent))
      in if suf = [] then base else base @ ''-'' @ suf)"

definition child_meta :: "gateway \<Rightarrow> string \<Rightarrow> object_meta" where
  "child_meta parent name = default_meta\<lparr>meta_name := Some name,
     meta_namespace := meta_namespace (gw_meta parent), meta_labels := Some (standard_labels parent),
     meta_owner_references := Some [gateway_owner_ref parent]\<rparr>"

definition apply_pod_dns_config :: "pod_spec \<Rightarrow> json option \<Rightarrow> pod_spec" where
  "apply_pod_dns_config template dns =
     (case dns of Some d \<Rightarrow> template\<lparr>pod_dns_config := Some d\<rparr> | None \<Rightarrow> template)"

section \<open>ConfigMap (\<open>configmap.rs\<close>)\<close>

definition CONFIG_HASH_LABEL_LEN :: nat where "CONFIG_HASH_LABEL_LEN = 32"

text \<open>\<open>None\<close> is the panic of the slice on a hash shorter than the label.\<close>

definition build_configmap ::
  "(json \<Rightarrow> string option) \<Rightarrow> (string \<Rightarrow> string) \<Rightarrow> gateway \<Rightarrow> json \<Rightarrow> (config_map \<times> string) option" where
  "build_configmap to_yaml sha256_hex parent merged_config =
     (let yaml = (case to_yaml merged_config of Some y \<Rightarrow> y
            | None \<Rightarrow> ''# (operator: failed to render config; using empty)'' @ [CHR 0x0A]);
          hash = sha256_hex yaml
      in map_option (\<lambda>short.
           (\<lparr>cm_meta = (child_meta parent (child_name parent ''config''))
               \<lparr>meta_labels := Some ((standard_labels parent)(MCPG_CONFIG_HASH \<mapsto> short))\<rparr>,
             cm_data = Some [''config.yaml'' \<mapsto> yaml]\<rparr>, hash))
           (slice_to CONFIG_HASH_LABEL_LEN hash))"

section \<open>Deployment (\<open>deployment.rs\<close>)\<close>

definition HTTP_PORT_NAME :: string where "HTTP_PORT_NAME = ''http''"
definition CONFIG_HASH_ANNOTATION :: string where "CONFIG_HASH_ANNOTATION = ''mcpg.dev/config-hash''"
definition PLUGIN_SET_HASH_ANNOTATION :: string where
  "PLUGIN_SET_HASH_ANNOTATION = ''mcpg.dev/plugin-set-hash''"
definition REVOCATION_LIST_HASH_ANNOTATION :: string where
  "REVOCATION_LIST_HASH_ANNOTATION = ''mcpg.dev/revocation-list-hash''"
definition REVOCATION_LIST_MOUNT_DIR :: string where "REVOCATION_LIST_MOUNT_DIR = ''/etc/mcpg/revocations''"
definition RUNTIME_DIR :: string where "RUNTIME_DIR = ''/var/lib/mcpg''"
definition PLUGIN_CACHE_DIR :: string where "PLUGIN_CACHE_DIR = ''/var/lib/mcpg/plugin-cache''"
definition RUNTIME_VOLUME_NAME :: string where "RUNTIME_VOLUME_NAME = ''runtime''"
definition PLUGIN_MOUNT_ROOT :: string where "PLUGIN_MOUNT_ROOT = ''/etc/mcpg/plugins''"

record plugin_secret_mount =
  pmt_plugin_id :: string
  pmt_secret_name :: string

record revocation_list_mount =
  rlm_config_map_name :: string
  rlm_content_hash :: string

definition single_replica_cloud :: "gateway \<Rightarrow> bool" where
  "single_replica_cloud parent =
     (let coordinated = (case Option.bind (json_path [''cluster'', ''kind''] (gw_config (gw_spec parent))) json_as_str of
            Some k \<Rightarrow> k \<noteq> ''single_node'' | None \<Rightarrow> False)
      in gw_cloud (gw_spec parent) \<noteq> None \<and> \<not> coordinated)"

definition effective_replicas :: "gateway \<Rightarrow> int" where
  "effective_replicas parent = (if single_replica_cloud parent then 1 else gw_replicas (gw_spec parent))"

definition autoscaled :: "gateway \<Rightarrow> bool" where
  "autoscaled parent =
     ((case gw_autoscaling (gw_spec parent) of Some a \<Rightarrow> as_enabled a | None \<Rightarrow> False)
      \<and> \<not> single_replica_cloud parent)"

text \<open>A container or volume name: every character that is not an ASCII letter or digit becomes a
  hyphen, the result is cut to 56 characters and freed of outer hyphens.\<close>

definition volume_name :: "string \<Rightarrow> string \<Rightarrow> string" where
  "volume_name pre raw =
     (let s = map (\<lambda>c. if is_ascii_alphanumeric c then to_lower c else CHR ''-'')
                (filter (\<lambda>c. \<not> is_cont c) raw);
          s = take 56 s;
          cleaned = trim_end_matches (CHR ''-'') (dropWhile (\<lambda>c. c = CHR ''-'') s);
          prefixed = pre @ ''-'' @ cleaned
      in take 63 prefixed)"

definition plugin_volume_name :: "string \<Rightarrow> string" where
  "plugin_volume_name i = volume_name ''plugin'' i"

definition secret_volume_name :: "string \<Rightarrow> string" where
  "secret_volume_name n = volume_name ''secret'' n"

definition reserved_label :: "string \<Rightarrow> bool" where
  "reserved_label k \<longleftrightarrow> starts_with ''app.kubernetes.io/'' k \<or> starts_with ''mcpg.dev/'' k"

definition build_pod_metadata ::
  "gateway \<Rightarrow> str_map \<Rightarrow> string \<Rightarrow> string option \<Rightarrow> revocation_list_mount option \<Rightarrow> str_map \<Rightarrow> object_meta" where
  "build_pod_metadata parent labels config_hash plugin_set_hash revocation_list default_annotations =
     (let pod_labels = foldl (\<lambda>m (k, v). if reserved_label k then m else m(k \<mapsto> v)) labels
            (gw_pod_labels (gw_spec parent));
          annotations = (default_annotations ++ gw_pod_annotations (gw_spec parent))
            (CONFIG_HASH_ANNOTATION \<mapsto> config_hash);
          annotations = (case plugin_set_hash of
            Some h \<Rightarrow> annotations(PLUGIN_SET_HASH_ANNOTATION \<mapsto> h) | None \<Rightarrow> annotations);
          annotations = (case revocation_list of
            Some r \<Rightarrow> annotations(REVOCATION_LIST_HASH_ANNOTATION \<mapsto> rlm_content_hash r) | None \<Rightarrow> annotations)
      in default_meta\<lparr>meta_labels := Some pod_labels, meta_annotations := Some annotations\<rparr>)"

text \<open>The default: spread over nodes and zones when more than one replica may run.\<close>

definition soft_spread :: "api_crate \<Rightarrow> gateway \<Rightarrow> topology_spread list option" where
  "soft_spread api parent =
     (if fst (effective_replica_ceiling api (gw_spec parent)) \<le> 1 then None
      else Some (map (\<lambda>key. \<lparr>ts_max_skew = 1, ts_topology_key = key,
          ts_when_unsatisfiable = ''ScheduleAnyway'', ts_selector = Some (selector_labels parent)\<rparr>)
        [''kubernetes.io/hostname'', ''topology.kubernetes.io/zone'']))"

definition build_topology_spread :: "api_crate \<Rightarrow> gateway \<Rightarrow> topology_spread list option" where
  "build_topology_spread api parent =
     (case gw_scheduling (gw_spec parent) of
        Some s \<Rightarrow>
          if sd_spread s \<noteq> [] then
            Some (map (\<lambda>t. \<lparr>ts_max_skew = tc_max_skew t, ts_topology_key = tc_topology_key t,
                ts_when_unsatisfiable = tc_when_unsatisfiable t,
                ts_selector = Some (if tc_match_labels t = [] then selector_labels parent
                  else map_of (tc_match_labels t))\<rparr>) (sd_spread s))
          else soft_spread api parent
      | None \<Rightarrow> soft_spread api parent)"

definition build_volumes ::
  "gateway \<Rightarrow> plugin_secret_mount list \<Rightarrow> revocation_list_mount option \<Rightarrow> volume list" where
  "build_volumes parent plugin_mounts revocation_list =
     [\<lparr>vol_name = ''config'', vol_source = VolConfigMap (child_name parent ''config'') None\<rparr>,
      \<lparr>vol_name = RUNTIME_VOLUME_NAME, vol_source = VolEmptyDir\<rparr>]
     @ map (\<lambda>m. \<lparr>vol_name = plugin_volume_name (pmt_plugin_id m),
         vol_source = VolSecret (pmt_secret_name m) (Some 288)\<rparr>) plugin_mounts
     @ (case revocation_list of
          Some r \<Rightarrow> [\<lparr>vol_name = ''revocation-list'',
            vol_source = VolConfigMap (rlm_config_map_name r) (Some [(''list.json'', ''list.json'')])\<rparr>]
        | None \<Rightarrow> [])
     @ map (\<lambda>m. \<lparr>vol_name = secret_volume_name (sm_name m), vol_source = VolSecret (sm_name m) (Some 288)\<rparr>)
         (gw_secret_mounts (gw_spec parent))"

definition build_volume_mounts ::
  "plugin_secret_mount list \<Rightarrow> revocation_list_mount option \<Rightarrow> secret_mount list \<Rightarrow> volume_mount list" where
  "build_volume_mounts plugin_mounts revocation_list secret_mounts =
     [\<lparr>vm_name = ''config'', vm_path = ''/etc/mcpg/config.yaml'', vm_sub_path = Some ''config.yaml'',
        vm_read_only = Some True\<rparr>,
      \<lparr>vm_name = RUNTIME_VOLUME_NAME, vm_path = RUNTIME_DIR, vm_sub_path = None, vm_read_only = None\<rparr>]
     @ map (\<lambda>m. \<lparr>vm_name = plugin_volume_name (pmt_plugin_id m),
         vm_path = PLUGIN_MOUNT_ROOT @ ''/'' @ pmt_plugin_id m, vm_sub_path = None,
         vm_read_only = Some True\<rparr>) plugin_mounts
     @ (if revocation_list \<noteq> None
        then [\<lparr>vm_name = ''revocation-list'', vm_path = REVOCATION_LIST_MOUNT_DIR, vm_sub_path = None,
          vm_read_only = Some True\<rparr>] else [])
     @ map (\<lambda>m. \<lparr>vm_name = secret_volume_name (sm_name m), vm_path = sm_mount_path m,
         vm_sub_path = None, vm_read_only = Some True\<rparr>) secret_mounts"

definition build_env_from :: "gateway \<Rightarrow> string list \<Rightarrow> env_from_secret list option" where
  "build_env_from parent extra_secrets =
     (if gw_env_from_secrets (gw_spec parent) = [] \<and> extra_secrets = [] then None
      else Some (map (\<lambda>name. \<lparr>efs_name = name, efs_optional = Some False\<rparr>)
        (gw_env_from_secrets (gw_spec parent) @ extra_secrets)))"

definition build_env_vars :: "env_var list" where
  "build_env_vars =
     [\<lparr>envv_name = ''POD_NAME'', envv_source = EnvField ''metadata.name''\<rparr>,
      \<lparr>envv_name = ''POD_NAMESPACE'', envv_source = EnvField ''metadata.namespace''\<rparr>,
      \<lparr>envv_name = ''NODE_NAME'', envv_source = EnvField ''spec.nodeName''\<rparr>,
      \<lparr>envv_name = ''XDG_CACHE_HOME'', envv_source = EnvValue (RUNTIME_DIR @ ''/cache'')\<rparr>]"

definition build_resources :: "gateway \<Rightarrow> str_map \<times> str_map" where
  "build_resources parent =
     (let (reqs, lims) = (case gw_resources (gw_spec parent) of
            Some rr \<Rightarrow> (res_requests rr, res_limits rr) | None \<Rightarrow> ([], []))
      in (if reqs = [] then [''cpu'' \<mapsto> ''200m'', ''memory'' \<mapsto> ''256Mi''] else map_of reqs,
          if lims = [] then [''cpu'' \<mapsto> ''1'', ''memory'' \<mapsto> ''1Gi''] else map_of lims))"

definition build_probe :: "gateway_probe option \<Rightarrow> string \<Rightarrow> int \<Rightarrow> int \<Rightarrow> probe" where
  "build_probe user default_path initial_delay period =
     (let pick = (\<lambda>sel d. case Option.bind user sel of Some v \<Rightarrow> v | None \<Rightarrow> d)
      in \<lparr>pr_action = HttpGet (case Option.bind user gp_path of Some p \<Rightarrow> p | None \<Rightarrow> default_path) (Some ''HTTP''),
          pr_port = StrVal HTTP_PORT_NAME,
          pr_initial_delay = Some (pick gp_initial_delay initial_delay),
          pr_period = Some (pick gp_period period), pr_timeout = Some (pick gp_timeout 3),
          pr_failure_threshold = Some (pick gp_failure_threshold 3),
          pr_success_threshold = Option.bind user gp_success_threshold\<rparr>)"

definition build_main_container ::
  "image_defaults \<Rightarrow> gateway \<Rightarrow> int \<Rightarrow> plugin_secret_mount list \<Rightarrow> revocation_list_mount option
    \<Rightarrow> string list \<Rightarrow> container" where
  "build_main_container dflt parent port plugin_mounts revocation_list extra_env_from =
     (let spec = gw_spec parent;
          repo = (case gw_image_repository spec of Some r \<Rightarrow> r | None \<Rightarrow> default_gateway_image_repository dflt);
          tag = (case gw_image_tag spec of Some t \<Rightarrow> t | None \<Rightarrow> default_gateway_image_tag dflt);
          user = (\<lambda>sel. Option.bind (gw_probes spec) sel);
          res = build_resources parent
      in \<lparr>ct_name = ''mcpg'', ct_image = Some (repo @ '':'' @ tag),
          ct_pull_policy = Some (case gw_image_pull_policy spec of Some p \<Rightarrow> p | None \<Rightarrow> ''IfNotPresent''),
          ct_working_dir = Some RUNTIME_DIR, ct_command = None,
          ct_args = Some [''--config'', ''/etc/mcpg/config.yaml''],
          ct_ports = [\<lparr>cp_name = Some HTTP_PORT_NAME, cp_port = port, cp_protocol = Some ''TCP''\<rparr>],
          ct_env = Some build_env_vars, ct_env_from = build_env_from parent extra_env_from,
          ct_requests = Some (fst res), ct_limits = Some (snd res),
          ct_volume_mounts = Some (build_volume_mounts plugin_mounts revocation_list (gw_secret_mounts spec)),
          ct_liveness = Some (build_probe (user gp_liveness) ''/health'' 5 15),
          ct_readiness = Some (build_probe (user gp_readiness) ''/ready'' 3 10),
          ct_startup = Some ((build_probe (user gp_startup) ''/health'' 2 5)
            \<lparr>pr_failure_threshold := Some (case Option.bind (user gp_startup) gp_failure_threshold of
                Some n \<Rightarrow> n | None \<Rightarrow> 12)\<rparr>),
          ct_security = Some \<lparr>sc_allow_privilege_escalation = Some False, sc_read_only_root = Some True,
            sc_run_as_non_root = Some True, sc_run_as_user = Some 65534, sc_run_as_group = Some 65534,
            sc_drop_capabilities = [''ALL''], sc_add_capabilities = None,
            sc_seccomp = None\<rparr>\<rparr>)"

definition build_pod_spec ::
  "api_crate \<Rightarrow> image_defaults \<Rightarrow> gateway \<Rightarrow> int \<Rightarrow> plugin_secret_mount list \<Rightarrow> revocation_list_mount option
    \<Rightarrow> string list \<Rightarrow> pod_spec" where
  "build_pod_spec api dflt parent port plugin_mounts revocation_list extra_env_from =
     (let sched = gw_scheduling (gw_spec parent)
      in \<lparr>pod_service_account = Some (child_name parent ''gateway''), pod_automount_token = Some False,
          pod_enable_service_links = Some False,
          pod_security_context = Some \<lparr>pod_run_as_non_root = Some True, pod_run_as_user = Some 65534,
            pod_run_as_group = Some 65534, pod_fs_group = Some 65534, pod_seccomp = Some ''RuntimeDefault''\<rparr>,
          pod_containers = [build_main_container dflt parent port plugin_mounts revocation_list extra_env_from],
          pod_volumes = Some (build_volumes parent plugin_mounts revocation_list),
          pod_image_pull_secrets = None,
          pod_node_selector = (case sched of
            Some s \<Rightarrow> if sd_node_selector s \<noteq> [] then Some (map_of (sd_node_selector s)) else None | None \<Rightarrow> None),
          pod_priority_class = Option.bind sched sd_priority_class,
          pod_termination_grace = Option.bind sched sd_termination_grace,
          pod_topology_spread = build_topology_spread api parent, pod_dns_config = None\<rparr>)"

definition service_port_of :: "gateway \<Rightarrow> int option" where
  "service_port_of parent = Option.bind (gw_service (gw_spec parent)) gs_port"

definition build_deployment ::
  "api_crate \<Rightarrow> image_defaults \<Rightarrow> gateway \<Rightarrow> string \<Rightarrow> plugin_secret_mount list \<Rightarrow> string option
    \<Rightarrow> revocation_list_mount option \<Rightarrow> str_map \<Rightarrow> string list \<Rightarrow> deployment" where
  "build_deployment api dflt parent config_hash plugin_mounts plugin_set_hash revocation_list
     default_pod_annotations extra_env_from =
     (let labels = standard_labels parent;
          port = (case service_port_of parent of Some p \<Rightarrow> p | None \<Rightarrow> 8787)
      in \<lparr>dep_meta = child_meta parent (child_name parent ''gateway''),
          dep_replicas = (if autoscaled parent then None else Some (effective_replicas parent)),
          dep_selector = selector_labels parent, dep_strategy = Some ''RollingUpdate'',
          dep_pod_meta = build_pod_metadata parent labels config_hash plugin_set_hash revocation_list
            default_pod_annotations,
          dep_pod = build_pod_spec api dflt parent port plugin_mounts revocation_list extra_env_from\<rparr>)"

section \<open>Service and ServiceAccount (\<open>service.rs\<close>, \<open>service_account.rs\<close>)\<close>

definition DEFAULT_PORT :: int where "DEFAULT_PORT = 8787"
definition DEFAULT_SERVICE_TYPE :: string where "DEFAULT_SERVICE_TYPE = ''ClusterIP''"

definition nonempty_map :: "str_map \<Rightarrow> str_map option" where
  "nonempty_map m = (if m = Map.empty then None else Some m)"

definition build_service :: "gateway \<Rightarrow> service" where
  "build_service parent =
     (let svc = gw_service (gw_spec parent);
          annotations = (case svc of Some s \<Rightarrow> gs_annotations s | None \<Rightarrow> Map.empty)
      in \<lparr>srv_meta = (child_meta parent (child_name parent []))
            \<lparr>meta_annotations := nonempty_map annotations\<rparr>,
          srv_type = Some (case Option.bind svc gs_type of Some t \<Rightarrow> t | None \<Rightarrow> DEFAULT_SERVICE_TYPE),
          srv_cluster_ip = None, srv_publish_not_ready = None,
          srv_selector = Some (selector_labels parent),
          srv_ports = [\<lparr>sp_name = Some ''http'',
            sp_port = (case service_port_of parent of Some p \<Rightarrow> p | None \<Rightarrow> DEFAULT_PORT),
            sp_target_port = Some (StrVal ''http''), sp_protocol = Some ''TCP''\<rparr>]\<rparr>)"

definition identity_annotations :: "workload_identity \<Rightarrow> str_map" where
  "identity_annotations wi =
     (let m = Map.empty;
          m = (case wi_aws wi of Some a \<Rightarrow> m(''eks.amazonaws.com/role-arn'' \<mapsto> a) | None \<Rightarrow> m);
          m = (case wi_gcp wi of Some a \<Rightarrow> m(''iam.gke.io/gcp-service-account'' \<mapsto> a) | None \<Rightarrow> m);
          m = (case wi_azure wi of Some a \<Rightarrow> m(''azure.workload.identity/client-id'' \<mapsto> a) | None \<Rightarrow> m)
      in case wi_spiffe wi of
           Some (domain, svid) \<Rightarrow> m(''mcpg.dev/spiffe-trust-domain'' \<mapsto> domain, ''mcpg.dev/spiffe-svid'' \<mapsto> svid)
         | None \<Rightarrow> m)"

definition build_service_account :: "gateway \<Rightarrow> service_account" where
  "build_service_account parent =
     (let spec = gw_spec parent;
          annotations = (case gw_workload_identity spec of Some wi \<Rightarrow> identity_annotations wi | None \<Rightarrow> Map.empty)
      in \<lparr>sa_meta = (child_meta parent (child_name parent ''gateway''))
            \<lparr>meta_annotations := nonempty_map annotations\<rparr>,
          sa_automount_token = Some False,
          sa_image_pull_secrets = (if gw_image_pull_secrets spec = [] then None
            else Some (gw_image_pull_secrets spec))\<rparr>)"

section \<open>Autoscaler and disruption budget (\<open>hpa.rs\<close>, \<open>pdb.rs\<close>)\<close>

definition default_cpu_metric :: json where
  "default_cpu_metric = JObj [(''type'', JStr ''Resource''),
     (''resource'', JObj [(''name'', JStr ''cpu''),
       (''target'', JObj [(''type'', JStr ''Utilization''), (''averageUtilization'', JNum 80)])])]"

text \<open>\<open>well_typed\<close> is whether the library reads the document as a metric.\<close>

definition metric_to_spec :: "(json \<Rightarrow> bool) \<Rightarrow> autoscaler_metric \<Rightarrow> json option" where
  "metric_to_spec well_typed m =
     (let member = (\<lambda>k v. case v of Some j \<Rightarrow> [(k, j)] | None \<Rightarrow> []);
          obj = JObj ([(''type'', JStr (am_type m))] @ member ''resource'' (am_resource m)
            @ member ''pods'' (am_pods m) @ member ''object'' (am_object m) @ member ''external'' (am_external m))
      in if well_typed obj then Some obj else None)"

definition build_hpa :: "(json \<Rightarrow> bool) \<Rightarrow> gateway \<Rightarrow> hpa option" where
  "build_hpa well_typed parent =
     (case gw_autoscaling (gw_spec parent) of
        None \<Rightarrow> None
      | Some h \<Rightarrow>
          if \<not> autoscaled parent then None
          else let lo = max (case as_min h of Some m \<Rightarrow> m | None \<Rightarrow> 1) 1;
                   hi = max (case as_max h of Some m \<Rightarrow> m | None \<Rightarrow> max (gw_replicas (gw_spec parent)) lo) lo
               in Some \<lparr>hpa_meta = child_meta parent (child_name parent ''gateway''),
                    hpa_target = child_name parent ''gateway'', hpa_min = lo, hpa_max = hi,
                    hpa_metrics = (if as_metrics h = [] then [default_cpu_metric]
                      else List.map_filter (metric_to_spec well_typed) (as_metrics h))\<rparr>)"

text \<open>\<open>as_i64\<close>, then \<open>as i32\<close>.\<close>

definition value_to_intorstring :: "json \<Rightarrow> int_or_string option" where
  "value_to_intorstring v =
     (case v of
        JNum i \<Rightarrow> if - (2 ^ 63) \<le> i \<and> i < 2 ^ 63 then Some (IntVal (sint (word_of_int i :: 32 word))) else None
      | JStr s \<Rightarrow> Some (StrVal s)
      | _ \<Rightarrow> None)"

definition build_pdb :: "api_crate \<Rightarrow> gateway \<Rightarrow> pdb option" where
  "build_pdb api parent =
     (let make = (\<lambda>lo hi. Some \<lparr>pdb_meta = child_meta parent (child_name parent ''gateway''),
            pdb_min_available = (if lo = None \<and> hi = None then Some (IntVal 1) else lo),
            pdb_max_unavailable = hi, pdb_selector = selector_labels parent\<rparr>)
      in case gw_pod_disruption_budget (gw_spec parent) of
           Some p \<Rightarrow>
             if \<not> pb_enabled p then None
             else make (Option.bind (pb_min_available p) value_to_intorstring)
                    (Option.bind (pb_max_unavailable p) value_to_intorstring)
         | None \<Rightarrow>
             if fst (effective_replica_ceiling api (gw_spec parent)) > 1 then make None (Some (IntVal 1)) else None)"

section \<open>HTTPRoute and edge (\<open>httproute.rs\<close>, \<open>edge.rs\<close>)\<close>

definition GATEWAY_PORT :: "16 word" where "GATEWAY_PORT = 8787"
definition FORWARDED_PATH_PREFIXES :: "string list" where
  "FORWARDED_PATH_PREFIXES = [''/mcp'', ''/.well-known'', ''/oauth'', ''/aauth'']"
definition INBOUND_EVENTS_PREFIX :: string where "INBOUND_EVENTS_PREFIX = ''/webhooks/events''"
definition FEDERATED_EVENTS_PREFIX :: string where "FEDERATED_EVENTS_PREFIX = ''/webhooks/mcp-events''"
definition CLOUD_GATEWAY_NAME :: string where "CLOUD_GATEWAY_NAME = ''mcpg-cloud-gateway''"
definition CLOUD_GATEWAY_NAMESPACE :: string where "CLOUD_GATEWAY_NAMESPACE = ''mcpg-edge''"

definition events_enabled :: "json \<Rightarrow> bool" where
  "events_enabled config = (json_path [''mcp'', ''configurations'', ''events'', ''enabled''] config = Some (JBool True))"

definition serves_inbound_events :: "json \<Rightarrow> bool" where
  "serves_inbound_events config =
     (events_enabled config
      \<and> (case json_path [''mcp'', ''capabilities'', ''events''] config of
           Some (JArr types) \<Rightarrow> list_ex (\<lambda>ty. case json_path [''source'', ''inbound''] ty of
             Some v \<Rightarrow> json_is_object v | None \<Rightarrow> False) types
         | _ \<Rightarrow> False))"

definition imports_federated_events :: "json \<Rightarrow> bool" where
  "imports_federated_events config =
     (events_enabled config
      \<and> (case json_path [''mcp'', ''federations''] config of
           Some (JArr feds) \<Rightarrow> list_ex (\<lambda>f. json_path [''import'', ''events''] f = Some (JBool True)) feds
         | _ \<Rightarrow> False))"

definition strip_http_scheme :: "string \<Rightarrow> string option" where
  "strip_http_scheme url =
     (case strip_prefix ''https://'' url of Some r \<Rightarrow> Some r | None \<Rightarrow> strip_prefix ''http://'' url)"

definition host_of :: "string \<Rightarrow> string option" where
  "host_of url =
     (let no_scheme = (case strip_http_scheme url of Some r \<Rightarrow> r | None \<Rightarrow> url);
          host = takeWhile (\<lambda>c. c \<noteq> CHR ''/'') no_scheme
      in if host \<noteq> [] then Some host else None)"

definition build_httproute :: "gateway \<Rightarrow> http_route option" where
  "build_httproute parent =
     (case gw_cloud (gw_spec parent) of
        None \<Rightarrow> None
      | Some cloud \<Rightarrow>
          let hostnames = (case host_of (external_url cloud) of Some h \<Rightarrow> [h] | None \<Rightarrow> []) @ custom_domains cloud;
              config = gw_config (gw_spec parent)
          in if hostnames = [] then None
             else Some \<lparr>hr_meta = child_meta parent (child_name parent ''mcp''),
               hr_parents = [\<lparr>pref_name = CLOUD_GATEWAY_NAME, pref_namespace = Some CLOUD_GATEWAY_NAMESPACE,
                 pref_group = Some ''gateway.networking.k8s.io'', pref_kind = Some ''Gateway''\<rparr>],
               hr_hostnames = hostnames,
               hr_path_prefixes = FORWARDED_PATH_PREFIXES
                 @ (if serves_inbound_events config then [INBOUND_EVENTS_PREFIX] else [])
                 @ (if imports_federated_events config then [FEDERATED_EVENTS_PREFIX] else []),
               hr_backend = child_name parent [],
               hr_backend_port = (case service_port_of parent of Some p \<Rightarrow> word_of_int p | None \<Rightarrow> GATEWAY_PORT)\<rparr>)"

definition EDGE_OWNER_UID_LABEL :: string where "EDGE_OWNER_UID_LABEL = ''mcpg.dev/owner-uid''"

text \<open>\<open>hex::encode(&digest[..8])\<close>: the first 16 digits of the hex digest.\<close>

definition edge_object_name :: "(string \<Rightarrow> string) \<Rightarrow> string \<Rightarrow> string" where
  "edge_object_name sha256_hex hostname = ''cd-'' @ take 16 (sha256_hex hostname)"

definition cert_secret_name :: "(string \<Rightarrow> string) \<Rightarrow> string \<Rightarrow> string" where
  "cert_secret_name sha256_hex hostname = edge_object_name sha256_hex hostname @ ''-tls''"

definition edge_listener :: "(string \<Rightarrow> string) \<Rightarrow> string \<Rightarrow> json" where
  "edge_listener sha256_hex hostname = JObj
     [(''name'', JStr (edge_object_name sha256_hex hostname)), (''hostname'', JStr hostname),
      (''port'', JNum 443), (''protocol'', JStr ''HTTPS''),
      (''tls'', JObj [(''mode'', JStr ''Terminate''), (''certificateRefs'', JArr
         [JObj [(''kind'', JStr ''Secret''), (''name'', JStr (cert_secret_name sha256_hex hostname))]])]),
      (''allowedRoutes'', JObj [(''namespaces'', JObj [(''from'', JStr ''All'')])])]"

definition build_edge_listener_apply :: "(string \<Rightarrow> string) \<Rightarrow> string list \<Rightarrow> json" where
  "build_edge_listener_apply sha256_hex domains = JObj
     [(''apiVersion'', JStr ''gateway.networking.k8s.io/v1''), (''kind'', JStr ''Gateway''),
      (''metadata'', JObj [(''name'', JStr CLOUD_GATEWAY_NAME), (''namespace'', JStr CLOUD_GATEWAY_NAMESPACE)]),
      (''spec'', JObj [(''listeners'', JArr (map (edge_listener sha256_hex) domains))])]"

definition edge_field_manager :: "string \<Rightarrow> string" where
  "edge_field_manager uid = ''mcpg-operator/edge-domains/'' @ uid"

definition build_certificate :: "(string \<Rightarrow> string) \<Rightarrow> gateway \<Rightarrow> string \<Rightarrow> string \<Rightarrow> certificate" where
  "build_certificate sha256_hex parent hostname issuer =
     \<lparr>crt_meta = default_meta\<lparr>meta_name := Some (edge_object_name sha256_hex hostname),
        meta_namespace := Some CLOUD_GATEWAY_NAMESPACE,
        meta_labels := Some [''app.kubernetes.io/managed-by'' \<mapsto> ''mcpg-operator'',
          EDGE_OWNER_UID_LABEL \<mapsto> (case meta_uid (gw_meta parent) of Some u \<Rightarrow> u | None \<Rightarrow> [])]\<rparr>,
      crt_secret_name = cert_secret_name sha256_hex hostname, crt_dns_names = [hostname],
      crt_issuer = issuer, crt_issuer_kind = ''ClusterIssuer'', crt_issuer_group = ''cert-manager.io''\<rparr>"

section \<open>Names\<close>

lemma name_any_child_meta [simp]: "name_any (child_meta parent n) = n"
  by (simp add: child_meta_def default_meta_def name_any_def)

lemma child_meta_sel [simp]:
  "meta_namespace (child_meta parent n) = meta_namespace (gw_meta parent)"
  "meta_owner_references (child_meta parent n) = Some [gateway_owner_ref parent]"
  "meta_labels (child_meta parent n) = Some (standard_labels parent)"
  by (simp_all add: child_meta_def default_meta_def)

definition alpha_first :: "string \<Rightarrow> bool" where
  "alpha_first s = (case s of c # _ \<Rightarrow> is_ascii_alphabetic c | [] \<Rightarrow> False)"

lemma alpha_leading_alt: "alpha_leading s = (if alpha_first s then s else ''mcpg-'' @ s)"
  by (simp add: alpha_leading_def alpha_first_def)

lemma alpha_first_mcpg: "alpha_first (''mcpg-'' @ s)"
  by (simp add: alpha_first_def is_ascii_alphabetic_def is_ascii_lowercase_def)

lemma alpha_first_leading: "alpha_first (alpha_leading s)"
  using alpha_first_mcpg by (simp add: alpha_leading_alt)

lemma alpha_leading_eq_iff:
  "alpha_leading a = alpha_leading b \<longleftrightarrow>
     a = b \<or> (\<not> alpha_first b \<and> a = ''mcpg-'' @ b) \<or> (\<not> alpha_first a \<and> b = ''mcpg-'' @ a)"
  unfolding alpha_leading_alt using alpha_first_mcpg[of a] alpha_first_mcpg[of b]
  by (cases "alpha_first a"; cases "alpha_first b") (simp; metis)+

lemma child_name_eq_iff:
  "child_name p suf = child_name q suf \<longleftrightarrow>
     alpha_leading (name_any (gw_meta p)) = alpha_leading (name_any (gw_meta q))"
  by (simp add: child_name_def Let_def)

section \<open>Volumes\<close>

text \<open>The clean part of a volume name.\<close>

definition volume_stem :: "string \<Rightarrow> string" where
  "volume_stem raw = trim_end_matches (CHR ''-'') (dropWhile (\<lambda>c. c = CHR ''-'')
     (take 56 (map (\<lambda>c. if is_ascii_alphanumeric c then to_lower c else CHR ''-'')
       (filter (\<lambda>c. \<not> is_cont c) raw))))"

lemma length_trim_end_matches: "length (trim_end_matches c s) \<le> length s"
  unfolding trim_end_matches_def by (metis length_dropWhile_le length_rev)

lemma volume_stem_length: "length (volume_stem raw) \<le> 56"
  unfolding volume_stem_def
  by (rule order_trans[OF length_trim_end_matches order_trans[OF length_dropWhile_le]]) simp

lemma volume_name_stem: "length pre \<le> 6 \<Longrightarrow> volume_name pre raw = pre @ ''-'' @ volume_stem raw"
  using volume_stem_length[of raw]
  by (simp add: volume_name_def volume_stem_def Let_def)

lemma set_trim_end_matches: "set (trim_end_matches c s) \<subseteq> set s"
  unfolding trim_end_matches_def using set_dropWhileD[of _ "\<lambda>x. x = c" "rev s"] by auto

definition lower_alnum :: "char \<Rightarrow> bool" where
  "lower_alnum c \<longleftrightarrow> is_ascii_digit c \<or> is_ascii_lowercase c"

lemma to_lower_alnum: "is_ascii_alphanumeric c \<Longrightarrow> lower_alnum (to_lower c)"
  by (auto simp: lower_alnum_def is_ascii_alphanumeric_def is_ascii_digit_def is_ascii_lowercase_def
      is_ascii_uppercase_def to_lower_def)

lemma volume_stem_chars:
  assumes "c \<in> set (volume_stem raw)" shows "c = CHR ''-'' \<or> lower_alnum c"
proof -
  have "c \<in> set (map (\<lambda>c. if is_ascii_alphanumeric c then to_lower c else CHR ''-'')
       (filter (\<lambda>c. \<not> is_cont c) raw))"
    using assms unfolding volume_stem_def
    by (meson set_trim_end_matches set_dropWhileD in_set_takeD subsetD)
  then show ?thesis using to_lower_alnum by (auto split: if_splits)
qed

lemma last_trim_end_matches: "trim_end_matches c s \<noteq> [] \<Longrightarrow> last (trim_end_matches c s) \<noteq> c"
  unfolding trim_end_matches_def using hd_dropWhile[of "\<lambda>x. x = c" "rev s"]
  by (simp add: last_rev)

lemma trim_end_matches_Nil: "trim_end_matches c s = [] \<longleftrightarrow> (\<forall>x \<in> set s. x = c)"
  by (simp add: trim_end_matches_def dropWhile_eq_Nil_conv)

lemma volume_stem_Nil:
  "volume_stem raw = [] \<longleftrightarrow> (\<forall>c \<in> set (take 56 (filter (\<lambda>c. \<not> is_cont c) raw)). \<not> is_ascii_alphanumeric c)"
proof -
  have *: "is_ascii_alphanumeric c \<Longrightarrow> to_lower c \<noteq> CHR ''-''" for c
    using to_lower_alnum[of c]
    by (auto simp: lower_alnum_def is_ascii_digit_def is_ascii_lowercase_def)
  have "(\<forall>x \<in> set (dropWhile (\<lambda>c. c = d) s). x = d) \<longleftrightarrow> (\<forall>x \<in> set s. x = d)" for d :: char and s
    by (induction s) auto
  then have "volume_stem raw = [] \<longleftrightarrow> (\<forall>c \<in> set (take 56 (filter (\<lambda>c. \<not> is_cont c) raw)).
      (if is_ascii_alphanumeric c then to_lower c else CHR ''-'') = CHR ''-'')"
    by (simp add: volume_stem_def trim_end_matches_Nil take_map del: set_map) auto
  then show ?thesis using * by auto
qed

lemma volume_stem_last: "volume_stem raw \<noteq> [] \<Longrightarrow> lower_alnum (last (volume_stem raw))"
  using volume_stem_chars[of "last (volume_stem raw)" raw] last_trim_end_matches[of "CHR ''-''"]
  by (auto simp: volume_stem_def)

lemma mounts_match_volumes:
  "map vm_name (build_volume_mounts pm rl (gw_secret_mounts (gw_spec parent)))
     = map vol_name (build_volumes parent pm rl)"
  by (simp add: build_volume_mounts_def build_volumes_def split: option.splits)

lemma volume_name_cases:
  "plugin_volume_name i = ''plugin-'' @ volume_stem i"
  "secret_volume_name n = ''secret-'' @ volume_stem n"
  by (simp_all add: plugin_volume_name_def secret_volume_name_def volume_name_stem)

lemma volume_names:
  "map vol_name (build_volumes parent pm rl) = [''config'', ''runtime'']
     @ map (\<lambda>m. ''plugin-'' @ volume_stem (pmt_plugin_id m)) pm
     @ (if rl = None then [] else [''revocation-list''])
     @ map (\<lambda>m. ''secret-'' @ volume_stem (sm_name m)) (gw_secret_mounts (gw_spec parent))"
  by (simp add: build_volumes_def RUNTIME_VOLUME_NAME_def volume_name_cases split: option.splits)

lemma distinct_map_append:
  "distinct (map (\<lambda>x. p @ f x) xs) \<longleftrightarrow> distinct (map f xs)"
  by (induction xs) auto

lemma volume_names_distinct_iff:
  "distinct (map vol_name (build_volumes parent pm rl)) \<longleftrightarrow>
     distinct (map (\<lambda>m. volume_stem (pmt_plugin_id m)) pm)
     \<and> distinct (map (\<lambda>m. volume_stem (sm_name m)) (gw_secret_mounts (gw_spec parent)))"
  unfolding volume_names
  using distinct_map_append[of "''plugin-''" "\<lambda>m. volume_stem (pmt_plugin_id m)" pm]
    distinct_map_append[of "''secret-''" "\<lambda>m. volume_stem (sm_name m)" "gw_secret_mounts (gw_spec parent)"]
  by (auto simp: distinct_append)

lemma volume_name_shape:
  assumes "n \<in> set (map vol_name (build_volumes parent pm rl))"
  shows "length n \<le> 63" "n \<noteq> []" "is_ascii_lowercase (hd n)" "c \<in> set n \<Longrightarrow> c = CHR ''-'' \<or> lower_alnum c"
    "(\<forall>i \<in> set (map pmt_plugin_id pm @ map sm_name (gw_secret_mounts (gw_spec parent))).
        list_ex is_ascii_alphanumeric (take 56 (filter (\<lambda>c. \<not> is_cont c) i))) \<Longrightarrow> lower_alnum (last n)"
proof -
  let ?ids = "map pmt_plugin_id pm @ map sm_name (gw_secret_mounts (gw_spec parent))"
  have "set (map vol_name (build_volumes parent pm rl)) \<subseteq> {''config'', ''runtime'', ''revocation-list''}
      \<union> (\<lambda>i. ''plugin-'' @ volume_stem i) ` set ?ids \<union> (\<lambda>i. ''secret-'' @ volume_stem i) ` set ?ids"
    unfolding volume_names set_append set_map image_Un image_image by (simp del: append.simps) blast
  then consider (fixed) "n \<in> {''config'', ''runtime'', ''revocation-list''}"
    | (named) i where "i \<in> set ?ids" "n = ''plugin-'' @ volume_stem i \<or> n = ''secret-'' @ volume_stem i"
    using assms by blast
  note shape = this
  have "length n \<le> 63 \<and> n \<noteq> [] \<and> is_ascii_lowercase (hd n)"
    using shape
  proof cases
    case (named i)
    then show ?thesis using volume_stem_length [of i] by (auto simp: is_ascii_lowercase_def)
  qed (auto simp: is_ascii_lowercase_def)
  then show "length n \<le> 63" "n \<noteq> []" "is_ascii_lowercase (hd n)" by blast+
  show "c = CHR ''-'' \<or> lower_alnum c" if "c \<in> set n"
    using shape
  proof cases
    case (named i)
    with that volume_stem_chars [of c i] show ?thesis by (auto simp: lower_alnum_def is_ascii_lowercase_def is_ascii_digit_def)
  qed (use that in \<open>auto simp: lower_alnum_def is_ascii_lowercase_def is_ascii_digit_def\<close>)
  show "lower_alnum (last n)"
    if ids: "\<forall>i \<in> set ?ids. list_ex is_ascii_alphanumeric (take 56 (filter (\<lambda>c. \<not> is_cont c) i))"
    using shape
  proof cases
    case (named i)
    with ids have "volume_stem i \<noteq> []" unfolding volume_stem_Nil by (auto simp: list_ex_iff)
    with named volume_stem_last [of i] show ?thesis by (auto simp: last_append)
  qed (auto simp: lower_alnum_def is_ascii_lowercase_def is_ascii_digit_def)
qed

text \<open>A DNS subdomain as far as it matters here: lower-case letters, digits, dashes and dots, with a letter or
  digit at both ends. Such a name is its own stem, but for the dots.\<close>

definition dns_subdomain :: "string \<Rightarrow> bool" where
  "dns_subdomain s \<longleftrightarrow> s \<noteq> [] \<and> list_all (\<lambda>c. lower_alnum c \<or> c = CHR ''-'' \<or> c = CHR ''.'') s
     \<and> lower_alnum (hd s) \<and> lower_alnum (last s)"

definition dot_to_dash :: "char \<Rightarrow> char" where
  "dot_to_dash c = (if c = CHR ''.'' then CHR ''-'' else c)"

lemma lower_alnum_fixed:
  "lower_alnum c \<Longrightarrow> is_ascii_alphanumeric c \<and> to_lower c = c \<and> \<not> is_cont c \<and> c \<noteq> CHR ''-'' \<and> c \<noteq> CHR ''.''"
  by (auto simp: lower_alnum_def is_ascii_alphanumeric_def is_ascii_alphabetic_def is_ascii_digit_def is_ascii_lowercase_def
      is_ascii_uppercase_def to_lower_def is_cont_def)

lemma subdomain_char:
  assumes "lower_alnum c \<or> c = CHR ''-'' \<or> c = CHR ''.''"
  shows "\<not> is_cont c" "(if is_ascii_alphanumeric c then to_lower c else CHR ''-'') = dot_to_dash c"
  using assms lower_alnum_fixed [of c]
  by (auto simp: dot_to_dash_def is_cont_def is_ascii_alphanumeric_def is_ascii_alphabetic_def is_ascii_digit_def
      is_ascii_lowercase_def is_ascii_uppercase_def)

lemma trim_end_matches_id: "s \<noteq> [] \<Longrightarrow> last s \<noteq> c \<Longrightarrow> trim_end_matches c s = s"
  by (cases s rule: rev_cases) (simp_all add: trim_end_matches_def)

lemma volume_stem_subdomain:
  assumes "dns_subdomain s" and "length s \<le> 56"
  shows "volume_stem s = map dot_to_dash s"
proof -
  have ok: "\<And>c. c \<in> set s \<Longrightarrow> lower_alnum c \<or> c = CHR ''-'' \<or> c = CHR ''.''"
    using assms(1) by (simp add: dns_subdomain_def list_all_iff)
  have "filter (\<lambda>c. \<not> is_cont c) s = s" using subdomain_char(1) ok by (simp add: filter_id_conv)
  moreover have "map (\<lambda>c. if is_ascii_alphanumeric c then to_lower c else CHR ''-'') s = map dot_to_dash s"
    using subdomain_char(2) ok by simp
  moreover have "s \<noteq> []" "dot_to_dash (hd s) \<noteq> CHR ''-''" "dot_to_dash (last s) \<noteq> CHR ''-''"
    using assms(1) lower_alnum_fixed by (auto simp: dns_subdomain_def dot_to_dash_def)
  moreover from this have "dropWhile (\<lambda>c. c = CHR ''-'') (map dot_to_dash s) = map dot_to_dash s" by (cases s) simp_all
  moreover from calculation have "trim_end_matches (CHR ''-'') (map dot_to_dash s) = map dot_to_dash s"
    by (intro trim_end_matches_id) (simp_all add: last_map)
  moreover have "take 56 (map dot_to_dash s) = map dot_to_dash s" using assms(2) by simp
  ultimately show ?thesis by (simp only: volume_stem_def)
qed

lemma volume_names_distinct_subdomains:
  assumes "list_all (\<lambda>n. dns_subdomain n \<and> length n \<le> 56) (map pmt_plugin_id pm @ map sm_name (gw_secret_mounts (gw_spec parent)))"
  shows "distinct (map vol_name (build_volumes parent pm rl)) \<longleftrightarrow>
     distinct (map (map dot_to_dash) (map pmt_plugin_id pm))
     \<and> distinct (map (map dot_to_dash) (map sm_name (gw_secret_mounts (gw_spec parent))))"
proof -
  have "volume_stem i = map dot_to_dash i" if "i \<in> set (map pmt_plugin_id pm @ map sm_name (gw_secret_mounts (gw_spec parent)))" for i
    using assms that volume_stem_subdomain unfolding list_all_iff by blast
  then have "map (\<lambda>m. volume_stem (pmt_plugin_id m)) pm = map (map dot_to_dash) (map pmt_plugin_id pm)"
    "map (\<lambda>m. volume_stem (sm_name m)) (gw_secret_mounts (gw_spec parent))
      = map (map dot_to_dash) (map sm_name (gw_secret_mounts (gw_spec parent)))"
    by simp_all
  then show ?thesis by (simp only: volume_names_distinct_iff)
qed

section \<open>Pod metadata\<close>

lemma standard_labels_selector: "selector_labels parent \<subseteq>\<^sub>m standard_labels parent"
  by (auto simp: map_le_def selector_labels_def standard_labels_def Let_def label_defs split: option.splits)

lemma foldl_reserved:
  "reserved_label k \<Longrightarrow> foldl (\<lambda>m (k, v). if reserved_label k then m else m(k \<mapsto> v)) m kvs k = m k"
  by (induction kvs arbitrary: m) auto

lemma selector_reserved: "selector_labels parent k \<noteq> None \<Longrightarrow> reserved_label k"
  by (auto simp: selector_labels_def reserved_label_def starts_with_def label_defs split: if_splits)

lemma pod_labels_selected:
  assumes "selector_labels parent \<subseteq>\<^sub>m labels"
  shows "selector_labels parent
    \<subseteq>\<^sub>m the (meta_labels (build_pod_metadata parent labels ch ph rl da))"
  using assms selector_reserved[of parent]
  by (auto simp: map_le_def build_pod_metadata_def Let_def default_meta_def foldl_reserved)

lemma pod_instance_label:
  "the (meta_labels (dep_pod_meta (build_deployment api dflt parent ch pm ph rl da ex))) APP_INSTANCE
     = Some (name_any (gw_meta parent))"
proof -
  have "reserved_label APP_INSTANCE" by (simp add: reserved_label_def starts_with_def label_defs)
  moreover have "standard_labels parent APP_INSTANCE = Some (name_any (gw_meta parent))"
    by (simp add: standard_labels_def Let_def label_defs split: option.splits)
  ultimately show ?thesis
    by (simp add: build_deployment_def Let_def build_pod_metadata_def default_meta_def foldl_reserved)
qed

lemma selected_iff:
  "selector_labels p \<subseteq>\<^sub>m
     the (meta_labels (dep_pod_meta (build_deployment api dflt q ch pm ph rl da ex)))
   \<longleftrightarrow> name_any (gw_meta p) = name_any (gw_meta q)"
proof
  assume *: "selector_labels p \<subseteq>\<^sub>m
     the (meta_labels (dep_pod_meta (build_deployment api dflt q ch pm ph rl da ex)))"
  have "selector_labels p APP_INSTANCE = Some (name_any (gw_meta p))"
    by (simp add: selector_labels_def label_defs)
  with * show "name_any (gw_meta p) = name_any (gw_meta q)"
    by (auto simp: map_le_def pod_instance_label dom_def)
next
  assume "name_any (gw_meta p) = name_any (gw_meta q)"
  then have "selector_labels p = selector_labels q" by (simp add: selector_labels_def)
  then show "selector_labels p \<subseteq>\<^sub>m
     the (meta_labels (dep_pod_meta (build_deployment api dflt q ch pm ph rl da ex)))"
    by (simp add: build_deployment_def Let_def pod_labels_selected standard_labels_selector)
qed

section \<open>Properties\<close>

text \<open>A gateway for the witnesses.\<close>

definition plain_gateway :: "string \<Rightarrow> gateway" where
  "plain_gateway n = \<lparr>gw_meta = default_meta\<lparr>meta_name := Some n, meta_namespace := Some ''team'',
     meta_uid := Some ''u-1''\<rparr>, gw_spec = bare_gateway_spec, gw_status = None\<rparr>"

definition sample_defaults :: image_defaults where
  "sample_defaults = \<lparr>default_gateway_image_repository = ''mcpg'', default_gateway_image_tag = ''1.0.0'',
     default_plugin_version = ''1.0.0''\<rparr>"

text \<open>C32. The child objects of a gateway fit together. The Deployment, the Service and the disruption
  budget of a gateway select the pods of a Deployment exactly when it is the Deployment of a
  gateway with the same name, whatever labels the users put on their pods; the autoscaler targets
  the Deployment; the pods run under the ServiceAccount and mount the ConfigMap.\<close>

theorem children_wired:
  "let D = build_deployment api dflt p ch pm ph rl da ex;
       Q = build_deployment api' dflt' q ch' pm' ph' rl' da' ex'
   in (dep_selector D \<subseteq>\<^sub>m the (meta_labels (dep_pod_meta Q)) \<longleftrightarrow> name_any (gw_meta p) = name_any (gw_meta q))
    \<and> srv_selector (build_service p) = Some (dep_selector D)
    \<and> (\<forall>b. build_pdb api p = Some b \<longrightarrow> pdb_selector b = dep_selector D)
    \<and> (\<forall>h. build_hpa wt p = Some h \<longrightarrow> hpa_target h = name_any (dep_meta D))
    \<and> pod_service_account (dep_pod D) = Some (name_any (sa_meta (build_service_account p)))
    \<and> (\<forall>cm h. build_configmap ty sha p cfg = Some (cm, h) \<longrightarrow>
         VolConfigMap (name_any (cm_meta cm)) None \<in> vol_source ` set (the (pod_volumes (dep_pod D))))"
proof -
  have D: "dep_selector (build_deployment api dflt p ch pm ph rl da ex) = selector_labels p"
    "name_any (dep_meta (build_deployment api dflt p ch pm ph rl da ex)) = child_name p ''gateway''"
    "dep_pod (build_deployment api dflt p ch pm ph rl da ex)
      = build_pod_spec api dflt p (case service_port_of p of Some p \<Rightarrow> p | None \<Rightarrow> 8787) pm rl ex"
    by (simp_all add: build_deployment_def Let_def)
  have pdb: "build_pdb api p = Some b \<Longrightarrow> pdb_selector b = selector_labels p" for b
    by (auto simp: build_pdb_def Let_def split: option.splits if_splits)
  have hpa: "build_hpa wt p = Some h \<Longrightarrow> hpa_target h = child_name p ''gateway''" for h
    by (auto simp: build_hpa_def Let_def split: option.splits if_splits)
  have cm: "build_configmap ty sha p cfg = Some (c, h) \<Longrightarrow> name_any (cm_meta c) = child_name p ''config''" for c h
    by (auto simp: build_configmap_def Let_def child_meta_def default_meta_def)
  have sa: "name_any (sa_meta (build_service_account p)) = child_name p ''gateway''"
    by (simp add: build_service_account_def Let_def child_meta_def default_meta_def)
  show ?thesis
    unfolding Let_def D selected_iff sa using pdb hpa cm
    by (auto simp: build_service_def build_service_account_def build_pod_spec_def build_volumes_def Let_def)
qed

theorem children_wired_witness:
  "\<not> dep_selector (build_deployment sample_api sample_defaults (plain_gateway ''a'') ''h'' [] None None Map.empty [])
      \<subseteq>\<^sub>m the (meta_labels (dep_pod_meta (build_deployment sample_api sample_defaults
        ((plain_gateway ''b'')\<lparr>gw_spec := bare_gateway_spec\<lparr>gw_pod_labels := [(APP_INSTANCE, ''a'')]\<rparr>\<rparr>)
        ''h'' [] None None Map.empty [])))"
  using children_wired[of sample_api sample_defaults "plain_gateway ''a''" "''h''" "[]" None None Map.empty "[]"
      sample_api sample_defaults
      "(plain_gateway ''b'')\<lparr>gw_spec := bare_gateway_spec\<lparr>gw_pod_labels := [(APP_INSTANCE, ''a'')]\<rparr>\<rparr>"
      "''h''" "[]" None None Map.empty "[]"]
  unfolding Let_def by (simp add: plain_gateway_def)

text \<open>Neither the pods nor their service account ask for an API token.\<close>

lemma no_api_token:
  "pod_automount_token (dep_pod (build_deployment api dflt p ch pm ph rl da ex)) = Some False
   \<and> sa_automount_token (build_service_account p) = Some False"
  by (simp add: build_deployment_def build_pod_spec_def build_service_account_def Let_def)

text \<open>When two gateways of a namespace share the names of their children: their own names agree, or
  one name starts with no letter and the other is that name behind \<open>mcpg-\<close>. Then each reconcile
  of one takes over the objects of the other.\<close>

theorem child_names_collide_iff:
  "name_any (dep_meta (build_deployment api dflt p ch pm ph rl da ex))
     = name_any (dep_meta (build_deployment api' dflt' q ch' pm' ph' rl' da' ex'))
   \<longleftrightarrow> (let a = name_any (gw_meta p); b = name_any (gw_meta q)
        in a = b \<or> (\<not> alpha_first b \<and> a = ''mcpg-'' @ b) \<or> (\<not> alpha_first a \<and> b = ''mcpg-'' @ a))"
  unfolding Let_def alpha_leading_eq_iff[symmetric]
  using child_name_eq_iff[of p "''gateway''" q] by (simp add: build_deployment_def Let_def)

text \<open>C40. The volumes of a gateway pod. The container mounts the volumes of the pod, name by name and in
  the same order. Every name starts with a lower-case letter, has only such letters, digits and dashes
  and at most 63 characters, and all of them end in a letter or digit when every plugin id and
  Secret name has one among its first 56 characters. As long as these are DNS
  subdomains of at most 56 characters, two volumes share a name, which makes the server refuse the
  pod, exactly when two plugin ids, or two Secret names, are the same but for dots read as dashes: a
  plugin never clashes with a Secret, the configuration, the runtime directory or the list.\<close>

theorem pod_volumes_wellformed:
  "let P = dep_pod (build_deployment api dflt p ch pm ph rl da ex);
       vols = map vol_name (the (pod_volumes P));
       mounts = the (ct_volume_mounts (hd (pod_containers P)));
       plugins = map pmt_plugin_id pm; secrets = map sm_name (gw_secret_mounts (gw_spec p))
   in map vm_name mounts = vols
    \<and> (\<forall>v \<in> set vols. length v \<le> 63 \<and> v \<noteq> [] \<and> is_ascii_lowercase (hd v) \<and> (\<forall>c \<in> set v. c = CHR ''-'' \<or> lower_alnum c)
         \<and> ((\<forall>n \<in> set (plugins @ secrets). list_ex is_ascii_alphanumeric (take 56 (filter (\<lambda>c. \<not> is_cont c) n)))
              \<longrightarrow> lower_alnum (last v)))
    \<and> (list_all (\<lambda>n. dns_subdomain n \<and> length n \<le> 56) (plugins @ secrets) \<longrightarrow>
         (distinct vols \<longleftrightarrow> distinct (map (map dot_to_dash) plugins) \<and> distinct (map (map dot_to_dash) secrets)))"
proof -
  have P: "dep_pod (build_deployment api dflt p ch pm ph rl da ex)
      = build_pod_spec api dflt p (case service_port_of p of Some p \<Rightarrow> p | None \<Rightarrow> 8787) pm rl ex"
    by (simp add: build_deployment_def Let_def)
  have V: "pod_volumes (build_pod_spec api dflt p port pm rl ex) = Some (build_volumes p pm rl)"
    "ct_volume_mounts (hd (pod_containers (build_pod_spec api dflt p port pm rl ex)))
      = Some (build_volume_mounts pm rl (gw_secret_mounts (gw_spec p)))" for port
    by (simp_all add: build_pod_spec_def build_main_container_def Let_def)
  show ?thesis
    unfolding Let_def P V option.sel mounts_match_volumes
    by (intro conjI ballI impI refl; (elim volume_name_shape; assumption)?)
      (use volume_names_distinct_subdomains [of pm p rl] in simp_all)
qed

theorem pod_volumes_wellformed_witness:
  "\<not> distinct (map vol_name (the (pod_volumes (dep_pod (build_deployment sample_api sample_defaults
      ((plain_gateway ''a'')\<lparr>gw_spec := bare_gateway_spec\<lparr>gw_secret_mounts :=
        [\<lparr>sm_name = ''a.b'', sm_mount_path = ''/etc/x''\<rparr>, \<lparr>sm_name = ''a-b'', sm_mount_path = ''/etc/y''\<rparr>]\<rparr>\<rparr>)
      ''h'' [] None None Map.empty [])))))"
proof -
  have dns: "dns_subdomain ''a.b''" "dns_subdomain ''a-b''" "map dot_to_dash ''a.b'' = map dot_to_dash ''a-b''" by code_simp+
  let ?g = "(plain_gateway ''a'')\<lparr>gw_spec := bare_gateway_spec\<lparr>gw_secret_mounts :=
        [\<lparr>sm_name = ''a.b'', sm_mount_path = ''/etc/x''\<rparr>, \<lparr>sm_name = ''a-b'', sm_mount_path = ''/etc/y''\<rparr>]\<rparr>\<rparr>"
  have names: "map sm_name (gw_secret_mounts (gw_spec ?g)) = [''a.b'', ''a-b'']" by simp
  have "list_all (\<lambda>n. dns_subdomain n \<and> length n \<le> 56) (map pmt_plugin_id [] @ [''a.b'', ''a-b''])"
    using dns by simp
  then show ?thesis
    using pod_volumes_wellformed[of sample_api sample_defaults ?g "''h''" "[]" None None Map.empty "[]",
        unfolded Let_def names, THEN conjunct2, THEN conjunct2, THEN mp] dns(3)
    by (simp only: distinct.simps list.map set_simps insert_iff) blast
qed

text \<open>Who decides the number of replicas. The Deployment leaves it open exactly when the gateway has
  an autoscaler, whose bounds are then in order and at least one; otherwise the Deployment asks for
  the effective number, which a cloud gateway without coordination gets as one.\<close>

theorem replica_control:
  "(dep_replicas (build_deployment api dflt p ch pm ph rl da ex)
     = (if build_hpa wt p = None then Some (effective_replicas p) else None))
   \<and> (\<forall>h. build_hpa wt p = Some h \<longrightarrow> 1 \<le> hpa_min h \<and> hpa_min h \<le> hpa_max h)
   \<and> (single_replica_cloud p \<longrightarrow> build_hpa wt p = None \<and> effective_replicas p = 1)"
  by (auto simp: build_deployment_def build_hpa_def autoscaled_def effective_replicas_def Let_def
      split: option.splits if_splits)

theorem replica_control_witness:
  "dep_replicas (build_deployment sample_api sample_defaults
     ((plain_gateway ''a'')\<lparr>gw_spec := bare_gateway_spec\<lparr>gw_autoscaling :=
        Some \<lparr>as_enabled = True, as_min = Some 2, as_max = Some 5, as_metrics = []\<rparr>\<rparr>\<rparr>)
     ''h'' [] None None Map.empty []) = None"
proof -
  let ?p = "(plain_gateway ''a'')\<lparr>gw_spec := bare_gateway_spec\<lparr>gw_autoscaling :=
        Some \<lparr>as_enabled = True, as_min = Some 2, as_max = Some 5, as_metrics = []\<rparr>\<rparr>\<rparr>"
  have "build_hpa (\<lambda>_. True) ?p \<noteq> None"
    by (simp add: build_hpa_def autoscaled_def single_replica_cloud_def bare_gateway_spec_def Let_def)
  then show ?thesis
    using replica_control[of sample_api sample_defaults ?p "''h''" "[]" None None Map.empty "[]" "\<lambda>_. True"] by simp
qed

text \<open>Changed content rolls the pods. Whatever annotations the user or the platform put on the pods,
  the pod template carries the hash of the configuration, of the plugin set and of the revocation
  list, so a change of any of them changes the template.\<close>

theorem content_change_rolls_pods:
  "let a = the (meta_annotations (dep_pod_meta (build_deployment api dflt p ch pm (Some ph) (Some rl) da ex)))
   in (a CONFIG_HASH_ANNOTATION, a PLUGIN_SET_HASH_ANNOTATION, a REVOCATION_LIST_HASH_ANNOTATION)
      = (Some ch, Some ph, Some (rlm_content_hash rl))"
  by (simp add: build_deployment_def build_pod_metadata_def default_meta_def Let_def
      CONFIG_HASH_ANNOTATION_def PLUGIN_SET_HASH_ANNOTATION_def REVOCATION_LIST_HASH_ANNOTATION_def)

text \<open>The route at the shared edge leads to the Service. A cloud gateway whose address has a host or
  that has custom domains gets a route for exactly those names, which forwards the MCP and
  authorization paths to the Service of the gateway, on the port it listens on when that is a TCP
  port; a gateway outside the cloud gets none.\<close>

theorem edge_route_reaches_service:
  "case build_httproute p of
     None \<Rightarrow> (\<forall>c. gw_cloud (gw_spec p) = Some c \<longrightarrow> host_of (external_url c) = None \<and> custom_domains c = [])
   | Some r \<Rightarrow>
       (\<exists>c. gw_cloud (gw_spec p) = Some c
          \<and> set (hr_hostnames r) = set_option (host_of (external_url c)) \<union> set (custom_domains c))
       \<and> hr_backend r = name_any (srv_meta (build_service p))
       \<and> meta_namespace (hr_meta r) = meta_namespace (srv_meta (build_service p))
       \<and> set FORWARDED_PATH_PREFIXES \<subseteq> set (hr_path_prefixes r)
       \<and> (\<forall>sp \<in> set (srv_ports (build_service p)). 0 \<le> sp_port sp \<and> sp_port sp < 2 ^ 16 \<longrightarrow>
            uint (hr_backend_port r) = sp_port sp)"
proof -
  have port: "uint (word_of_int i :: 16 word) = i" if "0 \<le> i" "i < 2 ^ 16" for i
    using that by (simp add: uint_word_of_int)
  show ?thesis
    using port
    by (auto simp: build_httproute_def build_service_def child_meta_def default_meta_def Let_def
        GATEWAY_PORT_def DEFAULT_PORT_def split: option.splits if_splits)
qed

theorem edge_route_reaches_service_witness:
  "\<exists>r. build_httproute ((plain_gateway ''a'')\<lparr>gw_spec := bare_gateway_spec\<lparr>gw_cloud := Some
       \<lparr>instance_slug = ''a'', org_slug = ''o'', external_url = ''https://a.example/mcp'',
        canonical_url = None, custom_domains = [''b.example'']\<rparr>\<rparr>\<rparr>) = Some r
     \<and> set (hr_hostnames r) = {''a.example'', ''b.example''} \<and> uint (hr_backend_port r) = 8787"
proof -
  let ?p = "(plain_gateway ''a'')\<lparr>gw_spec := bare_gateway_spec\<lparr>gw_cloud := Some
       \<lparr>instance_slug = ''a'', org_slug = ''o'', external_url = ''https://a.example/mcp'',
        canonical_url = None, custom_domains = [''b.example'']\<rparr>\<rparr>\<rparr>"
  have h: "host_of ''https://a.example/mcp'' = Some ''a.example''" by code_simp
  have p: "srv_ports (build_service ?p)
      = [\<lparr>sp_name = Some ''http'', sp_port = 8787, sp_target_port = Some (StrVal ''http''), sp_protocol = Some ''TCP''\<rparr>]"
    by (simp add: build_service_def service_port_of_def bare_gateway_spec_def DEFAULT_PORT_def Let_def)
  obtain r where "build_httproute ?p = Some r"
    using edge_route_reaches_service[of ?p] h by (cases "build_httproute ?p") simp_all
  then show ?thesis using edge_route_reaches_service[of ?p] h p by auto
qed

end
