(* ===== verification/PluginRender.thy ===== *)
theory PluginRender
  imports Templates "HOL-Library.AList"
begin

text \<open>
  The configuration the operator renders for a gateway (\<open>src/src/templates/plugin_render.rs\<close>): the
  plugin set and the revocation list merged into the user's document, the default plugins of the
  managed cloud, the plugins that configured sinks and coordinators need.

  A function that updates a \<open>&mut Value\<close> returns the updated value; \<open>None\<close> is the panic of an
  \<open>expect\<close> on a value that is no object. Where the code replaces a non-object by \<open>{}\<close> first,
  \<open>json_members\<close> does both steps. \<open>Map::insert\<close> replaces the member in place or adds it; the order
  of members has no meaning.
\<close>

section \<open>Updating documents\<close>

definition json_members :: "json \<Rightarrow> (string \<times> json) list" where
  "json_members j = (case j of JObj ms \<Rightarrow> ms | _ \<Rightarrow> [])"

text \<open>Replace a non-object by an empty object, then insert.\<close>

definition json_put :: "string \<Rightarrow> json \<Rightarrow> json \<Rightarrow> json" where
  "json_put k v j = JObj (AList.update k v (json_members j))"

definition json_remove :: "string \<Rightarrow> json \<Rightarrow> json" where
  "json_remove k j = JObj (AList.delete k (json_members j))"

definition as_array :: "json \<Rightarrow> json list option" where
  "as_array j = (case j of JArr xs \<Rightarrow> Some xs | _ \<Rightarrow> None)"

definition contains_key :: "string \<Rightarrow> json \<Rightarrow> bool" where
  "contains_key k j \<longleftrightarrow> json_get k j \<noteq> None"

text \<open>\<open>ensure_object(value, key)\<close> hands out a reference into the document; \<open>f\<close> is what the caller
  does with it.\<close>

definition ensure_object :: "string \<Rightarrow> (json \<Rightarrow> json option) \<Rightarrow> json \<Rightarrow> json option" where
  "ensure_object key f v =
     (if \<not> json_is_object v then None
      else let inner = (case json_get key v of
             Some j \<Rightarrow> if json_is_object j then j else JObj [] | None \<Rightarrow> JObj [])
           in map_option (\<lambda>j. json_put key j v) (f inner))"

section \<open>The resolved set and its entries\<close>

record resolved_set_entry =
  rse_id :: string
  rse_plugin_class :: string
  rse_plugin_version :: string
  rse_artefact_secret_name :: string
  rse_resolved_digest :: string
  rse_config :: json

record resolved_set_view =
  rsv_entries :: "resolved_set_entry list"
  rsv_capability_grants :: "(string \<times> string list) list"

definition REVOCATION_LIST_MOUNT_PATH :: string where
  "REVOCATION_LIST_MOUNT_PATH = ''/etc/mcpg/revocations/list.json''"

definition with_grants :: "string list \<Rightarrow> json \<Rightarrow> json" where
  "with_grants caps entry = (if caps = [] then entry else json_put ''granted_capabilities'' (JArr (map JStr caps)) entry)"

definition render_entry :: "resolved_set_entry \<Rightarrow> string list option \<Rightarrow> json" where
  "render_entry e grants =
     with_grants (case grants of Some g \<Rightarrow> g | None \<Rightarrow> [])
       (JObj [(''id'', JStr (rse_id e)), (''kind'', JStr ''native''), (''class'', JStr (rse_plugin_class e)),
          (''source'', JObj [(''path'', JStr (PLUGIN_MOUNT_ROOT @ ''/'' @ rse_id e @ ''/plugin.so''))]),
          (''config'', rse_config e), (''signature'', JObj [(''sha256'', JStr (rse_resolved_digest e))]),
          (''enforce'', JBool True)])"

definition merge_plugins :: "json \<Rightarrow> resolved_set_view option \<Rightarrow> string option \<Rightarrow> json option" where
  "merge_plugins base resolved revocation_list_path =
     (let config = (if json_is_object base then base else JObj [])
      in if resolved = None \<and> revocation_list_path = None then Some config
         else let config = (case resolved of
                Some rs \<Rightarrow> json_put ''plugins'' (JArr (map (\<lambda>e. render_entry e
                  (map_of (rsv_capability_grants rs) (rse_id e))) (rsv_entries rs))) config
              | None \<Rightarrow> config)
              in case revocation_list_path of
                   Some path \<Rightarrow> ensure_object ''gateway'' (ensure_object ''plugin_registry''
                     (\<lambda>r. Some (json_put ''revocation_list_path'' (JStr path) r))) config
                 | None \<Rightarrow> Some config)"

definition set_plugin_cache_dir :: "json \<Rightarrow> string \<Rightarrow> json option" where
  "set_plugin_cache_dir config dir = ensure_object ''gateway'' (ensure_object ''plugin_registry''
     (\<lambda>r. Some (if contains_key ''cache_dir'' r then r else json_put ''cache_dir'' (JStr dir) r))) config"

section \<open>First-party plugins\<close>

definition CLOUD_PLUGIN_OCI_BASE :: string where "CLOUD_PLUGIN_OCI_BASE = ''ghcr.io/mcpg-dev/plugins''"

definition plugin_repo_name :: "string \<Rightarrow> string" where
  "plugin_repo_name i = replace_char (CHR ''.'') (CHR ''-'')
     (case strip_prefix ''dev.mcpg.'' i of Some r \<Rightarrow> r | None \<Rightarrow> i)"

definition plugin_oci_ref :: "image_defaults \<Rightarrow> string \<Rightarrow> string" where
  "plugin_oci_ref dflt i =
     CLOUD_PLUGIN_OCI_BASE @ ''/'' @ plugin_repo_name i @ '':'' @ default_plugin_version dflt"

definition CLOUD_DEFAULT_BACKEND_PLUGINS :: "(string \<times> string list) list" where
  "CLOUD_DEFAULT_BACKEND_PLUGINS =
     [(''dev.mcpg.backend.mock'', []), (''dev.mcpg.backend.http'', [''network_outbound'']),
      (''dev.mcpg.backend.command'', []), (''dev.mcpg.backend.graphql'', [''network_outbound'']),
      (''dev.mcpg.backend.openapi'', [''network_outbound''])]"

text \<open>First-seen order.\<close>

fun first_seen :: "string set \<Rightarrow> string list \<Rightarrow> string list" where
  "first_seen seen [] = []"
| "first_seen seen (s # ss) = (if s \<in> seen then first_seen seen ss else s # first_seen (insert s seen) ss)"

definition cloud_default_plugin_ids :: "string option \<Rightarrow> string list" where
  "cloud_default_plugin_ids override_csv =
     (case override_csv of
        None \<Rightarrow> map fst CLOUD_DEFAULT_BACKEND_PLUGINS
      | Some csv \<Rightarrow> first_seen {} (filter (\<lambda>s. s \<noteq> []) (map trim (split_on (CHR '','') csv))))"

definition native_entry :: "image_defaults \<Rightarrow> string \<Rightarrow> string \<Rightarrow> json" where
  "native_entry dflt i class = JObj [(''id'', JStr i), (''kind'', JStr ''native''), (''class'', JStr class),
     (''source'', JObj [(''oci'', JStr (plugin_oci_ref dflt i))])]"

definition render_cloud_default_entry :: "image_defaults \<Rightarrow> string \<Rightarrow> json" where
  "render_cloud_default_entry dflt i =
     with_grants (case map_of CLOUD_DEFAULT_BACKEND_PLUGINS i of Some g \<Rightarrow> g | None \<Rightarrow> [])
       (native_entry dflt i ''backend'')"

text \<open>The names an entry claims.\<close>

definition claimed :: "json \<Rightarrow> string list" where
  "claimed e = List.map_filter (\<lambda>k. Option.bind (json_get k e) json_as_str) [''id'', ''ref'']"

definition plugin_entries :: "json \<Rightarrow> json list" where
  "plugin_entries config =
     (case Option.bind (json_get ''plugins'' config) as_array of Some es \<Rightarrow> es | None \<Rightarrow> [])"

definition plugin_ids :: "json \<Rightarrow> string set" where
  "plugin_ids config = set (concat (map claimed (plugin_entries config)))"

definition append_cloud_default_plugins :: "image_defaults \<Rightarrow> json \<Rightarrow> string list \<Rightarrow> json" where
  "append_cloud_default_plugins dflt config ids =
     (if ids = [] then config
      else let taken = plugin_ids config
           in json_put ''plugins'' (JArr (plugin_entries config
                @ map (render_cloud_default_entry dflt) (filter (\<lambda>i. i \<notin> taken) ids))) config)"

definition push_plugin_entry :: "json \<Rightarrow> json \<Rightarrow> json" where
  "push_plugin_entry config entry = json_put ''plugins'' (JArr (plugin_entries config @ [entry])) config"

section \<open>Observability and coordination\<close>

definition FIRST_PARTY_SINK_PLUGINS :: "(string \<times> string \<times> string list) list" where
  "FIRST_PARTY_SINK_PLUGINS =
     [(''dev.mcpg.observability.prometheus'', ''metrics_sink'', []),
      (''dev.mcpg.observability.otlp'', ''telemetry_sink'', [''network_outbound''])]"

definition default_traces :: "string \<Rightarrow> string \<Rightarrow> string \<Rightarrow> json" where
  "default_traces url gateway_name namespace =
     JObj [(''enabled'', JBool True), (''service_name'', JStr ''mcpg-gateway''),
       (''sinks'', JArr [JObj [(''kind'', JStr ''dev.mcpg.observability.otlp''),
         (''config'', JObj [(''url'', JStr url),
           (''resource_attributes'', JObj [(''mcpg.gateway.name'', JStr gateway_name),
             (''k8s.namespace.name'', JStr namespace)])])]])]"

text \<open>The \<open>observability\<close> object is created before the author's value is looked at.\<close>

definition append_default_traces_block :: "json \<Rightarrow> string \<Rightarrow> string \<Rightarrow> string \<Rightarrow> json" where
  "append_default_traces_block config url gateway_name namespace =
     (if url = [] \<or> \<not> json_is_object config then config
      else let obs = (case json_get ''observability'' config of Some o' \<Rightarrow> o' | None \<Rightarrow> JObj [])
           in if \<not> json_is_object obs then config
              else json_put ''observability'' (if contains_key ''traces'' obs then obs
                else json_put ''traces'' (default_traces url gateway_name namespace) obs) config)"

definition configured_sink_kinds :: "json \<Rightarrow> string list" where
  "configured_sink_kinds config =
     (case json_get ''observability'' config of
        None \<Rightarrow> []
      | Some obs \<Rightarrow> first_seen {} (concat (map (\<lambda>sig.
          case Option.bind (json_path [sig, ''sinks''] obs) as_array of
            None \<Rightarrow> []
          | Some sinks \<Rightarrow> List.map_filter (\<lambda>s. Option.bind (json_get ''kind'' s) json_as_str) sinks)
          [''metrics'', ''traces'', ''logs''])))"

text \<open>One pass of the loop: an entry that is needed and not claimed yet is appended.\<close>

definition add_plugin :: "image_defaults \<Rightarrow> json \<Rightarrow> string \<times> string \<times> string list \<Rightarrow> json" where
  "add_plugin dflt config = (\<lambda>(i, class, grants).
     if i \<in> plugin_ids config then config
     else push_plugin_entry config (with_grants grants (native_entry dflt i class)))"

definition append_observability_sink_plugins :: "image_defaults \<Rightarrow> json \<Rightarrow> json" where
  "append_observability_sink_plugins dflt config =
     (let wanted = List.map_filter (\<lambda>kind. find (\<lambda>(i, _, _). i = kind) FIRST_PARTY_SINK_PLUGINS)
            (configured_sink_kinds config)
      in foldl (add_plugin dflt) config wanted)"

definition FIRST_PARTY_CLUSTER_COORDINATORS :: "(string \<times> string \<times> string list) list" where
  "FIRST_PARTY_CLUSTER_COORDINATORS =
     [(''nats'', ''dev.mcpg.cluster.nats'', [''network_outbound'']),
      (''redis'', ''dev.mcpg.cluster.redis'', [''network_outbound''])]"

definition append_cluster_coordinator_plugin :: "image_defaults \<Rightarrow> json \<Rightarrow> json" where
  "append_cluster_coordinator_plugin dflt config =
     (case Option.bind (json_path [''cluster'', ''kind''] config) json_as_str of
        None \<Rightarrow> config
      | Some kind \<Rightarrow>
          (case find (\<lambda>(k, _, _). k = kind) FIRST_PARTY_CLUSTER_COORDINATORS of
             None \<Rightarrow> config
           | Some (_, i, grants) \<Rightarrow> add_plugin dflt config (i, ''cluster'', grants)))"

text \<open>The last step of the rendering, for gateways of the managed cloud (\<open>controllers/gateway.rs\<close>).\<close>

definition apply_cloud_default_plugins ::
  "image_defaults \<Rightarrow> gateway \<Rightarrow> string option \<Rightarrow> string option \<Rightarrow> json \<Rightarrow> json option" where
  "apply_cloud_default_plugins dflt obj override_csv traces_url config =
     (if gw_cloud (gw_spec obj) = None then Some config
      else map_option (\<lambda>c.
        let c = append_cloud_default_plugins dflt c (cloud_default_plugin_ids override_csv);
            c = (case traces_url of
              Some url \<Rightarrow> append_default_traces_block c url
                (case meta_name (gw_meta obj) of Some n \<Rightarrow> n | None \<Rightarrow> [])
                (case meta_namespace (gw_meta obj) of Some n \<Rightarrow> n | None \<Rightarrow> [])
            | None \<Rightarrow> c);
            c = append_observability_sink_plugins dflt c
        in append_cluster_coordinator_plugin dflt c)
        (set_plugin_cache_dir config PLUGIN_CACHE_DIR))"

section \<open>Laws of the updates\<close>

lemma json_get_put [simp]: "json_get k (json_put k' v j) = (if k = k' then Some v else json_get k j)"
  by (simp add: json_get_def json_put_def json_members_def update_conv' split: json.split)

lemma json_get_remove [simp]: "json_get k (json_remove k' j) = (if k = k' then None else json_get k j)"
  by (auto simp: json_get_def json_remove_def json_members_def delete_conv' split: json.split)

lemma json_is_object_put [simp]: "json_is_object (json_put k v j)" "json_is_object (json_remove k j)"
  by (simp_all add: json_put_def json_remove_def json_is_object_def)

lemma json_get_empty [simp]: "json_get k (JObj []) = None"
  by (simp add: json_get_def)

lemma json_is_object_JObj [simp]: "json_is_object (JObj ms)"
  by (simp add: json_is_object_def)

lemma json_get_not_object: "\<not> json_is_object j \<Longrightarrow> json_get k j = None"
  by (auto simp: json_get_def json_is_object_def split: json.splits)

lemma json_path_Nil [simp]: "json_path [] = Some"
  by (rule ext) simp

lemma json_path_Cons: "json_path (k # ks) = (\<lambda>j. Option.bind (json_get k j) (json_path ks))"
  by (rule ext) simp

text \<open>The object \<open>ensure_object\<close> hands out: what a lookup below the key finds is what it found
  before.\<close>

definition sub_object :: "string \<Rightarrow> json \<Rightarrow> json" where
  "sub_object key v = (case json_get key v of
     Some j \<Rightarrow> if json_is_object j then j else JObj [] | None \<Rightarrow> JObj [])"

lemma sub_object_simps [simp]:
  "json_is_object (sub_object key v)" "json_get k (sub_object key v) = json_path [key, k] v"
  by (simp_all add: sub_object_def json_get_not_object split: option.split)

lemma ensure_object_put:
  "json_is_object v \<Longrightarrow> ensure_object key (\<lambda>r. Some (g r)) v = Some (json_put key (g (sub_object key v)) v)"
  by (simp add: ensure_object_def sub_object_def[symmetric])

lemma ensure_object_nested:
  "json_is_object v \<Longrightarrow> ensure_object key (ensure_object key' (\<lambda>r. Some (g r))) v
     = Some (json_put key (json_put key' (g (sub_object key' (sub_object key v))) (sub_object key v)) v)"
  by (simp add: ensure_object_def[of key] sub_object_def[of key v, symmetric] ensure_object_put)

section \<open>Merging the plugin set\<close>

lemma merge_plugins_facts:
  "\<exists>c. merge_plugins base resolved path = Some c \<and> json_is_object c
     \<and> json_get ''plugins'' c = (case resolved of
          Some rs \<Rightarrow> Some (JArr (map (\<lambda>e. render_entry e (map_of (rsv_capability_grants rs) (rse_id e))) (rsv_entries rs)))
        | None \<Rightarrow> json_get ''plugins'' base)
     \<and> json_path [''gateway'', ''plugin_registry'', ''revocation_list_path''] c = (case path of
          Some p \<Rightarrow> Some (JStr p)
        | None \<Rightarrow> json_path [''gateway'', ''plugin_registry'', ''revocation_list_path''] base)
     \<and> (\<forall>k. k \<noteq> ''plugins'' \<and> k \<noteq> ''gateway'' \<longrightarrow> json_get k c = json_get k base)
     \<and> (\<forall>k. k \<noteq> ''plugin_registry'' \<longrightarrow> json_path [''gateway'', k] c = json_path [''gateway'', k] base)
     \<and> (\<forall>k. k \<noteq> ''revocation_list_path'' \<longrightarrow>
          json_path [''gateway'', ''plugin_registry'', k] c = json_path [''gateway'', ''plugin_registry'', k] base)"
proof -
  define b where "b = (if json_is_object base then base else JObj [])"
  have b: "json_is_object b" "json_get k b = json_get k base" for k
    by (simp_all add: b_def json_get_not_object)
  define c where "c = (case resolved of Some rs \<Rightarrow> json_put ''plugins'' (JArr (map (\<lambda>e. render_entry e
      (map_of (rsv_capability_grants rs) (rse_id e))) (rsv_entries rs))) b | None \<Rightarrow> b)"
  have c: "json_is_object c" "json_get k c = (case resolved of
        Some rs \<Rightarrow> if k = ''plugins'' then Some (JArr (map (\<lambda>e. render_entry e
          (map_of (rsv_capability_grants rs) (rse_id e))) (rsv_entries rs))) else json_get k base
      | None \<Rightarrow> json_get k base)" for k
    using b by (auto simp: c_def split: option.split)
  show ?thesis
  proof (cases path)
    case None
    then have "merge_plugins base resolved path = Some c"
      by (simp add: merge_plugins_def b_def c_def Let_def split: option.split)
    then show ?thesis using c None by (simp split: option.split)
  next
    case (Some p)
    then have "merge_plugins base resolved path = ensure_object ''gateway'' (ensure_object ''plugin_registry''
        (\<lambda>r. Some (json_put ''revocation_list_path'' (JStr p) r))) c"
      by (simp add: merge_plugins_def b_def c_def Let_def split: option.split)
    then show ?thesis using c Some by (simp add: ensure_object_nested json_path_Cons split: option.split)
  qed
qed

text \<open>The merge is total and does nothing but what it is for. It never panics and its result is an
  object, whatever the user wrote. With a resolved set the plugin list is the rendered entries and
  nothing else, with their grants; without one it is the user's. With a revocation list the path
  is the operator's. Every other member of the document, of its \<open>gateway\<close> member and of that one's
  \<open>plugin_registry\<close> is untouched.\<close>

theorem merge_plugins_exact:
  "\<exists>c. merge_plugins base resolved path = Some c \<and> json_is_object c
     \<and> json_get ''plugins'' c = (case resolved of
          Some rs \<Rightarrow> Some (JArr (map (\<lambda>e. render_entry e (map_of (rsv_capability_grants rs) (rse_id e))) (rsv_entries rs)))
        | None \<Rightarrow> json_get ''plugins'' base)
     \<and> json_path [''gateway'', ''plugin_registry'', ''revocation_list_path''] c = (case path of
          Some p \<Rightarrow> Some (JStr p)
        | None \<Rightarrow> json_path [''gateway'', ''plugin_registry'', ''revocation_list_path''] base)
     \<and> (\<forall>k. k \<noteq> ''plugins'' \<and> k \<noteq> ''gateway'' \<longrightarrow> json_get k c = json_get k base)
     \<and> (\<forall>k. k \<noteq> ''plugin_registry'' \<longrightarrow> json_path [''gateway'', k] c = json_path [''gateway'', k] base)
     \<and> (\<forall>k. k \<noteq> ''revocation_list_path'' \<longrightarrow>
          json_path [''gateway'', ''plugin_registry'', k] c = json_path [''gateway'', ''plugin_registry'', k] base)"
  by (rule merge_plugins_facts)

theorem merge_plugins_exact_witness:
  "\<exists>c. merge_plugins (JArr []) (Some \<lparr>rsv_entries = [], rsv_capability_grants = []\<rparr>) (Some ''/l'') = Some c
     \<and> json_get ''plugins'' c = Some (JArr [])
     \<and> json_path [''gateway'', ''plugin_registry'', ''revocation_list_path''] c = Some (JStr ''/l'')"
  using merge_plugins_exact[of "JArr []" "Some \<lparr>rsv_entries = [], rsv_capability_grants = []\<rparr>" "Some ''/l''"]
  by auto

section \<open>The plugin list of a managed gateway\<close>

text \<open>The names the entries of the list claim, in order.\<close>

definition claimed_names :: "json \<Rightarrow> string list" where
  "claimed_names config = concat (map claimed (plugin_entries config))"

lemma plugin_ids_claimed: "plugin_ids config = set (claimed_names config)"
  by (simp add: plugin_ids_def claimed_names_def)

lemma plugin_entries_put [simp]:
  "plugin_entries (json_put ''plugins'' (JArr es) config) = es"
  "k \<noteq> ''plugins'' \<Longrightarrow> plugin_entries (json_put k v config) = plugin_entries config"
  by (simp_all add: plugin_entries_def as_array_def)

lemma claimed_with_grants [simp]: "claimed (with_grants g e) = claimed e"
  by (simp add: claimed_def with_grants_def List.map_filter_simps split: option.split)

lemma claimed_native [simp]: "claimed (native_entry dflt i c) = [i]"
  by (simp add: claimed_def native_entry_def List.map_filter_simps json_get_def json_as_str_def)

lemma claimed_cloud_default [simp]: "claimed (render_cloud_default_entry dflt i) = [i]"
  by (simp add: render_cloud_default_entry_def)

lemma set_first_seen: "set (first_seen seen ss) = set ss - seen"
  by (induction ss arbitrary: seen) auto

lemma distinct_first_seen: "distinct (first_seen seen ss)"
  by (induction ss arbitrary: seen) (auto simp: set_first_seen)

lemma distinct_cloud_default_ids: "distinct (cloud_default_plugin_ids csv)"
  by (simp add: cloud_default_plugin_ids_def distinct_first_seen CLOUD_DEFAULT_BACKEND_PLUGINS_def
      split: option.split)

text \<open>What every step of the rendering keeps: the entries that are there stay first and in order, and
  a name is claimed by one entry at most if that was so before.\<close>

definition extends_plugins :: "json \<Rightarrow> json \<Rightarrow> bool" where
  "extends_plugins c c' \<longleftrightarrow> (\<exists>es. plugin_entries c' = plugin_entries c @ es)
     \<and> (distinct (claimed_names c) \<longrightarrow> distinct (claimed_names c'))"

lemma extends_plugins_refl: "plugin_entries c' = plugin_entries c \<Longrightarrow> extends_plugins c c'"
  by (simp add: extends_plugins_def claimed_names_def)

lemma extends_plugins_trans: "extends_plugins a b \<Longrightarrow> extends_plugins b c \<Longrightarrow> extends_plugins a c"
  by (auto simp: extends_plugins_def)

lemma extends_plugins_ids: "extends_plugins a b \<Longrightarrow> plugin_ids a \<subseteq> plugin_ids b"
  by (auto simp: extends_plugins_def plugin_ids_def)

lemma concat_map_single: "concat (map (\<lambda>x. [x]) xs) = xs"
  by (induction xs) auto

lemma append_cloud_default_extends:
  "distinct ids \<Longrightarrow> extends_plugins c (append_cloud_default_plugins dflt c ids)"
  by (auto simp: extends_plugins_def append_cloud_default_plugins_def Let_def claimed_names_def
      plugin_ids_def comp_def concat_map_single)

lemma append_cloud_default_claims:
  "set ids \<subseteq> plugin_ids (append_cloud_default_plugins dflt c ids)"
  by (auto simp: append_cloud_default_plugins_def plugin_ids_def Let_def comp_def)

lemma add_plugin_extends: "extends_plugins c (add_plugin dflt c w)"
  by (auto simp: add_plugin_def push_plugin_entry_def extends_plugins_def claimed_names_def plugin_ids_def
      split: prod.split)

lemma add_plugin_claims: "fst w \<in> plugin_ids (add_plugin dflt c w)"
  by (auto simp: add_plugin_def push_plugin_entry_def plugin_ids_def split: prod.split)

lemma add_plugin_frame: "k \<noteq> ''plugins'' \<Longrightarrow> json_get k (add_plugin dflt c w) = json_get k c"
  by (simp add: add_plugin_def push_plugin_entry_def split: prod.split)

lemma foldl_add_plugin:
  "extends_plugins c (foldl (add_plugin dflt) c ws)
   \<and> fst ` set ws \<subseteq> plugin_ids (foldl (add_plugin dflt) c ws)
   \<and> (\<forall>k. k \<noteq> ''plugins'' \<longrightarrow> json_get k (foldl (add_plugin dflt) c ws) = json_get k c)"
proof (induction ws arbitrary: c)
  case Nil
  then show ?case by (simp add: extends_plugins_refl)
next
  case (Cons w ws)
  from Cons[of "add_plugin dflt c w"] show ?case
    using add_plugin_extends[of c dflt w] add_plugin_claims[of w dflt c]
    by (auto simp: add_plugin_frame dest: extends_plugins_trans extends_plugins_ids)
qed

lemma configured_sink_kinds_cong:
  "json_get ''observability'' c = json_get ''observability'' c' \<Longrightarrow> configured_sink_kinds c = configured_sink_kinds c'"
  by (simp add: configured_sink_kinds_def)

lemma map_filter_memI: "x \<in> set xs \<Longrightarrow> f x = Some y \<Longrightarrow> y \<in> set (List.map_filter f xs)"
  by (force simp: List.map_filter_def)

lemma find_fst: "(k, v) \<in> set tbl \<Longrightarrow> \<exists>w. find (\<lambda>(i, _, _). i = k) tbl = Some (k, w)"
  by (induction tbl) auto

lemma sink_pass:
  fixes dflt c
  defines "c' \<equiv> append_observability_sink_plugins dflt c"
  shows "extends_plugins c c' \<and> set (configured_sink_kinds c') \<inter> fst ` set FIRST_PARTY_SINK_PLUGINS \<subseteq> plugin_ids c'
    \<and> (\<forall>k. k \<noteq> ''plugins'' \<longrightarrow> json_get k c' = json_get k c)"
proof -
  define ws where "ws = List.map_filter (\<lambda>kind. find (\<lambda>(i, _, _). i = kind) FIRST_PARTY_SINK_PLUGINS)
      (configured_sink_kinds c)"
  have c': "c' = foldl (add_plugin dflt) c ws"
    by (simp add: c'_def append_observability_sink_plugins_def ws_def)
  have "set (configured_sink_kinds c) \<inter> fst ` set FIRST_PARTY_SINK_PLUGINS \<subseteq> fst ` set ws"
  proof
    fix k assume "k \<in> set (configured_sink_kinds c) \<inter> fst ` set FIRST_PARTY_SINK_PLUGINS"
    then obtain v where "k \<in> set (configured_sink_kinds c)" "(k, v) \<in> set FIRST_PARTY_SINK_PLUGINS" by auto
    from find_fst[OF this(2)] obtain w where "find (\<lambda>(i, _, _). i = k) FIRST_PARTY_SINK_PLUGINS = Some (k, w)" ..
    with \<open>k \<in> set (configured_sink_kinds c)\<close> have "(k, w) \<in> set ws"
      unfolding ws_def by (rule map_filter_memI)
    then show "k \<in> fst ` set ws" by force
  qed
  moreover have "configured_sink_kinds c' = configured_sink_kinds c"
    using foldl_add_plugin[of c dflt ws] unfolding c' by (intro configured_sink_kinds_cong) simp
  ultimately show ?thesis using foldl_add_plugin[of c dflt ws] unfolding c' by auto
qed

lemma coordinator_pass:
  fixes dflt c
  defines "c' \<equiv> append_cluster_coordinator_plugin dflt c"
  shows "extends_plugins c c'
    \<and> (\<forall>(k, i, g) \<in> set FIRST_PARTY_CLUSTER_COORDINATORS.
         json_path [''cluster'', ''kind''] c' = Some (JStr k) \<longrightarrow> i \<in> plugin_ids c')
    \<and> (\<forall>k. k \<noteq> ''plugins'' \<longrightarrow> json_get k c' = json_get k c)"
proof -
  have frame: "k \<noteq> ''plugins'' \<Longrightarrow> json_get k c' = json_get k c" for k
    by (simp add: c'_def append_cluster_coordinator_plugin_def add_plugin_frame split: option.split prod.split)
  moreover have "extends_plugins c c'"
    by (auto simp: c'_def append_cluster_coordinator_plugin_def extends_plugins_refl add_plugin_extends
        split: option.split prod.split)
  moreover have "json_path [''cluster'', ''kind''] c' = json_path [''cluster'', ''kind''] c"
    by (simp add: frame)
  moreover have "json_path [''cluster'', ''kind''] c = Some (JStr k) \<Longrightarrow>
      (k, i, g) \<in> set FIRST_PARTY_CLUSTER_COORDINATORS \<Longrightarrow> i \<in> plugin_ids c'" for k i g
    using add_plugin_claims[of "(i, ''cluster'', g)" dflt c]
    by (auto simp: c'_def append_cluster_coordinator_plugin_def json_as_str_def FIRST_PARTY_CLUSTER_COORDINATORS_def
        simp del: json_path.simps split: if_splits)
  ultimately show ?thesis by auto
qed

lemma traces_pass:
  "extends_plugins c (append_default_traces_block c url n ns)
   \<and> (\<forall>k. k \<noteq> ''observability'' \<longrightarrow> json_get k (append_default_traces_block c url n ns) = json_get k c)"
  by (auto simp: append_default_traces_block_def Let_def intro!: extends_plugins_refl)

lemma managed_plugin_facts:
  assumes "gw_cloud (gw_spec obj) = Some cloud" and "json_is_object config"
  shows "\<exists>c. apply_cloud_default_plugins dflt obj csv url config = Some c
     \<and> (\<exists>es. plugin_entries c = plugin_entries config @ es)
     \<and> (distinct (claimed_names config) \<longrightarrow> distinct (claimed_names c))
     \<and> set (cloud_default_plugin_ids csv) \<subseteq> plugin_ids c
     \<and> set (configured_sink_kinds c) \<inter> fst ` set FIRST_PARTY_SINK_PLUGINS \<subseteq> plugin_ids c
     \<and> (\<forall>(k, i, g) \<in> set FIRST_PARTY_CLUSTER_COORDINATORS.
          json_path [''cluster'', ''kind''] c = Some (JStr k) \<longrightarrow> i \<in> plugin_ids c)
     \<and> json_path [''gateway'', ''plugin_registry'', ''cache_dir''] c
         = (case json_path [''gateway'', ''plugin_registry'', ''cache_dir''] config of
              Some d \<Rightarrow> Some d | None \<Rightarrow> Some (JStr PLUGIN_CACHE_DIR))"
proof -
  let ?reg = "sub_object ''plugin_registry'' (sub_object ''gateway'' config)"
  define c0 where "c0 = json_put ''gateway'' (json_put ''plugin_registry''
     (if contains_key ''cache_dir'' ?reg then ?reg else json_put ''cache_dir'' (JStr PLUGIN_CACHE_DIR) ?reg)
     (sub_object ''gateway'' config)) config"
  define c1 where "c1 = append_cloud_default_plugins dflt c0 (cloud_default_plugin_ids csv)"
  define c2 where "c2 = (case url of Some u \<Rightarrow> append_default_traces_block c1 u
       (case meta_name (gw_meta obj) of Some n \<Rightarrow> n | None \<Rightarrow> [])
       (case meta_namespace (gw_meta obj) of Some n \<Rightarrow> n | None \<Rightarrow> []) | None \<Rightarrow> c1)"
  define c3 where "c3 = append_observability_sink_plugins dflt c2"
  define c4 where "c4 = append_cluster_coordinator_plugin dflt c3"
  have cache: "set_plugin_cache_dir config PLUGIN_CACHE_DIR = Some c0"
    using assms by (simp add: set_plugin_cache_dir_def ensure_object_nested c0_def)
  have run: "apply_cloud_default_plugins dflt obj csv url config = Some c4"
    using assms cache by (simp add: apply_cloud_default_plugins_def Let_def c4_def c3_def c2_def c1_def
        split: option.split)
  have e0: "plugin_entries c0 = plugin_entries config" by (simp add: c0_def)
  have e1: "extends_plugins c0 c1" "set (cloud_default_plugin_ids csv) \<subseteq> plugin_ids c1"
    unfolding c1_def by (rule append_cloud_default_extends[OF distinct_cloud_default_ids])
      (rule append_cloud_default_claims)
  have e2: "extends_plugins c1 c2" "k \<noteq> ''observability'' \<Longrightarrow> json_get k c2 = json_get k c1" for k
    using traces_pass by (auto simp: c2_def extends_plugins_refl split: option.split)
  note s = sink_pass[of c2 dflt, folded c3_def] coordinator_pass[of c3 dflt, folded c4_def]
  have g: "json_get ''gateway'' c4 = json_get ''gateway'' c0"
    using s e2(2)[of "''gateway''"] by (simp add: c1_def append_cloud_default_plugins_def Let_def)
  have kinds: "configured_sink_kinds c4 = configured_sink_kinds c3"
    using s(2) by (intro configured_sink_kinds_cong) simp
  have ext: "extends_plugins config c4"
    using extends_plugins_trans[OF extends_plugins_refl[OF e0]] e1(1) e2(1) s
    by (meson extends_plugins_trans)
  have ids: "plugin_ids c1 \<subseteq> plugin_ids c4" "plugin_ids c3 \<subseteq> plugin_ids c4"
    using e2(1) s by (meson extends_plugins_ids extends_plugins_trans)+
  have dir: "json_path [''gateway'', ''plugin_registry'', ''cache_dir''] c4
         = (case json_path [''gateway'', ''plugin_registry'', ''cache_dir''] config of
              Some d \<Rightarrow> Some d | None \<Rightarrow> Some (JStr PLUGIN_CACHE_DIR))"
    using g by (auto simp: c0_def contains_key_def json_path_Cons split: option.split)
  have sinks: "set (configured_sink_kinds c4) \<inter> fst ` set FIRST_PARTY_SINK_PLUGINS \<subseteq> plugin_ids c4"
    using s(1) ids(2) kinds by auto
  show ?thesis
    using ext e1(2) ids(1) s(2) sinks dir unfolding extends_plugins_def
    by (intro exI[of _ c4] conjI run) (simp_all only:, blast+)
qed

text \<open>The rendering of a gateway of the managed cloud never panics on an object and keeps every
  entry the user or the plugin set has, in order. Every default plugin, every first-party sink the
  final document configures and the coordinator it selects is claimed by an entry, and no name is
  claimed twice unless it was before: the two reasons for which the gateway would not boot. The
  plugin cache is the user's, or the writable directory of the pod.\<close>

theorem managed_plugin_list:
  assumes "gw_cloud (gw_spec obj) = Some cloud" and "json_is_object config"
  shows "\<exists>c. apply_cloud_default_plugins dflt obj csv url config = Some c
     \<and> (\<exists>es. plugin_entries c = plugin_entries config @ es)
     \<and> (distinct (claimed_names config) \<longrightarrow> distinct (claimed_names c))
     \<and> set (cloud_default_plugin_ids csv) \<subseteq> plugin_ids c
     \<and> set (configured_sink_kinds c) \<inter> fst ` set FIRST_PARTY_SINK_PLUGINS \<subseteq> plugin_ids c
     \<and> (\<forall>(k, i, g) \<in> set FIRST_PARTY_CLUSTER_COORDINATORS.
          json_path [''cluster'', ''kind''] c = Some (JStr k) \<longrightarrow> i \<in> plugin_ids c)
     \<and> json_path [''gateway'', ''plugin_registry'', ''cache_dir''] c
         = (case json_path [''gateway'', ''plugin_registry'', ''cache_dir''] config of
              Some d \<Rightarrow> Some d | None \<Rightarrow> Some (JStr PLUGIN_CACHE_DIR))"
  using assms by (rule managed_plugin_facts)

theorem managed_plugin_list_witness:
  "\<exists>c. apply_cloud_default_plugins sample_defaults
      ((plain_gateway ''a'')\<lparr>gw_spec := bare_gateway_spec\<lparr>gw_cloud := Some
       \<lparr>instance_slug = ''a'', org_slug = ''o'', external_url = ''https://a.example/mcp'',
        canonical_url = None, custom_domains = []\<rparr>\<rparr>\<rparr>) None None
      (JObj [(''cluster'', JObj [(''kind'', JStr ''nats'')])]) = Some c
     \<and> distinct (claimed_names c)
     \<and> ''dev.mcpg.backend.http'' \<in> plugin_ids c"
proof -
  have "distinct (claimed_names (JObj [(''cluster'', JObj [(''kind'', JStr ''nats'')])]))"
    by (simp add: claimed_names_def plugin_entries_def json_get_def)
  then show ?thesis
    using managed_plugin_list[of "(plain_gateway ''a'')\<lparr>gw_spec := bare_gateway_spec\<lparr>gw_cloud := Some
       \<lparr>instance_slug = ''a'', org_slug = ''o'', external_url = ''https://a.example/mcp'',
        canonical_url = None, custom_domains = []\<rparr>\<rparr>\<rparr>" _ "JObj [(''cluster'', JObj [(''kind'', JStr ''nats'')])]"
        sample_defaults None None]
    by (auto simp: cloud_default_plugin_ids_def CLOUD_DEFAULT_BACKEND_PLUGINS_def)
qed

end
