(* ===== verification/GatewayConfig.thy ===== *)
theory GatewayConfig
  imports PluginRender Admission PluginSet RevocationCtl
begin

text \<open>
  The pure functions of the gateway controller (\<open>src/src/controllers/gateway.rs\<close>): which gateways a
  change concerns, how plugin sets, clusters, routes and servers enter the configuration, what the
  operator writes for gateways of the managed cloud, and the judgement of the tenant's
  authorization server.

  Parsing JSON and versions (\<open>serde_json\<close>, \<open>semver\<close>), printing JSON and hashing are parameters.
\<close>

section \<open>Which gateways a change concerns\<close>

definition DEFAULT_REVOCATION_LIST_NAME :: string where
  "DEFAULT_REVOCATION_LIST_NAME = ''cluster-default''"

type_synonym object_ref = "string option \<times> string"

definition gateway_ref_of :: "gateway \<Rightarrow> object_ref" where
  "gateway_ref_of gw = (meta_namespace (gw_meta gw), name_any (gw_meta gw))"

definition gateway_uses_plugin_set :: "gateway \<Rightarrow> string option \<Rightarrow> string \<Rightarrow> bool" where
  "gateway_uses_plugin_set gw set_ns set_name \<longleftrightarrow>
     meta_namespace (gw_meta gw) = set_ns \<and> gw_plugin_set_ref (gw_spec gw) = Some set_name"

definition gateway_uses_revocation_list :: "gateway \<Rightarrow> string \<Rightarrow> bool" where
  "gateway_uses_revocation_list gw list_name \<longleftrightarrow>
     (case gw_revocation_list_ref (gw_spec gw) of
        Some r \<Rightarrow> r | None \<Rightarrow> DEFAULT_REVOCATION_LIST_NAME) = list_name"

definition map_plugin_set_to_gateways :: "gateway list \<Rightarrow> plugin_set \<Rightarrow> object_ref list" where
  "map_plugin_set_to_gateways store s =
     (case meta_name (set_meta s) of
        None \<Rightarrow> []
      | Some n \<Rightarrow> map gateway_ref_of
          (filter (\<lambda>gw. gateway_uses_plugin_set gw (meta_namespace (set_meta s)) n) store))"

definition map_revocation_list_to_gateways :: "gateway list \<Rightarrow> revocation_list \<Rightarrow> object_ref list" where
  "map_revocation_list_to_gateways store rl =
     (case meta_name (rl_meta rl) of
        None \<Rightarrow> []
      | Some n \<Rightarrow> map gateway_ref_of (filter (\<lambda>gw. gateway_uses_revocation_list gw n) store))"

definition map_cluster_to_gateways :: "gateway list \<Rightarrow> cluster \<Rightarrow> object_ref list" where
  "map_cluster_to_gateways store cl =
     (case meta_name (cl_meta cl) of
        None \<Rightarrow> []
      | Some n \<Rightarrow> map gateway_ref_of (filter (\<lambda>gw. gw_cluster_ref (gw_spec gw) = Some n) store))"

definition map_route_to_gateways :: "api_crate \<Rightarrow> gateway list \<Rightarrow> route \<Rightarrow> object_ref list" where
  "map_route_to_gateways api store rt =
     (case meta_namespace (rt_meta rt) of
        None \<Rightarrow> []
      | Some ns \<Rightarrow> map gateway_ref_of (filter (\<lambda>gw. name_any (gw_meta gw) = rt_gateway_ref (rt_spec rt)
          \<and> meta_namespace (gw_meta gw) = Some (gateway_namespace api (rt_spec rt) ns)) store))"

definition map_server_to_gateways :: "gateway list \<Rightarrow> mcp_server \<Rightarrow> object_ref list" where
  "map_server_to_gateways store sv =
     (case (meta_namespace (sv_meta sv), sv_federate (sv_spec sv)) of
        (Some ns, Some fed) \<Rightarrow> map gateway_ref_of (filter (\<lambda>gw.
          name_any (gw_meta gw) = fed_gateway_ref fed \<and> meta_namespace (gw_meta gw) = Some ns) store)
      | _ \<Rightarrow> [])"

section \<open>Paths\<close>

text \<open>\<open>ensure_path(root, path)\<close> hands out a reference to the leaf; \<open>f\<close> is what the caller makes of it.\<close>

fun ensure_path :: "string list \<Rightarrow> (json \<Rightarrow> json) \<Rightarrow> json \<Rightarrow> json" where
  "ensure_path [] f j = f j"
| "ensure_path (k # ks) f j =
     json_put k (ensure_path ks f (case json_get k j of Some v \<Rightarrow> v | None \<Rightarrow> JObj [])) j"

definition array_or_empty :: "json \<Rightarrow> json list" where
  "array_or_empty j = (case j of JArr xs \<Rightarrow> xs | _ \<Rightarrow> [])"

section \<open>Servers\<close>

definition server_child_name :: "mcp_server \<Rightarrow> string" where
  "server_child_name sv = alpha_leading (name_any (sv_meta sv))"

definition federation_entry :: "string \<Rightarrow> string \<Rightarrow> string \<Rightarrow> server_federate \<Rightarrow> json" where
  "federation_entry fed_name endpoint tool_prefix fed =
     (let upstream = JObj [(''url'', JStr endpoint),
            (''upstream_safety'', JObj [(''allow_private_backends'', JBool True), (''allow_insecure_http'', JBool True)]),
            (''protocol_version'', JStr ''auto'')];
          upstream = (case fed_auth fed of Some a \<Rightarrow> json_put ''auth'' a upstream | None \<Rightarrow> upstream);
          e = JObj [(''name'', JStr fed_name), (''upstream'', upstream),
            (''naming'', JObj [(''tool_prefix'', JStr tool_prefix)])];
          e = (case fed_governance fed of Some g \<Rightarrow> json_put ''governance'' g e | None \<Rightarrow> e)
      in case fed_import fed of Some i \<Rightarrow> json_put ''import'' i e | None \<Rightarrow> e)"

definition named_in :: "string \<Rightarrow> json list \<Rightarrow> bool" where
  "named_in n fs \<longleftrightarrow> list_ex (\<lambda>f. Option.bind (json_get ''name'' f) json_as_str = Some n) fs"

text \<open>One server of the loop, with the number merged so far.\<close>

definition apply_server :: "api_crate \<Rightarrow> string \<Rightarrow> string \<Rightarrow> json \<times> nat \<Rightarrow> mcp_server \<Rightarrow> json \<times> nat" where
  "apply_server api gateway_name gateway_ns = (\<lambda>(config, merged) server.
     (case (meta_namespace (sv_meta server), sv_federate (sv_spec server)) of
        (Some server_ns, Some fed) \<Rightarrow>
          if server_ns \<noteq> gateway_ns \<or> fed_gateway_ref fed \<noteq> gateway_name
             \<or> federate_governance_error api fed \<noteq> None then (config, merged)
          else
            let fed_name = federation_name api (sv_spec server) (name_any (sv_meta server));
                endpoint = server_endpoint api (sv_spec server) (server_child_name server) server_ns;
                tool_prefix = (case fed_tool_prefix fed of Some p \<Rightarrow> p | None \<Rightarrow> fed_name @ ''.'');
                arr = (case json_path [''mcp'', ''federations''] config of Some j \<Rightarrow> array_or_empty j | None \<Rightarrow> []);
                config' = (\<lambda>es. ensure_path [''mcp'', ''federations''] (\<lambda>_. JArr es) config)
            in if named_in fed_name arr then (config' arr, merged)
               else (config' (arr @ [federation_entry fed_name endpoint tool_prefix fed]), merged + 1)
      | _ \<Rightarrow> (config, merged)))"

definition apply_servers_to_config ::
  "api_crate \<Rightarrow> mcp_server list \<Rightarrow> string \<Rightarrow> string \<Rightarrow> json \<Rightarrow> json \<times> nat" where
  "apply_servers_to_config api servers gateway_name gateway_ns config =
     foldl (apply_server api gateway_name gateway_ns) (config, 0) servers"

definition merge_servers ::
  "api_crate \<Rightarrow> kube_error + mcp_server list \<Rightarrow> gateway \<Rightarrow> string \<Rightarrow> json \<Rightarrow> json \<times> nat" where
  "merge_servers api listed obj gateway_ns config =
     (case listed of
        Inl _ \<Rightarrow> (config, 0)
      | Inr servers \<Rightarrow> apply_servers_to_config api servers (name_any (gw_meta obj)) gateway_ns config)"

section \<open>The resolved set\<close>

definition required_string :: "json \<Rightarrow> string \<Rightarrow> nat \<Rightarrow> (nat \<times> string) + string" where
  "required_string obj key index =
     (case Option.bind (json_get key obj) json_as_str of Some s \<Rightarrow> Inr s | None \<Rightarrow> Inl (index, key))"

datatype parse_error = InvalidJson | MissingEntries | BadEntry "nat \<times> string"

fun parse_entries :: "nat \<Rightarrow> json list \<Rightarrow> (nat \<times> string) + resolved_set_entry list" where
  "parse_entries i [] = Inr []"
| "parse_entries i (e # es) =
     bindE (required_string e ''id'' i) (\<lambda>ident.
     bindE (required_string e ''pluginClass'' i) (\<lambda>class.
     bindE (required_string e ''pluginVersion'' i) (\<lambda>version.
     bindE (required_string e ''artefactSecretName'' i) (\<lambda>secret.
     bindE (required_string e ''resolvedDigest'' i) (\<lambda>digest.
     bindE (parse_entries (i + 1) es) (\<lambda>rest.
       Inr (\<lparr>rse_id = ident, rse_plugin_class = class, rse_plugin_version = version,
         rse_artefact_secret_name = secret, rse_resolved_digest = digest,
         rse_config = (case json_get ''config'' e of Some c \<Rightarrow> c | None \<Rightarrow> JNull)\<rparr> # rest)))))))"

definition parse_resolved_plugins_json ::
  "(string \<Rightarrow> json option) \<Rightarrow> string \<Rightarrow> plugin_set \<Rightarrow> parse_error + resolved_set_view" where
  "parse_resolved_plugins_json parse_json text s =
     (case parse_json text of
        None \<Rightarrow> Inl InvalidJson
      | Some doc \<Rightarrow>
          (case Option.bind (json_get ''entries'' doc) as_array of
             None \<Rightarrow> Inl MissingEntries
           | Some entries \<Rightarrow> map_err BadEntry (bindE (parse_entries 0 entries) (\<lambda>es.
               Inr \<lparr>rsv_entries = es, rsv_capability_grants = capability_grants (set_spec s)\<rparr>))))"

section \<open>Clusters\<close>

record coordination_projection =
  coord_secret_name :: string
  coord_data :: str_map

record resolved_cluster =
  rc_block :: json
  rc_condition :: condition
  rc_coordination :: "coordination_projection option"

abbreviation bare_cond :: "string \<Rightarrow> string \<Rightarrow> string \<Rightarrow> condition" where
  "bare_cond t s r \<equiv> \<lparr>c_type = t, c_status = s, c_reason = r, c_generation = None\<rparr>"

definition classify_cluster_binding ::
  "api_crate \<Rightarrow> string \<Rightarrow> gateway \<Rightarrow> cluster option \<Rightarrow> resolved_cluster" where
  "classify_cluster_binding api operator_ns obj cl =
     (let name = (case gw_cluster_ref (gw_spec obj) of Some r \<Rightarrow> r | None \<Rightarrow> []);
          unresolved = (\<lambda>reason. \<lparr>rc_block = JNull, rc_condition = bare_cond ''ClusterReady'' ''False'' reason,
            rc_coordination = None\<rparr>)
      in case cl of
           None \<Rightarrow> unresolved ''ClusterNotFound''
         | Some c \<Rightarrow>
             if \<not> (case cl_conditions c of Some cs \<Rightarrow> cond_true ''Ready'' cs | None \<Rightarrow> False)
             then unresolved ''ClusterNotReady''
             else if is_effectively_single_node api (cl_spec c) \<and> fst (effective_replica_ceiling api (gw_spec obj)) > 1
             then unresolved ''SingleNodeBackend''
             else \<lparr>rc_block = render_cluster_block_with api (cl_spec c) name operator_ns,
                    rc_condition = bare_cond ''ClusterReady'' ''True'' ''ClusterResolved'', rc_coordination = None\<rparr>)"

definition merge_cluster_block :: "json \<Rightarrow> json \<Rightarrow> json" where
  "merge_cluster_block config block = (if block = JNull then config else json_put ''cluster'' block config)"

definition build_coordination_secret_copy :: "gateway \<Rightarrow> string \<Rightarrow> coordination_projection \<Rightarrow> secret" where
  "build_coordination_secret_copy gw namespace proj =
     \<lparr>sec_meta = default_meta\<lparr>meta_name := Some (coord_secret_name proj), meta_namespace := Some namespace,
        meta_labels := Some [''app.kubernetes.io/managed-by'' \<mapsto> ''mcpg-operator'',
          MCPG_GATEWAY \<mapsto> name_any (gw_meta gw)],
        meta_owner_references := Some [gateway_owner_ref gw]\<rparr>,
      sec_type = Some ''Opaque'', sec_immutable = None, sec_data = Some (coord_data proj)\<rparr>"

section \<open>Routes\<close>

definition replace_with :: "char \<Rightarrow> string \<Rightarrow> string \<Rightarrow> string" where
  "replace_with c r s = concat (map (\<lambda>x. if x = c then r else [x]) s)"

definition cel_quote :: "string \<Rightarrow> string" where
  "cel_quote s =
     (let escaped = replace_with (CHR 0x22) [CHR 0x5C, CHR 0x22] (replace_with (CHR 0x5C) [CHR 0x5C, CHR 0x5C] s)
      in [CHR 0x22] @ escaped @ [CHR 0x22])"

fun join_str :: "string \<Rightarrow> string list \<Rightarrow> string" where
  "join_str sep [] = []"
| "join_str sep [x] = x"
| "join_str sep (x # y # ys) = x @ sep @ join_str sep (y # ys)"

definition route_accepted :: "api_crate \<Rightarrow> string \<Rightarrow> string \<Rightarrow> string list \<Rightarrow> route \<Rightarrow> bool" where
  "route_accepted api gateway_name gateway_ns accepted rt \<longleftrightarrow>
     (case meta_namespace (rt_meta rt) of
        None \<Rightarrow> False
      | Some ns \<Rightarrow> rt_gateway_ref (rt_spec rt) = gateway_name
          \<and> gateway_namespace api (rt_spec rt) ns = gateway_ns
          \<and> (ns = gateway_ns \<or> ns \<in> set accepted))"

definition route_predicate :: "api_crate \<Rightarrow> route \<Rightarrow> string" where
  "route_predicate api rt =
     (case route_tenant api (rt_spec rt) of
        Some tenant \<Rightarrow> ''identity.attributes.tenant == '' @ cel_quote tenant
      | None \<Rightarrow> ''true'')"

text \<open>The pushes into \<open>tool_predicates\<close>, in order; the map itself is read in key order.\<close>

definition tool_pushes :: "api_crate \<Rightarrow> route list \<Rightarrow> (string \<times> string) list" where
  "tool_pushes api rts = concat (map (\<lambda>rt. map (\<lambda>t. (t, route_predicate api rt)) (rt_tools (rt_spec rt))) rts)"

definition tool_predicates :: "(string \<times> string) list \<Rightarrow> (string \<times> string list) list" where
  "tool_predicates ps = map (\<lambda>t. (t, map snd (filter (\<lambda>p. fst p = t) ps))) (remdups_adj (sort (map fst ps)))"

definition any_of :: "string list \<Rightarrow> string" where
  "any_of predicates =
     (let uniq = remdups_adj (sort predicates)
      in if ''true'' \<in> set uniq then ''true''
         else if length uniq = 1 then hd uniq
         else join_str '' || '' (map (\<lambda>p. ''('' @ p @ '')'') uniq))"

definition combine_cel :: "string option \<Rightarrow> string \<Rightarrow> string" where
  "combine_cel prev cel =
     (case prev of
        Some p \<Rightarrow> if p \<noteq> ''true'' \<and> cel \<noteq> ''true'' then ''('' @ p @ '') || ('' @ cel @ '')''
                  else if cel = ''true'' then ''true'' else p
      | None \<Rightarrow> cel)"

definition rule_tool :: "json \<Rightarrow> string option" where
  "rule_tool r = Option.bind (json_get ''tool_name'' r) json_as_str"

definition rule_cel :: "json \<Rightarrow> string option" where
  "rule_cel r = Option.bind (json_get ''cel_allow_if'' r) json_as_str"

fun add_rule :: "json list \<Rightarrow> string \<times> string list \<Rightarrow> json list" where
  "add_rule [] (t, ps) = [JObj [(''tool_name'', JStr t), (''minimum_trust'', JStr ''verified''),
     (''cel_allow_if'', JStr (any_of ps))]]"
| "add_rule (r # rs) (t, ps) =
     (if rule_tool r = Some t
      then json_put ''cel_allow_if'' (JStr (combine_cel (rule_cel r) (any_of ps))) r # rs
      else r # add_rule rs (t, ps))"

definition RULES_PATH :: "string list" where
  "RULES_PATH = [''governance'', ''policy'', ''tool_access'', ''rules'']"

definition apply_routes_to_config ::
  "api_crate \<Rightarrow> route list \<Rightarrow> string \<Rightarrow> string \<Rightarrow> string list \<Rightarrow> json \<Rightarrow> json \<times> nat" where
  "apply_routes_to_config api routes gateway_name gateway_ns accepted config =
     (let rts = filter (route_accepted api gateway_name gateway_ns accepted) routes;
          preds = tool_predicates (tool_pushes api rts)
      in (if preds = [] then config
          else ensure_path RULES_PATH (\<lambda>rules. JArr (foldl add_rule (array_or_empty rules) preds)) config,
          length rts))"

definition merge_routes ::
  "api_crate \<Rightarrow> kube_error + route list \<Rightarrow> gateway \<Rightarrow> string \<Rightarrow> json \<Rightarrow> json \<times> nat" where
  "merge_routes api listed obj gateway_ns config =
     (case listed of
        Inl _ \<Rightarrow> (config, 0)
      | Inr routes \<Rightarrow> apply_routes_to_config api routes (name_any (gw_meta obj)) gateway_ns
          (gw_accepted_route_namespaces (gw_spec obj)) config)"

section \<open>The managed cloud\<close>

definition ADDITIONAL_RESOURCES_MIN_GATEWAY :: string where
  "ADDITIONAL_RESOURCES_MIN_GATEWAY = ''0.1.0-beta.41''"
definition CANONICAL_URL_MIN_GATEWAY :: string where "CANONICAL_URL_MIN_GATEWAY = ''0.1.0-beta.44''"
definition EVENTS_MIN_GATEWAY :: string where "EVENTS_MIN_GATEWAY = ''0.1.0-beta.60''"

text \<open>\<open>at_least\<close> compares two versions, \<open>None\<close> when one of them is none.\<close>

definition gateway_at_least :: "(string \<Rightarrow> string \<Rightarrow> bool option) \<Rightarrow> string option \<Rightarrow> string \<Rightarrow> bool" where
  "gateway_at_least at_least tag lo =
     (case tag of
        None \<Rightarrow> True
      | Some t \<Rightarrow> (case at_least (dropWhile (\<lambda>c. c = CHR ''v'') (trim t)) lo of Some b \<Rightarrow> b | None \<Rightarrow> True))"

definition resource_path :: "string \<Rightarrow> string" where
  "resource_path url =
     (case strip_http_scheme url of
        Some rest \<Rightarrow> if CHR ''/'' \<in> set rest then dropWhile (\<lambda>c. c \<noteq> CHR ''/'') rest else ''/mcp''
      | None \<Rightarrow> ''/mcp'')"

definition RESOURCE_METADATA_PATH :: "string list" where
  "RESOURCE_METADATA_PATH = [''governance'', ''access'', ''resource_metadata'']"

definition inject_resource_metadata ::
  "(string \<Rightarrow> string \<Rightarrow> bool option) \<Rightarrow> json \<Rightarrow> string \<Rightarrow> string list \<Rightarrow> string option \<Rightarrow> json" where
  "inject_resource_metadata at_least config url domains gateway_tag =
     ensure_path RESOURCE_METADATA_PATH (\<lambda>rm.
       let rm = json_put ''resource'' (JStr url) rm;
           additional = (if gateway_at_least at_least gateway_tag ADDITIONAL_RESOURCES_MIN_GATEWAY
             then map (\<lambda>domain. JStr (''https://'' @ domain @ resource_path url)) domains else [])
       in if additional = [] then json_remove ''additional_resources'' rm
          else json_put ''additional_resources'' (JArr additional) rm) config"

definition inject_canonical_url ::
  "(string \<Rightarrow> string \<Rightarrow> bool option) \<Rightarrow> json \<Rightarrow> string \<Rightarrow> string option \<Rightarrow> json" where
  "inject_canonical_url at_least config url gateway_tag =
     (if \<not> gateway_at_least at_least gateway_tag CANONICAL_URL_MIN_GATEWAY then config
      else ensure_path [''gateway'', ''server''] (json_put ''canonical_url'' (JStr url)) config)"

definition inject_events_policy ::
  "(string \<Rightarrow> string \<Rightarrow> bool option) \<Rightarrow> json \<Rightarrow> string option \<Rightarrow> string option \<Rightarrow> json" where
  "inject_events_policy at_least config probe_url gateway_tag =
     (if json_path [''mcp'', ''configurations'', ''events'', ''enabled''] config \<noteq> Some (JBool True)
         \<or> \<not> gateway_at_least at_least gateway_tag EVENTS_MIN_GATEWAY then config
      else
        let c = foldl (\<lambda>c mode. ensure_path [''mcp'', ''configurations'', ''events'', mode]
              (json_put ''require_trust'' (JStr ''verified'')) c) config [''poll'', ''push'', ''webhook'']
        in ensure_path [''mcp'', ''configurations'', ''events'', ''webhook'', ''egress''] (\<lambda>egress.
             let e = json_put ''allowed_ports'' (JArr [JNum 443]) egress
             in case probe_url of
                  Some url \<Rightarrow> if blank url then e else json_put ''probe_url'' (JStr url) e
                | None \<Rightarrow> e) c)"

section \<open>The authorization server\<close>

definition is_bare_origin_issuer :: "string \<Rightarrow> bool" where
  "is_bare_origin_issuer issuer =
     (case strip_http_scheme issuer of
        None \<Rightarrow> False
      | Some authority \<Rightarrow>
          let a = (case strip_suffix ''/'' authority of Some a \<Rightarrow> a | None \<Rightarrow> authority)
          in a \<noteq> [] \<and> \<not> starts_with '':'' a \<and> \<not> list_ex (\<lambda>c. c \<in> set ''/?#@'') a)"

definition url_origin :: "string \<Rightarrow> string option" where
  "url_origin url =
     (let u = trim url in
      case find_sub ''://'' u of
        None \<Rightarrow> None
      | Some i \<Rightarrow>
          let scheme = to_ascii_lowercase (take i u); rest = drop (i + 3) u
          in case (if scheme = ''https'' then Some '':443'' else if scheme = ''http'' then Some '':80'' else None) of
               None \<Rightarrow> None
             | Some default_port \<Rightarrow>
                 let authority = takeWhile (\<lambda>c. c \<notin> set ''/?#'') rest;
                     host = (case rfind_char (CHR ''@'') authority of
                       Some j \<Rightarrow> drop (Suc j) authority | None \<Rightarrow> authority);
                     host_port = to_ascii_lowercase host;
                     host_port = (case strip_suffix default_port host_port of Some h \<Rightarrow> h | None \<Rightarrow> host_port)
                 in if host_port \<noteq> [] \<and> \<not> starts_with '':'' host_port
                    then Some (scheme @ ''://'' @ host_port) else None)"

definition AUTHORIZATION_SERVER_ALIGNED :: string where
  "AUTHORIZATION_SERVER_ALIGNED = ''AuthorizationServerAligned''"

definition advertised_resources :: "json \<Rightarrow> string list" where
  "advertised_resources rendered =
     (let rm = json_path RESOURCE_METADATA_PATH rendered
      in (case Option.bind (Option.bind rm (json_get ''resource'')) json_as_str of Some r \<Rightarrow> [r] | None \<Rightarrow> [])
         @ (case Option.bind (Option.bind rm (json_get ''additional_resources'')) as_array of
              Some rs \<Rightarrow> List.map_filter json_as_str rs | None \<Rightarrow> []))"

definition authorization_server_alignment :: "json \<Rightarrow> condition option" where
  "authorization_server_alignment rendered =
     (case json_path [''governance'', ''access'', ''authorization_server''] rendered of
        None \<Rightarrow> None
      | Some authz \<Rightarrow>
          if \<not> json_is_object authz then None
          else case Option.bind (json_get ''issuer'' authz) json_as_str of
            None \<Rightarrow> None
          | Some issuer \<Rightarrow>
              if contains_sub ''${'' issuer then None
              else
                let advertised = advertised_resources rendered;
                    origins = first_seen {} (List.map_filter url_origin advertised)
                in if origins = [] then None
                   else
                     let problems =
                           (if url_origin issuer \<noteq> None \<and> \<not> is_bare_origin_issuer issuer
                            then [''IssuerNotBareOrigin''] else [])
                           @ (case url_origin issuer of
                                Some origin \<Rightarrow> if origin \<in> set origins then [] else [''IssuerOriginMismatch'']
                              | None \<Rightarrow> [''IssuerOriginMismatch''])
                           @ (case Option.bind (json_get ''resource'' authz) json_as_str of
                                Some resource \<Rightarrow>
                                  if blank resource \<or> contains_sub ''${'' resource then []
                                  else if list_ex (\<lambda>r. trim_end_matches (CHR ''/'') r
                                      = trim_end_matches (CHR ''/'') resource) advertised then []
                                  else [''ResourceMismatch'']
                              | None \<Rightarrow> [])
                     in Some (case problems of
                          [] \<Rightarrow> bare_cond AUTHORIZATION_SERVER_ALIGNED ''True'' ''MatchesAdvertisedIdentity''
                        | reason # _ \<Rightarrow> bare_cond AUTHORIZATION_SERVER_ALIGNED ''False'' reason))"

section \<open>The revocation list of a gateway\<close>

definition gateway_revocation_doc :: "revocation_list_spec \<Rightarrow> json" where
  "gateway_revocation_doc spec =
     (let time = (\<lambda>t. case t of Some s \<Rightarrow> JStr s | None \<Rightarrow> JNull)
      in JObj [(''version'', JNum (int (rl_version spec))), (''issued_at'', time (rl_issued_at spec)),
           (''revocations'', JArr (map (\<lambda>e. JObj [(''artifact_sha256'', JStr (re_artifact_sha256 e)),
             (''reason'', JStr (re_reason e)), (''revoked_at'', time (re_revoked_at e))]) (rl_revocations spec)))])"

definition render_revocation_list_json ::
  "(json \<Rightarrow> string) \<Rightarrow> (string \<Rightarrow> string) \<Rightarrow> revocation_list \<Rightarrow> string \<times> string" where
  "render_revocation_list_json render sha256_hex rl =
     (let text = render (gateway_revocation_doc (rl_spec rl)) in (text, sha256_hex text))"

definition revocation_cm_name :: "gateway \<Rightarrow> string" where
  "revocation_cm_name obj = name_any (gw_meta obj) @ ''-revocations''"

definition build_revocation_configmap :: "gateway \<Rightarrow> string \<Rightarrow> string \<Rightarrow> string \<Rightarrow> config_map" where
  "build_revocation_configmap parent name text hash =
     \<lparr>cm_meta = default_meta\<lparr>meta_name := Some name, meta_namespace := meta_namespace (gw_meta parent),
        meta_labels := Some [''app.kubernetes.io/managed-by'' \<mapsto> ''mcpg-operator'',
          MCPG_GATEWAY \<mapsto> name_any (gw_meta parent), ''mcpg.dev/revocation-list-hash'' \<mapsto> hash],
        meta_owner_references := Some [gateway_owner_ref parent]\<rparr>,
      cm_data = Some [''list.json'' \<mapsto> text]\<rparr>"

end
