(* ===== verification/GatewayFacts.thy ===== *)
theory GatewayFacts
  imports GatewayConfig "HOL-Library.Countable"
begin

text \<open>
  What the rendered configuration of a gateway means: the tool rules made from routes and the
  tenants they admit, the federations made from servers, the resource indicators of the managed
  cloud, the plugin list read back from what the plugin-set controller wrote, and the watches.
\<close>

section \<open>Paths\<close>

definition leaf_at :: "string list \<Rightarrow> json \<Rightarrow> json" where
  "leaf_at ks j = (case json_path ks j of Some v \<Rightarrow> v | None \<Rightarrow> JObj [])"

lemma json_path_empty: "json_path ks (JObj []) = (if ks = [] then Some (JObj []) else None)"
  by (cases ks) simp_all

lemma json_path_ensure: "json_path ks (ensure_path ks f j) = Some (f (leaf_at ks j))"
proof (induction ks arbitrary: j)
  case (Cons k ks)
  then show ?case by (auto simp: leaf_at_def json_path_empty split: option.split)
qed (simp add: leaf_at_def)

lemma json_path_below_ensure:
  "json_path (ks @ ps) (ensure_path ks f j) = json_path ps (f (leaf_at ks j))"
  by (simp add: json_path_append json_path_ensure)

lemma json_path_beside_ensure:
  "ps \<parallel> ks \<Longrightarrow> json_path ps (ensure_path ks f j) = json_path ps j"
proof (induction ks arbitrary: ps j)
  case (Cons k ks)
  then obtain p ps' where ps: "ps = p # ps'" by (cases ps) auto
  show ?case
  proof (cases "p = k")
    case True
    with Cons.prems ps have par: "ps' \<parallel> ks" by (auto simp: parallel_def)
    then have "ps' \<noteq> []" by auto
    with Cons.IH[OF par] ps True show ?thesis by (auto simp: json_path_empty split: option.split)
  qed (simp add: ps)
qed auto

lemma leaf_at_get: "json_get k (leaf_at ks j) = json_path (ks @ [k]) j"
  by (simp add: leaf_at_def json_path_append split: option.split)

section \<open>String literals and predicates\<close>

text \<open>A reader of double-quoted literals, from behind the opening quote: a backslash stands for the
  character after it.\<close>

fun read_literal :: "string \<Rightarrow> (string \<times> string) option" where
  "read_literal [] = None"
| "read_literal (c # cs) =
     (if c = CHR 0x22 then Some ([], cs)
      else if c = CHR 0x5C then
        (case cs of [] \<Rightarrow> None | d # ds \<Rightarrow> map_option (\<lambda>(s, r). (d # s, r)) (read_literal ds))
      else map_option (\<lambda>(s, r). (c # s, r)) (read_literal cs))"

definition escape_char :: "char \<Rightarrow> string" where
  "escape_char c = (if c = CHR 0x5C then [CHR 0x5C, CHR 0x5C] else if c = CHR 0x22 then [CHR 0x5C, CHR 0x22] else [c])"

lemma cel_quote_escape: "cel_quote s = CHR 0x22 # concat (map escape_char s) @ [CHR 0x22]"
proof -
  have "replace_with (CHR 0x22) [CHR 0x5C, CHR 0x22] (replace_with (CHR 0x5C) [CHR 0x5C, CHR 0x5C] s)
      = concat (map escape_char s)"
    by (induction s) (simp_all add: replace_with_def escape_char_def)
  then show ?thesis by (simp add: cel_quote_def)
qed

lemma read_literal_escape:
  "read_literal (concat (map escape_char s) @ CHR 0x22 # rest) = Some (s, rest)"
  by (induction s) (simp_all add: escape_char_def)

text \<open>A reader of the predicates the operator writes: \<open>true\<close>, the comparison of the tenant with a
  literal, and disjunctions of those in parentheses. An atom is the tenant it admits, or \<open>None\<close>
  for everybody.\<close>

definition read_atom :: "string \<Rightarrow> (string option \<times> string) option" where
  "read_atom s =
     (if starts_with ''true'' s then Some (None, drop 4 s)
      else case strip_prefix (''identity.attributes.tenant == '' @ [CHR 0x22]) s of
        Some r \<Rightarrow> map_option (\<lambda>(t, rest). (Some t, rest)) (read_literal r)
      | None \<Rightarrow> None)"

fun read_disjunction :: "nat \<Rightarrow> string \<Rightarrow> string option list option" where
  "read_disjunction 0 s = None"
| "read_disjunction (Suc n) s =
     (case Option.bind (strip_prefix ''('' s) read_atom of
        None \<Rightarrow> None
      | Some (a, r) \<Rightarrow>
          if r = '')'' then Some [a]
          else (case strip_prefix '') || '' r of
            Some r' \<Rightarrow> map_option ((#) a) (read_disjunction n r')
          | None \<Rightarrow> None))"

definition read_predicate :: "string \<Rightarrow> string option list option" where
  "read_predicate s =
     (case read_atom s of Some (a, []) \<Rightarrow> Some [a] | _ \<Rightarrow> read_disjunction (length s) s)"

definition cel_admits :: "string \<Rightarrow> string \<Rightarrow> bool" where
  "cel_admits cel tenant \<longleftrightarrow>
     (case read_predicate cel of Some as \<Rightarrow> None \<in> set as \<or> Some tenant \<in> set as | None \<Rightarrow> False)"

definition atom_text :: "string option \<Rightarrow> string" where
  "atom_text a = (case a of Some t \<Rightarrow> ''identity.attributes.tenant == '' @ cel_quote t | None \<Rightarrow> ''true'')"

lemma route_predicate_atom: "route_predicate api rt = atom_text (route_tenant api (rt_spec rt))"
  by (simp add: route_predicate_def atom_text_def)

lemma read_atom_text: "read_atom (atom_text a @ rest) = Some (a, rest)"
  using read_literal_escape
  by (simp add: read_atom_def atom_text_def cel_quote_escape starts_with_def strip_prefix_def split: option.split)

lemma atom_text_inj: "atom_text a = atom_text b \<Longrightarrow> a = b"
  by (metis read_atom_text append_Nil2 option.inject prod.inject)

lemma read_disjunction_join:
  assumes "as \<noteq> []" and "length as \<le> n"
  shows "read_disjunction n (join_str '' || '' (map (\<lambda>a. ''('' @ atom_text a @ '')'') as)) = Some as"
  using assms
proof (induction as arbitrary: n)
  case (Cons a as)
  then obtain m where n: "n = Suc m" by (cases n) auto
  have *: "Option.bind (strip_prefix ''('' (''('' @ atom_text a @ r)) read_atom = Some (a, r)" for r
    by (simp add: strip_prefix_def starts_with_def read_atom_text)
  show ?case
  proof (cases as)
    case Nil
    then show ?thesis using *[of "'')''"] by (simp add: n)
  next
    case (Cons b bs)
    let ?rest = "join_str '' || '' (map (\<lambda>a. ''('' @ atom_text a @ '')'') as)"
    have "read_disjunction m ?rest = Some as" using Cons.IH[of m] Cons.prems n Cons by simp
    then show ?thesis using *[of "'') || '' @ ?rest"] Cons
      by (simp add: n strip_prefix_def starts_with_def)
  qed
qed simp

lemma length_join_str: "length xs \<le> length (join_str '' || '' (map (\<lambda>x. ''('' @ f x @ '')'') xs))"
  by (induction xs rule: induct_list012) simp_all

lemma join_str_paren: "xs \<noteq> [] \<Longrightarrow> \<exists>r. join_str sep (map (\<lambda>x. ''('' @ f x @ '')'') xs) = CHR ''('' # r"
  by (induction xs rule: induct_list012) simp_all

lemma read_atom_paren: "read_atom (CHR ''('' # r) = None"
  by (simp add: read_atom_def starts_with_def strip_prefix_def)

text \<open>What the disjunction of a list of atoms reads back as.\<close>

lemma any_of_atoms:
  assumes "as \<noteq> []"
  shows "cel_admits (any_of (map atom_text as)) t \<longleftrightarrow> None \<in> set as \<or> Some t \<in> set as"
proof -
  define uniq where "uniq = remdups_adj (sort (map atom_text as))"
  have su: "set uniq = atom_text ` set as" by (simp add: uniq_def)
  have "\<exists>bs. uniq = map atom_text bs" unfolding ex_map_conv using su by auto
  then obtain bs where bs: "uniq = map atom_text bs" ..
  have inj: "inj atom_text" by (rule injI) (rule atom_text_inj)
  then have sb: "set bs = set as" using su by (simp add: bs inj_image_eq_iff)
  have ne: "bs \<noteq> []" using sb assms by auto
  have tr: "''true'' \<in> set uniq \<longleftrightarrow> None \<in> set as"
    using inj_image_mem_iff[OF inj, of None "set as"] su by (simp add: atom_text_def)
  show ?thesis
  proof (cases "None \<in> set as")
    case True
    then have "any_of (map atom_text as) = atom_text None"
      using tr by (simp add: any_of_def uniq_def[symmetric] atom_text_def del: remdups_adj_set)
    then show ?thesis using True read_atom_text[of None "[]"]
      by (simp add: cel_admits_def read_predicate_def)
  next
    case False
    consider b where "bs = [b]" | "length bs \<noteq> 1" by (cases bs) auto
    then show ?thesis
    proof cases
      case 1
      then have "any_of (map atom_text as) = atom_text b"
        using tr False bs by (simp add: any_of_def uniq_def[symmetric] del: remdups_adj_set)
      then show ?thesis using 1 sb read_atom_text[of b "[]"]
        by (auto simp: cel_admits_def read_predicate_def)
    next
      case 2
      let ?s = "join_str '' || '' (map (\<lambda>a. ''('' @ atom_text a @ '')'') bs)"
      have "any_of (map atom_text as) = ?s"
        using tr False bs 2 by (simp add: any_of_def uniq_def[symmetric] comp_def del: remdups_adj_set)
      moreover have "read_atom ?s = None"
        using join_str_paren[OF ne, of "'' || ''" atom_text] read_atom_paren by metis
      moreover have "read_disjunction (length ?s) ?s = Some bs"
        using read_disjunction_join[OF ne length_join_str] .
      ultimately show ?thesis using sb by (simp add: cel_admits_def read_predicate_def)
    qed
  qed
qed

text \<open>No tenant name can change the predicate it is put into: a reader of quoted literals that starts
  behind the opening quote reads back the name and stops exactly at the closing quote.\<close>

theorem cel_quote_roundtrip:
  "read_atom (''identity.attributes.tenant == '' @ cel_quote tenant @ rest) = Some (Some tenant, rest)"
  using read_atom_text[of "Some tenant" rest] by (simp add: atom_text_def)

section \<open>Rules\<close>

definition rules_of :: "json \<Rightarrow> json list" where
  "rules_of config = array_or_empty (leaf_at RULES_PATH config)"

definition rule_for :: "json list \<Rightarrow> string \<Rightarrow> json option" where
  "rule_for rs t = find (\<lambda>r. rule_tool r = Some t) rs"

text \<open>The rule a tool ends up with.\<close>

definition merged_rule :: "string \<Rightarrow> string \<Rightarrow> json option \<Rightarrow> json" where
  "merged_rule t cel old =
     (case old of
        None \<Rightarrow> JObj [(''tool_name'', JStr t), (''minimum_trust'', JStr ''verified''), (''cel_allow_if'', JStr cel)]
      | Some r \<Rightarrow> json_put ''cel_allow_if'' (JStr (combine_cel (rule_cel r) cel)) r)"

lemma rule_tool_put [simp]: "rule_tool (json_put ''cel_allow_if'' v r) = rule_tool r"
  by (simp add: rule_tool_def)

lemma rule_for_add:
  "rule_for (add_rule rs (t, ps)) t' = (if t' = t then Some (merged_rule t (any_of ps) (rule_for rs t)) else rule_for rs t')"
proof (induction rs)
  case Nil
  then show ?case by (simp add: rule_for_def merged_rule_def rule_tool_def json_get_def json_as_str_def)
next
  case (Cons r rs)
  then show ?case by (auto simp: rule_for_def merged_rule_def)
qed

lemma rule_for_foldl:
  "distinct (map fst ps) \<Longrightarrow> rule_for (foldl add_rule rs ps) t =
     (case map_of ps t of
        None \<Rightarrow> rule_for rs t
      | Some preds \<Rightarrow> Some (merged_rule t (any_of preds) (rule_for rs t)))"
proof (induction ps arbitrary: rs)
  case (Cons p ps)
  obtain t' preds where p: "p = (t', preds)" by (cases p)
  have "map_of ps t' = None" using Cons.prems by (simp add: p map_of_eq_None_iff)
  with Cons show ?case by (auto simp: p rule_for_add split: option.split)
qed simp

lemma distinct_remdups_adj_sorted: "sorted xs \<Longrightarrow> distinct (remdups_adj (xs :: string list))"
  by (induction xs rule: remdups_adj.induct) auto

lemma map_of_graph: "map_of (map (\<lambda>x. (x, f x)) xs) t = (if t \<in> set xs then Some (f t) else None)"
  by (induction xs) auto

lemma tool_predicates_fst: "map fst (tool_predicates ps) = remdups_adj (sort (map fst ps))"
  by (simp add: tool_predicates_def comp_def)

lemma map_of_tool_predicates:
  "map_of (tool_predicates ps) t =
     (if t \<in> fst ` set ps then Some (map snd (filter (\<lambda>p. fst p = t) ps)) else None)"
  by (simp add: tool_predicates_def map_of_graph)

lemma route_rules:
  "let c' = fst (apply_routes_to_config api routes gw_name gw_ns accepted config);
       naming = {rt \<in> set routes. route_accepted api gw_name gw_ns accepted rt \<and> t \<in> set (rt_tools (rt_spec rt))};
       old = rule_for (rules_of config) t
   in (if naming = {} then rule_for (rules_of c') t = old
       else \<exists>cel. (\<forall>tenant. cel_admits cel tenant \<longleftrightarrow>
               (\<exists>rt \<in> naming. route_tenant api (rt_spec rt) \<in> {None, Some tenant}))
             \<and> rule_for (rules_of c') t = Some (merged_rule t cel old))
      \<and> (\<forall>ps. ps \<parallel> RULES_PATH \<longrightarrow> json_path ps c' = json_path ps config)"
proof -
  define rts where "rts = filter (route_accepted api gw_name gw_ns accepted) routes"
  define ps where "ps = tool_pushes api rts"
  define c' where "c' = fst (apply_routes_to_config api routes gw_name gw_ns accepted config)"
  define naming where "naming = {rt \<in> set routes. route_accepted api gw_name gw_ns accepted rt
      \<and> t \<in> set (rt_tools (rt_spec rt))}"
  have c': "c' = (if tool_predicates ps = [] then config
      else ensure_path RULES_PATH (\<lambda>rules. JArr (foldl add_rule (array_or_empty rules) (tool_predicates ps))) config)"
    by (simp add: c'_def apply_routes_to_config_def rts_def ps_def Let_def)
  have "rules_of c' = foldl add_rule (rules_of config) (tool_predicates ps)"
    by (simp add: c' rules_of_def leaf_at_def[of _ "ensure_path _ _ _"] json_path_ensure array_or_empty_def[of "JArr _"])
  then have rf: "rule_for (rules_of c') t = (case map_of (tool_predicates ps) t of
      None \<Rightarrow> rule_for (rules_of config) t
    | Some preds \<Rightarrow> Some (merged_rule t (any_of preds) (rule_for (rules_of config) t)))"
    by (simp add: rule_for_foldl tool_predicates_fst distinct_remdups_adj_sorted)
  have dom: "t \<in> fst ` set ps \<longleftrightarrow> naming \<noteq> {}"
    by (force simp: ps_def tool_pushes_def rts_def naming_def)
  define as where "as = concat (map (\<lambda>rt. map (\<lambda>_. route_tenant api (rt_spec rt))
      (filter (\<lambda>x. x = t) (rt_tools (rt_spec rt)))) rts)"
  have as: "map snd (filter (\<lambda>p. fst p = t) ps) = map atom_text as"
    by (simp add: as_def ps_def tool_pushes_def route_predicate_atom filter_concat map_concat comp_def filter_map)
  have set_as: "set as = (\<lambda>rt. route_tenant api (rt_spec rt)) ` naming"
    by (auto simp: as_def rts_def naming_def)
  have frame: "qs \<parallel> RULES_PATH \<Longrightarrow> json_path qs c' = json_path qs config" for qs
    by (simp add: c' json_path_beside_ensure)
  have "if naming = {} then rule_for (rules_of c') t = rule_for (rules_of config) t
      else \<exists>cel. (\<forall>tenant. cel_admits cel tenant \<longleftrightarrow>
               (\<exists>rt \<in> naming. route_tenant api (rt_spec rt) \<in> {None, Some tenant}))
             \<and> rule_for (rules_of c') t = Some (merged_rule t cel (rule_for (rules_of config) t))"
  proof (cases "naming = {}")
    case True
    then show ?thesis using rf dom by (simp add: map_of_tool_predicates)
  next
    case False
    then have "as \<noteq> []" using set_as by auto
    from any_of_atoms[OF this] have "cel_admits (any_of (map atom_text as)) tenant \<longleftrightarrow>
        (\<exists>rt \<in> naming. route_tenant api (rt_spec rt) \<in> {None, Some tenant})" for tenant
      unfolding set_as by (simp add: image_iff) metis
    moreover have "rule_for (rules_of c') t
        = Some (merged_rule t (any_of (map atom_text as)) (rule_for (rules_of config) t))"
      using rf dom False by (simp add: map_of_tool_predicates as)
    ultimately show ?thesis using False by auto
  qed
  then show ?thesis using frame unfolding c'_def naming_def Let_def by blast
qed

text \<open>C5. The tool rules of a gateway mean what its routes say. For every tool: when no accepted route of
  the gateway names it, its rule is what it was. Otherwise it has a rule whose predicate is the one
  of the routes, or that one joined to the author's, and the predicate of the routes admits exactly
  the tenants of the accepted routes that name the tool, and everybody if one of them has no
  tenant. A new rule asks for a verified caller. Nothing else in the document changes.\<close>

theorem route_rules_exact:
  "let c' = fst (apply_routes_to_config api routes gw_name gw_ns accepted config);
       naming = {rt \<in> set routes. route_accepted api gw_name gw_ns accepted rt \<and> t \<in> set (rt_tools (rt_spec rt))};
       old = rule_for (rules_of config) t
   in (if naming = {} then rule_for (rules_of c') t = old
       else \<exists>cel. (\<forall>tenant. cel_admits cel tenant \<longleftrightarrow>
               (\<exists>rt \<in> naming. route_tenant api (rt_spec rt) \<in> {None, Some tenant}))
             \<and> rule_for (rules_of c') t = Some (merged_rule t cel old))
      \<and> (\<forall>ps. ps \<parallel> RULES_PATH \<longrightarrow> json_path ps c' = json_path ps config)"
  by (rule route_rules)

definition sample_route :: "string \<Rightarrow> string \<Rightarrow> route" where
  "sample_route tool tenant = \<lparr>rt_meta = default_meta\<lparr>meta_name := Some ''r'', meta_namespace := Some ''team''\<rparr>,
     rt_spec = \<lparr>rt_gateway_ref = ''gw'', rt_tools = [tool], rt_identity_chain = [], rt_policy_chain = [],
       rt_audit_chain = [], rt_attributes = [(''tenant'', tenant)]\<rparr>, rt_conditions = None\<rparr>"

theorem route_rules_exact_witness:
  "\<exists>cel. rule_for (rules_of (fst (apply_routes_to_config sample_api [sample_route ''t'' ''a'', sample_route ''t'' ''b'']
      ''gw'' ''team'' [] JNull))) ''t'' = Some (merged_rule ''t'' cel None)
     \<and> cel_admits cel ''a'' \<and> cel_admits cel ''b'' \<and> \<not> cel_admits cel ''c''"
proof -
  let ?rs = "[sample_route ''t'' ''a'', sample_route ''t'' ''b'']"
  have n: "{rt \<in> set ?rs. route_accepted sample_api ''gw'' ''team'' [] rt \<and> ''t'' \<in> set (rt_tools (rt_spec rt))} = set ?rs"
    by (auto simp: sample_route_def route_accepted_def sample_api_def default_meta_def)
  have o: "rule_for (rules_of JNull) ''t'' = None"
    by (simp add: rule_for_def rules_of_def leaf_at_def RULES_PATH_def json_get_def array_or_empty_def)
  have ne: "set ?rs \<noteq> {}" by simp
  have tn: "route_tenant sample_api (rt_spec (sample_route t x)) = Some x" for t x
    by (simp add: sample_route_def sample_api_def)
  from conjunct1[OF route_rules_exact[of sample_api ?rs "''gw''" "''team''" "[]" JNull "''t''", unfolded Let_def n o]]
  show ?thesis unfolding if_not_P[OF ne] by (elim exE conjE, intro exI conjI) (assumption, simp_all add: tn)
qed

section \<open>Federations\<close>

definition FEDERATIONS_PATH :: "string list" where "FEDERATIONS_PATH = [''mcp'', ''federations'']"

definition fed_entries :: "json \<Rightarrow> json list" where
  "fed_entries config = array_or_empty (leaf_at FEDERATIONS_PATH config)"

text \<open>A server asks this gateway for a federation and its governance block is admissible. Whether it gets
  one depends on its name being free as well.\<close>

definition server_targets :: "api_crate \<Rightarrow> string \<Rightarrow> string \<Rightarrow> mcp_server \<Rightarrow> bool" where
  "server_targets api gw ns sv \<longleftrightarrow> (\<exists>fed. sv_federate (sv_spec sv) = Some fed \<and> meta_namespace (sv_meta sv) = Some ns
     \<and> fed_gateway_ref fed = gw \<and> federate_governance_error api fed = None)"

definition fed_name_of :: "api_crate \<Rightarrow> mcp_server \<Rightarrow> string" where
  "fed_name_of api sv = federation_name api (sv_spec sv) (name_any (sv_meta sv))"

definition server_entry :: "api_crate \<Rightarrow> string \<Rightarrow> mcp_server \<Rightarrow> json" where
  "server_entry api ns sv = (let fed = the (sv_federate (sv_spec sv)) in
     federation_entry (fed_name_of api sv) (server_endpoint api (sv_spec sv) (server_child_name sv) ns)
       (case fed_tool_prefix fed of Some p \<Rightarrow> p | None \<Rightarrow> fed_name_of api sv @ ''.'') fed)"

lemma apply_server_eq:
  "apply_server api gw ns (c, k) sv =
     (if \<not> server_targets api gw ns sv then (c, k)
      else if named_in (fed_name_of api sv) (fed_entries c)
        then (ensure_path FEDERATIONS_PATH (\<lambda>_. JArr (fed_entries c)) c, k)
      else (ensure_path FEDERATIONS_PATH (\<lambda>_. JArr (fed_entries c @ [server_entry api ns sv])) c, k + 1))"
proof -
  have "(case json_path [''mcp'', ''federations''] c of Some j \<Rightarrow> array_or_empty j | None \<Rightarrow> []) = fed_entries c"
    by (simp add: fed_entries_def leaf_at_def FEDERATIONS_PATH_def array_or_empty_def split: option.split)
  then show ?thesis
    by (cases "meta_namespace (sv_meta sv)"; cases "sv_federate (sv_spec sv)")
      (auto simp: apply_server_def server_targets_def server_entry_def fed_name_of_def FEDERATIONS_PATH_def Let_def
        cong: option.case_cong)
qed

lemma fed_entries_ensure [simp]: "fed_entries (ensure_path FEDERATIONS_PATH (\<lambda>_. JArr es) c) = es"
  by (simp add: fed_entries_def leaf_at_def[of _ "ensure_path _ _ _"] json_path_ensure array_or_empty_def)

lemma name_server_entry: "Option.bind (json_get ''name'' (server_entry api ns sv)) json_as_str = Some (fed_name_of api sv)"
  by (simp add: server_entry_def federation_entry_def Let_def json_get_def[of _ "JObj _"] json_as_str_def split: option.split)

lemma named_in_append [simp]: "named_in n (xs @ ys) \<longleftrightarrow> named_in n xs \<or> named_in n ys"
  "named_in n (server_entry api ns sv # xs) \<longleftrightarrow> n = fed_name_of api sv \<or> named_in n xs" "\<not> named_in n []"
  using name_server_entry[of api ns sv] by (auto simp: named_in_def)

lemma foldl_apply_server:
  assumes "foldl (apply_server api gw ns) (c, k) svs = (c', n)"
  shows "\<exists>new. fed_entries c' = fed_entries c @ map (server_entry api ns) new \<and> n = k + length new
    \<and> subseq new svs \<and> (\<forall>sv \<in> set new. server_targets api gw ns sv)
    \<and> (\<forall>sv \<in> set new. \<exists>before after. svs = before @ sv # after
         \<and> (\<forall>o' \<in> set before. server_targets api gw ns o' \<longrightarrow> fed_name_of api o' \<noteq> fed_name_of api sv))
    \<and> distinct (map (fed_name_of api) new) \<and> (\<forall>sv \<in> set new. \<not> named_in (fed_name_of api sv) (fed_entries c))
    \<and> (\<forall>sv \<in> set svs. server_targets api gw ns sv \<longrightarrow> named_in (fed_name_of api sv) (fed_entries c'))
    \<and> (\<forall>ps. ps \<parallel> FEDERATIONS_PATH \<longrightarrow> json_path ps c' = json_path ps c)"
  using assms
proof (induction svs arbitrary: c k)
  case Nil
  then show ?case by (intro exI[of _ "[]"]) simp
next
  case (Cons sv svs)
  obtain c1 k1 where 1: "apply_server api gw ns (c, k) sv = (c1, k1)" by fastforce
  from Cons.IH[of c1 k1] Cons.prems 1 obtain new where IH:
    "fed_entries c' = fed_entries c1 @ map (server_entry api ns) new" "n = k1 + length new" "subseq new svs"
    "\<forall>sv \<in> set new. server_targets api gw ns sv" "distinct (map (fed_name_of api) new)"
    and first: "\<And>sv. sv \<in> set new \<Longrightarrow> \<exists>before after. svs = before @ sv # after
         \<and> (\<forall>o' \<in> set before. server_targets api gw ns o' \<longrightarrow> fed_name_of api o' \<noteq> fed_name_of api sv)"
    and IH2: "\<forall>sv \<in> set new. \<not> named_in (fed_name_of api sv) (fed_entries c1)"
    "\<forall>sv \<in> set svs. server_targets api gw ns sv \<longrightarrow> named_in (fed_name_of api sv) (fed_entries c')"
    "\<forall>ps. ps \<parallel> FEDERATIONS_PATH \<longrightarrow> json_path ps c' = json_path ps c1"
    by auto
  consider "fed_entries c1 = fed_entries c" "k1 = k"
      "server_targets api gw ns sv \<longrightarrow> named_in (fed_name_of api sv) (fed_entries c)"
      "\<forall>ps. ps \<parallel> FEDERATIONS_PATH \<longrightarrow> json_path ps c1 = json_path ps c"
    | "fed_entries c1 = fed_entries c @ [server_entry api ns sv]" "k1 = k + 1"
      "server_targets api gw ns sv" "\<not> named_in (fed_name_of api sv) (fed_entries c)"
      "\<forall>ps. ps \<parallel> FEDERATIONS_PATH \<longrightarrow> json_path ps c1 = json_path ps c"
    using 1 by (auto simp: apply_server_eq json_path_beside_ensure split: if_splits)
  note cases = this
  have taken: "server_targets api gw ns sv \<longrightarrow> named_in (fed_name_of api sv) (fed_entries c1)"
    using cases by cases auto
  have firsts: "\<exists>before after. sv # svs = before @ sv' # after
      \<and> (\<forall>o' \<in> set before. server_targets api gw ns o' \<longrightarrow> fed_name_of api o' \<noteq> fed_name_of api sv')" if new: "sv' \<in> set new" for sv'
  proof -
    obtain before after where "svs = before @ sv' # after"
      "\<forall>o' \<in> set before. server_targets api gw ns o' \<longrightarrow> fed_name_of api o' \<noteq> fed_name_of api sv'"
      using first [OF new] by blast
    moreover have "server_targets api gw ns sv \<longrightarrow> fed_name_of api sv \<noteq> fed_name_of api sv'" using taken IH2 new by auto
    ultimately show ?thesis by (intro exI [of _ "sv # before"] exI [of _ after]) simp
  qed
  from cases show ?case
  proof cases
    case 1
    then show ?thesis using IH IH2 firsts by (intro exI[of _ new]) auto
  next
    case 2
    have "\<exists>before after. sv # svs = before @ sv # after
      \<and> (\<forall>o' \<in> set before. server_targets api gw ns o' \<longrightarrow> fed_name_of api o' \<noteq> fed_name_of api sv)"
      by (rule exI [of _ "[]"]) simp
    then have "\<forall>s' \<in> set (sv # new). \<exists>before after. sv # svs = before @ s' # after
      \<and> (\<forall>o' \<in> set before. server_targets api gw ns o' \<longrightarrow> fed_name_of api o' \<noteq> fed_name_of api s')"
      using firsts by simp
    then show ?thesis using 2 IH IH2 by (intro exI[of _ "sv # new"]) auto
  qed
qed

text \<open>One server among those a gateway merges. Its name is served afterwards, by its own entry if the author
  and the servers before it left the name free.\<close>

definition entry_named :: "string \<Rightarrow> json \<Rightarrow> bool" where
  "entry_named n e \<longleftrightarrow> Option.bind (json_get ''name'' e) json_as_str = Some n"

lemma singleton_list: "xs \<noteq> [] \<Longrightarrow> distinct xs \<Longrightarrow> (\<And>x. x \<in> set xs \<Longrightarrow> x = a) \<Longrightarrow> xs = [a]"
  by (cases xs; cases "tl xs") auto

lemma merged_server:
  fixes config :: json
  assumes "server_targets api gw ns sv" and "sv \<in> set svs"
  defines "c' \<equiv> fst (apply_servers_to_config api svs gw ns config)" and "n \<equiv> fed_name_of api sv"
  shows "list_ex (entry_named n) (fed_entries c')"
    and "list_ex (entry_named n) (fed_entries config) \<Longrightarrow> filter (entry_named n) (fed_entries c') = filter (entry_named n) (fed_entries config)"
    and "\<not> list_ex (entry_named n) (fed_entries config)
      \<Longrightarrow> (\<And>o'. o' \<in> set svs \<Longrightarrow> server_targets api gw ns o' \<Longrightarrow> fed_name_of api o' = n \<Longrightarrow> o' = sv)
      \<Longrightarrow> filter (entry_named n) (fed_entries c') = [server_entry api ns sv]"
proof -
  obtain k where "foldl (apply_server api gw ns) (config, 0) svs = (c', k)"
    unfolding c'_def apply_servers_to_config_def by (metis prod.collapse)
  from foldl_apply_server [OF this] obtain new where new: "fed_entries c' = fed_entries config @ map (server_entry api ns) new"
      "subseq new svs" "\<forall>sv \<in> set new. server_targets api gw ns sv" "distinct (map (fed_name_of api) new)"
      "\<forall>sv \<in> set new. \<not> named_in (fed_name_of api sv) (fed_entries config)"
      "\<forall>sv \<in> set svs. server_targets api gw ns sv \<longrightarrow> named_in (fed_name_of api sv) (fed_entries c')"
    by blast
  have named: "list_ex (entry_named m) es \<longleftrightarrow> named_in m es" for m es
    by (simp add: named_in_def entry_named_def list_ex_iff)
  have own: "entry_named m (server_entry api ns o') \<longleftrightarrow> m = fed_name_of api o'" for m o'
    using name_server_entry [of api ns o'] by (auto simp: entry_named_def)
  show there: "list_ex (entry_named n) (fed_entries c')" using new(6) assms(1,2) by (simp add: named n_def)
  have added: "filter (entry_named n) (map (server_entry api ns) new)
      = map (server_entry api ns) (filter (\<lambda>o'. fed_name_of api o' = n) new)"
    unfolding filter_map comp_def own by (simp add: eq_commute)
  show "filter (entry_named n) (fed_entries c') = filter (entry_named n) (fed_entries config)"
    if "list_ex (entry_named n) (fed_entries config)"
  proof -
    have "filter (\<lambda>o'. fed_name_of api o' = n) new = []" using that new(5) by (auto simp: named filter_empty_conv)
    then show ?thesis using added new(1) by simp
  qed
  show "filter (entry_named n) (fed_entries c') = [server_entry api ns sv]"
    if free: "\<not> list_ex (entry_named n) (fed_entries config)"
      and only: "\<And>o'. o' \<in> set svs \<Longrightarrow> server_targets api gw ns o' \<Longrightarrow> fed_name_of api o' = n \<Longrightarrow> o' = sv"
  proof -
    have none: "filter (entry_named n) (fed_entries config) = []" using free by (auto simp: list_ex_iff filter_empty_conv)
    have all: "o' = sv" if "o' \<in> set (filter (\<lambda>o'. fed_name_of api o' = n) new)" for o'
      using that only new(3) list_emb_set [OF new(2)] by auto
    have "filter (entry_named n) (fed_entries c') \<noteq> []" using there by (auto simp: list_ex_iff filter_empty_conv)
    then have "filter (\<lambda>o'. fed_name_of api o' = n) new \<noteq> []" using none added new(1) by auto
    moreover have "distinct (filter (\<lambda>o'. fed_name_of api o' = n) new)" using new(4) by (simp add: distinct_map)
    ultimately have "filter (\<lambda>o'. fed_name_of api o' = n) new = [sv]" using all by (rule singleton_list)
    then show ?thesis using none added new(1) by simp
  qed
qed

text \<open>C28. The federations of a gateway are the author's, in order, followed by one entry for each new
  name among the servers of its namespace that ask for it with a governance block the gateway
  accepts. An author's entry wins over a server of the same name, the first server wins over later
  ones, every such name is served, the count is the number of entries added, and nothing else in
  the document changes.\<close>

theorem federations_exact:
  "case apply_servers_to_config api svs gw ns config of (c', n) \<Rightarrow>
     \<exists>new. fed_entries c' = fed_entries config @ map (server_entry api ns) new \<and> n = length new
       \<and> subseq new svs \<and> (\<forall>sv \<in> set new. server_targets api gw ns sv)
       \<and> (\<forall>sv \<in> set new. \<exists>before after. svs = before @ sv # after
            \<and> (\<forall>o' \<in> set before. server_targets api gw ns o' \<longrightarrow> fed_name_of api o' \<noteq> fed_name_of api sv))
       \<and> distinct (map (fed_name_of api) new)
       \<and> (\<forall>sv \<in> set new. \<not> named_in (fed_name_of api sv) (fed_entries config))
       \<and> (\<forall>sv \<in> set svs. server_targets api gw ns sv \<longrightarrow> named_in (fed_name_of api sv) (fed_entries c'))
       \<and> (\<forall>ps. ps \<parallel> FEDERATIONS_PATH \<longrightarrow> json_path ps c' = json_path ps config)"
  using foldl_apply_server[of api gw ns config 0 svs] by (auto simp: apply_servers_to_config_def)

definition sample_server :: "string \<Rightarrow> mcp_server" where
  "sample_server n = \<lparr>sv_meta = default_meta\<lparr>meta_name := Some n, meta_namespace := Some ''team''\<rparr>,
     sv_spec = (bare_server_spec ''i'')\<lparr>sv_federate := Some \<lparr>fed_gateway_ref = ''gw'', fed_name_override = None, fed_governance = None,
         fed_import = None, fed_auth = None, fed_tool_prefix = None\<rparr>\<rparr>, sv_conditions = None\<rparr>"

theorem federations_exact_witness:
  "named_in ''s'' (fed_entries (fst (apply_servers_to_config sample_api [sample_server ''s''] ''gw'' ''team'' JNull)))"
proof -
  have "server_targets sample_api ''gw'' ''team'' (sample_server ''s'')"
    by (simp add: server_targets_def sample_server_def federate_governance_error_def)
  moreover have "fed_name_of sample_api (sample_server ''s'') = ''s''"
    by (simp add: fed_name_of_def sample_server_def sample_api_def)
  ultimately show ?thesis
    using federations_exact[where api = sample_api and svs = "[sample_server ''s'']" and gw = "''gw''"
        and ns = "''team''" and config = JNull]
    by (auto split: prod.splits)
qed

section \<open>The identity of a managed gateway\<close>

lemma advertised_injected:
  "advertised_resources (inject_resource_metadata al config url domains tag) =
     url # (if gateway_at_least al tag ADDITIONAL_RESOURCES_MIN_GATEWAY
            then map (\<lambda>d. ''https://'' @ d @ resource_path url) domains else [])"
proof -
  have f: "List.map_filter json_as_str (map (\<lambda>d. JStr (g d)) ds) = map g ds" for g and ds :: "string list"
    by (induction ds) (simp_all add: List.map_filter_simps json_as_str_def)
  show ?thesis
    by (simp add: advertised_resources_def inject_resource_metadata_def json_path_ensure Let_def as_array_def f)
      (simp add: json_as_str_def)
qed

lemma json_as_str_Some: "json_as_str j = Some s \<longleftrightarrow> j = JStr s"
  by (cases j) (auto simp: json_as_str_def)

lemma map_filter_mem: "x \<in> set (List.map_filter f xs) \<longleftrightarrow> (\<exists>y \<in> set xs. f y = Some x)"
  by (force simp: List.map_filter_def)

text \<open>When the operator reports the tenant's authorization server as aligned, its issuer is a bare
  origin and the origin of an address this instance advertises: its own, or one of its custom
  domains.\<close>

theorem aligned_issuer_served:
  assumes "authorization_server_alignment (inject_resource_metadata al config url domains tag) = Some c"
    and "c_status c = ''True''"
  shows "\<exists>issuer origin. json_path [''governance'', ''access'', ''authorization_server'', ''issuer''] config = Some (JStr issuer)
     \<and> is_bare_origin_issuer issuer \<and> url_origin issuer = Some origin
     \<and> (\<exists>r \<in> set (url # map (\<lambda>d. ''https://'' @ d @ resource_path url) domains). url_origin r = Some origin)"
proof -
  let ?c = "inject_resource_metadata al config url domains tag"
  let ?adv = "advertised_resources ?c"
  from assms obtain authz issuer where
    authz: "json_path [''governance'', ''access'', ''authorization_server''] ?c = Some authz"
    and issuer: "Option.bind (json_get ''issuer'' authz) json_as_str = Some issuer"
    and ok: "url_origin issuer \<noteq> None \<longrightarrow> is_bare_origin_issuer issuer"
      "\<exists>origin. url_origin issuer = Some origin \<and> origin \<in> set (first_seen {} (List.map_filter url_origin ?adv))"
    by (auto simp: authorization_server_alignment_def Let_def simp del: json_path.simps
        split: option.splits if_splits list.splits)
  have "json_path [''governance'', ''access'', ''authorization_server''] ?c
      = json_path [''governance'', ''access'', ''authorization_server''] config"
    unfolding inject_resource_metadata_def
    by (rule json_path_beside_ensure) (simp add: RESOURCE_METADATA_PATH_def parallel_def)
  then have "json_path [''governance'', ''access'', ''authorization_server'', ''issuer''] config = Some (JStr issuer)"
    using authz issuer json_path_append[of "[''governance'', ''access'', ''authorization_server'']" "[''issuer'']" config]
    by (auto simp: json_as_str_Some bind_eq_Some_conv)
  moreover have "set ?adv \<subseteq> set (url # map (\<lambda>d. ''https://'' @ d @ resource_path url) domains)"
  proof -
    have "?adv = url # (if gateway_at_least al tag ADDITIONAL_RESOURCES_MIN_GATEWAY
            then map (\<lambda>d. ''https://'' @ d @ resource_path url) domains else [])"
      by (rule advertised_injected)
    then show ?thesis by auto
  qed
  moreover obtain origin r where "url_origin issuer = Some origin" "r \<in> set ?adv" "url_origin r = Some origin"
    using ok(2) by (auto simp: set_first_seen map_filter_mem)
  ultimately show ?thesis using ok(1) by blast
qed

theorem aligned_issuer_served_witness:
  "\<exists>r \<in> {''https://a.example/mcp''}. url_origin r = url_origin ''https://A.example:443/''"
proof -
  let ?cfg = "JObj [(''governance'', JObj [(''access'', JObj [(''authorization_server'',
     JObj [(''issuer'', JStr ''https://A.example:443/'')])])])]"
  have "authorization_server_alignment (inject_resource_metadata (\<lambda>_ _. None) ?cfg ''https://a.example/mcp'' [] None)
      = Some (bare_cond AUTHORIZATION_SERVER_ALIGNED ''True'' ''MatchesAdvertisedIdentity'')"
    by code_simp
  from aligned_issuer_served[OF this] show ?thesis by (auto simp: json_get_def)
qed

section \<open>The plugin list, written and read\<close>

text \<open>C33. The gateway controller reads back exactly what the plugin-set controller wrote: for every list of
  resolved entries, parsing the rendered document gives their ids, classes, versions, Secrets,
  digests and settings in order, and the grants of the set. The JSON library parses what it
  prints.\<close>

theorem resolved_set_roundtrip:
  assumes "\<And>j. parse_json (sn_render env j) = Some j"
  shows "parse_resolved_plugins_json parse_json (fst (render_resolved_set env s resolved)) s
    = Inr \<lparr>rsv_entries = map (\<lambda>r. \<lparr>rse_id = r_entry_id r, rse_plugin_class = r_plugin_class r,
        rse_plugin_version = r_plugin_version r, rse_artefact_secret_name = r_secret_name r,
        rse_resolved_digest = r_digest r, rse_config = r_config r\<rparr>) resolved,
      rsv_capability_grants = capability_grants (set_spec s)\<rparr>"
proof -
  have "parse_entries i (map (\<lambda>r. JObj
            [(''id'', JStr (r_entry_id r)), (''pluginName'', JStr (r_plugin_name r)),
             (''pluginVersion'', JStr (r_plugin_version r)), (''pluginClass'', JStr (r_plugin_class r)),
             (''artefactSecretName'', JStr (r_secret_name r)), (''resolvedDigest'', JStr (r_digest r)),
             (''config'', r_config r), (''capabilityGrants'', g r)]) resolved)
      = Inr (map (\<lambda>r. \<lparr>rse_id = r_entry_id r, rse_plugin_class = r_plugin_class r,
        rse_plugin_version = r_plugin_version r, rse_artefact_secret_name = r_secret_name r,
        rse_resolved_digest = r_digest r, rse_config = r_config r\<rparr>) resolved)" for i g
    by (induction resolved arbitrary: i) (simp_all add: required_string_def json_get_def json_as_str_def)
  then show ?thesis
    using assms by (simp add: parse_resolved_plugins_json_def render_resolved_set_def Let_def
        json_get_def[of "''entries''"] as_array_def map_err_def)
qed

text \<open>A printer and parser for the witness: documents are countable.\<close>

instance json :: countable
  by countable_datatype

definition unary_print :: "json \<Rightarrow> string" where
  "unary_print j = replicate (to_nat j) (CHR ''x'')"

definition unary_parse :: "string \<Rightarrow> json option" where
  "unary_parse s = Some (from_nat (length s))"

theorem resolved_set_roundtrip_witness:
  "parse_resolved_plugins_json unary_parse (fst (render_resolved_set (sample_set_env\<lparr>sn_render := unary_print\<rparr>)
      sample_set [])) sample_set
    = Inr \<lparr>rsv_entries = [], rsv_capability_grants = capability_grants (set_spec sample_set)\<rparr>"
  using resolved_set_roundtrip[of unary_parse "sample_set_env\<lparr>sn_render := unary_print\<rparr>" sample_set "[]"]
  by (simp add: unary_parse_def unary_print_def)

section \<open>Watches\<close>

text \<open>The watches are complete: a route or a server that enters the configuration of a gateway, the set
  it mounts, the cluster and the revocation list it names each trigger the reconcile of exactly the
  gateways they concern.\<close>

theorem watches_complete:
  assumes "gw \<in> set store" and "meta_namespace (gw_meta gw) = Some ns"
  shows "(route_accepted api (name_any (gw_meta gw)) ns acc rt \<longrightarrow> gateway_ref_of gw \<in> set (map_route_to_gateways api store rt))
    \<and> (server_targets api (name_any (gw_meta gw)) ns sv \<longrightarrow> gateway_ref_of gw \<in> set (map_server_to_gateways store sv))
    \<and> (gw_plugin_set_ref (gw_spec gw) = Some pn \<and> meta_name (set_meta ps) = Some pn \<and> meta_namespace (set_meta ps) = Some ns
        \<longrightarrow> gateway_ref_of gw \<in> set (map_plugin_set_to_gateways store ps))
    \<and> (gw_cluster_ref (gw_spec gw) = Some cn \<and> meta_name (cl_meta cl) = Some cn
        \<longrightarrow> gateway_ref_of gw \<in> set (map_cluster_to_gateways store cl))
    \<and> (meta_name (rl_meta rl) = Some (case gw_revocation_list_ref (gw_spec gw) of
          Some r \<Rightarrow> r | None \<Rightarrow> DEFAULT_REVOCATION_LIST_NAME)
        \<longrightarrow> gateway_ref_of gw \<in> set (map_revocation_list_to_gateways store rl))"
  using assms
  by (auto simp: route_accepted_def server_targets_def map_route_to_gateways_def map_server_to_gateways_def
      map_plugin_set_to_gateways_def map_cluster_to_gateways_def map_revocation_list_to_gateways_def
      gateway_uses_plugin_set_def gateway_uses_revocation_list_def split: option.splits)

theorem watches_complete_witness:
  "(Some ''team'', ''gw'') \<in> set (map_route_to_gateways sample_api [plain_gateway ''gw''] (sample_route ''t'' ''a''))"
proof -
  have "route_accepted sample_api (name_any (gw_meta (plain_gateway ''gw''))) ''team'' [] (sample_route ''t'' ''a'')"
    by (simp add: route_accepted_def sample_route_def plain_gateway_def sample_api_def)
  then show ?thesis
    using watches_complete[of "plain_gateway ''gw''" "[plain_gateway ''gw'']" "''team''" sample_api "[]" "sample_route ''t'' ''a''"]
    by (simp add: plain_gateway_def gateway_ref_of_def)
qed

end
