(* ===== verification/GatewayCtl.thy ===== *)
theory GatewayCtl
  imports GatewayFacts
begin

text \<open>
  The gateway controller (\<open>src/src/controllers/gateway.rs\<close>): it resolves what a gateway refers to,
  renders its configuration, applies the children in order, wires the edge and reports the status.

  The answers of the API server, the process configuration and the libraries are the fields of
  \<open>gateway_env\<close>. Deletions, events and status patches whose failure the code only logs have no
  answer. A panic is the error \<open>GPanicked\<close>.
\<close>

datatype gateway_error =
    GApply apply_error
  | GStatus status_error
  | GFinalizer finalizer_error
  | GMissingNamespace string
  | GMissingName
  | GKube kube_error
  | GPanicked

record operator_config =
  oc_cloud_default_plugins :: "string option"
  oc_default_otlp_traces_url :: "string option"
  oc_events_egress_probe_url :: "string option"
  oc_gateway_pod_annotations :: str_map
  oc_pod_dns_config :: "json option"
  oc_edge_cluster_issuer :: "string option"
  oc_operator_service_account :: string
  oc_resync_interval_secs :: nat

record gateway_env =
  ge_api :: api_crate
  ge_defaults :: image_defaults
  ge_config :: operator_config
  ge_operator_namespace :: string
  ge_remove_get :: "kube_error + object_meta option"
  ge_remove_patch :: "kube_error + unit"
  ge_finalizer :: "kube_error + unit"
  ge_status :: "(kube_error + unit) \<times> (kube_error + unit)"
  ge_plugin_set :: "string \<Rightarrow> kube_error + plugin_set option"
  ge_config_map :: "string \<Rightarrow> kube_error + config_map option"
  ge_revocation_list :: "string \<Rightarrow> kube_error + revocation_list option"
  ge_cluster :: "string \<Rightarrow> kube_error + cluster option"
  ge_source_secret :: "string \<Rightarrow> kube_error + secret option"
  ge_routes :: "kube_error + route list"
  ge_servers :: "kube_error + mcp_server list"
  ge_certificates :: "string \<Rightarrow> kube_error + object_meta list"
  ge_apply :: "k8s_object \<Rightarrow> kube_error + unit"
  ge_binding :: "kube_error + unit"
  ge_deployment_status :: "deployment_status option"
  ge_set_condition :: "condition \<Rightarrow> condition list \<Rightarrow> condition list"
  ge_parse_json :: "string \<Rightarrow> json option"
  ge_print_json :: "json \<Rightarrow> string"
  ge_to_yaml :: "json \<Rightarrow> string option"
  ge_sha256_hex :: "string \<Rightarrow> string"
  ge_version_at_least :: "string \<Rightarrow> string \<Rightarrow> bool option"
  ge_metric_typed :: "json \<Rightarrow> bool"
  ge_random :: real

type_synonym 'a gateway_run = "(gateway_status, k8s_object, gateway_error, 'a) ctl"

abbreviation gateway_fm :: string where
  "gateway_fm \<equiv> field_manager ''gateway-controller''"

definition gateway_jittered_resync :: "real \<Rightarrow> nat \<Rightarrow> real" where
  "gateway_jittered_resync r base_secs = real base_secs * (8 / 10 + r)"

section \<open>Resolution\<close>

record resolved_plugin_set =
  rps_hash :: string
  rps_view :: "resolved_set_view option"
  rps_mounts :: "plugin_secret_mount list"
  rps_condition :: condition

record resolved_revocation =
  rrl_mount :: revocation_list_mount
  rrl_condition :: condition

definition unresolved_set :: "string \<Rightarrow> string \<Rightarrow> resolved_plugin_set" where
  "unresolved_set hash reason = \<lparr>rps_hash = hash, rps_view = None, rps_mounts = [],
     rps_condition = bare_cond ''PluginSetReady'' ''False'' reason\<rparr>"

definition set_mounts :: "resolved_set_view \<Rightarrow> plugin_secret_mount list" where
  "set_mounts view = map (\<lambda>e. \<lparr>pmt_plugin_id = rse_id e, pmt_secret_name = rse_artefact_secret_name e\<rparr>) (rsv_entries view)"

definition resolve_plugin_set :: "gateway_env \<Rightarrow> gateway \<Rightarrow> gateway_error + resolved_plugin_set option" where
  "resolve_plugin_set env obj =
     (case gw_plugin_set_ref (gw_spec obj) of
        None \<Rightarrow> Inr None
      | Some pref \<Rightarrow>
          (case ge_plugin_set env pref of
             Inl e \<Rightarrow> Inl (GKube e)
           | Inr None \<Rightarrow> Inr (Some (unresolved_set [] ''PluginSetNotFound''))
           | Inr (Some s) \<Rightarrow>
               let hash = (case set_resolved_hash s of Some h \<Rightarrow> h | None \<Rightarrow> []);
                   ready = (case set_conditions s of Some cs \<Rightarrow> cond_true ''Ready'' cs | None \<Rightarrow> False)
               in if \<not> ready \<or> hash = [] then Inr (Some (unresolved_set hash ''PluginSetNotReady''))
                  else case ge_config_map env (pref @ ''-resolved'') of
                    Inl e \<Rightarrow> Inl (GKube e)
                  | Inr None \<Rightarrow> Inr (Some (unresolved_set hash ''ResolvedConfigMapMissing''))
                  | Inr (Some cm) \<Rightarrow>
                      let text = (case Option.bind (cm_data cm) (\<lambda>d. d ''plugins.json'') of Some t \<Rightarrow> t | None \<Rightarrow> [])
                      in case parse_resolved_plugins_json (ge_parse_json env) text s of
                           Inl _ \<Rightarrow> Inr (Some (unresolved_set hash ''ResolvedConfigMapParseFailed''))
                         | Inr view \<Rightarrow> Inr (Some \<lparr>rps_hash = hash, rps_view = Some view, rps_mounts = set_mounts view,
                             rps_condition = bare_cond ''PluginSetReady'' ''True'' ''PluginSetResolved''\<rparr>)))"

definition resolve_revocation_list :: "gateway_env \<Rightarrow> gateway \<Rightarrow> resolved_revocation option gateway_run" where
  "resolve_revocation_list env obj =
     (let (target, was_explicit) = (case gw_revocation_list_ref (gw_spec obj) of
            Some r \<Rightarrow> (r, True) | None \<Rightarrow> (DEFAULT_REVOCATION_LIST_NAME, False))
      in case ge_revocation_list env target of
           Inl e \<Rightarrow> throw (GKube e)
         | Inr None \<Rightarrow>
             ret (if was_explicit
                  then Some \<lparr>rrl_mount = \<lparr>rlm_config_map_name = [], rlm_content_hash = []\<rparr>,
                    rrl_condition = bare_cond ''RevocationListReady'' ''False'' ''RevocationListNotFound''\<rparr>
                  else None)
         | Inr (Some rl) \<Rightarrow>
             let (text, hash) = render_revocation_list_json (ge_print_json env) (ge_sha256_hex env) rl;
                 cm_name = revocation_cm_name obj;
                 cm = ObConfigMap (build_revocation_configmap obj cm_name text hash);
                 applied = (apply_owned (ge_apply env cm) ob_meta cm gateway_fm
                   :: (gateway_status, k8s_object, apply_error, unit) ctl)
             in (fst applied, Inr (Some \<lparr>rrl_mount = \<lparr>rlm_config_map_name = cm_name, rlm_content_hash = hash\<rparr>,
                  rrl_condition = (if isl (snd applied)
                    then bare_cond ''RevocationListReady'' ''False'' ''RevocationConfigMapApplyFailed''
                    else bare_cond ''RevocationListReady'' ''True'' ''RevocationListResolved'')\<rparr>)))"

definition resolve_cluster :: "gateway_env \<Rightarrow> gateway \<Rightarrow> gateway_error + resolved_cluster option" where
  "resolve_cluster env obj =
     (case gw_cluster_ref (gw_spec obj) of
        None \<Rightarrow> Inr None
      | Some cref \<Rightarrow>
          (case ge_cluster env cref of
             Inl e \<Rightarrow> Inl (GKube e)
           | Inr cl \<Rightarrow>
               let resolved = classify_cluster_binding (ge_api env) (ge_operator_namespace env) obj cl
               in case (c_status (rc_condition resolved) = ''True'', Option.bind cl (\<lambda>c. meta_name (cl_meta c)),
                        Option.bind cl (\<lambda>c. cl_managed (cl_spec c))) of
                    (True, Some cluster_name, Some _) \<Rightarrow>
                      let secret_name = managed_coordination_secret_name (ge_api env) cluster_name
                      in (case ge_source_secret env secret_name of
                            Inl e \<Rightarrow> Inl (GKube e)
                          | Inr source \<Rightarrow> Inr (Some (case Option.bind source sec_data of
                              Some data \<Rightarrow> resolved\<lparr>rc_coordination :=
                                Some \<lparr>coord_secret_name = secret_name, coord_data = data\<rparr>\<rparr>
                            | None \<Rightarrow> resolved)))
                  | _ \<Rightarrow> Inr (Some resolved)))"

section \<open>Rendering\<close>

definition inject_cloud_identity :: "gateway_env \<Rightarrow> gateway \<Rightarrow> json \<Rightarrow> json" where
  "inject_cloud_identity env obj config =
     (case gw_cloud (gw_spec obj) of
        None \<Rightarrow> config
      | Some cloud \<Rightarrow>
          if external_url cloud = [] then config
          else
            let tag = (case gw_image_tag (gw_spec obj) of Some t \<Rightarrow> t | None \<Rightarrow> default_gateway_image_tag (ge_defaults env));
                canonical = (case canonical_url cloud of
                  Some u \<Rightarrow> if blank u then None else Some u | None \<Rightarrow> None);
                advertised = (case canonical of Some u \<Rightarrow> u | None \<Rightarrow> external_url cloud);
                also = (if canonical \<noteq> None then [] else custom_domains cloud);
                c = inject_resource_metadata (ge_version_at_least env) config advertised also (Some tag);
                c = (if canonical \<noteq> None then inject_canonical_url (ge_version_at_least env) c advertised (Some tag) else c)
            in inject_events_policy (ge_version_at_least env) c (oc_events_egress_probe_url (ge_config env)) (Some tag))"

text \<open>The document before the platform's plugins are appended, and the judgement of it.\<close>

definition render_config ::
  "gateway_env \<Rightarrow> gateway \<Rightarrow> string \<Rightarrow> resolved_plugin_set option \<Rightarrow> resolved_revocation option
    \<Rightarrow> resolved_cluster option \<Rightarrow> (json \<times> condition option) option" where
  "render_config env obj ns pset rl cl =
     Option.bind (merge_plugins (gw_config (gw_spec obj)) (Option.bind pset rps_view)
         (map_option (\<lambda>_. REVOCATION_LIST_MOUNT_PATH) rl)) (\<lambda>c.
       let c = (case cl of Some r \<Rightarrow> merge_cluster_block c (rc_block r) | None \<Rightarrow> c);
           c = fst (merge_routes (ge_api env) (ge_routes env) obj ns c);
           c = fst (merge_servers (ge_api env) (ge_servers env) obj ns c);
           c = inject_cloud_identity env obj c;
           alignment = (case gw_cloud (gw_spec obj) of
             Some cloud \<Rightarrow> if external_url cloud = [] then None else authorization_server_alignment c
           | None \<Rightarrow> None)
       in map_option (\<lambda>c'. (c', alignment))
            (apply_cloud_default_plugins (ge_defaults env) obj (oc_cloud_default_plugins (ge_config env))
              (oc_default_otlp_traces_url (ge_config env)) c))"

section \<open>The edge\<close>

definition certificate_deletes :: "gateway_env \<Rightarrow> string \<Rightarrow> string set \<Rightarrow> (gateway_status, k8s_object) effect list" where
  "certificate_deletes env uid wanted =
     (case ge_certificates env uid of
        Inl _ \<Rightarrow> []
      | Inr items \<Rightarrow> map (\<lambda>m. DeleteKind ''Certificate'' CLOUD_GATEWAY_NAMESPACE (name_any m))
          (filter (\<lambda>m. name_any m \<notin> wanted) items))"

definition apply_child :: "gateway_env \<Rightarrow> k8s_object \<Rightarrow> unit gateway_run" where
  "apply_child env ob = lift_run GApply (apply_owned (ge_apply env ob) ob_meta ob gateway_fm)"

fun apply_children :: "gateway_env \<Rightarrow> k8s_object list \<Rightarrow> unit gateway_run" where
  "apply_children env [] = ret ()"
| "apply_children env (ob # obs) = bindT (apply_child env ob) (\<lambda>_. apply_children env obs)"

definition gateway_uid :: "gateway \<Rightarrow> string" where
  "gateway_uid obj = (case meta_uid (gw_meta obj) of Some u \<Rightarrow> u | None \<Rightarrow> [])"

definition reconcile_edge_domains :: "gateway_env \<Rightarrow> gateway \<Rightarrow> unit gateway_run" where
  "reconcile_edge_domains env obj =
     (case gw_cloud (gw_spec obj) of
        None \<Rightarrow> ret ()
      | Some cloud \<Rightarrow>
          let uid = gateway_uid obj; domains = custom_domains cloud; sha = ge_sha256_hex env;
              doc = ObEdgeGateway (build_edge_listener_apply sha domains);
              issuer = oc_edge_cluster_issuer (ge_config env);
              certs = (case issuer of Some i \<Rightarrow> map (\<lambda>h. ObCertificate (build_certificate sha obj h i)) domains | None \<Rightarrow> []);
              wanted = (if issuer = None then {} else edge_object_name sha ` set domains)
          in after [Apply doc (edge_field_manager uid)]
               (if isl (ge_apply env doc) \<and> domains \<noteq> [] then throw (GKube (projl (ge_apply env doc)))
                else bindT (apply_children env certs) (\<lambda>_. after (certificate_deletes env uid wanted) (ret ()))))"

definition cleanup_edge_domains :: "gateway_env \<Rightarrow> gateway \<Rightarrow> (gateway_status, k8s_object) effect list" where
  "cleanup_edge_domains env obj =
     (if gw_cloud (gw_spec obj) = None then []
      else [Apply (ObEdgeGateway (build_edge_listener_apply (ge_sha256_hex env) [])) (edge_field_manager (gateway_uid obj))]
           @ certificate_deletes env (gateway_uid obj) {})"

section \<open>Status\<close>

definition opt_condition ::
  "gateway_env \<Rightarrow> int \<Rightarrow> condition option \<Rightarrow> condition list \<Rightarrow> condition list" where
  "opt_condition env gen c cs =
     (case c of Some c \<Rightarrow> ge_set_condition env (c\<lparr>c_generation := Some gen\<rparr>) cs | None \<Rightarrow> cs)"

definition gateway_conditions ::
  "gateway_env \<Rightarrow> gateway \<Rightarrow> bool \<Rightarrow> condition option \<Rightarrow> condition option \<Rightarrow> condition option
    \<Rightarrow> condition option \<Rightarrow> condition list" where
  "gateway_conditions env obj all_available pset rl cl alignment =
     (let gen = generation_of (gw_meta obj); set = ge_set_condition env;
          cs = (case gw_status obj of Some s \<Rightarrow> gst_conditions s | None \<Rightarrow> []);
          cs = (if all_available
                then set (cond ''Available'' ''True'' ''PodsReady'' gen)
                       (set (cond ''Ready'' ''True'' ''AllReplicasAvailable'' gen) cs)
                else set (cond ''Progressing'' ''True'' ''Progressing'' gen)
                       (set (cond ''Ready'' ''False'' ''Progressing'' gen) cs));
          cs = opt_condition env gen cl (opt_condition env gen rl (opt_condition env gen pset cs))
      in case alignment of
           Some c \<Rightarrow> set (c\<lparr>c_generation := Some gen\<rparr>) cs
         | None \<Rightarrow> filter (\<lambda>c. c_type c \<noteq> AUTHORIZATION_SERVER_ALIGNED) cs)"

definition deployment_counts :: "gateway_env \<Rightarrow> int \<times> int \<times> int \<times> int" where
  "deployment_counts env =
     (let n = (\<lambda>sel. case Option.bind (ge_deployment_status env) sel of Some i \<Rightarrow> i | None \<Rightarrow> 0)
      in (n ds_replicas, n ds_ready, n ds_updated, n ds_available))"

definition all_replicas_available :: "gateway_env \<Rightarrow> gateway \<Rightarrow> bool" where
  "all_replicas_available env obj =
     (case deployment_counts env of (_, _, _, available) \<Rightarrow> available > 0 \<and> available = effective_replicas obj)"

definition gateway_status_of ::
  "gateway_env \<Rightarrow> gateway \<Rightarrow> string \<Rightarrow> resolved_plugin_set option \<Rightarrow> resolved_revocation option
    \<Rightarrow> resolved_cluster option \<Rightarrow> condition option \<Rightarrow> gateway_status" where
  "gateway_status_of env obj config_hash pset rl cl alignment =
     (case deployment_counts env of (n_replicas, n_ready, n_updated, n_available) \<Rightarrow>
        \<lparr>gst_conditions = gateway_conditions env obj (all_replicas_available env obj)
           (map_option rps_condition pset) (map_option rrl_condition rl) (map_option rc_condition cl) alignment,
         gst_observed_generation = Some (generation_of (gw_meta obj)), gst_replicas = Some n_replicas,
         gst_ready_replicas = Some n_ready, gst_updated_replicas = Some n_updated,
         gst_available_replicas = Some n_available, gst_config_hash = Some config_hash,
         gst_plugin_set_hash = map_option rps_hash pset,
         gst_revocation_list_hash = map_option (\<lambda>r. rlm_content_hash (rrl_mount r)) rl\<rparr>)"

section \<open>The reconcile\<close>

definition gateway_key :: "string \<Rightarrow> string \<Rightarrow> string" where
  "gateway_key ns name = resource_key ''gateway'' ns name"

text \<open>The hold: the binding to the coordinator does not resolve, so nothing is rendered.\<close>

definition held_status :: "gateway_env \<Rightarrow> gateway \<Rightarrow> resolved_cluster \<Rightarrow> gateway_status" where
  "held_status env obj cl =
     (let gen = generation_of (gw_meta obj);
          old = (case gw_status obj of Some s \<Rightarrow> s | None \<Rightarrow> default_gateway_status)
      in old\<lparr>gst_conditions := ge_set_condition env (cond ''Ready'' ''False'' ''DependencyPending'' gen)
               (ge_set_condition env ((rc_condition cl)\<lparr>c_generation := Some gen\<rparr>) (gst_conditions old)),
             gst_observed_generation := Some gen\<rparr>)"

definition gateway_hold ::
  "gateway_env \<Rightarrow> gateway \<Rightarrow> string \<Rightarrow> string \<Rightarrow> resolved_cluster \<Rightarrow> (reconcile_action \<times> reconcile_outcome) gateway_run" where
  "gateway_hold env obj ns name cl =
     after ([ObserveDependency ''gateway'' ''MCPGCluster'' (c_reason (rc_condition cl))]
         @ patch_status_logged (fst (ge_status env)) (snd (ge_status env)) name (held_status env obj cl) gateway_fm
         @ [Publish \<lparr>ev_type = Warning, ev_reason = c_reason (rc_condition cl), ev_action = ''ResolveCluster''\<rparr>,
            BackoffReset (gateway_key ns name)])
       (ret (Requeue 30, DependencyPending))"

definition gateway_deployment ::
  "gateway_env \<Rightarrow> gateway \<Rightarrow> string \<Rightarrow> resolved_plugin_set option \<Rightarrow> resolved_revocation option
    \<Rightarrow> resolved_cluster option \<Rightarrow> deployment" where
  "gateway_deployment env obj config_hash pset rl cl =
     (let extra = (case Option.bind cl rc_coordination of Some p \<Rightarrow> [coord_secret_name p] | None \<Rightarrow> []);
          dep = build_deployment (ge_api env) (ge_defaults env) obj config_hash
            (case pset of Some p \<Rightarrow> rps_mounts p | None \<Rightarrow> []) (map_option rps_hash pset)
            (map_option rrl_mount rl) (oc_gateway_pod_annotations (ge_config env)) extra
      in dep\<lparr>dep_pod := apply_pod_dns_config (dep_pod dep) (oc_pod_dns_config (ge_config env))\<rparr>)"

text \<open>Step 3: the children in the order they are applied, up to the Deployment.\<close>

definition apply_coordination :: "gateway_env \<Rightarrow> gateway \<Rightarrow> string \<Rightarrow> resolved_cluster option \<Rightarrow> unit gateway_run" where
  "apply_coordination env obj ns cl =
     (case Option.bind cl rc_coordination of
        None \<Rightarrow> ret ()
      | Some proj \<Rightarrow>
          bindT (lift_run GKube (ensure_tenant_secret_binding (ge_binding env) ns (ge_operator_namespace env)
              (oc_operator_service_account (ge_config env)) gateway_fm)) (\<lambda>_.
            apply_child env (ObSecret (build_coordination_secret_copy obj ns proj))))"

definition pdb_step :: "gateway_env \<Rightarrow> gateway \<Rightarrow> string \<Rightarrow> unit gateway_run" where
  "pdb_step env obj ns =
     (case build_pdb (ge_api env) obj of
        Some b \<Rightarrow> apply_child env (ObPdb b)
      | None \<Rightarrow> after [DeleteKind ''PodDisruptionBudget'' ns (child_name obj ''gateway'')] (ret ()))"

definition optional_children :: "('a \<Rightarrow> k8s_object) \<Rightarrow> 'a option \<Rightarrow> k8s_object list" where
  "optional_children f x = (case x of Some a \<Rightarrow> [f a] | None \<Rightarrow> [])"

definition gateway_apply ::
  "gateway_env \<Rightarrow> gateway \<Rightarrow> string \<Rightarrow> config_map \<Rightarrow> deployment \<Rightarrow> resolved_cluster option \<Rightarrow> unit gateway_run" where
  "gateway_apply env obj ns cm dep cl =
     bindT (apply_children env [ObConfigMap cm, ObService (build_service obj),
         ObServiceAccount (build_service_account obj)]) (\<lambda>_.
     bindT (apply_coordination env obj ns cl) (\<lambda>_.
     bindT (apply_children env (ObDeployment dep # optional_children ObHttpRoute (build_httproute obj))) (\<lambda>_.
     bindT (reconcile_edge_domains env obj) (\<lambda>_.
     bindT (apply_children env (optional_children ObHpa (build_hpa (ge_metric_typed env) obj))) (\<lambda>_.
       pdb_step env obj ns)))))"

definition dependency_pending :: "resolved_plugin_set option \<Rightarrow> resolved_revocation option \<Rightarrow> bool" where
  "dependency_pending pset rl \<longleftrightarrow>
     (case pset of Some p \<Rightarrow> rps_view p = None | None \<Rightarrow> False)
     \<or> (case rl of Some r \<Rightarrow> c_status (rrl_condition r) \<noteq> ''True'' | None \<Rightarrow> False)"

definition gateway_finish ::
  "gateway_env \<Rightarrow> gateway \<Rightarrow> string \<Rightarrow> string \<Rightarrow> string \<Rightarrow> resolved_plugin_set option \<Rightarrow> resolved_revocation option
    \<Rightarrow> resolved_cluster option \<Rightarrow> condition option \<Rightarrow> (reconcile_action \<times> reconcile_outcome) gateway_run" where
  "gateway_finish env obj ns name config_hash pset rl cl alignment =
     after (patch_status_logged (fst (ge_status env)) (snd (ge_status env)) name
           (gateway_status_of env obj config_hash pset rl cl alignment) gateway_fm
         @ (case alignment of
              Some c \<Rightarrow> if c_status c \<noteq> ''True''
                then [Publish \<lparr>ev_type = Warning, ev_reason = c_reason c, ev_action = ''CheckAuthorizationServer''\<rparr>] else []
            | None \<Rightarrow> [])
         @ (if all_replicas_available env obj
            then [Publish \<lparr>ev_type = Normal, ev_reason = ''Reconciled'', ev_action = ''Reconcile''\<rparr>] else [])
         @ [BackoffReset (gateway_key ns name)])
       (ret (Requeue (gateway_jittered_resync (ge_random env) (oc_resync_interval_secs (ge_config env))),
             if dependency_pending pset rl then DependencyPending else Success))"

definition gateway_render_apply ::
  "gateway_env \<Rightarrow> gateway \<Rightarrow> string \<Rightarrow> string \<Rightarrow> resolved_plugin_set option \<Rightarrow> resolved_revocation option
    \<Rightarrow> resolved_cluster option \<Rightarrow> (reconcile_action \<times> reconcile_outcome) gateway_run" where
  "gateway_render_apply env obj ns name pset rl cl =
     (case Option.bind (render_config env obj ns pset rl cl) (\<lambda>(config, alignment).
             map_option (\<lambda>(cm, hash). (cm, hash, alignment))
               (build_configmap (ge_to_yaml env) (ge_sha256_hex env) obj config)) of
        None \<Rightarrow> throw GPanicked
      | Some (cm, config_hash, alignment) \<Rightarrow>
          bindT (gateway_apply env obj ns cm (gateway_deployment env obj config_hash pset rl cl) cl) (\<lambda>_.
            gateway_finish env obj ns name config_hash pset rl cl alignment))"

definition gateway_body ::
  "gateway_env \<Rightarrow> gateway \<Rightarrow> string \<Rightarrow> string \<Rightarrow> (reconcile_action \<times> reconcile_outcome) gateway_run" where
  "gateway_body env obj ns name =
     (case resolve_plugin_set env obj of
        Inl e \<Rightarrow> throw e
      | Inr pset \<Rightarrow>
          bindT (resolve_revocation_list env obj) (\<lambda>rl.
          after ((case pset of
                    Some p \<Rightarrow> if rps_view p = None
                      then [ObserveDependency ''gateway'' ''MCPGPluginSet'' (c_reason (rps_condition p))] else []
                  | None \<Rightarrow> [])
                 @ (case rl of
                    Some r \<Rightarrow> if c_status (rrl_condition r) \<noteq> ''True''
                      then [ObserveDependency ''gateway'' ''MCPGRevocationList'' (c_reason (rrl_condition r))] else []
                  | None \<Rightarrow> []))
            (case resolve_cluster env obj of
               Inl e \<Rightarrow> throw e
             | Inr cl \<Rightarrow>
                 (case cl of
                    Some c \<Rightarrow>
                      if c_status (rc_condition c) \<noteq> ''True'' then gateway_hold env obj ns name c
                      else gateway_render_apply env obj ns name pset rl cl
                  | None \<Rightarrow> gateway_render_apply env obj ns name pset rl cl))))"

definition gateway_reconcile_inner ::
  "gateway_env \<Rightarrow> gateway \<Rightarrow> (reconcile_action \<times> reconcile_outcome) gateway_run" where
  "gateway_reconcile_inner env obj =
     (case meta_namespace (gw_meta obj) of
        None \<Rightarrow> throw (GMissingNamespace (name_any (gw_meta obj)))
      | Some ns \<Rightarrow>
        (case meta_name (gw_meta obj) of
           None \<Rightarrow> throw GMissingName
         | Some name \<Rightarrow>
             guarded GFinalizer
               (\<lambda>n. after (cleanup_edge_domains env obj)
                  (remove_finalizer (ge_remove_get env) (ge_remove_patch env) n OPERATOR_FINALIZER))
               (\<lambda>n. ensure_finalizer (ge_finalizer env) n (gw_meta obj) OPERATOR_FINALIZER)
               (gw_meta obj) name (gateway_body env obj ns name)))"

definition gateway_permanent :: "gateway_error \<Rightarrow> bool" where
  "gateway_permanent e = (case e of GMissingName \<Rightarrow> True | GMissingNamespace _ \<Rightarrow> True | _ \<Rightarrow> False)"

definition gateway_reconcile :: "gateway_env \<Rightarrow> gateway \<Rightarrow> reconcile_action gateway_run" where
  "gateway_reconcile env obj =
     observed ''gateway'' (\<lambda>r. case r of Inr (_, o') \<Rightarrow> o'
       | Inl e \<Rightarrow> if gateway_permanent e then PermanentError else TransientError)
       (gateway_reconcile_inner env obj)"

definition gateway_error_policy ::
  "real \<Rightarrow> gateway \<Rightarrow> gateway_error \<Rightarrow> backoff_map \<Rightarrow> reconcile_action \<times> backoff_map" where
  "gateway_error_policy r obj err m =
     error_policy gateway_permanent
       (gateway_key (case meta_namespace (gw_meta obj) of Some n \<Rightarrow> n | None \<Rightarrow> []) (name_any (gw_meta obj))) r err m"

end
