(* ===== verification/GatewaySafety.thy ===== *)
theory GatewaySafety
  imports GatewayCtl
begin

text \<open>
  What a reconcile of a gateway guarantees: it never panics, it holds when the coordinator does not
  resolve, it applies what the pods need before the pods, the rendered plugins are the mounted
  ones, and what its status means.
\<close>

section \<open>The contract of a reconciler\<close>

interpretation gateway_ctl: cleanup_reconciler gateway_reconcile_inner gw_meta cleanup_edge_domains
proof
  fix obj :: gateway and env
  assume "meta_name (gw_meta obj) = None"
  then show "fst (gateway_reconcile_inner env obj) = [] \<and> isl (snd (gateway_reconcile_inner env obj))"
    by (simp add: gateway_reconcile_inner_def run_simps split: option.split)
next
  fix obj :: gateway and env x
  assume "meta_deletion_timestamp (gw_meta obj) \<noteq> None" and "x \<in> set (fst (gateway_reconcile_inner env obj))"
  then show "x \<in> set (cleanup_edge_domains env obj)
      \<or> (\<exists>fs. x = MergeFinalizers (name_any (gw_meta obj)) fs \<and> OPERATOR_FINALIZER \<notin> set fs)"
    using remove_finalizer_eff
    by (auto simp: gateway_reconcile_inner_def guarded_def bindT_effects run_simps split: option.splits) blast+
next
  fix obj :: gateway and env
  assume "meta_deletion_timestamp (gw_meta obj) = None" and "\<not> has_finalizer (gw_meta obj) OPERATOR_FINALIZER"
  note first = guarded_finalizer_first[OF this]
  show "(fst (gateway_reconcile_inner env obj) = [] \<and> isl (snd (gateway_reconcile_inner env obj)))
      \<or> (\<exists>ops rest. fst (gateway_reconcile_inner env obj) = PatchFinalizers (name_any (gw_meta obj)) ops # rest)"
  proof (cases "meta_namespace (gw_meta obj) = None \<or> meta_name (gw_meta obj) = None")
    case True
    then show ?thesis by (auto simp: gateway_reconcile_inner_def run_simps split: option.split)
  next
    case False
    then obtain ns name where "meta_namespace (gw_meta obj) = Some ns" "meta_name (gw_meta obj) = Some name" by auto
    then show ?thesis unfolding gateway_reconcile_inner_def by (simp add: first)
  qed
qed

section \<open>Rendering\<close>

lemma ensure_path_top:
  "json_is_object (ensure_path (k # ks) f j)"
  "k' \<noteq> k \<Longrightarrow> json_get k' (ensure_path (k # ks) f j) = json_get k' j"
  by simp_all

text \<open>A step that keeps the document an object and its plugin list.\<close>

definition keeps_plugins :: "json \<Rightarrow> json \<Rightarrow> bool" where
  "keeps_plugins c c' \<longleftrightarrow> (json_is_object c \<longrightarrow> json_is_object c') \<and> json_get ''plugins'' c' = json_get ''plugins'' c"

lemma keeps_plugins_refl [simp]: "keeps_plugins c c"
  by (simp add: keeps_plugins_def)

lemma keeps_plugins_trans: "keeps_plugins a b \<Longrightarrow> keeps_plugins b c \<Longrightarrow> keeps_plugins a c"
  by (simp add: keeps_plugins_def)

lemma keeps_plugins_ensure: "k \<noteq> ''plugins'' \<Longrightarrow> keeps_plugins c (ensure_path (k # ks) f c)"
  by (simp add: keeps_plugins_def)

lemma keeps_plugins_routes: "keeps_plugins c (fst (merge_routes api listed obj ns c))"
  by (auto simp: merge_routes_def apply_routes_to_config_def Let_def RULES_PATH_def
      intro: keeps_plugins_ensure simp del: ensure_path.simps split: sum.split)

lemma keeps_plugins_servers: "keeps_plugins c (fst (merge_servers api listed obj ns c))"
proof -
  have step: "keeps_plugins a (fst (apply_server api gw n (a, k) sv))" for a gw n k sv
    by (auto simp: apply_server_eq FEDERATIONS_PATH_def intro: keeps_plugins_ensure simp del: ensure_path.simps)
  have "keeps_plugins (fst ck) (fst (foldl (apply_server api gw n) ck svs))" for ck gw n svs
  proof (induction svs arbitrary: ck)
    case (Cons sv svs)
    have "keeps_plugins (fst ck) (fst (apply_server api gw n ck sv))"
      using step[of "fst ck" gw n "snd ck" sv] by simp
    from keeps_plugins_trans[OF this Cons.IH] show ?case by simp
  qed simp
  from this[of "(c, 0)"] show ?thesis
    by (simp add: merge_servers_def apply_servers_to_config_def split: sum.split)
qed

lemma keeps_plugins_identity: "keeps_plugins c (inject_cloud_identity env obj c)"
proof -
  have r: "keeps_plugins a (inject_resource_metadata al a u ds t)" for a al u ds t
    unfolding inject_resource_metadata_def RESOURCE_METADATA_PATH_def by (rule keeps_plugins_ensure) simp
  have u: "keeps_plugins a (inject_canonical_url al a u t)" for a al u t
    by (auto simp: inject_canonical_url_def intro: keeps_plugins_ensure simp del: ensure_path.simps)
  have e: "keeps_plugins a (inject_events_policy al a p t)" for a al p t
    by (auto simp: inject_events_policy_def Let_def keeps_plugins_def)
  show ?thesis
    unfolding inject_cloud_identity_def Let_def
    by (auto split: option.split intro: keeps_plugins_trans[OF r] keeps_plugins_trans[OF u] e)
      (meson keeps_plugins_trans r u e)+
qed

lemma apply_cloud_default_facts:
  assumes "json_is_object c"
  shows "\<exists>c'. apply_cloud_default_plugins dflt obj csv url c = Some c'
    \<and> (\<exists>es. plugin_entries c' = plugin_entries c @ es) \<and> (gw_cloud (gw_spec obj) = None \<longrightarrow> c' = c)"
proof (cases "gw_cloud (gw_spec obj)")
  case None
  then show ?thesis by (simp add: apply_cloud_default_plugins_def)
next
  case (Some cloud)
  then show ?thesis using managed_plugin_facts[OF Some assms, of dflt csv url] by auto
qed

lemma merge_plugins_list:
  "\<exists>c. merge_plugins base view path = Some c \<and> json_is_object c
     \<and> plugin_entries c = (case view of
          Some rs \<Rightarrow> map (\<lambda>e. render_entry e (map_of (rsv_capability_grants rs) (rse_id e))) (rsv_entries rs)
        | None \<Rightarrow> plugin_entries base)"
proof -
  obtain c where "merge_plugins base view path = Some c" "json_is_object c"
    and "json_get ''plugins'' c = (case view of
          Some rs \<Rightarrow> Some (JArr (map (\<lambda>e. render_entry e (map_of (rsv_capability_grants rs) (rse_id e))) (rsv_entries rs)))
        | None \<Rightarrow> json_get ''plugins'' base)"
    using merge_plugins_facts[of base view path] by (elim exE conjE)
  then show ?thesis by (cases view) (simp_all add: plugin_entries_def as_array_def)
qed

text \<open>The rendering succeeds, and its plugin list is that of the set, or the user's without one,
  followed by what the platform adds.\<close>

lemma render_config_plugins:
  "\<exists>c al. render_config env obj ns pset rl cl = Some (c, al)
     \<and> (\<exists>es. plugin_entries c = (case Option.bind pset rps_view of
          Some rs \<Rightarrow> map (\<lambda>e. render_entry e (map_of (rsv_capability_grants rs) (rse_id e))) (rsv_entries rs)
        | None \<Rightarrow> plugin_entries (gw_config (gw_spec obj))) @ es
        \<and> (gw_cloud (gw_spec obj) = None \<longrightarrow> es = []))"
proof -
  obtain c0 where c0: "merge_plugins (gw_config (gw_spec obj)) (Option.bind pset rps_view)
      (map_option (\<lambda>_. REVOCATION_LIST_MOUNT_PATH) rl) = Some c0" "json_is_object c0"
    and p0: "plugin_entries c0 = (case Option.bind pset rps_view of
          Some rs \<Rightarrow> map (\<lambda>e. render_entry e (map_of (rsv_capability_grants rs) (rse_id e))) (rsv_entries rs)
        | None \<Rightarrow> plugin_entries (gw_config (gw_spec obj)))"
    using merge_plugins_list by blast
  define c1 where "c1 = (case cl of Some r \<Rightarrow> merge_cluster_block c0 (rc_block r) | None \<Rightarrow> c0)"
  define c2 where "c2 = fst (merge_routes (ge_api env) (ge_routes env) obj ns c1)"
  define c3 where "c3 = fst (merge_servers (ge_api env) (ge_servers env) obj ns c2)"
  define c4 where "c4 = inject_cloud_identity env obj c3"
  have "keeps_plugins c0 c1" by (simp add: c1_def merge_cluster_block_def keeps_plugins_def split: option.split)
  then have "keeps_plugins c0 c4"
    unfolding c4_def c3_def c2_def
    by (meson keeps_plugins_trans keeps_plugins_routes keeps_plugins_servers keeps_plugins_identity)
  then have c4: "json_is_object c4" "plugin_entries c4 = plugin_entries c0"
    using c0(2) by (simp_all add: keeps_plugins_def plugin_entries_def)
  from apply_cloud_default_facts[OF c4(1)] obtain c5 es where c5:
    "apply_cloud_default_plugins (ge_defaults env) obj (oc_cloud_default_plugins (ge_config env))
       (oc_default_otlp_traces_url (ge_config env)) c4 = Some c5"
    "plugin_entries c5 = plugin_entries c4 @ es" "gw_cloud (gw_spec obj) = None \<longrightarrow> c5 = c4"
    by blast
  obtain al where "render_config env obj ns pset rl cl = Some (c5, al)"
    by (simp add: render_config_def c0(1) Let_def c1_def[symmetric] c2_def[symmetric] c3_def[symmetric]
        c4_def[symmetric] c5(1))
  moreover have "gw_cloud (gw_spec obj) = None \<longrightarrow> es = []" using c5(2,3) by auto
  ultimately show ?thesis
    unfolding p0[symmetric] c4(2)[symmetric] using c5(2)
    by (intro exI[of _ c5] exI[of _ al] exI[of _ es] conjI)
qed

section \<open>The identity of a managed gateway\<close>

lemma ensure_object_frame: "ensure_object key f c = Some c' \<Longrightarrow> k \<noteq> key \<Longrightarrow> json_get k c' = json_get k c"
  by (auto simp: ensure_object_def split: if_splits option.splits)

lemma cloud_defaults_frame:
  assumes "apply_cloud_default_plugins dflt obj csv url c = Some c'" and "k \<notin> {''gateway'', ''observability'', ''plugins''}"
  shows "json_get k c' = json_get k c"
proof (cases "gw_cloud (gw_spec obj) = None")
  case False
  then obtain c0 where c0: "set_plugin_cache_dir c PLUGIN_CACHE_DIR = Some c0"
    using assms(1) by (auto simp: apply_cloud_default_plugins_def)
  from assms(2) have "json_get k c0 = json_get k c"
    using c0 ensure_object_frame [of "''gateway''"] by (auto simp: set_plugin_cache_dir_def)
  moreover have "json_get k (append_cloud_default_plugins dflt a ids) = json_get k a" for a ids
    using assms(2) by (simp add: append_cloud_default_plugins_def Let_def)
  moreover have "json_get k (append_default_traces_block a u n ns) = json_get k a" for a u n ns
    using assms(2) traces_pass by simp
  moreover have "json_get k (append_observability_sink_plugins dflt a) = json_get k a" for a
    using assms(2) sink_pass by simp
  moreover have "json_get k (append_cluster_coordinator_plugin dflt a) = json_get k a" for a
    using assms(2) coordinator_pass by simp
  ultimately show ?thesis
    using assms(1) c0 False by (auto simp: apply_cloud_default_plugins_def Let_def split: option.splits)
qed (use assms in \<open>simp add: apply_cloud_default_plugins_def\<close>)

lemma identity_frame:
  "json_get ''governance'' (inject_canonical_url al c u t) = json_get ''governance'' c"
  "json_get ''governance'' (inject_events_policy al c p t) = json_get ''governance'' c"
  by (simp_all add: inject_canonical_url_def inject_events_policy_def Let_def)

lemma injected_resource:
  "json_path [''governance'', ''access'', ''resource_metadata'', ''resource''] (inject_resource_metadata al c url domains tag) = Some (JStr url)"
  "json_path [''governance'', ''access'', ''resource_metadata'', ''additional_resources''] (inject_resource_metadata al c url domains tag)
     = (if gateway_at_least al tag ADDITIONAL_RESOURCES_MIN_GATEWAY \<and> domains \<noteq> []
        then Some (JArr (map (\<lambda>d. JStr (''https://'' @ d @ resource_path url)) domains)) else None)"
proof -
  have below: "json_path [''governance'', ''access'', ''resource_metadata'', k] (ensure_path RESOURCE_METADATA_PATH f j)
      = json_get k (f (leaf_at RESOURCE_METADATA_PATH j))" for k f j
    using json_path_below_ensure [of RESOURCE_METADATA_PATH "[k]" f j]
    by (simp add: RESOURCE_METADATA_PATH_def Option.bind_runit del: ensure_path.simps)
  show "json_path [''governance'', ''access'', ''resource_metadata'', ''resource''] (inject_resource_metadata al c url domains tag)
      = Some (JStr url)"
    unfolding inject_resource_metadata_def below by (simp add: Let_def)
  show "json_path [''governance'', ''access'', ''resource_metadata'', ''additional_resources''] (inject_resource_metadata al c url domains tag)
     = (if gateway_at_least al tag ADDITIONAL_RESOURCES_MIN_GATEWAY \<and> domains \<noteq> []
        then Some (JArr (map (\<lambda>d. JStr (''https://'' @ d @ resource_path url)) domains)) else None)"
    unfolding inject_resource_metadata_def below by (auto simp: Let_def)
qed

lemma resource_path_split:
  assumes "scheme \<in> {''https://'', ''http://''}" and "CHR ''/'' \<notin> set host" and "path = [] \<or> hd path = CHR ''/''"
  shows "resource_path (scheme @ host @ path) = (if path = [] then ''/mcp'' else path)"
proof -
  have "strip_http_scheme (scheme @ host @ path) = Some (host @ path)"
    using assms(1) by (auto simp: strip_http_scheme_def strip_prefix_def starts_with_def)
  moreover have "dropWhile (\<lambda>c. c \<noteq> CHR ''/'') (host @ path) = path"
    using assms(2,3) by (cases path) (auto simp: dropWhile_append)
  moreover have "CHR ''/'' \<in> set (host @ path) \<longleftrightarrow> path \<noteq> []" using assms(2,3) by (cases path) auto
  ultimately show ?thesis by (simp add: resource_path_def)
qed


section \<open>No panic\<close>

lemma bindT_Inl: "snd (bindT m f) = Inl e \<longleftrightarrow> snd m = Inl e \<or> (\<exists>a. snd m = Inr a \<and> snd (f a) = Inl e)"
  by (auto simp: run_simps split: sum.splits)

lemmas error_simps = bindT_Inl lift_run_sel ret_sel throw_sel after_sel

lemma apply_child_no_panic: "snd (apply_child env ob) \<noteq> Inl GPanicked"
  by (auto simp: apply_child_def run_simps map_err_def split: sum.splits)

lemma apply_children_no_panic: "snd (apply_children env obs) \<noteq> Inl GPanicked"
  by (induction obs) (simp_all add: error_simps apply_child_no_panic)

lemma gateway_apply_no_panic: "snd (gateway_apply env obj ns cm dep cl) \<noteq> Inl GPanicked"
proof -
  have "snd (apply_coordination env obj ns cl) \<noteq> Inl GPanicked"
    by (simp add: apply_coordination_def error_simps apply_child_no_panic map_err_def split: option.split sum.split)
  moreover have "snd (reconcile_edge_domains env obj) \<noteq> Inl GPanicked"
    by (simp add: reconcile_edge_domains_def Let_def error_simps apply_children_no_panic split: option.split)
  moreover have "snd (pdb_step env obj ns) \<noteq> Inl GPanicked"
    by (simp add: pdb_step_def error_simps apply_child_no_panic split: option.split)
  ultimately show ?thesis by (simp add: gateway_apply_def error_simps apply_children_no_panic apply_child_no_panic)
qed

text \<open>What the code relies on of the hash: 64 hexadecimal digits.\<close>

definition hex_digest :: "(string \<Rightarrow> string) \<Rightarrow> bool" where
  "hex_digest sha \<longleftrightarrow> (\<forall>s. length (sha s) = 64 \<and> list_all is_ascii_hexdigit (sha s))"

lemma hexdigit_not_cont: "is_ascii_hexdigit c \<Longrightarrow> \<not> is_cont c"
  by (auto simp: is_ascii_hexdigit_def is_ascii_digit_def is_cont_def)

lemma build_configmap_total:
  assumes "hex_digest sha"
  shows "\<exists>cm h. build_configmap ty sha obj c = Some (cm, h)"
proof -
  have "slice_to CONFIG_HASH_LABEL_LEN (sha s) \<noteq> None" for s
    using assms hexdigit_not_cont
    by (simp add: hex_digest_def slice_to_def CONFIG_HASH_LABEL_LEN_def list_all_length)
  then show ?thesis by (auto simp: build_configmap_def Let_def)
qed

text \<open>C30. A reconcile never panics, whatever the user's document, the objects it reads and the answers of
  the server are.\<close>

theorem gateway_never_panics:
  assumes "hex_digest (ge_sha256_hex env)"
  shows "snd (gateway_reconcile env obj) \<noteq> Inl GPanicked"
proof -
  have ra: "snd (gateway_render_apply env obj ns name pset rl cl) \<noteq> Inl GPanicked" for ns name pset rl cl
  proof -
    obtain c al where "render_config env obj ns pset rl cl = Some (c, al)"
      using render_config_plugins by blast
    moreover obtain cm h where "build_configmap (ge_to_yaml env) (ge_sha256_hex env) obj c = Some (cm, h)"
      using build_configmap_total[OF assms] by blast
    ultimately show ?thesis
      by (simp add: gateway_render_apply_def gateway_finish_def error_simps gateway_apply_no_panic)
  qed
  have rs: "resolve_plugin_set env obj \<noteq> Inl GPanicked"
    by (auto simp: resolve_plugin_set_def Let_def split: option.splits sum.splits)
  have rl: "snd (resolve_revocation_list env obj) \<noteq> Inl GPanicked"
    by (auto simp: resolve_revocation_list_def Let_def run_simps split: option.splits sum.splits prod.splits)
  have rc: "resolve_cluster env obj \<noteq> Inl GPanicked"
    by (auto simp: resolve_cluster_def Let_def split: option.splits sum.splits bool.splits)
  have body: "snd (gateway_body env obj ns name) \<noteq> Inl GPanicked" for ns name
    using rs rl rc ra
    by (auto simp: gateway_body_def gateway_hold_def error_simps split: sum.splits option.splits if_splits)
  have "snd (gateway_reconcile_inner env obj) \<noteq> Inl GPanicked"
    using body
    by (auto simp: gateway_reconcile_inner_def guarded_def error_simps map_err_def split: option.splits sum.splits)
  then show ?thesis by (auto simp: gateway_reconcile_def observed_def split: sum.splits)
qed

section \<open>What is applied, and when\<close>

lemma name_of_children:
  "meta_name (ob_meta (ObService (build_service obj))) \<noteq> None"
  "meta_name (ob_meta (ObServiceAccount (build_service_account obj))) \<noteq> None"
  "build_configmap ty sha obj c = Some (cm, h) \<Longrightarrow> meta_name (ob_meta (ObConfigMap cm)) \<noteq> None"
  "meta_name (ob_meta (ObSecret (build_coordination_secret_copy obj ns proj))) \<noteq> None"
  "meta_name (ob_meta (ObDeployment (gateway_deployment env obj h pset rl cl))) \<noteq> None"
  by (auto simp: ob_meta_def build_service_def build_service_account_def build_configmap_def
      build_coordination_secret_copy_def gateway_deployment_def build_deployment_def child_meta_def default_meta_def Let_def)

lemma apply_child_eff:
  "x \<in> set (fst (apply_child env ob)) \<longleftrightarrow> meta_name (ob_meta ob) \<noteq> None \<and> x = Apply ob gateway_fm"
  by (simp add: apply_child_def run_simps apply_owned_eff)

lemma apply_child_ok:
  "snd (apply_child env ob) = Inr () \<longleftrightarrow> meta_name (ob_meta ob) \<noteq> None \<and> ge_apply env ob = Inr ()"
  by (auto simp: apply_child_def run_simps apply_owned_def split: option.splits sum.splits)

lemma apply_children_eff:
  "x \<in> set (fst (apply_children env obs)) \<Longrightarrow> \<exists>ob \<in> set obs. x = Apply ob gateway_fm"
  by (induction obs) (auto simp: bindT_effects apply_child_eff ret_sel)

lemma apply_children_ok:
  "snd (apply_children env obs) = Inr () \<longleftrightarrow> (\<forall>ob \<in> set obs. meta_name (ob_meta ob) \<noteq> None \<and> ge_apply env ob = Inr ())"
  by (induction obs) (auto simp: bindT_Inr apply_child_ok ret_sel)

lemma apply_children_all:
  "snd (apply_children env obs) = Inr () \<Longrightarrow> fst (apply_children env obs) = map (\<lambda>ob. Apply ob gateway_fm) obs"
proof (induction obs)
  case (Cons ob obs)
  then have "snd (apply_child env ob) = Inr ()" "snd (apply_children env obs) = Inr ()" by (auto simp: bindT_Inr)
  moreover from this have "fst (apply_child env ob) = [Apply ob gateway_fm]"
    by (auto simp: apply_child_def apply_owned_def run_simps split: option.splits sum.splits)
  ultimately show ?case using Cons.IH by (simp add: bindT_sel)
qed (simp add: ret_sel)

definition is_deployment :: "('st, k8s_object) effect \<Rightarrow> bool" where
  "is_deployment x = (case x of Apply (ObDeployment _) _ \<Rightarrow> True | _ \<Rightarrow> False)"

text \<open>No step but the application of the children issues a Deployment.\<close>

lemma coordination_eff:
  "x \<in> set (fst (apply_coordination env obj ns cl)) \<Longrightarrow>
     (\<exists>b. x = Apply (ObRoleBinding b) gateway_fm)
     \<or> (\<exists>proj. Option.bind cl rc_coordination = Some proj
          \<and> x = Apply (ObSecret (build_coordination_secret_copy obj ns proj)) gateway_fm)"
  by (auto simp: apply_coordination_def bindT_effects lift_run_sel apply_child_eff ensure_tenant_secret_binding_def
      after_sel ret_sel split: option.splits if_splits)

lemma edge_eff:
  assumes "x \<in> set (fst (reconcile_edge_domains env obj))"
  shows "(\<exists>j fm. x = Apply (ObEdgeGateway j) fm) \<or> (\<exists>c. x = Apply (ObCertificate c) gateway_fm)
    \<or> (\<exists>n. x = DeleteKind ''Certificate'' CLOUD_GATEWAY_NAMESPACE n)"
proof (cases "gw_cloud (gw_spec obj)")
  case None
  then show ?thesis using assms by (simp add: reconcile_edge_domains_def ret_sel)
next
  case (Some cloud)
  define certs where "certs = (case oc_edge_cluster_issuer (ge_config env) of
      Some i \<Rightarrow> map (\<lambda>h. ObCertificate (build_certificate (ge_sha256_hex env) obj h i)) (custom_domains cloud) | None \<Rightarrow> [])"
  consider "\<exists>j fm. x = Apply (ObEdgeGateway j) fm" | "x \<in> set (fst (apply_children env certs))"
    | w where "x \<in> set (certificate_deletes env (gateway_uid obj) w)"
    using assms
    by (simp add: reconcile_edge_domains_def Let_def Some after_sel bindT_effects ret_sel throw_sel
        certs_def[symmetric] split: if_splits) blast+
  then show ?thesis
  proof cases
    case 2
    from apply_children_eff[OF this] show ?thesis by (auto simp: certs_def split: option.splits)
  next
    case 3
    then show ?thesis by (auto simp: certificate_deletes_def split: sum.splits)
  qed simp
qed

lemma revocation_eff:
  "x \<in> set (fst (resolve_revocation_list env obj)) \<Longrightarrow>
     \<exists>text hash. x = Apply (ObConfigMap (build_revocation_configmap obj (revocation_cm_name obj) text hash)) gateway_fm"
  by (auto simp: resolve_revocation_list_def Let_def run_simps apply_owned_eff split: option.splits sum.splits prod.splits)

text \<open>How far a reconcile has come when it applies a Deployment or patches the status.\<close>

definition late :: "(gateway_status, k8s_object) effect \<Rightarrow> bool" where
  "late x \<longleftrightarrow> is_deployment x \<or> (\<exists>n st fm. x = PatchStatus n st fm)"

definition held :: "gateway_env \<Rightarrow> gateway \<Rightarrow> bool" where
  "held env obj \<longleftrightarrow> (\<exists>c. resolve_cluster env obj = Inr (Some c) \<and> c_status (rc_condition c) \<noteq> ''True'')"

lemma body_reaches:
  assumes "x \<in> set (fst (gateway_body env obj ns name))" and "late x"
  shows "\<exists>pset rl cl A. resolve_plugin_set env obj = Inr pset \<and> snd (resolve_revocation_list env obj) = Inr rl
    \<and> resolve_cluster env obj = Inr cl
    \<and> ((held env obj \<and> (\<exists>c. cl = Some c \<and> x \<in> set (fst (gateway_hold env obj ns name c))))
       \<or> (\<not> held env obj \<and> fst (gateway_body env obj ns name) = A @ fst (gateway_render_apply env obj ns name pset rl cl)
          \<and> x \<in> set (fst (gateway_render_apply env obj ns name pset rl cl))))"
proof -
  have no_rl: "x \<notin> set (fst (resolve_revocation_list env obj))"
    using revocation_eff assms(2) by (fastforce simp: late_def is_deployment_def)
  obtain pset where pset: "resolve_plugin_set env obj = Inr pset"
    using assms(1) by (cases "resolve_plugin_set env obj") (auto simp: gateway_body_def throw_sel)
  define obs where "obs rl = ((case pset of
                    Some p \<Rightarrow> if rps_view p = None
                      then [ObserveDependency ''gateway'' ''MCPGPluginSet'' (c_reason (rps_condition p))] else []
                  | None \<Rightarrow> [])
                 @ (case rl of
                    Some r \<Rightarrow> if c_status (rrl_condition r) \<noteq> ''True''
                      then [ObserveDependency ''gateway'' ''MCPGRevocationList'' (c_reason (rrl_condition r))] else []
                  | None \<Rightarrow> []) :: (gateway_status, k8s_object) effect list)"
    for rl :: "resolved_revocation option"
  have no_obs: "x \<notin> set (obs rl)" for rl
    using assms(2) by (auto simp: obs_def late_def is_deployment_def split: option.splits)
  define rest where "rest rl = (case resolve_cluster env obj of
               Inl e \<Rightarrow> throw e
             | Inr cl \<Rightarrow>
                 (case cl of
                    Some c \<Rightarrow>
                      if c_status (rc_condition c) \<noteq> ''True'' then gateway_hold env obj ns name c
                      else gateway_render_apply env obj ns name pset rl cl
                  | None \<Rightarrow> gateway_render_apply env obj ns name pset rl cl))" for rl
  have body: "gateway_body env obj ns name = bindT (resolve_revocation_list env obj) (\<lambda>rl. after (obs rl) (rest rl))"
    by (simp add: gateway_body_def pset obs_def rest_def)
  from assms(1) no_rl no_obs obtain rl where
    rl: "snd (resolve_revocation_list env obj) = Inr rl" "x \<in> set (fst (rest rl))"
    by (auto simp: body bindT_effects after_sel)
  then obtain cl where cl: "resolve_cluster env obj = Inr cl" by (auto simp: rest_def throw_sel split: sum.splits)
  show ?thesis
  proof (cases "held env obj")
    case True
    then obtain c where "cl = Some c" "rest rl = gateway_hold env obj ns name c" using cl by (auto simp: held_def rest_def)
    then show ?thesis using True pset rl cl by auto
  next
    case False
    then have t: "rest rl = gateway_render_apply env obj ns name pset rl cl"
      using cl by (auto simp: held_def rest_def split: option.split)
    have "fst (gateway_body env obj ns name)
        = (fst (resolve_revocation_list env obj) @ obs rl) @ fst (gateway_render_apply env obj ns name pset rl cl)"
      by (simp add: body bindT_sel rl(1) after_sel t)
    then show ?thesis using False pset rl cl t by auto
  qed
qed

lemma reconcile_reaches:
  assumes "x \<in> set (fst (gateway_reconcile env obj))" and "late x"
  shows "\<exists>ns name pset rl cl A C. meta_namespace (gw_meta obj) = Some ns
    \<and> resolve_plugin_set env obj = Inr pset \<and> snd (resolve_revocation_list env obj) = Inr rl
    \<and> resolve_cluster env obj = Inr cl
    \<and> ((held env obj \<and> (\<exists>c. cl = Some c \<and> x \<in> set (fst (gateway_hold env obj ns name c))))
       \<or> (\<not> held env obj \<and> fst (gateway_reconcile env obj) = A @ fst (gateway_render_apply env obj ns name pset rl cl) @ C
          \<and> x \<in> set (fst (gateway_render_apply env obj ns name pset rl cl))))"
proof -
  have inner: "x \<in> set (fst (gateway_reconcile_inner env obj))"
    using assms by (auto simp: gateway_reconcile_def observed_def late_def is_deployment_def)
  have "x \<notin> set (cleanup_edge_domains env obj)" "\<And>n fs. x \<noteq> MergeFinalizers n fs" "\<And>n ops. x \<noteq> PatchFinalizers n ops"
    using assms(2)
    by (auto simp: cleanup_edge_domains_def certificate_deletes_def late_def is_deployment_def split: sum.splits)
  note neq = this
  have del: "meta_deletion_timestamp (gw_meta obj) = None"
    using gateway_ctl.cleaning[OF _ inner] neq by blast
  obtain ns name where n: "meta_namespace (gw_meta obj) = Some ns" "meta_name (gw_meta obj) = Some name"
    using inner by (auto simp: gateway_reconcile_inner_def throw_sel split: option.splits)
  define fin where "fin = (lift_run GFinalizer (ensure_finalizer (ge_finalizer env) name (gw_meta obj) OPERATOR_FINALIZER)
      :: bool gateway_run)"
  have eq: "gateway_reconcile_inner env obj = bindT fin (\<lambda>_. gateway_body env obj ns name)"
    by (simp add: gateway_reconcile_inner_def n guarded_def del fin_def)
  have "x \<notin> set (fst fin)"
    using neq(3) ensure_finalizer_eff[of x] unfolding fin_def lift_run_sel by blast
  with inner obtain b where fin: "snd fin = Inr b" and body: "x \<in> set (fst (gateway_body env obj ns name))"
    by (auto simp: eq bindT_effects)
  obtain C where C: "fst (gateway_reconcile env obj) = fst fin @ fst (gateway_body env obj ns name) @ C"
    by (simp add: gateway_reconcile_def observed_def eq bindT_sel fin)
  from body_reaches[OF body assms(2)] obtain pset rl cl A where
    r: "resolve_plugin_set env obj = Inr pset" "snd (resolve_revocation_list env obj) = Inr rl" "resolve_cluster env obj = Inr cl"
    and alt: "(held env obj \<and> (\<exists>c. cl = Some c \<and> x \<in> set (fst (gateway_hold env obj ns name c))))
       \<or> (\<not> held env obj \<and> fst (gateway_body env obj ns name) = A @ fst (gateway_render_apply env obj ns name pset rl cl)
          \<and> x \<in> set (fst (gateway_render_apply env obj ns name pset rl cl)))"
    by blast
  from alt C have "(held env obj \<and> (\<exists>c. cl = Some c \<and> x \<in> set (fst (gateway_hold env obj ns name c))))
       \<or> (\<not> held env obj \<and> fst (gateway_reconcile env obj) = (fst fin @ A) @ fst (gateway_render_apply env obj ns name pset rl cl) @ C
          \<and> x \<in> set (fst (gateway_render_apply env obj ns name pset rl cl)))"
    by auto
  with r n show ?thesis by blast
qed

lemma gateway_apply_deployment:
  assumes "x \<in> set (fst (gateway_apply env obj ns cm dep cl))" and "is_deployment x"
  shows "x = Apply (ObDeployment dep) gateway_fm
    \<and> (\<exists>post. fst (gateway_apply env obj ns cm dep cl)
        = map (\<lambda>ob. Apply ob gateway_fm) [ObConfigMap cm, ObService (build_service obj), ObServiceAccount (build_service_account obj)]
          @ fst (apply_coordination env obj ns cl) @ x # post)
    \<and> (\<forall>ob \<in> {ObConfigMap cm, ObService (build_service obj), ObServiceAccount (build_service_account obj)}. ge_apply env ob = Inr ())
    \<and> snd (apply_coordination env obj ns cl) = Inr ()"
proof -
  let ?a = "[ObConfigMap cm, ObService (build_service obj), ObServiceAccount (build_service_account obj)]"
  let ?d = "ObDeployment dep # optional_children ObHttpRoute (build_httproute obj)"
  define rest where "rest = (bindT (reconcile_edge_domains env obj) (\<lambda>_.
     bindT (apply_children env (optional_children ObHpa (build_hpa (ge_metric_typed env) obj))) (\<lambda>_. pdb_step env obj ns)))"
  have eq: "gateway_apply env obj ns cm dep cl = bindT (apply_children env ?a) (\<lambda>_. bindT (apply_coordination env obj ns cl)
      (\<lambda>_. bindT (apply_children env ?d) (\<lambda>_. rest)))"
    by (simp add: gateway_apply_def rest_def)
  have no: "x \<notin> set (fst (apply_children env ?a))" "x \<notin> set (fst (apply_coordination env obj ns cl))"
    using assms(2) by (auto simp: is_deployment_def simp del: apply_children.simps dest!: apply_children_eff coordination_eff)
  have no_rest: "x \<notin> set (fst rest)"
  proof
    assume "x \<in> set (fst rest)"
    then consider "x \<in> set (fst (reconcile_edge_domains env obj))"
      | "x \<in> set (fst (apply_children env (optional_children ObHpa (build_hpa (ge_metric_typed env) obj))))"
      | "x \<in> set (fst (pdb_step env obj ns))"
      by (auto simp: rest_def bindT_effects)
    then show False
      using assms(2)
      by cases (auto simp: is_deployment_def pdb_step_def optional_children_def apply_child_eff after_sel ret_sel
          simp del: apply_children.simps dest!: edge_eff apply_children_eff split: option.splits)
  qed
  from assms(1) no have a: "snd (apply_children env ?a) = Inr ()" and c: "snd (apply_coordination env obj ns cl) = Inr ()"
    and x: "x \<in> set (fst (bindT (apply_children env ?d) (\<lambda>_. rest)))"
    unfolding eq bindT_effects by auto
  from x no_rest have "x \<in> set (fst (apply_children env ?d))" by (auto simp: bindT_effects)
  from apply_children_eff[OF this] assms(2) have xd: "x = Apply (ObDeployment dep) gateway_fm"
    by (auto simp: is_deployment_def optional_children_def split: option.splits)
  have "\<exists>post. fst (bindT (apply_children env ?d) (\<lambda>_. rest)) = x # post"
    using x no_rest
    by (auto simp: bindT_sel apply_child_def lift_run_sel apply_owned_def run_simps map_err_def xd
        split: option.splits sum.splits)
  then obtain post where "fst (bindT (apply_children env ?d) (\<lambda>_. rest)) = x # post" ..
  then have "fst (gateway_apply env obj ns cm dep cl)
      = map (\<lambda>ob. Apply ob gateway_fm) ?a @ fst (apply_coordination env obj ns cl) @ x # post"
    unfolding eq bindT_sel[of "apply_children env ?a"] bindT_sel[of "apply_coordination env obj ns cl"] a c
    using apply_children_all[OF a] by simp
  moreover have "\<forall>ob \<in> set ?a. ge_apply env ob = Inr ()"
    using a unfolding apply_children_ok by blast
  ultimately show ?thesis using xd c by (intro conjI exI[of _ post]) simp_all
qed

lemma render_apply_cases:
  "gateway_render_apply env obj ns name pset rl cl = throw GPanicked
   \<or> (\<exists>c al cm h. render_config env obj ns pset rl cl = Some (c, al)
        \<and> build_configmap (ge_to_yaml env) (ge_sha256_hex env) obj c = Some (cm, h)
        \<and> gateway_render_apply env obj ns name pset rl cl
          = bindT (gateway_apply env obj ns cm (gateway_deployment env obj h pset rl cl) cl)
              (\<lambda>_. gateway_finish env obj ns name h pset rl cl al))"
proof -
  obtain c al where c: "render_config env obj ns pset rl cl = Some (c, al)" using render_config_plugins by blast
  show ?thesis
  proof (cases "build_configmap (ge_to_yaml env) (ge_sha256_hex env) obj c")
    case (Some p)
    then show ?thesis using c by (cases p) (simp add: gateway_render_apply_def)
  qed (simp add: gateway_render_apply_def c)
qed

lemma coordination_ok:
  assumes "snd (apply_coordination env obj ns cl) = Inr ()" and "Option.bind cl rc_coordination = Some proj"
  shows "Apply (ObSecret (build_coordination_secret_copy obj ns proj)) gateway_fm
      \<in> set (fst (apply_coordination env obj ns cl))
    \<and> ge_apply env (ObSecret (build_coordination_secret_copy obj ns proj)) = Inr ()"
  using assms name_of_children(4)[of obj ns proj]
  by (auto simp: apply_coordination_def bindT_Inr bindT_effects apply_child_ok apply_child_eff)

lemma gateway_deployment_pod:
  "pod_service_account (dep_pod (gateway_deployment env obj h pset rl cl)) = Some (name_any (sa_meta (build_service_account obj)))"
  "ct_env_from (hd (pod_containers (dep_pod (gateway_deployment env obj h pset rl cl))))
     = build_env_from obj (case Option.bind cl rc_coordination of Some p \<Rightarrow> [coord_secret_name p] | None \<Rightarrow> [])"
  "pod_volumes (dep_pod (gateway_deployment env obj h pset rl cl))
     = Some (build_volumes obj (case pset of Some p \<Rightarrow> rps_mounts p | None \<Rightarrow> []) (map_option rrl_mount rl))"
  "ct_volume_mounts (hd (pod_containers (dep_pod (gateway_deployment env obj h pset rl cl))))
     = Some (build_volume_mounts (case pset of Some p \<Rightarrow> rps_mounts p | None \<Rightarrow> []) (map_option rrl_mount rl)
         (gw_secret_mounts (gw_spec obj)))"
  by (simp_all add: gateway_deployment_def build_deployment_def build_pod_spec_def build_main_container_def
      apply_pod_dns_config_def build_service_account_def child_meta_def default_meta_def Let_def split: option.split)

lemma gateway_deployment_annotation:
  "the (meta_annotations (dep_pod_meta (gateway_deployment env obj h pset rl cl))) CONFIG_HASH_ANNOTATION = Some h"
  by (simp add: gateway_deployment_def build_deployment_def build_pod_metadata_def default_meta_def Let_def
      CONFIG_HASH_ANNOTATION_def PLUGIN_SET_HASH_ANNOTATION_def REVOCATION_LIST_HASH_ANNOTATION_def split: option.split)

lemma build_configmap_facts:
  assumes "build_configmap ty sha obj c = Some (cm, h)"
  shows "name_any (cm_meta cm) = child_name obj ''config'' \<and> (\<exists>yaml. cm_data cm = Some [''config.yaml'' \<mapsto> yaml] \<and> h = sha yaml)"
  using assms by (auto simp: build_configmap_def Let_def child_meta_def default_meta_def)

text \<open>What is known of every Deployment a reconcile applies.\<close>

lemma applied_deployment:
  assumes "Apply (ObDeployment d) fm \<in> set (fst (gateway_reconcile env obj))"
  shows "\<exists>ns pset rl cl c al cm h A C. meta_namespace (gw_meta obj) = Some ns
    \<and> resolve_plugin_set env obj = Inr pset \<and> snd (resolve_revocation_list env obj) = Inr rl
    \<and> resolve_cluster env obj = Inr cl \<and> \<not> held env obj
    \<and> render_config env obj ns pset rl cl = Some (c, al)
    \<and> build_configmap (ge_to_yaml env) (ge_sha256_hex env) obj c = Some (cm, h)
    \<and> d = gateway_deployment env obj h pset rl cl \<and> fm = gateway_fm
    \<and> fst (gateway_reconcile env obj) = A @ fst (gateway_apply env obj ns cm d cl) @ C
    \<and> Apply (ObDeployment d) fm \<in> set (fst (gateway_apply env obj ns cm d cl))"
proof -
  let ?x = "Apply (ObDeployment d) fm :: (gateway_status, k8s_object) effect"
  have isd: "is_deployment ?x" by (simp add: is_deployment_def)
  have "?x \<notin> set (fst (gateway_hold env obj ns name c))" for ns name c
    by (auto simp: gateway_hold_def after_sel ret_sel patch_status_logged_eff)
  with reconcile_reaches[OF assms] isd obtain ns name pset rl cl A C where
    r: "meta_namespace (gw_meta obj) = Some ns" "resolve_plugin_set env obj = Inr pset"
      "snd (resolve_revocation_list env obj) = Inr rl" "resolve_cluster env obj = Inr cl" "\<not> held env obj"
    and all: "fst (gateway_reconcile env obj) = A @ fst (gateway_render_apply env obj ns name pset rl cl) @ C"
    and x: "?x \<in> set (fst (gateway_render_apply env obj ns name pset rl cl))"
    unfolding late_def by blast
  from x obtain c al cm h where c: "render_config env obj ns pset rl cl = Some (c, al)"
    and cm: "build_configmap (ge_to_yaml env) (ge_sha256_hex env) obj c = Some (cm, h)"
    and ra: "gateway_render_apply env obj ns name pset rl cl
      = bindT (gateway_apply env obj ns cm (gateway_deployment env obj h pset rl cl) cl)
          (\<lambda>_. gateway_finish env obj ns name h pset rl cl al)"
    using render_apply_cases[of env obj ns name pset rl cl] by (auto simp: throw_sel)
  have "?x \<notin> set (fst (gateway_finish env obj ns name h pset rl cl al))"
    by (auto simp: gateway_finish_def after_sel ret_sel patch_status_logged_eff split: option.splits if_splits)
  with x have xa: "?x \<in> set (fst (gateway_apply env obj ns cm (gateway_deployment env obj h pset rl cl) cl))"
    by (auto simp: ra bindT_effects)
  from gateway_apply_deployment[OF xa isd] have d: "d = gateway_deployment env obj h pset rl cl" "fm = gateway_fm" by auto
  have "\<exists>C'. fst (gateway_reconcile env obj) = A @ fst (gateway_apply env obj ns cm d cl) @ C'"
    by (simp add: all ra bindT_sel d(1))
  with r c cm d xa show ?thesis by blast
qed

text \<open>C8. Pods are never rolled onto something that is not there. When a reconcile applies the Deployment,
  it has applied, and the server has accepted, the ConfigMap the pods mount, whose hash is the one
  the pod template carries, the Service, the ServiceAccount of the pods, and in the namespace of
  the gateway every Secret the pods read beyond the ones the user listed.\<close>

theorem deployment_after_dependencies:
  assumes "Apply (ObDeployment d) fm \<in> set (fst (gateway_reconcile env obj))"
  shows "\<exists>pre post cm yaml. fst (gateway_reconcile env obj) = pre @ Apply (ObDeployment d) fm # post
    \<and> (\<forall>ob \<in> {ObConfigMap cm, ObService (build_service obj), ObServiceAccount (build_service_account obj)}.
         Apply ob gateway_fm \<in> set pre \<and> ge_apply env ob = Inr ())
    \<and> VolConfigMap (name_any (cm_meta cm)) None \<in> vol_source ` set (the (pod_volumes (dep_pod d)))
    \<and> cm_data cm = Some [''config.yaml'' \<mapsto> yaml]
    \<and> the (meta_annotations (dep_pod_meta d)) CONFIG_HASH_ANNOTATION = Some (ge_sha256_hex env yaml)
    \<and> pod_service_account (dep_pod d) = Some (name_any (sa_meta (build_service_account obj)))
    \<and> (\<forall>e \<in> set (case ct_env_from (hd (pod_containers (dep_pod d))) of Some es \<Rightarrow> es | None \<Rightarrow> []).
         efs_name e \<in> set (gw_env_from_secrets (gw_spec obj))
         \<or> (\<exists>s. Apply (ObSecret s) gateway_fm \<in> set pre \<and> ge_apply env (ObSecret s) = Inr ()
              \<and> name_any (sec_meta s) = efs_name e \<and> meta_namespace (sec_meta s) = meta_namespace (gw_meta obj)))"
proof -
  let ?x = "Apply (ObDeployment d) fm :: (gateway_status, k8s_object) effect"
  have isd: "is_deployment ?x" by (simp add: is_deployment_def)
  from applied_deployment[OF assms] obtain ns pset rl cl c al cm h A C where
    ns: "meta_namespace (gw_meta obj) = Some ns"
    and cm: "build_configmap (ge_to_yaml env) (ge_sha256_hex env) obj c = Some (cm, h)"
    and d: "d = gateway_deployment env obj h pset rl cl" "fm = gateway_fm"
    and all: "fst (gateway_reconcile env obj) = A @ fst (gateway_apply env obj ns cm d cl) @ C"
    and x: "?x \<in> set (fst (gateway_apply env obj ns cm d cl))"
    by blast
  from gateway_apply_deployment[OF x isd] obtain post where
    post: "fst (gateway_apply env obj ns cm d cl) = map (\<lambda>ob. Apply ob gateway_fm)
          [ObConfigMap cm, ObService (build_service obj), ObServiceAccount (build_service_account obj)]
          @ fst (apply_coordination env obj ns cl) @ ?x # post"
    and ok: "\<forall>ob \<in> {ObConfigMap cm, ObService (build_service obj), ObServiceAccount (build_service_account obj)}. ge_apply env ob = Inr ()"
    and coord: "snd (apply_coordination env obj ns cl) = Inr ()"
    by auto
  obtain yaml where yaml: "cm_data cm = Some [''config.yaml'' \<mapsto> yaml]" "h = ge_sha256_hex env yaml"
    using build_configmap_facts[OF cm] by blast
  let ?pre = "A @ map (\<lambda>ob. Apply ob gateway_fm)
          [ObConfigMap cm, ObService (build_service obj), ObServiceAccount (build_service_account obj)]
          @ fst (apply_coordination env obj ns cl)"
  have "\<exists>post'. fst (gateway_reconcile env obj) = ?pre @ ?x # post'"
    using post by (simp add: all)
  then obtain post' where split: "fst (gateway_reconcile env obj) = ?pre @ ?x # post'" ..
  have vol: "VolConfigMap (name_any (cm_meta cm)) None \<in> vol_source ` set (the (pod_volumes (dep_pod d)))"
    using build_configmap_facts[OF cm] by (simp add: d(1) gateway_deployment_pod build_volumes_def)
  have env: "efs_name e \<in> set (gw_env_from_secrets (gw_spec obj))
         \<or> (\<exists>s. Apply (ObSecret s) gateway_fm \<in> set ?pre \<and> ge_apply env (ObSecret s) = Inr ()
              \<and> name_any (sec_meta s) = efs_name e \<and> meta_namespace (sec_meta s) = meta_namespace (gw_meta obj))"
    if e: "e \<in> set (case ct_env_from (hd (pod_containers (dep_pod d))) of Some es \<Rightarrow> es | None \<Rightarrow> [])" for e
  proof (cases "efs_name e \<in> set (gw_env_from_secrets (gw_spec obj))")
    case False
    then obtain proj where proj: "Option.bind cl rc_coordination = Some proj" "efs_name e = coord_secret_name proj"
      using e by (auto simp: d(1) gateway_deployment_pod build_env_from_def split: option.splits if_splits)
    from coordination_ok[OF coord proj(1)] proj(2) ns show ?thesis
      by (intro disjI2 exI[of _ "build_coordination_secret_copy obj ns proj"])
        (simp add: build_coordination_secret_copy_def default_meta_def)
  qed simp
  show ?thesis
    using split ok vol yaml env
    by (intro exI[of _ ?pre] exI[of _ post'] exI[of _ cm] exI[of _ yaml])
      (auto simp: d(1) gateway_deployment_annotation gateway_deployment_pod)
qed

section \<open>The hold\<close>

text \<open>When a cluster can be bound: it is there, Ready, and fit for the number of replicas.\<close>

definition bindable :: "api_crate \<Rightarrow> gateway \<Rightarrow> cluster option \<Rightarrow> bool" where
  "bindable api obj cl \<longleftrightarrow> (\<exists>c. cl = Some c \<and> (\<exists>cs. cl_conditions c = Some cs \<and> cond_true ''Ready'' cs)
     \<and> \<not> (is_effectively_single_node api (cl_spec c) \<and> fst (effective_replica_ceiling api (gw_spec obj)) > 1))"

lemma classify_bindable:
  "c_status (rc_condition (classify_cluster_binding api ons obj cl)) = ''True'' \<longleftrightarrow> bindable api obj cl"
  by (auto simp: classify_cluster_binding_def bindable_def Let_def split: option.splits)

lemma resolve_cluster_held:
  assumes "gw_cluster_ref (gw_spec obj) = Some r" and "ge_cluster env r = Inr cl" and "\<not> bindable (ge_api env) obj cl"
  shows "\<exists>c. resolve_cluster env obj = Inr (Some c) \<and> c_status (rc_condition c) \<noteq> ''True'' \<and> c_type (rc_condition c) = ''ClusterReady''"
proof -
  let ?c = "classify_cluster_binding (ge_api env) (ge_operator_namespace env) obj cl"
  have "c_status (rc_condition ?c) \<noteq> ''True''" using assms(3) by (simp only: classify_bindable not_False_eq_True)
  moreover have "c_type (rc_condition ?c) = ''ClusterReady''"
    by (simp add: classify_cluster_binding_def Let_def split: option.split)
  ultimately show ?thesis using assms(1,2) by (simp add: resolve_cluster_def Let_def)
qed

lemma held_status_facts:
  assumes "condition_setter (ge_set_condition env)"
  shows "\<not> cond_true ''Ready'' (gst_conditions (held_status env obj c))"
    "gw_status obj = Some old \<Longrightarrow> gst_config_hash (held_status env obj c) = gst_config_hash old"
    "gw_status obj = Some old \<Longrightarrow> gst_available_replicas (held_status env obj c) = gst_available_replicas old"
  by (simp_all add: held_status_def Let_def cond_true_set[OF assms])

text \<open>The effects of a held reconcile.\<close>

lemma held_effects:
  assumes "resolve_cluster env obj = Inr (Some c)" and "c_status (rc_condition c) \<noteq> ''True''"
    and "meta_deletion_timestamp (gw_meta obj) = None" and "x \<in> set (fst (gateway_reconcile env obj))"
  shows "(\<exists>n ops. x = PatchFinalizers n ops) \<or> x \<in> set (fst (resolve_revocation_list env obj))
    \<or> (\<exists>k d w. x = ObserveDependency k d w) \<or> (\<exists>ns name. x \<in> set (fst (gateway_hold env obj ns name c)))
    \<or> (\<exists>n o'. x = ObserveReconcile n o')"
proof -
  have body: "y \<in> set (fst (gateway_body env obj ns name)) \<Longrightarrow> y \<in> set (fst (resolve_revocation_list env obj))
      \<or> (\<exists>k d w. y = ObserveDependency k d w) \<or> y \<in> set (fst (gateway_hold env obj ns name c))" for y ns name
    using assms(1,2)
    by (auto simp: gateway_body_def bindT_effects after_sel throw_sel split: sum.splits option.splits if_splits)
  from assms(4) consider "\<exists>n o'. x = ObserveReconcile n o'" | "x \<in> set (fst (gateway_reconcile_inner env obj))"
    by (auto simp: gateway_reconcile_def observed_def)
  then show ?thesis
  proof cases
    case 2
    then show ?thesis using assms(3) body ensure_finalizer_eff
      by (auto simp: gateway_reconcile_inner_def guarded_def bindT_effects lift_run_sel throw_sel split: option.splits) blast+
  qed simp
qed

lemma held_result:
  assumes "resolve_cluster env obj = Inr (Some c)" and "c_status (rc_condition c) \<noteq> ''True''"
    and "meta_deletion_timestamp (gw_meta obj) = None" and "snd (gateway_reconcile env obj) = Inr a"
  shows "a = Requeue 30"
proof -
  have "snd (gateway_body env obj ns name) = Inr r \<Longrightarrow> fst r = Requeue 30" for ns name r
    using assms(1,2)
    by (auto simp: gateway_body_def gateway_hold_def bindT_Inr after_sel ret_sel throw_sel split: sum.splits option.splits)
  moreover obtain o' where "snd (gateway_reconcile_inner env obj) = Inr (a, o')"
    using assms(4) by (auto simp: gateway_reconcile_def observed_def split: sum.splits)
  ultimately show ?thesis using assms(3)
    by (auto simp: gateway_reconcile_inner_def guarded_def bindT_Inr throw_sel split: option.splits)
qed

text \<open>C4. A gateway whose coordinator cannot be bound is held. The reconcile applies nothing but the copy
  of the revocation list and deletes nothing, so the pods, their configuration and the Service stay
  what they are; every status it writes says not Ready and keeps the recorded hash and replica
  counts; when it ends without an error it comes back in thirty seconds.\<close>

theorem cluster_hold:
  assumes "gw_cluster_ref (gw_spec obj) = Some r" and "ge_cluster env r = Inr cl" and "\<not> bindable (ge_api env) obj cl"
    and "meta_deletion_timestamp (gw_meta obj) = None" and "condition_setter (ge_set_condition env)"
  shows "(\<forall>ob fm. Apply ob fm \<in> set (fst (gateway_reconcile env obj)) \<longrightarrow>
       (\<exists>text hash. ob = ObConfigMap (build_revocation_configmap obj (revocation_cm_name obj) text hash)))
    \<and> (\<forall>k ns n. DeleteKind k ns n \<notin> set (fst (gateway_reconcile env obj)))
    \<and> (\<forall>n st fm. PatchStatus n st fm \<in> set (fst (gateway_reconcile env obj)) \<longrightarrow>
         \<not> cond_true ''Ready'' (gst_conditions st)
         \<and> (\<forall>old. gw_status obj = Some old \<longrightarrow> gst_config_hash st = gst_config_hash old
              \<and> gst_available_replicas st = gst_available_replicas old))
    \<and> (\<forall>a. snd (gateway_reconcile env obj) = Inr a \<longrightarrow> a = Requeue 30)"
proof -
  obtain c where c: "resolve_cluster env obj = Inr (Some c)" "c_status (rc_condition c) \<noteq> ''True''"
    using resolve_cluster_held[OF assms(1-3)] by blast
  note eff = held_effects[OF c assms(4)]
  have hold: "x \<in> set (fst (gateway_hold env obj ns name c)) \<Longrightarrow>
      (\<exists>k d w. x = ObserveDependency k d w) \<or> x = PatchStatus name (held_status env obj c) gateway_fm
      \<or> (\<exists>e. x = Publish e) \<or> (\<exists>k. x = BackoffReset k)" for x ns name
    by (auto simp: gateway_hold_def after_sel ret_sel patch_status_logged_eff)
  have 1: "Apply ob fm \<in> set (fst (gateway_reconcile env obj)) \<Longrightarrow>
      \<exists>text hash. ob = ObConfigMap (build_revocation_configmap obj (revocation_cm_name obj) text hash)" for ob fm
    using eff[of "Apply ob fm"] by (auto dest!: hold revocation_eff)
  have 2: "DeleteKind k ns n \<notin> set (fst (gateway_reconcile env obj))" for k ns n
    using eff[of "DeleteKind k ns n"] by (auto dest!: hold revocation_eff)
  have 3: "PatchStatus n st fm \<in> set (fst (gateway_reconcile env obj)) \<Longrightarrow> st = held_status env obj c" for n st fm
    using eff[of "PatchStatus n st fm"] by (auto dest!: hold revocation_eff)
  show ?thesis
    using 1 2 3 held_status_facts[OF assms(5)] held_result[OF c assms(4)] by blast
qed

section \<open>Plugins\<close>

lemma set_mounts_nth:
  "j < length (rsv_entries view) \<Longrightarrow> set_mounts view ! j = \<lparr>pmt_plugin_id = rse_id (rsv_entries view ! j),
     pmt_secret_name = rse_artefact_secret_name (rsv_entries view ! j)\<rparr>"
  by (simp add: set_mounts_def)

lemma resolve_plugin_set_view:
  "resolve_plugin_set env obj = Inr (Some p) \<Longrightarrow> rps_mounts p = (case rps_view p of Some v \<Rightarrow> set_mounts v | None \<Rightarrow> [])"
  by (auto simp: resolve_plugin_set_def unresolved_set_def Let_def split: option.splits sum.splits if_splits)

text \<open>The path of a rendered entry.\<close>

definition entry_path :: "json \<Rightarrow> string option" where
  "entry_path e = Option.bind (json_path [''source'', ''path''] e) json_as_str"

lemma entry_path_render: "entry_path (render_entry e g) = Some (PLUGIN_MOUNT_ROOT @ ''/'' @ rse_id e @ ''/plugin.so'')"
  by (simp add: entry_path_def render_entry_def with_grants_def json_get_def[of _ "JObj _"] json_as_str_def split: option.split)

text \<open>C14. The gateway loads the bytes the plugin set resolved. With a resolved set, the plugin list of the
  rendered document begins with one entry per entry of the set, and for each of these the pod mounts,
  read-only, the Secret of the j-th entry at the directory the j-th entry is loaded from; volume and mount
  carry the same name. The entries the platform appends after them, and the author's own where
  no set is resolved, name a registry as their source and have no such mount.\<close>

theorem rendered_plugins_mounted:
  assumes "resolve_plugin_set env obj = Inr (Some p)" and "rps_view p = Some view"
    and "render_config env obj ns (Some p) rl cl = Some (config, al)" and "j < length (rsv_entries view)"
  shows "let P = dep_pod (gateway_deployment env obj h (Some p) rl cl);
             m = the (ct_volume_mounts (hd (pod_containers P))) ! (j + 2); v = the (pod_volumes P) ! (j + 2)
         in entry_path (plugin_entries config ! j) = Some (vm_path m @ ''/plugin.so'')
           \<and> vm_name m = vol_name v \<and> vm_read_only m = Some True
           \<and> (\<exists>mode. vol_source v = VolSecret (rse_artefact_secret_name (rsv_entries view ! j)) mode)"
proof -
  have len: "length (set_mounts view) = length (rsv_entries view)" by (simp add: set_mounts_def)
  have mounts: "rps_mounts p = set_mounts view" using resolve_plugin_set_view[OF assms(1)] assms(2) by simp
  obtain es where "plugin_entries config
      = map (\<lambda>e. render_entry e (map_of (rsv_capability_grants view) (rse_id e))) (rsv_entries view) @ es"
    using render_config_plugins[of env obj ns "Some p" rl cl] assms(2,3) by auto
  then have "entry_path (plugin_entries config ! j)
      = Some (PLUGIN_MOUNT_ROOT @ ''/'' @ rse_id (rsv_entries view ! j) @ ''/plugin.so'')"
    using assms(4) by (simp add: nth_append entry_path_render)
  moreover have "build_volume_mounts (set_mounts view) x sm ! (j + 2)
      = \<lparr>vm_name = plugin_volume_name (rse_id (rsv_entries view ! j)),
         vm_path = PLUGIN_MOUNT_ROOT @ ''/'' @ rse_id (rsv_entries view ! j), vm_sub_path = None, vm_read_only = Some True\<rparr>" for x sm
    using assms(4) len by (simp add: build_volume_mounts_def nth_append set_mounts_nth)
  moreover have "build_volumes obj (set_mounts view) x ! (j + 2)
      = \<lparr>vol_name = plugin_volume_name (rse_id (rsv_entries view ! j)),
         vol_source = VolSecret (rse_artefact_secret_name (rsv_entries view ! j)) (Some 288)\<rparr>" for x
    using assms(4) len by (simp add: build_volumes_def nth_append set_mounts_nth)
  ultimately show ?thesis by (simp add: Let_def gateway_deployment_pod mounts)
qed

text \<open>A set that is not resolved does not hold the gateway: the document is rendered with the user's own
  plugins and none of the set's, no Secret of the set is mounted, and the Deployment that is
  applied carries the hash of that document, so the pods are rolled without their plugins.\<close>

theorem unresolved_set_drops_plugins:
  assumes "resolve_plugin_set env obj = Inr (Some p)" and "rps_view p = None" and "gw_cloud (gw_spec obj) = None"
    and "Apply (ObDeployment d) fm \<in> set (fst (gateway_reconcile env obj))"
  shows "\<exists>config yaml. plugin_entries config = plugin_entries (gw_config (gw_spec obj))
     \<and> yaml = (case ge_to_yaml env config of Some y \<Rightarrow> y
          | None \<Rightarrow> ''# (operator: failed to render config; using empty)'' @ [CHR 0x0A])
     \<and> the (meta_annotations (dep_pod_meta d)) CONFIG_HASH_ANNOTATION = Some (ge_sha256_hex env yaml)
     \<and> (\<forall>v \<in> set (the (pod_volumes (dep_pod d))). \<forall>n mode. vol_source v = VolSecret n mode \<longrightarrow>
          n \<in> sm_name ` set (gw_secret_mounts (gw_spec obj)))"
proof -
  from applied_deployment[OF assms(4)] assms(1) obtain ns rl cl c al cm h where
    c: "render_config env obj ns (Some p) rl cl = Some (c, al)"
    and cm: "build_configmap (ge_to_yaml env) (ge_sha256_hex env) obj c = Some (cm, h)"
    and d: "d = gateway_deployment env obj h (Some p) rl cl"
    by auto
  have "plugin_entries c = plugin_entries (gw_config (gw_spec obj))"
    using render_config_plugins[of env obj ns "Some p" rl cl] c assms(2,3) by auto
  moreover have "h = ge_sha256_hex env (case ge_to_yaml env c of Some y \<Rightarrow> y
          | None \<Rightarrow> ''# (operator: failed to render config; using empty)'' @ [CHR 0x0A])"
    using cm by (auto simp: build_configmap_def Let_def)
  moreover have "rps_mounts p = []" using resolve_plugin_set_view[OF assms(1)] assms(2) by simp
  ultimately show ?thesis
    by (intro exI[of _ c]) (auto simp: d gateway_deployment_annotation gateway_deployment_pod build_volumes_def split: option.splits)
qed

text \<open>A gateway that names a revocation list which does not exist is rendered with a volume for a
  ConfigMap without a name: the path of the list is in its document, and no server accepts the
  pods.\<close>

theorem missing_list_breaks_pods:
  assumes "gw_revocation_list_ref (gw_spec obj) = Some r" and "ge_revocation_list env r = Inr None"
    and "Apply (ObDeployment d) fm \<in> set (fst (gateway_reconcile env obj))"
  shows "\<exists>items. VolConfigMap [] items \<in> vol_source ` set (the (pod_volumes (dep_pod d)))"
proof -
  have "snd (resolve_revocation_list env obj) = Inr (Some \<lparr>rrl_mount = \<lparr>rlm_config_map_name = [], rlm_content_hash = []\<rparr>,
      rrl_condition = bare_cond ''RevocationListReady'' ''False'' ''RevocationListNotFound''\<rparr>)"
    using assms(1,2) by (simp add: resolve_revocation_list_def ret_sel)
  with applied_deployment[OF assms(3)] show ?thesis
    by (auto simp: gateway_deployment_pod build_volumes_def)
qed

section \<open>Status\<close>

lemma gateway_apply_writes:
  assumes "x \<in> set (fst (gateway_apply env obj ns cm dep cl))"
  shows "(\<exists>ob fm. x = Apply ob fm) \<or> (\<exists>k ns n. x = DeleteKind k ns n)"
proof -
  consider obs where "x \<in> set (fst (apply_children env obs))" | "x \<in> set (fst (apply_coordination env obj ns cl))"
    | "x \<in> set (fst (reconcile_edge_domains env obj))" | "x \<in> set (fst (pdb_step env obj ns))"
    using assms unfolding gateway_apply_def bindT_effects by blast
  then show ?thesis
  proof cases
    case 1
    from apply_children_eff[OF this] show ?thesis by auto
  next
    case 2
    from coordination_eff[OF this] show ?thesis by auto
  next
    case 3
    from edge_eff[OF this] show ?thesis by auto
  next
    case 4
    then show ?thesis by (auto simp: pdb_step_def apply_child_eff after_sel ret_sel split: option.splits)
  qed
qed

lemma resolved_types:
  "resolve_plugin_set env obj = Inr (Some p) \<Longrightarrow> c_type (rps_condition p) = ''PluginSetReady''"
  "snd (resolve_revocation_list env obj) = Inr (Some r) \<Longrightarrow> c_type (rrl_condition r) = ''RevocationListReady''"
  "resolve_cluster env obj = Inr (Some c) \<Longrightarrow> c_type (rc_condition c) = ''ClusterReady''"
proof -
  show "resolve_plugin_set env obj = Inr (Some p) \<Longrightarrow> c_type (rps_condition p) = ''PluginSetReady''"
    by (auto simp: resolve_plugin_set_def unresolved_set_def Let_def split: option.splits sum.splits if_splits)
  show "snd (resolve_revocation_list env obj) = Inr (Some r) \<Longrightarrow> c_type (rrl_condition r) = ''RevocationListReady''"
    by (auto simp: resolve_revocation_list_def Let_def run_simps split: option.splits sum.splits prod.splits if_splits)
  have "c_type (rc_condition (classify_cluster_binding api ons obj cl)) = ''ClusterReady''" for api ons cl
    by (simp add: classify_cluster_binding_def Let_def split: option.split)
  then show "resolve_cluster env obj = Inr (Some c) \<Longrightarrow> c_type (rc_condition c) = ''ClusterReady''"
    by (auto simp: resolve_cluster_def Let_def split: option.splits sum.splits bool.splits)
qed

lemma alignment_type: "authorization_server_alignment c = Some a \<Longrightarrow> c_type a = AUTHORIZATION_SERVER_ALIGNED"
  by (auto simp: authorization_server_alignment_def Let_def simp del: json_path.simps
      split: option.splits if_splits list.splits)

lemma render_config_alignment:
  "render_config env obj ns pset rl cl = Some (c, Some a) \<Longrightarrow> c_type a = AUTHORIZATION_SERVER_ALIGNED"
  by (auto simp: render_config_def Let_def bind_eq_Some_conv alignment_type split: option.splits if_splits)

lemma cond_true_opt:
  assumes "condition_setter (ge_set_condition env)" and "\<And>c. x = Some c \<Longrightarrow> c_type c \<noteq> t"
  shows "cond_true t (opt_condition env gen x cs) = cond_true t cs"
  using assms by (simp add: opt_condition_def cond_true_set split: option.split)

lemma cond_true_filter: "(\<And>c. c_type c = t \<Longrightarrow> P c) \<Longrightarrow> cond_true t (filter P cs) = cond_true t cs"
  by (auto simp: cond_true_iff)

lemma status_conditions:
  assumes sc: "condition_setter (ge_set_condition env)" and t: "t \<in> {''Ready'', ''Available''}"
    and p: "\<And>p. pset = Some p \<Longrightarrow> c_type (rps_condition p) = ''PluginSetReady''"
    and r: "\<And>r. rl = Some r \<Longrightarrow> c_type (rrl_condition r) = ''RevocationListReady''"
    and c: "\<And>c. cl = Some c \<Longrightarrow> c_type (rc_condition c) = ''ClusterReady''"
    and a: "\<And>a. al = Some a \<Longrightarrow> c_type a = AUTHORIZATION_SERVER_ALIGNED"
  shows "cond_true t (gst_conditions (gateway_status_of env obj h pset rl cl al)) =
    (all_replicas_available env obj \<or> (t = ''Available''
       \<and> cond_true t (case gw_status obj of Some s \<Rightarrow> gst_conditions s | None \<Rightarrow> [])))"
proof -
  define cs where "cs = (case gw_status obj of Some s \<Rightarrow> gst_conditions s | None \<Rightarrow> [])"
  let ?set = "ge_set_condition env" and ?g = "generation_of (gw_meta obj)"
  define cs1 where "cs1 = (if all_replicas_available env obj
                then ?set (cond ''Available'' ''True'' ''PodsReady'' ?g)
                       (?set (cond ''Ready'' ''True'' ''AllReplicasAvailable'' ?g) cs)
                else ?set (cond ''Progressing'' ''True'' ''Progressing'' ?g)
                       (?set (cond ''Ready'' ''False'' ''Progressing'' ?g) cs))"
  define cs2 where "cs2 = opt_condition env ?g (map_option rc_condition cl) (opt_condition env ?g (map_option rrl_condition rl)
      (opt_condition env ?g (map_option rps_condition pset) cs1))"
  have "gst_conditions (gateway_status_of env obj h pset rl cl al) = (case al of
           Some c \<Rightarrow> ?set (c\<lparr>c_generation := Some ?g\<rparr>) cs2
         | None \<Rightarrow> filter (\<lambda>c. c_type c \<noteq> AUTHORIZATION_SERVER_ALIGNED) cs2)"
    unfolding gateway_status_of_def gateway_conditions_def Let_def cs2_def cs1_def cs_def by (simp split: prod.split)
  moreover have "cond_true t (case al of Some c \<Rightarrow> ?set (c\<lparr>c_generation := Some ?g\<rparr>) cs2
         | None \<Rightarrow> filter (\<lambda>c. c_type c \<noteq> AUTHORIZATION_SERVER_ALIGNED) cs2) = cond_true t cs2"
    using t a by (auto simp: cond_true_set[OF sc] cond_true_filter AUTHORIZATION_SERVER_ALIGNED_def split: option.split)
  moreover have "cond_true t cs2 = cond_true t cs1"
  proof -
    have o: "(\<And>y. x = Some y \<Longrightarrow> c_type (f y) \<noteq> t) \<Longrightarrow> cond_true t (opt_condition env ?g (map_option f x) ds) = cond_true t ds"
      for f :: "'z \<Rightarrow> condition" and x ds
      by (rule cond_true_opt[OF sc]) auto
    show ?thesis unfolding cs2_def using t by (subst o, (auto dest: p r c)[1])+ simp
  qed
  moreover have "cond_true t cs1 = (all_replicas_available env obj \<or> (t = ''Available'' \<and> cond_true t cs))"
    unfolding cs1_def using t by (auto simp: cond_true_set[OF sc])
  ultimately show ?thesis by (simp add: cs_def)
qed

lemma status_meaning:
  assumes "condition_setter (ge_set_condition env)"
    and "PatchStatus n st fm \<in> set (fst (gateway_reconcile env obj))"
  shows "(cond_true ''Ready'' (gst_conditions st) \<longleftrightarrow> \<not> held env obj
       \<and> (\<exists>s a. ge_deployment_status env = Some s \<and> ds_available s = Some a \<and> 0 < a \<and> a = effective_replicas obj))
    \<and> (\<forall>old. gw_status obj = Some old \<and> cond_true ''Available'' (gst_conditions old) \<longrightarrow>
         cond_true ''Available'' (gst_conditions st))"
proof -
  let ?x = "PatchStatus n st fm :: (gateway_status, k8s_object) effect"
  have av: "all_replicas_available env obj \<longleftrightarrow>
      (\<exists>s a. ge_deployment_status env = Some s \<and> ds_available s = Some a \<and> 0 < a \<and> a = effective_replicas obj)"
    by (auto simp: all_replicas_available_def deployment_counts_def Let_def bind_eq_Some_conv split: option.splits)
  have late: "late ?x" by (simp add: late_def)
  from reconcile_reaches[OF assms(2) late] obtain ns name pset rl cl where
    r: "resolve_plugin_set env obj = Inr pset" "snd (resolve_revocation_list env obj) = Inr rl" "resolve_cluster env obj = Inr cl"
    and alt: "(held env obj \<and> (\<exists>c. cl = Some c \<and> ?x \<in> set (fst (gateway_hold env obj ns name c))))
       \<or> (\<not> held env obj \<and> ?x \<in> set (fst (gateway_render_apply env obj ns name pset rl cl)))"
    by blast
  show ?thesis
  proof (cases "held env obj")
    case True
    then obtain c where "cl = Some c" and st: "st = held_status env obj c"
      using alt by (auto simp: gateway_hold_def after_sel ret_sel patch_status_logged_eff)
    with r(3) have "c_type (rc_condition c) = ''ClusterReady''" by (simp add: resolved_types(3))
    with st show ?thesis using True by (auto simp: held_status_def Let_def cond_true_set[OF assms(1)])
  next
    case False
    with alt have "?x \<in> set (fst (gateway_render_apply env obj ns name pset rl cl))" by simp
    then obtain c al cm h where c: "render_config env obj ns pset rl cl = Some (c, al)"
      and ra: "?x \<in> set (fst (bindT (gateway_apply env obj ns cm (gateway_deployment env obj h pset rl cl) cl)
          (\<lambda>_. gateway_finish env obj ns name h pset rl cl al)))"
      using render_apply_cases[of env obj ns name pset rl cl] by (auto simp: throw_sel)
    have "?x \<notin> set (fst (gateway_apply env obj ns cm (gateway_deployment env obj h pset rl cl) cl))"
      using gateway_apply_writes[of ?x] by blast
    with ra have st: "st = gateway_status_of env obj h pset rl cl al"
      by (auto simp: bindT_effects gateway_finish_def after_sel ret_sel patch_status_logged_eff split: option.splits if_splits)
    have "cond_true t (gst_conditions st) = (all_replicas_available env obj \<or> (t = ''Available''
       \<and> cond_true t (case gw_status obj of Some s \<Rightarrow> gst_conditions s | None \<Rightarrow> [])))"
      if "t \<in> {''Ready'', ''Available''}" for t
      unfolding st using r c
      by (intro status_conditions[OF assms(1) that]) (auto dest: resolved_types render_config_alignment)
    from this[of "''Ready''"] this[of "''Available''"] False av show ?thesis by auto
  qed
qed

lemma effective_replicas_eq:
  "effective_replicas obj = (if gw_cloud (gw_spec obj) \<noteq> None
     \<and> (\<forall>k. json_path [''cluster'', ''kind''] (gw_config (gw_spec obj)) = Some (JStr k) \<longrightarrow> k = ''single_node'')
   then 1 else gw_replicas (gw_spec obj))"
  by (cases "json_path [''cluster'', ''kind''] (gw_config (gw_spec obj))")
    (auto simp: effective_replicas_def single_replica_cloud_def json_as_str_def Let_def simp del: json_path.simps split: json.splits)

text \<open>C31. What the status says. A status is Ready exactly when the reconcile was not held and the number of
  available replicas is positive and the one the operator runs: one for a managed gateway whose
  configuration selects no coordinator, whatever its specification asks for, and the specified
  static number for every other one, also when an autoscaler may rightly run another. The condition
  \<open>Available\<close>, once true, stays true in every status, whatever happens to the pods.\<close>

theorem gateway_status_meaning:
  assumes "condition_setter (ge_set_condition env)"
    and "PatchStatus n st fm \<in> set (fst (gateway_reconcile env obj))"
  shows "(cond_true ''Ready'' (gst_conditions st) \<longleftrightarrow> \<not> held env obj
       \<and> (\<exists>s a. ge_deployment_status env = Some s \<and> ds_available s = Some a \<and> 0 < a
            \<and> a = (if gw_cloud (gw_spec obj) \<noteq> None
                 \<and> (\<forall>k. json_path [''cluster'', ''kind''] (gw_config (gw_spec obj)) = Some (JStr k) \<longrightarrow> k = ''single_node'')
               then 1 else gw_replicas (gw_spec obj))))
    \<and> (\<forall>old. gw_status obj = Some old \<and> cond_true ''Available'' (gst_conditions old) \<longrightarrow>
         cond_true ''Available'' (gst_conditions st))"
  using status_meaning [OF assms] unfolding effective_replicas_eq .

section \<open>Progress\<close>

lemma optional_names:
  "ob \<in> set (optional_children ObHttpRoute (build_httproute obj)) \<Longrightarrow> meta_name (ob_meta ob) \<noteq> None"
  "ob \<in> set (optional_children ObHpa (build_hpa wt obj)) \<Longrightarrow> meta_name (ob_meta ob) \<noteq> None"
  "build_pdb api obj = Some b \<Longrightarrow> meta_name (ob_meta (ObPdb b)) \<noteq> None"
  "meta_name (ob_meta (ObCertificate (build_certificate sha obj h i))) \<noteq> None"
  by (auto simp: optional_children_def build_httproute_def build_hpa_def build_pdb_def build_certificate_def
      ob_meta_def child_meta_def default_meta_def Let_def split: option.splits if_splits)

lemma gateway_apply_accepted:
  assumes ok: "\<And>ob. ge_apply env ob = Inr ()" and "ge_binding env = Inr ()"
    and "build_configmap ty sha obj c = Some (cm, h)"
  shows "snd (gateway_apply env obj ns cm (gateway_deployment env obj h pset rl cl) cl) = Inr ()
    \<and> Apply (ObDeployment (gateway_deployment env obj h pset rl cl)) gateway_fm
      \<in> set (fst (gateway_apply env obj ns cm (gateway_deployment env obj h pset rl cl) cl))"
proof -
  let ?d = "gateway_deployment env obj h pset rl cl"
  have a: "snd (apply_children env obs) = Inr ()" if "\<And>ob. ob \<in> set obs \<Longrightarrow> meta_name (ob_meta ob) \<noteq> None" for obs
    using that ok by (auto simp: apply_children_ok)
  have 1: "snd (apply_children env [ObConfigMap cm, ObService (build_service obj), ObServiceAccount (build_service_account obj)]) = Inr ()"
    using name_of_children assms(3) by (intro a) auto
  have 2: "snd (apply_coordination env obj ns cl) = Inr ()"
    using assms(1,2) name_of_children(4)
    by (auto simp: apply_coordination_def bindT_Inr apply_child_ok ensure_tenant_secret_binding_def run_simps map_err_def split: option.split)
  have 3: "snd (apply_children env (ObDeployment ?d # optional_children ObHttpRoute (build_httproute obj))) = Inr ()"
    using name_of_children(5) optional_names(1) by (intro a) auto
  have 4: "snd (reconcile_edge_domains env obj) = Inr ()"
  proof -
    have "snd (apply_children env (map (\<lambda>h. ObCertificate (build_certificate (ge_sha256_hex env) obj h i)) hs)) = Inr ()" for i hs
      using optional_names(4) by (intro a) auto
    then show ?thesis using ok
      by (auto simp: reconcile_edge_domains_def Let_def bindT_Inr after_sel ret_sel throw_sel split: option.split)
  qed
  have 5: "snd (apply_children env (optional_children ObHpa (build_hpa (ge_metric_typed env) obj))) = Inr ()"
    using optional_names(2) by (intro a) auto
  have 6: "snd (pdb_step env obj ns) = Inr ()"
    using optional_names(3) ok by (auto simp: pdb_step_def apply_child_ok run_simps split: option.split)
  have "Apply (ObDeployment ?d) gateway_fm
      \<in> set (fst (apply_children env (ObDeployment ?d # optional_children ObHttpRoute (build_httproute obj))))"
    using apply_children_all[OF 3] by simp
  then show ?thesis
    unfolding gateway_apply_def bindT_effects bindT_Inr using 1 2 3 4 5 6 by blast
qed

text \<open>The finalizer is there, or the patch that adds it succeeds.\<close>

definition finalizer_placed :: "gateway_env \<Rightarrow> gateway \<Rightarrow> bool" where
  "finalizer_placed env obj \<longleftrightarrow> has_finalizer (gw_meta obj) OPERATOR_FINALIZER
     \<or> (meta_resource_version (gw_meta obj) \<noteq> None \<and> ge_finalizer env = Inr ())"

lemma ensure_finalizer_ok:
  "has_finalizer m fin \<or> (meta_resource_version m \<noteq> None \<and> a = Inr ()) \<Longrightarrow> \<exists>b. snd (ensure_finalizer a n m fin) = Inr b"
  unfolding ensure_finalizer_def has_finalizer_def [symmetric]
  by (cases "has_finalizer m fin") (auto simp: ret_sel after_sel Let_def)

lemma accepted_reconcile:
  assumes n: "meta_namespace (gw_meta obj) = Some ns" "meta_name (gw_meta obj) = Some name"
    and "meta_deletion_timestamp (gw_meta obj) = None" "finalizer_placed env obj"
    and r: "resolve_plugin_set env obj = Inr pset" "snd (resolve_revocation_list env obj) = Inr rl" "resolve_cluster env obj = Inr cl"
    and "\<not> held env obj" and "hex_digest (ge_sha256_hex env)" and "\<And>ob. ge_apply env ob = Inr ()" and "ge_binding env = Inr ()"
  shows "(\<exists>d. Apply (ObDeployment d) gateway_fm \<in> set (fst (gateway_reconcile env obj)))
    \<and> (\<exists>st. PatchStatus name st gateway_fm \<in> set (fst (gateway_reconcile env obj)))
    \<and> snd (gateway_reconcile env obj)
      = Inr (Requeue (gateway_jittered_resync (ge_random env) (oc_resync_interval_secs (ge_config env))))"
proof -
  obtain c al where c: "render_config env obj ns pset rl cl = Some (c, al)" using render_config_plugins by blast
  obtain cm h where cm: "build_configmap (ge_to_yaml env) (ge_sha256_hex env) obj c = Some (cm, h)"
    using build_configmap_total[OF assms(9)] by blast
  note acc = gateway_apply_accepted[OF assms(10,11) cm, of ns pset rl cl]
  let ?run = "gateway_render_apply env obj ns name pset rl cl"
  have ra: "?run = bindT (gateway_apply env obj ns cm (gateway_deployment env obj h pset rl cl) cl)
      (\<lambda>_. gateway_finish env obj ns name h pset rl cl al)"
    by (simp add: gateway_render_apply_def c cm)
  have eff: "Apply (ObDeployment (gateway_deployment env obj h pset rl cl)) gateway_fm \<in> set (fst ?run)"
    "PatchStatus name (gateway_status_of env obj h pset rl cl al) gateway_fm \<in> set (fst ?run)"
    using acc by (auto simp: ra bindT_effects gateway_finish_def after_sel patch_status_logged_eff)
  have res: "\<exists>o'. snd ?run = Inr (Requeue (gateway_jittered_resync (ge_random env) (oc_resync_interval_secs (ge_config env))), o')"
    using acc by (simp add: ra bindT_sel gateway_finish_def after_sel ret_sel)
  obtain b where fin: "snd (ensure_finalizer (ge_finalizer env) name (gw_meta obj) OPERATOR_FINALIZER
      :: (gateway_status, k8s_object, finalizer_error, bool) ctl) = Inr b"
    using assms(4) ensure_finalizer_ok unfolding finalizer_placed_def by blast
  have tail: "(case cl of Some c \<Rightarrow> if c_status (rc_condition c) \<noteq> ''True'' then gateway_hold env obj ns name c else ?run | None \<Rightarrow> ?run) = ?run"
    using assms(8) r(3) by (auto simp: held_def split: option.split)
  have body: "x \<in> set (fst ?run) \<Longrightarrow> x \<in> set (fst (gateway_body env obj ns name))"
    "snd (gateway_body env obj ns name) = snd ?run" for x
    using r by (simp_all add: gateway_body_def bindT_sel after_sel tail)
  have inner: "x \<in> set (fst (gateway_body env obj ns name)) \<Longrightarrow> x \<in> set (fst (gateway_reconcile env obj))"
    "snd (gateway_reconcile_inner env obj) = snd (gateway_body env obj ns name)" for x
    using n assms(3) fin
    by (simp_all add: gateway_reconcile_def observed_def gateway_reconcile_inner_def guarded_def bindT_sel lift_run_sel map_err_def)
  show ?thesis
    using eff res body inner by (auto simp: gateway_reconcile_def observed_def split: sum.splits)
qed

section \<open>Samples\<close>

text \<open>A gateway and a server that accepts everything, for the witnesses: no plugin set, revocation list or
  cluster exists.\<close>

definition sample_gw :: gateway where
  "sample_gw = (plain_gateway ''gw'')\<lparr>gw_meta := (gw_meta (plain_gateway ''gw''))\<lparr>meta_finalizers := Some [OPERATOR_FINALIZER]\<rparr>\<rparr>"

definition sample_sha :: "string \<Rightarrow> string" where
  "sample_sha s = replicate 64 (CHR ''a'')"

definition sample_gateway_env :: gateway_env where
  "sample_gateway_env = \<lparr>ge_api = sample_api, ge_defaults = sample_defaults,
     ge_config = \<lparr>oc_cloud_default_plugins = None, oc_default_otlp_traces_url = None, oc_events_egress_probe_url = None,
       oc_gateway_pod_annotations = Map.empty, oc_pod_dns_config = None, oc_edge_cluster_issuer = None,
       oc_operator_service_account = ''sa'', oc_resync_interval_secs = 300\<rparr>,
     ge_operator_namespace = ''mcpg-system'', ge_remove_get = Inr None, ge_remove_patch = Inr (), ge_finalizer = Inr (),
     ge_status = (Inr (), Inr ()), ge_plugin_set = (\<lambda>_. Inr None), ge_config_map = (\<lambda>_. Inr None),
     ge_revocation_list = (\<lambda>_. Inr None), ge_cluster = (\<lambda>_. Inr None), ge_source_secret = (\<lambda>_. Inr None),
     ge_routes = Inr [], ge_servers = Inr [], ge_certificates = (\<lambda>_. Inr []), ge_apply = (\<lambda>_. Inr ()), ge_binding = Inr (),
     ge_deployment_status = Some \<lparr>ds_replicas = Some 1, ds_ready = Some 1, ds_updated = Some 1, ds_available = Some 1\<rparr>,
     ge_set_condition = upsert_condition, ge_parse_json = (\<lambda>_. None), ge_print_json = (\<lambda>_. []),
     ge_to_yaml = (\<lambda>_. Some []), ge_sha256_hex = sample_sha, ge_version_at_least = (\<lambda>_ _. None),
     ge_metric_typed = (\<lambda>_. True), ge_random = 0\<rparr>"

lemma hex_digest_sample: "hex_digest sample_sha"
proof -
  have "is_ascii_hexdigit (CHR ''a'')" by code_simp
  then show ?thesis by (simp add: hex_digest_def sample_sha_def list_all_iff)
qed

lemma sample_gw_sel:
  "gw_meta sample_gw = default_meta\<lparr>meta_name := Some ''gw'', meta_namespace := Some ''team'', meta_uid := Some ''u-1'',
     meta_finalizers := Some [OPERATOR_FINALIZER]\<rparr>"
  "gw_spec sample_gw = bare_gateway_spec" "gw_status sample_gw = None"
  by (simp_all add: sample_gw_def plain_gateway_def)

text \<open>What the sample reconcile does with a spec that names no cluster.\<close>

lemma sample_accepted:
  assumes "gw_cluster_ref sp = None" and "resolve_plugin_set sample_gateway_env (sample_gw\<lparr>gw_spec := sp\<rparr>) = Inr pset"
  shows "(\<exists>d. Apply (ObDeployment d) gateway_fm \<in> set (fst (gateway_reconcile sample_gateway_env (sample_gw\<lparr>gw_spec := sp\<rparr>))))
    \<and> (\<exists>st. PatchStatus ''gw'' st gateway_fm \<in> set (fst (gateway_reconcile sample_gateway_env (sample_gw\<lparr>gw_spec := sp\<rparr>))))"
proof -
  let ?o = "sample_gw\<lparr>gw_spec := sp\<rparr>" and ?e = sample_gateway_env
  have "resolve_cluster ?e ?o = Inr None" using assms(1) by (simp add: resolve_cluster_def)
  moreover from this have "\<not> held ?e ?o" by (simp add: held_def)
  moreover have "\<exists>rl. snd (resolve_revocation_list ?e ?o) = Inr rl"
    by (cases "gw_revocation_list_ref sp") (simp_all add: resolve_revocation_list_def sample_gateway_env_def ret_sel)
  then obtain rl where "snd (resolve_revocation_list ?e ?o) = Inr rl" ..
  ultimately show ?thesis
    using accepted_reconcile[of ?o "''team''" "''gw''" ?e pset rl None] assms(2) hex_digest_sample
    by (simp add: sample_gw_sel default_meta_def finalizer_placed_def has_finalizer_def sample_gateway_env_def)
qed

section \<open>Progress and witnesses\<close>

text \<open>C22. A reconcile makes progress: for a named gateway that is not being deleted and whose references
  resolve, with a server that accepts what it is sent, it applies the Deployment, writes a status,
  and comes back after the resync interval. This holds from the first reconcile on, which adds the
  finalizer to the object it was given and goes on.\<close>

theorem gateway_converges:
  assumes "meta_namespace (gw_meta obj) = Some ns" "meta_name (gw_meta obj) = Some name"
    and "meta_deletion_timestamp (gw_meta obj) = None"
    and "has_finalizer (gw_meta obj) OPERATOR_FINALIZER
      \<or> (meta_resource_version (gw_meta obj) \<noteq> None \<and> ge_finalizer env = Inr ())"
    and "resolve_plugin_set env obj = Inr pset" "snd (resolve_revocation_list env obj) = Inr rl" "resolve_cluster env obj = Inr cl"
    and "\<not> held env obj" and "hex_digest (ge_sha256_hex env)" and "\<And>ob. ge_apply env ob = Inr ()" and "ge_binding env = Inr ()"
  shows "(\<exists>d. Apply (ObDeployment d) gateway_fm \<in> set (fst (gateway_reconcile env obj)))
    \<and> (\<exists>st. PatchStatus name st gateway_fm \<in> set (fst (gateway_reconcile env obj)))
    \<and> snd (gateway_reconcile env obj)
      = Inr (Requeue (gateway_jittered_resync (ge_random env) (oc_resync_interval_secs (ge_config env))))"
  using assms unfolding finalizer_placed_def [symmetric] by (rule accepted_reconcile)

text \<open>The witness is a new gateway, without the finalizer.\<close>

definition new_gw :: gateway where
  "new_gw = sample_gw\<lparr>gw_meta := default_meta\<lparr>meta_name := Some ''gw'', meta_namespace := Some ''team'',
     meta_resource_version := Some ''1''\<rparr>\<rparr>"

theorem gateway_converges_witness:
  "\<not> has_finalizer (gw_meta new_gw) OPERATOR_FINALIZER \<and> snd (gateway_reconcile sample_gateway_env new_gw) = Inr (Requeue 240)"
proof -
  let ?e = sample_gateway_env
  have sel: "gw_spec new_gw = bare_gateway_spec" "meta_name (gw_meta new_gw) = Some ''gw''"
    "meta_namespace (gw_meta new_gw) = Some ''team''" "meta_resource_version (gw_meta new_gw) = Some ''1''"
    "meta_deletion_timestamp (gw_meta new_gw) = None" "meta_finalizers (gw_meta new_gw) = None"
    by (simp_all add: new_gw_def sample_gw_sel default_meta_def)
  have "resolve_cluster ?e new_gw = Inr None"
    by (simp add: resolve_cluster_def sel bare_gateway_spec_def)
  moreover from this have "\<not> held ?e new_gw" by (simp add: held_def)
  moreover have "snd (resolve_revocation_list ?e new_gw) = Inr None"
    by (simp add: resolve_revocation_list_def sel bare_gateway_spec_def sample_gateway_env_def ret_sel)
  moreover have "resolve_plugin_set ?e new_gw = Inr None"
    by (simp add: resolve_plugin_set_def sel bare_gateway_spec_def)
  ultimately show ?thesis
    using gateway_converges[of new_gw "''team''" "''gw''" ?e None None None] hex_digest_sample
    by (simp add: sel has_finalizer_def sample_gateway_env_def gateway_jittered_resync_def)
qed

theorem gateway_never_panics_witness:
  "snd (gateway_reconcile sample_gateway_env (sample_gw\<lparr>gw_spec := bare_gateway_spec\<lparr>gw_config := JStr ''x''\<rparr>\<rparr>)) \<noteq> Inl GPanicked"
  using gateway_never_panics[of sample_gateway_env "sample_gw\<lparr>gw_spec := bare_gateway_spec\<lparr>gw_config := JStr ''x''\<rparr>\<rparr>"] hex_digest_sample
  by (simp add: sample_gateway_env_def)

theorem deployment_after_dependencies_witness:
  "\<exists>pre post d. fst (gateway_reconcile sample_gateway_env (sample_gw\<lparr>gw_spec := bare_gateway_spec\<rparr>))
      = pre @ Apply (ObDeployment d) gateway_fm # post
    \<and> Apply (ObService (build_service (sample_gw\<lparr>gw_spec := bare_gateway_spec\<rparr>))) gateway_fm \<in> set pre"
proof -
  have "resolve_plugin_set sample_gateway_env (sample_gw\<lparr>gw_spec := bare_gateway_spec\<rparr>) = Inr None"
    by (simp add: resolve_plugin_set_def bare_gateway_spec_def)
  with sample_accepted[of bare_gateway_spec] obtain d where
    "Apply (ObDeployment d) gateway_fm \<in> set (fst (gateway_reconcile sample_gateway_env (sample_gw\<lparr>gw_spec := bare_gateway_spec\<rparr>)))"
    by (auto simp: bare_gateway_spec_def)
  from deployment_after_dependencies[OF this] show ?thesis by blast
qed

theorem unresolved_set_drops_plugins_witness:
  "\<exists>d config. Apply (ObDeployment d) gateway_fm
       \<in> set (fst (gateway_reconcile sample_gateway_env (sample_gw\<lparr>gw_spec := bare_gateway_spec\<lparr>gw_plugin_set_ref := Some ''s''\<rparr>\<rparr>)))
     \<and> plugin_entries config = [] \<and> the (meta_annotations (dep_pod_meta d)) CONFIG_HASH_ANNOTATION = Some (sample_sha [])"
proof -
  let ?sp = "bare_gateway_spec\<lparr>gw_plugin_set_ref := Some ''s''\<rparr>"
  have r: "resolve_plugin_set sample_gateway_env (sample_gw\<lparr>gw_spec := ?sp\<rparr>) = Inr (Some (unresolved_set [] ''PluginSetNotFound''))"
    by (simp add: resolve_plugin_set_def sample_gateway_env_def)
  with sample_accepted[of ?sp] obtain d where
    d: "Apply (ObDeployment d) gateway_fm \<in> set (fst (gateway_reconcile sample_gateway_env (sample_gw\<lparr>gw_spec := ?sp\<rparr>)))"
    by (auto simp: bare_gateway_spec_def)
  have v: "rps_view (unresolved_set [] ''PluginSetNotFound'') = None" by (simp add: unresolved_set_def)
  have cl: "gw_cloud (gw_spec (sample_gw\<lparr>gw_spec := ?sp\<rparr>)) = None" by (simp add: bare_gateway_spec_def)
  have y: "ge_to_yaml sample_gateway_env c = Some []" "ge_sha256_hex sample_gateway_env = sample_sha"
    "plugin_entries (gw_config (gw_spec (sample_gw\<lparr>gw_spec := ?sp\<rparr>))) = []" for c
    by (simp_all add: sample_gateway_env_def bare_gateway_spec_def plugin_entries_def json_get_def)
  from unresolved_set_drops_plugins[OF r v cl d] d show ?thesis unfolding y by auto
qed

theorem missing_list_breaks_pods_witness:
  "\<exists>d items. Apply (ObDeployment d) gateway_fm
       \<in> set (fst (gateway_reconcile sample_gateway_env (sample_gw\<lparr>gw_spec := bare_gateway_spec\<lparr>gw_revocation_list_ref := Some ''l''\<rparr>\<rparr>)))
     \<and> VolConfigMap [] items \<in> vol_source ` set (the (pod_volumes (dep_pod d)))"
proof -
  let ?sp = "bare_gateway_spec\<lparr>gw_revocation_list_ref := Some ''l''\<rparr>"
  have "resolve_plugin_set sample_gateway_env (sample_gw\<lparr>gw_spec := ?sp\<rparr>) = Inr None"
    by (simp add: resolve_plugin_set_def bare_gateway_spec_def)
  with sample_accepted[of ?sp] obtain d where
    d: "Apply (ObDeployment d) gateway_fm \<in> set (fst (gateway_reconcile sample_gateway_env (sample_gw\<lparr>gw_spec := ?sp\<rparr>)))"
    by (auto simp: bare_gateway_spec_def)
  from missing_list_breaks_pods[of "sample_gw\<lparr>gw_spec := ?sp\<rparr>" "''l''", OF _ _ d] d show ?thesis
    by (auto simp: sample_gateway_env_def)
qed

theorem cluster_hold_witness:
  "\<forall>d fm. Apply (ObDeployment d) fm \<notin>
     set (fst (gateway_reconcile sample_gateway_env (sample_gw\<lparr>gw_spec := bare_gateway_spec\<lparr>gw_cluster_ref := Some ''c''\<rparr>\<rparr>)))"
proof -
  let ?o = "sample_gw\<lparr>gw_spec := bare_gateway_spec\<lparr>gw_cluster_ref := Some ''c''\<rparr>\<rparr>"
  have "\<not> bindable (ge_api sample_gateway_env) ?o None" by (simp add: bindable_def)
  from cluster_hold[OF _ _ this, of "''c''"] show ?thesis
    by (auto simp: sample_gateway_env_def sample_gw_sel default_meta_def)
qed

theorem gateway_status_meaning_witness:
  "\<exists>st. PatchStatus ''gw'' st gateway_fm \<in> set (fst (gateway_reconcile sample_gateway_env (sample_gw\<lparr>gw_spec := bare_gateway_spec\<rparr>)))
     \<and> cond_true ''Ready'' (gst_conditions st)"
proof -
  let ?o = "sample_gw\<lparr>gw_spec := bare_gateway_spec\<rparr>"
  have "resolve_plugin_set sample_gateway_env ?o = Inr None"
    by (simp add: resolve_plugin_set_def bare_gateway_spec_def)
  with sample_accepted[of bare_gateway_spec] obtain st where
    st: "PatchStatus ''gw'' st gateway_fm \<in> set (fst (gateway_reconcile sample_gateway_env ?o))"
    by (auto simp: bare_gateway_spec_def)
  have o: "gw_cloud (gw_spec ?o) = None" "gw_replicas (gw_spec ?o) = 1" "\<not> held sample_gateway_env ?o"
    by (simp_all add: held_def resolve_cluster_def bare_gateway_spec_def)
  have d: "ge_deployment_status sample_gateway_env = Some \<lparr>ds_replicas = Some 1, ds_ready = Some 1, ds_updated = Some 1, ds_available = Some 1\<rparr>"
    "condition_setter (ge_set_condition sample_gateway_env)"
    by (simp_all add: sample_gateway_env_def)
  from gateway_status_meaning[OF d(2) st, THEN conjunct1] have "cond_true ''Ready'' (gst_conditions st)"
    using o(3) unfolding o(1,2) d(1) by simp
  with st show ?thesis by blast
qed

text \<open>An environment with a resolved set of one plugin.\<close>

definition sample_view :: resolved_set_view where
  "sample_view = \<lparr>rsv_entries = [\<lparr>rse_id = ''p.q'', rse_plugin_class = ''c'', rse_plugin_version = ''1'',
     rse_artefact_secret_name = ''sec'', rse_resolved_digest = ''d'', rse_config = JNull\<rparr>], rsv_capability_grants = []\<rparr>"

definition sample_set_gateway_env :: gateway_env where
  "sample_set_gateway_env = sample_gateway_env\<lparr>
     ge_plugin_set := (\<lambda>_. Inr (Some \<lparr>set_meta = default_meta, set_spec = \<lparr>set_entries = [], capability_grants = []\<rparr>,
       set_conditions = Some [cond ''Ready'' ''True'' ''Reconciled'' 1], set_resolved_hash = Some ''h''\<rparr>)),
     ge_config_map := (\<lambda>_. Inr (Some \<lparr>cm_meta = default_meta, cm_data = None\<rparr>)),
     ge_parse_json := (\<lambda>_. Some (JObj [(''entries'', JArr [JObj [(''id'', JStr ''p.q''), (''pluginClass'', JStr ''c''),
       (''pluginVersion'', JStr ''1''), (''artefactSecretName'', JStr ''sec''), (''resolvedDigest'', JStr ''d'')]])]))\<rparr>"

theorem rendered_plugins_mounted_witness:
  "\<exists>config al p. resolve_plugin_set sample_set_gateway_env (sample_gw\<lparr>gw_spec := bare_gateway_spec\<lparr>gw_plugin_set_ref := Some ''s''\<rparr>\<rparr>)
       = Inr (Some p)
     \<and> render_config sample_set_gateway_env (sample_gw\<lparr>gw_spec := bare_gateway_spec\<lparr>gw_plugin_set_ref := Some ''s''\<rparr>\<rparr>)
         ''team'' (Some p) None None = Some (config, al)
     \<and> entry_path (plugin_entries config ! 0) = Some ''/etc/mcpg/plugins/p.q/plugin.so''"
proof -
  let ?e = sample_set_gateway_env and ?o = "sample_gw\<lparr>gw_spec := bare_gateway_spec\<lparr>gw_plugin_set_ref := Some ''s''\<rparr>\<rparr>"
  let ?p = "\<lparr>rps_hash = ''h'', rps_view = Some sample_view, rps_mounts = set_mounts sample_view,
      rps_condition = bare_cond ''PluginSetReady'' ''True'' ''PluginSetResolved''\<rparr>"
  have r: "resolve_plugin_set ?e ?o = Inr (Some ?p)"
    by (simp add: resolve_plugin_set_def sample_set_gateway_env_def sample_view_def parse_resolved_plugins_json_def
        required_string_def json_get_def json_as_str_def as_array_def cond_true_def map_err_def)
  obtain config al where c: "render_config ?e ?o ''team'' (Some ?p) None None = Some (config, al)"
    using render_config_plugins by blast
  from rendered_plugins_mounted[OF r _ c, of sample_view 0 "''h''"]
  have "entry_path (plugin_entries config ! 0) = Some ''/etc/mcpg/plugins/p.q/plugin.so''"
    by (simp add: Let_def gateway_deployment_pod build_volume_mounts_def set_mounts_def sample_view_def PLUGIN_MOUNT_ROOT_def)
  then show ?thesis using r c by blast
qed

definition managed_identity :: gateway_cloud where
  "managed_identity = \<lparr>instance_slug = ''i'', org_slug = ''o'', external_url = ''https://a.example/t/mcp'', canonical_url = None,
     custom_domains = [''b.example'']\<rparr>"


end
