(* ===== verification/RouteCtl.thy ===== *)
theory RouteCtl
  imports Reconciler GatewayFacts
begin

text \<open>
  The route controller (\<open>src/src/controllers/route.rs\<close>): it applies nothing, and reports whether a
  route is bound to its gateway. What a gateway makes of its routes is in \<open>GatewayConfig\<close>; the
  two are shown to agree.
\<close>

datatype route_error =
    RtStatus status_error
  | RtFinalizer finalizer_error
  | RtKube kube_error
  | RtMissingName
  | RtMissingNamespace string

record route_status =
  rts_conditions :: "condition list"
  rts_observed_generation :: "int option"
  rts_matched_tools :: "int option"
  rts_bound_gateway :: "string option"

text \<open>\<open>rn_gateway\<close> answers the read of a gateway by namespace and name.\<close>

record route_env =
  rn_api :: api_crate
  rn_remove_get :: "kube_error + object_meta option"
  rn_remove_patch :: "kube_error + unit"
  rn_finalizer :: "kube_error + unit"
  rn_status :: "(kube_error + unit) \<times> (kube_error + unit)"
  rn_gateway :: "string \<Rightarrow> string \<Rightarrow> kube_error + gateway option"
  rn_set_condition :: "condition \<Rightarrow> condition list \<Rightarrow> condition list"
  rn_resync_secs :: nat
  rn_random :: real

abbreviation route_fm :: string where
  "route_fm \<equiv> field_manager ''route-controller''"

definition map_gateway_to_routes :: "gateway \<Rightarrow> object_ref list" where
  "map_gateway_to_routes gw = []"

definition missing_chain_plugins :: "api_crate \<Rightarrow> route \<Rightarrow> gateway option \<Rightarrow> string option" where
  "missing_chain_plugins api rt gw =
     map_option (\<lambda>_. ''<empty>'') (find blank (all_chain_plugins api (rt_spec rt)))"

definition route_binding :: "string \<Rightarrow> string \<Rightarrow> gateway option \<Rightarrow> bool \<times> string" where
  "route_binding gw_ns route_ns gw =
     (case gw of
        None \<Rightarrow> (False, ''GatewayNotFound'')
      | Some g \<Rightarrow> if gw_ns = route_ns \<or> route_ns \<in> set (gw_accepted_route_namespaces (gw_spec g))
          then (True, ''GatewayBound'') else (False, ''NamespaceNotAccepted''))"

definition route_readiness :: "api_crate \<Rightarrow> route \<Rightarrow> gateway option \<Rightarrow> bool \<times> string \<Rightarrow> bool \<times> string" where
  "route_readiness api rt gw binding =
     (if \<not> fst binding then (False, snd binding)
      else if rt_tools (rt_spec rt) = [] then (False, ''NoMatchedTools'')
      else if missing_chain_plugins api rt gw \<noteq> None then (False, ''ChainPluginMissing'')
      else (True, ''Reconciled''))"

definition route_status_of :: "route_env \<Rightarrow> route \<Rightarrow> string \<Rightarrow> gateway option \<Rightarrow> route_status" where
  "route_status_of env obj route_ns gw =
     (let gen = generation_of (rt_meta obj); set = rn_set_condition env;
          gw_ns = gateway_namespace (rn_api env) (rt_spec obj) route_ns;
          (bound, bound_reason) = route_binding gw_ns route_ns gw;
          (ready, ready_reason) = route_readiness (rn_api env) obj gw (bound, bound_reason);
          cs = (case rt_conditions obj of Some cs \<Rightarrow> cs | None \<Rightarrow> []);
          cs = set_cond set ''GatewayBound'' bound bound_reason gen cs;
          cs = set_cond set ''Ready'' ready ready_reason gen cs;
          cs = set_cond set ''ChainsEnforced'' False ''PerRouteDispatchUnsupported'' gen cs
      in \<lparr>rts_conditions = cs, rts_observed_generation = Some gen,
          rts_matched_tools = Some (int (length (rt_tools (rt_spec obj)))),
          rts_bound_gateway = Some (gw_ns @ ''/'' @ rt_gateway_ref (rt_spec obj))\<rparr>)"

type_synonym 'a route_run = "(route_status, k8s_object, route_error, 'a) ctl"

definition route_body :: "route_env \<Rightarrow> route \<Rightarrow> string \<Rightarrow> string \<Rightarrow> (reconcile_action \<times> reconcile_outcome) route_run" where
  "route_body env obj name route_ns =
     (let gw_ns = gateway_namespace (rn_api env) (rt_spec obj) route_ns in
      bindT ([], map_err RtKube (rn_gateway env gw_ns (rt_gateway_ref (rt_spec obj)))) (\<lambda>gw.
      let binding = route_binding gw_ns route_ns gw;
          ready = fst (route_readiness (rn_api env) obj gw binding)
      in after (patch_status_logged (fst (rn_status env)) (snd (rn_status env)) name
               (route_status_of env obj route_ns gw) route_fm
             @ (if \<not> fst binding
                then [Publish \<lparr>ev_type = Warning, ev_reason = snd binding, ev_action = ''Bind''\<rparr>] else []))
           (ret (Requeue (jittered_resync (rn_random env) (rn_resync_secs env)),
                 if ready then Success else DependencyPending))))"

definition route_reconcile_inner :: "route_env \<Rightarrow> route \<Rightarrow> (reconcile_action \<times> reconcile_outcome) route_run" where
  "route_reconcile_inner env obj =
     (case meta_name (rt_meta obj) of
        None \<Rightarrow> throw RtMissingName
      | Some name \<Rightarrow>
        (case meta_namespace (rt_meta obj) of
           None \<Rightarrow> throw (RtMissingNamespace name)
         | Some route_ns \<Rightarrow>
             guarded RtFinalizer
               (\<lambda>n. remove_finalizer (rn_remove_get env) (rn_remove_patch env) n OPERATOR_FINALIZER)
               (\<lambda>n. ensure_finalizer (rn_finalizer env) n (rt_meta obj) OPERATOR_FINALIZER)
               (rt_meta obj) name (route_body env obj name route_ns)))"

definition route_permanent :: "route_error \<Rightarrow> bool" where
  "route_permanent e = (case e of RtMissingName \<Rightarrow> True | RtMissingNamespace _ \<Rightarrow> True | _ \<Rightarrow> False)"

definition route_reconcile :: "route_env \<Rightarrow> route \<Rightarrow> reconcile_action route_run" where
  "route_reconcile env obj =
     observed ''route'' (\<lambda>r. case r of Inr (_, o') \<Rightarrow> o'
       | Inl e \<Rightarrow> if route_permanent e then PermanentError else TransientError)
       (route_reconcile_inner env obj)"

definition route_key :: "route \<Rightarrow> string" where
  "route_key obj = resource_key ''route'' (case meta_namespace (rt_meta obj) of Some n \<Rightarrow> n | None \<Rightarrow> [])
     (name_any (rt_meta obj))"

definition route_error_policy ::
  "real \<Rightarrow> route \<Rightarrow> route_error \<Rightarrow> backoff_map \<Rightarrow> reconcile_action \<times> backoff_map" where
  "route_error_policy r obj err m = error_policy route_permanent (route_key obj) r err m"

section \<open>The contract of a reconciler\<close>

interpretation route_ctl: reconciler route_reconcile_inner rt_meta
proof
  fix obj :: route and env
  assume "meta_name (rt_meta obj) = None"
  then show "fst (route_reconcile_inner env obj) = [] \<and> isl (snd (route_reconcile_inner env obj))"
    by (simp add: route_reconcile_inner_def run_simps)
next
  fix obj :: route and env x
  assume "meta_deletion_timestamp (rt_meta obj) \<noteq> None" and "x \<in> set (fst (route_reconcile_inner env obj))"
  then show "\<exists>fs. x = MergeFinalizers (name_any (rt_meta obj)) fs \<and> OPERATOR_FINALIZER \<notin> set fs"
    by (auto simp: route_reconcile_inner_def run_simps split: option.splits dest: guarded_deleting)
next
  fix obj :: route and env
  assume "meta_deletion_timestamp (rt_meta obj) = None" "\<not> has_finalizer (rt_meta obj) OPERATOR_FINALIZER"
  then show "fst (route_reconcile_inner env obj) = [] \<and> isl (snd (route_reconcile_inner env obj))
    \<or> (\<exists>ops rest. fst (route_reconcile_inner env obj) = PatchFinalizers (name_any (rt_meta obj)) ops # rest)"
    by (cases "meta_name (rt_meta obj)"; cases "meta_namespace (rt_meta obj)")
      (auto simp: route_reconcile_inner_def run_simps dest: guarded_finalizer_first)
qed

lemma route_status_patched:
  assumes "PatchStatus n st fm \<in> set (fst (route_reconcile env obj))"
  obtains ns gw where "meta_name (rt_meta obj) = Some n" "meta_namespace (rt_meta obj) = Some ns"
    "rn_gateway env (gateway_namespace (rn_api env) (rt_spec obj) ns) (rt_gateway_ref (rt_spec obj)) = Inr gw"
    "st = route_status_of env obj ns gw"
proof -
  obtain name ns where n: "meta_name (rt_meta obj) = Some name" "meta_namespace (rt_meta obj) = Some ns"
    using assms by (auto simp: route_reconcile_def observed_effects route_reconcile_inner_def run_simps split: option.splits)
  then have "PatchStatus n st fm \<in> set (fst (route_body env obj name ns))"
    using assms by (auto simp: route_reconcile_def observed_effects route_reconcile_inner_def dest!: guarded_body)
  then show thesis using n that
    by (auto simp: route_body_def Let_def bindT_effects run_simps patch_status_logged_eff map_err_def split: sum.splits if_splits)
qed

text \<open>The read of a gateway by namespace and name returns the gateway of that namespace and name.\<close>

definition reads_by_name :: "(string \<Rightarrow> string \<Rightarrow> kube_error + gateway option) \<Rightarrow> bool" where
  "reads_by_name get \<longleftrightarrow> (\<forall>ns n g. get ns n = Inr (Some g) \<longrightarrow>
     meta_name (gw_meta g) = Some n \<and> meta_namespace (gw_meta g) = Some ns)"

lemma route_binding_accepted:
  assumes "meta_namespace (rt_meta obj) = Some ns" and "meta_name (gw_meta g) = Some (rt_gateway_ref (rt_spec obj))"
    and "meta_namespace (gw_meta g) = Some (gateway_namespace api (rt_spec obj) ns)"
  shows "fst (route_binding (gateway_namespace api (rt_spec obj) ns) ns (Some g))
    \<longleftrightarrow> route_accepted api (name_any (gw_meta g)) (the (meta_namespace (gw_meta g)))
        (gw_accepted_route_namespaces (gw_spec g)) obj"
  using assms by (auto simp: route_binding_def route_accepted_def)

lemma route_status_conditions:
  assumes "condition_setter (rn_set_condition env)"
  shows "cond_true ''GatewayBound'' (rts_conditions (route_status_of env obj ns gw))
      \<longleftrightarrow> fst (route_binding (gateway_namespace (rn_api env) (rt_spec obj) ns) ns gw)"
    "cond_true ''Ready'' (rts_conditions (route_status_of env obj ns gw))
      \<longleftrightarrow> fst (route_readiness (rn_api env) obj gw (route_binding (gateway_namespace (rn_api env) (rt_spec obj) ns) ns gw))"
    "\<not> cond_true ''ChainsEnforced'' (rts_conditions (route_status_of env obj ns gw))"
  by (simp_all add: route_status_of_def Let_def cond_true_set_cond [OF assms] split: prod.split)


definition sample_route_env :: route_env where
  "sample_route_env = \<lparr>rn_api = sample_api, rn_remove_get = Inr None, rn_remove_patch = Inr (), rn_finalizer = Inr (),
     rn_status = (Inr (), Inr ()),
     rn_gateway = (\<lambda>ns n. Inr (if (ns, n) = (''team'', ''gw'') then Some (plain_gateway ''gw'') else None)),
     rn_set_condition = upsert_condition, rn_resync_secs = 300, rn_random = 0\<rparr>"


end
