(* ===== verification/Decimal.thy ===== *)
theory Decimal
  imports Prelude
begin

text \<open>
  Integers printed in decimal, as the standard library prints them: the renderers put ports and
  quota limits into text. Reading the digits back gives the number, so printing is injective.
\<close>

text \<open>\<open>to_string\<close> of an integer.\<close>

fun dec_nat :: "nat \<Rightarrow> string" where
  "dec_nat n = (if n < 10 then [char_of (48 + n)] else dec_nat (n div 10) @ [char_of (48 + n mod 10)])"

declare dec_nat.simps [simp del]

definition dec_int :: "int \<Rightarrow> string" where
  "dec_int i = (if i < 0 then ''-'' @ dec_nat (nat (- i)) else dec_nat (nat i))"

text \<open>The value of a digit string.\<close>

definition dec_value :: "string \<Rightarrow> nat" where
  "dec_value s = foldl (\<lambda>v c. 10 * v + (of_char c - 48)) 0 s"

lemma of_char_digit: "d < 10 \<Longrightarrow> (of_char (char_of (48 + d)) :: nat) = 48 + d"
  by (simp add: of_char_of)

lemma dec_value_dec_nat [simp]: "dec_value (dec_nat n) = n"
proof (induction n rule: dec_nat.induct)
  case (1 n)
  show ?case
  proof (cases "n < 10")
    case True
    then show ?thesis by (subst dec_nat.simps) (simp add: dec_value_def of_char_digit)
  next
    case False
    with 1 have "foldl (\<lambda>v c. 10 * v + (of_char c - 48)) 0 (dec_nat (n div 10)) = n div 10"
      by (simp add: dec_value_def)
    then show ?thesis using False
      by (subst dec_nat.simps) (simp add: dec_value_def of_char_digit)
  qed
qed

lemma dec_nat_inject [simp]: "dec_nat m = dec_nat n \<longleftrightarrow> m = n"
  using dec_value_dec_nat by metis

lemma dec_nat_digits: "c \<in> set (dec_nat n) \<Longrightarrow> is_ascii_digit c"
proof (induction n rule: dec_nat.induct)
  case (1 n)
  have "is_ascii_digit (char_of (48 + d))" if "d < 10" for d :: nat
    using that by (simp add: is_ascii_digit_def of_char_digit)
  with 1 show ?case by (subst (asm) dec_nat.simps) (auto split: if_splits)
qed

lemma dec_int_inject [simp]: "dec_int i = dec_int j \<longleftrightarrow> i = j"
proof
  assume eq: "dec_int i = dec_int j"
  have "dec_nat m \<noteq> CHR ''-'' # s" for m s
    using dec_nat_digits [of "CHR ''-''" m] by (auto simp: is_ascii_digit_def)
  with eq have sgn: "i < 0 \<longleftrightarrow> j < 0" by (auto simp: dec_int_def split: if_splits) metis+
  with eq show "i = j" by (auto simp: dec_int_def split: if_splits)
qed simp

end
