(* ===== verification/TenantCtl.thy ===== *)
theory TenantCtl
  imports PluginSet Decimal
begin

text \<open>
  The tenant controller (\<open>src/src/controllers/tenant.rs\<close>): for every namespace a tenant declares
  it keeps the role binding, the namespace label and the count quota, and reports what it found.
  A deleted tenant loses quota and label of every declared namespace.

  The answers of \<open>tenant_env\<close>: whether a namespace exists, and how many gateways, plugin sets and
  routes it holds. Writes whose failure is only logged have no answer.
\<close>

section \<open>Objects\<close>

definition TENANT_LABEL :: string where "TENANT_LABEL = ''mcpg.dev/tenant''"

definition quota_name :: "string \<Rightarrow> string" where
  "quota_name tenant = ''mcpg-tenant-'' @ tenant"

definition operator_namespace :: string where "operator_namespace = ''mcpg-system''"

definition build_hard_limits :: "tenant_quotas \<Rightarrow> str_map" where
  "build_hard_limits q =
     (let hard = Map.empty;
          hard = (case max_gateways q of
            Some n \<Rightarrow> hard(''count/mcpggateways.mcpg.dev'' \<mapsto> dec_int n) | None \<Rightarrow> hard);
          hard = (case max_plugin_sets q of
            Some n \<Rightarrow> hard(''count/mcpgpluginsets.mcpg.dev'' \<mapsto> dec_int n) | None \<Rightarrow> hard)
      in case max_routes q of
           Some n \<Rightarrow> hard(''count/mcpgroutes.mcpg.dev'' \<mapsto> dec_int n) | None \<Rightarrow> hard)"

definition tenant_namespace_meta :: "string \<Rightarrow> str_map \<Rightarrow> object_meta" where
  "tenant_namespace_meta namespace labels =
     default_meta\<lparr>meta_name := Some namespace, meta_labels := Some labels\<rparr>"

definition tenant_quota :: "string \<Rightarrow> string \<Rightarrow> str_map \<Rightarrow> resource_quota" where
  "tenant_quota namespace tenant hard =
     \<lparr>rq_meta = default_meta\<lparr>meta_name := Some (quota_name tenant), meta_namespace := Some namespace,
        meta_labels := Some [''app.kubernetes.io/managed-by'' \<mapsto> ''mcpg-operator'', TENANT_LABEL \<mapsto> tenant]\<rparr>,
      rq_hard = hard\<rparr>"

datatype tenant_error =
    TnStatus status_error
  | TnFinalizer finalizer_error
  | TnKube kube_error
  | TnMissingName

record observed_counts =
  oc_gateways :: int
  oc_plugin_sets :: int
  oc_routes :: int

record tenant_status =
  ts_conditions :: "condition list"
  ts_observed_generation :: "int option"
  ts_bound_namespaces :: "string list"
  ts_observed :: "observed_counts option"

record tenant_env =
  te_remove_get :: "kube_error + object_meta option"
  te_remove_patch :: "kube_error + unit"
  te_finalizer :: "kube_error + unit"
  te_status :: "(kube_error + unit) \<times> (kube_error + unit)"
  te_namespace :: "string \<Rightarrow> kube_error + bool"
  te_gateways :: "string \<Rightarrow> kube_error + nat"
  te_plugin_sets :: "string \<Rightarrow> kube_error + nat"
  te_routes :: "string \<Rightarrow> kube_error + nat"
  te_set_condition :: "condition \<Rightarrow> condition list \<Rightarrow> condition list"
  te_service_account :: string
  te_resync_secs :: nat
  te_random :: real

type_synonym tenant_effect = "(tenant_status, k8s_object) effect"
type_synonym 'a tenant_run = "(tenant_status, k8s_object, tenant_error, 'a) ctl"

abbreviation tenant_fm :: string where
  "tenant_fm \<equiv> field_manager ''tenant-controller''"

section \<open>One namespace\<close>

definition ensure_namespace_label :: "string \<Rightarrow> string \<Rightarrow> tenant_effect list" where
  "ensure_namespace_label namespace tenant =
     [Apply (ObNamespace (tenant_namespace_meta namespace [TENANT_LABEL \<mapsto> tenant])) tenant_fm]"

definition hard_limits :: "tenant_quotas option \<Rightarrow> str_map" where
  "hard_limits quotas = (case quotas of Some q \<Rightarrow> build_hard_limits q | None \<Rightarrow> Map.empty)"

definition ensure_resource_quota :: "string \<Rightarrow> string \<Rightarrow> tenant_quotas option \<Rightarrow> tenant_effect list" where
  "ensure_resource_quota namespace tenant quotas =
     (if hard_limits quotas = Map.empty
      then [DeleteKind ''ResourceQuota'' namespace (quota_name tenant)]
      else [Apply (ObResourceQuota (tenant_quota namespace tenant (hard_limits quotas))) tenant_fm])"

definition teardown_namespace :: "string \<Rightarrow> string \<Rightarrow> tenant_effect list" where
  "teardown_namespace namespace tenant =
     [DeleteKind ''ResourceQuota'' namespace (quota_name tenant),
      Apply (ObNamespace (tenant_namespace_meta namespace Map.empty)) tenant_fm]"

definition bind_namespace :: "tenant_env \<Rightarrow> string \<Rightarrow> tenant_quotas option \<Rightarrow> string \<Rightarrow> tenant_effect list" where
  "bind_namespace env tenant quotas namespace =
     fst (ensure_tenant_secret_binding (Inr ()) namespace operator_namespace (te_service_account env) tenant_fm
       :: (tenant_status, k8s_object, kube_error, unit) ctl)
     @ ensure_namespace_label namespace tenant @ ensure_resource_quota namespace tenant quotas"

text \<open>The loop over the declared namespaces: the bound and the missing ones, in order.\<close>

fun bind_namespaces :: "tenant_env \<Rightarrow> string \<Rightarrow> tenant_quotas option \<Rightarrow> string list \<Rightarrow> (string list \<times> string list) tenant_run" where
  "bind_namespaces env tenant quotas [] = ret ([], [])"
| "bind_namespaces env tenant quotas (ns # nss) =
     (case te_namespace env ns of
        Inl e \<Rightarrow> throw (TnKube e)
      | Inr False \<Rightarrow> bindT (bind_namespaces env tenant quotas nss) (\<lambda>(bound, missing). ret (bound, ns # missing))
      | Inr True \<Rightarrow> after (bind_namespace env tenant quotas ns)
          (bindT (bind_namespaces env tenant quotas nss) (\<lambda>(bound, missing). ret (ns # bound, missing))))"

section \<open>Counts\<close>

fun count_resources :: "tenant_env \<Rightarrow> observed_counts \<Rightarrow> string list \<Rightarrow> tenant_error + observed_counts" where
  "count_resources env counts [] = Inr counts"
| "count_resources env counts (ns # nss) =
     bindE (map_err TnKube (te_gateways env ns)) (\<lambda>g.
     bindE (map_err TnKube (te_plugin_sets env ns)) (\<lambda>p.
     bindE (map_err TnKube (te_routes env ns)) (\<lambda>r.
     count_resources env \<lparr>oc_gateways = oc_gateways counts + int g, oc_plugin_sets = oc_plugin_sets counts + int p,
       oc_routes = oc_routes counts + int r\<rparr> nss)))"

definition over :: "int option \<Rightarrow> int \<Rightarrow> bool" where
  "over limit n = (case limit of Some l \<Rightarrow> n > l | None \<Rightarrow> False)"

definition quota_exceeded :: "tenant_quotas option \<Rightarrow> observed_counts \<Rightarrow> bool" where
  "quota_exceeded quotas counts =
     (case quotas of
        None \<Rightarrow> False
      | Some q \<Rightarrow> over (max_gateways q) (oc_gateways counts)
          \<or> over (max_plugin_sets q) (oc_plugin_sets counts) \<or> over (max_routes q) (oc_routes counts))"

section \<open>The reconcile\<close>

definition tenant_status_of :: "tenant_env \<Rightarrow> tenant \<Rightarrow> string list \<Rightarrow> string list \<Rightarrow> observed_counts \<Rightarrow> tenant_status" where
  "tenant_status_of env obj bound missing counts =
     (let gen = generation_of (tn_meta obj); set = te_set_condition env;
          all_bound = (missing = []);
          over_quota = quota_exceeded (tn_quotas (tn_spec obj)) counts;
          cs = (case tn_conditions obj of Some cs \<Rightarrow> cs | None \<Rightarrow> []);
          cs = set_cond set ''NamespacesBound'' all_bound (if all_bound then ''AllNamespacesBound'' else ''NamespaceMissing'') gen cs;
          cs = set_cond set ''QuotaWithinLimits'' (\<not> over_quota) (if over_quota then ''PreExistingOverage'' else ''WithinLimits'') gen cs;
          cs = set_cond set ''Ready'' all_bound (if all_bound then ''Reconciled'' else ''DependencyMissing'') gen cs
      in \<lparr>ts_conditions = cs, ts_observed_generation = Some gen, ts_bound_namespaces = bound, ts_observed = Some counts\<rparr>)"

definition tenant_body :: "tenant_env \<Rightarrow> tenant \<Rightarrow> string \<Rightarrow> (reconcile_action \<times> reconcile_outcome) tenant_run" where
  "tenant_body env obj name =
     bindT (bind_namespaces env name (tn_quotas (tn_spec obj)) (tn_namespaces (tn_spec obj))) (\<lambda>(bound, missing).
     bindT ([], count_resources env \<lparr>oc_gateways = 0, oc_plugin_sets = 0, oc_routes = 0\<rparr> bound) (\<lambda>counts.
     after (patch_status_logged (fst (te_status env)) (snd (te_status env)) name
              (tenant_status_of env obj bound missing counts) tenant_fm
            @ (if missing \<noteq> []
               then [Publish \<lparr>ev_type = Warning, ev_reason = ''NamespaceMissing'', ev_action = ''Bind''\<rparr>] else []))
       (ret (Requeue (jittered_resync (te_random env) (te_resync_secs env)),
             if missing = [] then Success else DependencyPending))))"

definition tenant_cleanup :: "tenant_env \<Rightarrow> tenant \<Rightarrow> tenant_effect list" where
  "tenant_cleanup env obj =
     concat (map (\<lambda>ns. teardown_namespace ns (name_any (tn_meta obj))) (tn_namespaces (tn_spec obj)))"

definition tenant_reconcile_inner :: "tenant_env \<Rightarrow> tenant \<Rightarrow> (reconcile_action \<times> reconcile_outcome) tenant_run" where
  "tenant_reconcile_inner env obj =
     (case meta_name (tn_meta obj) of
        None \<Rightarrow> throw TnMissingName
      | Some name \<Rightarrow>
          guarded TnFinalizer
            (\<lambda>n. after (tenant_cleanup env obj)
               (remove_finalizer (te_remove_get env) (te_remove_patch env) n OPERATOR_FINALIZER))
            (\<lambda>n. ensure_finalizer (te_finalizer env) n (tn_meta obj) OPERATOR_FINALIZER)
            (tn_meta obj) name (tenant_body env obj name))"

definition tenant_reconcile :: "tenant_env \<Rightarrow> tenant \<Rightarrow> reconcile_action tenant_run" where
  "tenant_reconcile env obj =
     observed ''tenant'' (\<lambda>r. case r of Inr (_, o') \<Rightarrow> o'
       | Inl e \<Rightarrow> if e = TnMissingName then PermanentError else TransientError)
       (tenant_reconcile_inner env obj)"

definition tenant_key :: "tenant \<Rightarrow> string" where
  "tenant_key obj = resource_key ''tenant'' [] (name_any (tn_meta obj))"

definition tenant_error_policy ::
  "real \<Rightarrow> tenant \<Rightarrow> tenant_error \<Rightarrow> backoff_map \<Rightarrow> reconcile_action \<times> backoff_map" where
  "tenant_error_policy r obj err m = error_policy (\<lambda>e. e = TnMissingName) (tenant_key obj) r err m"

section \<open>The contract of a reconciler\<close>

interpretation tenant_ctl: cleanup_reconciler tenant_reconcile_inner tn_meta tenant_cleanup
proof
  fix obj :: tenant and env
  assume "meta_name (tn_meta obj) = None"
  then show "fst (tenant_reconcile_inner env obj) = [] \<and> isl (snd (tenant_reconcile_inner env obj))"
    by (simp add: tenant_reconcile_inner_def run_simps)
next
  fix obj :: tenant and env x
  assume "meta_deletion_timestamp (tn_meta obj) \<noteq> None" and "x \<in> set (fst (tenant_reconcile_inner env obj))"
  then show "x \<in> set (tenant_cleanup env obj)
      \<or> (\<exists>fs. x = MergeFinalizers (name_any (tn_meta obj)) fs \<and> OPERATOR_FINALIZER \<notin> set fs)"
    using remove_finalizer_eff
    by (auto simp: tenant_reconcile_inner_def guarded_deleted bindT_effects run_simps split: option.splits) blast+
next
  fix obj :: tenant and env
  assume "meta_deletion_timestamp (tn_meta obj) = None" "\<not> has_finalizer (tn_meta obj) OPERATOR_FINALIZER"
  note first = guarded_finalizer_first [OF this]
  show "fst (tenant_reconcile_inner env obj) = [] \<and> isl (snd (tenant_reconcile_inner env obj))
    \<or> (\<exists>ops rest. fst (tenant_reconcile_inner env obj) = PatchFinalizers (name_any (tn_meta obj)) ops # rest)"
  proof (cases "meta_name (tn_meta obj)")
    case (Some name)
    then show ?thesis unfolding tenant_reconcile_inner_def by (simp add: first)
  qed (simp add: tenant_reconcile_inner_def run_simps)
qed

section \<open>What a reconcile writes\<close>

lemma bind_namespaces_effects:
  "x \<in> set (fst (bind_namespaces env t q nss)) \<Longrightarrow>
     \<exists>ns \<in> set nss. te_namespace env ns = Inr True \<and> x \<in> set (bind_namespace env t q ns)"
  by (induction nss) (auto simp: run_simps bindT_effects split: sum.splits bool.splits)

lemma bind_namespaces_result:
  assumes "snd (bind_namespaces env t q nss) = Inr (bound, missing)"
  shows "bound = filter (\<lambda>ns. te_namespace env ns = Inr True) nss"
    and "missing = filter (\<lambda>ns. te_namespace env ns = Inr False) nss"
    and "ns \<in> set nss \<Longrightarrow> te_namespace env ns \<in> {Inr True, Inr False}"
    and "fst (bind_namespaces env t q nss) = concat (map (bind_namespace env t q) bound)"
  using assms
  by (induction nss arbitrary: bound missing)
    (auto simp: run_simps split: sum.splits bool.splits)

lemma count_resources_result:
  assumes "count_resources env c nss = Inr c'"
  shows "oc_gateways c' = oc_gateways c + (\<Sum>ns \<leftarrow> nss. int (projr (te_gateways env ns)))"
    and "oc_plugin_sets c' = oc_plugin_sets c + (\<Sum>ns \<leftarrow> nss. int (projr (te_plugin_sets env ns)))"
    and "oc_routes c' = oc_routes c + (\<Sum>ns \<leftarrow> nss. int (projr (te_routes env ns)))"
  using assms
  by (induction nss arbitrary: c) (auto simp: bindE_Inr map_err_def split: sum.splits)

text \<open>The namespace a write goes to.\<close>

definition written_namespace :: "tenant_effect \<Rightarrow> string option" where
  "written_namespace x =
     (case x of
        Apply ob fm \<Rightarrow> (case ob of ObNamespace m \<Rightarrow> meta_name m | _ \<Rightarrow> meta_namespace (ob_meta ob))
      | DeleteKind kind ns name \<Rightarrow> Some ns
      | _ \<Rightarrow> None)"

lemmas tenant_objects = written_namespace_def ob_meta_def bind_namespace_def ensure_tenant_secret_binding_def
  build_tenant_binding_def ensure_namespace_label_def ensure_resource_quota_def teardown_namespace_def
  tenant_namespace_meta_def tenant_quota_def default_meta_def run_simps

lemma bind_namespace_written: "x \<in> set (bind_namespace env t q ns) \<Longrightarrow> written_namespace x = Some ns"
  by (auto simp: tenant_objects split: if_splits)

lemma teardown_written: "x \<in> set (teardown_namespace ns t) \<Longrightarrow> written_namespace x = Some ns"
  by (auto simp: tenant_objects)

lemma tenant_body_effects:
  assumes "x \<in> set (fst (tenant_body env obj name))"
  shows "(\<exists>ns \<in> set (tn_namespaces (tn_spec obj)). te_namespace env ns = Inr True
        \<and> x \<in> set (bind_namespace env name (tn_quotas (tn_spec obj)) ns))
     \<or> (\<exists>e. x = Publish e)
     \<or> (\<exists>bound missing counts. x = PatchStatus name (tenant_status_of env obj bound missing counts) tenant_fm
          \<and> snd (bind_namespaces env name (tn_quotas (tn_spec obj)) (tn_namespaces (tn_spec obj))) = Inr (bound, missing)
          \<and> count_resources env \<lparr>oc_gateways = 0, oc_plugin_sets = 0, oc_routes = 0\<rparr> bound = Inr counts
          \<and> (\<exists>rest. fst (tenant_body env obj name)
                = fst (bind_namespaces env name (tn_quotas (tn_spec obj)) (tn_namespaces (tn_spec obj))) @ rest))"
proof -
  let ?b = "bind_namespaces env name (tn_quotas (tn_spec obj)) (tn_namespaces (tn_spec obj))"
  have pre: "\<exists>rest. fst (tenant_body env obj name) = fst ?b @ rest"
    by (simp add: tenant_body_def bindT_sel split: sum.split)
  from assms consider (bind) "x \<in> set (fst ?b)"
    | (tail) bound missing counts where "Inr (bound, missing) = snd ?b"
        "Inr counts = count_resources env \<lparr>oc_gateways = 0, oc_plugin_sets = 0, oc_routes = 0\<rparr> bound"
        "(\<exists>e. x = Publish e) \<or> x = PatchStatus name (tenant_status_of env obj bound missing counts) tenant_fm"
    by (auto simp: tenant_body_def bindT_effects run_simps patch_status_logged_eff split: if_splits)
  then show ?thesis
  proof cases
    case bind
    from bind_namespaces_effects [OF this] show ?thesis by blast
  next
    case tail
    then show ?thesis using pre tail(1,2) [symmetric] by blast
  qed
qed

lemma tenant_reconcile_shape:
  "tenant_reconcile env obj = guarded_cleanup ''tenant'' (\<lambda>r. case r of Inr (_, o') \<Rightarrow> o'
       | Inl e \<Rightarrow> if e = TnMissingName then PermanentError else TransientError) TnMissingName TnFinalizer
     (tenant_cleanup env obj) (te_remove_get env) (te_remove_patch env) (te_finalizer env) (tn_meta obj) (tenant_body env obj)"
  by (simp add: tenant_reconcile_def tenant_reconcile_inner_def guarded_cleanup_def)

lemma tenant_effects:
  assumes "x \<in> set (fst (tenant_reconcile env obj))"
  obtains (finalizer) "\<exists>n ops. x = PatchFinalizers n ops" | (released) "\<exists>n fs. x = MergeFinalizers n fs"
    | (observed) "\<exists>o'. x = ObserveReconcile ''tenant'' o'"
    | (cleanup) "meta_deletion_timestamp (tn_meta obj) \<noteq> None" "x \<in> set (tenant_cleanup env obj)"
    | (body) name where "meta_deletion_timestamp (tn_meta obj) = None" "meta_name (tn_meta obj) = Some name"
        "x \<in> set (fst (tenant_body env obj name))"
        "\<exists>pre rest. fst (tenant_reconcile env obj) = pre @ fst (tenant_body env obj name) @ rest"
  using assms unfolding tenant_reconcile_shape by (rule guarded_cleanup_effects)

lemma tenant_writes_confined_lemma:
  assumes "x \<in> set (fst (tenant_reconcile env obj))"
    and "(\<exists>ob fm. x = Apply ob fm) \<or> (\<exists>k ns n. x = DeleteKind k ns n) \<or> (\<exists>n. x = DeleteObj n)"
  shows "\<exists>ns \<in> set (tn_namespaces (tn_spec obj)). written_namespace x = Some ns
    \<and> (meta_deletion_timestamp (tn_meta obj) = None \<longrightarrow> te_namespace env ns = Inr True)"
  using assms(1)
proof (cases rule: tenant_effects)
  case cleanup
  then show ?thesis by (auto simp: tenant_cleanup_def dest: teardown_written)
next
  case (body name)
  from tenant_body_effects [OF body(3)] assms(2) bind_namespace_written show ?thesis by blast
qed (use assms(2) in auto)

text \<open>A tenant controller writes only to the namespaces its tenant declares: to the ones that exist
  while the tenant lives, and to all of them when it is deleted. In particular a namespace that was
  taken off the list keeps its label and its quota.\<close>

theorem tenant_writes_confined:
  assumes "x \<in> set (fst (tenant_reconcile env obj))"
    and "(\<exists>ob fm. x = Apply ob fm) \<or> (\<exists>k ns n. x = DeleteKind k ns n) \<or> (\<exists>n. x = DeleteObj n)"
  shows "\<exists>ns \<in> set (tn_namespaces (tn_spec obj)). written_namespace x = Some ns
    \<and> (meta_deletion_timestamp (tn_meta obj) = None \<longrightarrow> te_namespace env ns = Inr True)"
  using assms by (rule tenant_writes_confined_lemma)

text \<open>Server-side apply creates an object that does not exist: the namespaces that exist after the
  effects of a reconcile.\<close>

definition namespaces_after :: "tenant_effect list \<Rightarrow> string set \<Rightarrow> string set" where
  "namespaces_after xs existing = existing \<union> {name_any m | m fm. Apply (ObNamespace m) fm \<in> set xs}"

text \<open>A living tenant never brings a namespace into being: it looks before it labels. A deleted tenant
  does not look: its clean-up applies the empty label set to every declared namespace, so the ones
  that were missing exist afterwards.\<close>

theorem tenant_deletion_creates_namespaces:
  assumes "\<And>ns. te_namespace env ns = Inr True \<Longrightarrow> ns \<in> existing"
  shows "namespaces_after (fst (tenant_reconcile env obj)) existing =
     (if meta_deletion_timestamp (tn_meta obj) \<noteq> None \<and> meta_name (tn_meta obj) \<noteq> None
      then existing \<union> set (tn_namespaces (tn_spec obj)) else existing)"
proof (cases "meta_deletion_timestamp (tn_meta obj) = None")
  case True
  have "name_any m \<in> existing" if "Apply (ObNamespace m) fm \<in> set (fst (tenant_reconcile env obj))" for m fm
    using tenant_writes_confined_lemma [OF that] assms True
    by (auto simp: written_namespace_def split: option.splits)
  with True show ?thesis by (auto simp: namespaces_after_def)
next
  case False
  show ?thesis
  proof (cases "meta_name (tn_meta obj)")
    case None
    then show ?thesis by (simp add: namespaces_after_def tenant_reconcile_def observed_def tenant_reconcile_inner_def run_simps)
  next
    case (Some name)
    let ?rel = "remove_finalizer (te_remove_get env) (te_remove_patch env) name OPERATOR_FINALIZER
      :: (tenant_status, k8s_object, finalizer_error, unit) ctl"
    have "Apply ob fm \<in> set (fst (tenant_reconcile env obj)) \<longleftrightarrow> Apply ob fm \<in> set (tenant_cleanup env obj)" for ob fm
      using False Some remove_finalizer_eff [of "Apply ob fm" "te_remove_get env" "te_remove_patch env" name OPERATOR_FINALIZER]
      by (auto simp: tenant_reconcile_def observed_effects tenant_reconcile_inner_def guarded_deleted bindT_effects run_simps)
    then have "{name_any m | m fm. Apply (ObNamespace m) fm \<in> set (fst (tenant_reconcile env obj))}
        = set (tn_namespaces (tn_spec obj))"
      by (force simp: tenant_cleanup_def teardown_namespace_def tenant_namespace_meta_def)
    then show ?thesis using False Some by (simp add: namespaces_after_def)
  qed
qed


text \<open>Ready says no more than that the namespaces exist: it is the condition NamespacesBound again, whatever
  became of the labels, bindings and quotas.\<close>

lemma tenant_ready_is_bound:
  assumes "condition_setter (te_set_condition env)"
  shows "cond_true ''Ready'' (ts_conditions (tenant_status_of env obj bound missing counts))
     \<longleftrightarrow> cond_true ''NamespacesBound'' (ts_conditions (tenant_status_of env obj bound missing counts))"
  by (simp add: tenant_status_of_def Let_def cond_true_set_cond [OF assms])

definition sample_tenant_env :: tenant_env where
  "sample_tenant_env = \<lparr>te_remove_get = Inr None, te_remove_patch = Inr (), te_finalizer = Inr (),
     te_status = (Inr (), Inr ()), te_namespace = (\<lambda>ns. Inr (ns = ''a'')), te_gateways = (\<lambda>_. Inr 2),
     te_plugin_sets = (\<lambda>_. Inr 0), te_routes = (\<lambda>_. Inr 0), te_set_condition = upsert_condition,
     te_service_account = ''op'', te_resync_secs = 300, te_random = 0\<rparr>"

definition two_namespaces :: tenant where
  "two_namespaces = \<lparr>tn_meta = default_meta\<lparr>meta_name := Some ''t'', meta_finalizers := Some [OPERATOR_FINALIZER]\<rparr>,
     tn_spec = \<lparr>tn_namespaces = [''a'', ''b''], tn_allowed_plugins = [],
       tn_quotas = Some \<lparr>max_gateways = Some 1, max_plugin_sets = None, max_routes = None, max_replicas_per_gateway = None\<rparr>,
       tn_identity_attribute_key = None\<rparr>, tn_conditions = None\<rparr>"

lemmas tenant_run_defs = tenant_reconcile_def observed_effects tenant_reconcile_inner_def guarded_def ensure_finalizer_def
  tenant_body_def sample_tenant_env_def two_namespaces_def default_meta_def map_err_def bindE_def run_simps

theorem tenant_writes_confined_witness:
  "\<exists>x \<in> set (fst (tenant_reconcile sample_tenant_env two_namespaces)). written_namespace x = Some ''a''"
proof -
  let ?x = "Apply (ObNamespace (tenant_namespace_meta ''a'' [TENANT_LABEL \<mapsto> ''t''])) tenant_fm"
  have x: "?x \<in> set (fst (tenant_reconcile sample_tenant_env two_namespaces))"
    by (simp add: tenant_run_defs bind_namespace_def ensure_namespace_label_def)
  from tenant_writes_confined [OF x] x show ?thesis
    by (auto simp: two_namespaces_def sample_tenant_env_def default_meta_def split: if_splits)
qed

theorem tenant_deletion_creates_namespaces_witness:
  "\<exists>obj. ''b'' \<in> namespaces_after (fst (tenant_reconcile sample_tenant_env obj)) {''a''}
     \<and> te_namespace sample_tenant_env ''b'' = Inr False"
proof -
  let ?obj = "two_namespaces\<lparr>tn_meta := (tn_meta two_namespaces)\<lparr>meta_deletion_timestamp := Some 1\<rparr>\<rparr>"
  have h: "\<And>ns. te_namespace sample_tenant_env ns = Inr True \<Longrightarrow> ns \<in> {''a''}" "te_namespace sample_tenant_env ''b'' = Inr False"
    by (simp_all add: sample_tenant_env_def)
  have d: "meta_deletion_timestamp (tn_meta ?obj) \<noteq> None \<and> meta_name (tn_meta ?obj) \<noteq> None" "''b'' \<in> set (tn_namespaces (tn_spec ?obj))"
    by (simp_all add: two_namespaces_def)
  from tenant_deletion_creates_namespaces [OF h(1), where obj = ?obj, unfolded if_P [OF d(1)]] h(2) d(2)
  show ?thesis by blast
qed


end
