(* ===== verification/ServerCtl.thy ===== *)
theory ServerCtl
  imports GatewayFacts Verify
begin

text \<open>
  Provisioned MCP servers: the renderers of \<open>src/src/templates/server.rs\<close> and the controller of
  \<open>src/src/controllers/server.rs\<close>. It verifies the image when asked to, renders the workload only
  under a passing verification, and reports whether the workload is ready and which gateway
  federates it. How the gateway does that is in \<open>GatewayConfig\<close>; the two are shown to agree.
\<close>

section \<open>Renderers\<close>

definition server_owner_ref :: "mcp_server \<Rightarrow> owner_ref" where
  "server_owner_ref parent =
     \<lparr>or_api_version = ''mcpg.dev/v1alpha1'', or_kind = ''MCPGServer'', or_name = name_any (sv_meta parent),
      or_uid = (case meta_uid (sv_meta parent) of Some u \<Rightarrow> u | None \<Rightarrow> []),
      or_controller = Some True, or_block_owner_deletion = Some True\<rparr>"

definition server_selector_labels :: "mcp_server \<Rightarrow> str_map" where
  "server_selector_labels parent = [APP_NAME \<mapsto> ''mcpg-server'', APP_INSTANCE \<mapsto> name_any (sv_meta parent)]"

definition server_labels :: "mcp_server \<Rightarrow> str_map" where
  "server_labels parent = (server_selector_labels parent)(APP_COMPONENT \<mapsto> ''mcp-server'',
     APP_PART_OF \<mapsto> ''mcpg'', APP_MANAGED_BY \<mapsto> ''mcpg-operator'')"

definition to_quantities :: "(string \<times> string) list \<Rightarrow> str_map option" where
  "to_quantities m = (if m = [] then None else Some (map_of m))"

definition server_meta :: "mcp_server \<Rightarrow> object_meta" where
  "server_meta parent = default_meta\<lparr>meta_name := Some (server_child_name parent),
     meta_namespace := meta_namespace (sv_meta parent), meta_labels := Some (server_labels parent),
     meta_owner_references := Some [server_owner_ref parent]\<rparr>"

definition nonempty :: "'a list \<Rightarrow> 'a list option" where
  "nonempty xs = (if xs = [] then None else Some xs)"

definition server_container :: "api_crate \<Rightarrow> mcp_server \<Rightarrow> container" where
  "server_container api parent =
     (let spec = sv_spec parent; port = server_port api spec
      in \<lparr>ct_name = ''mcp-server'', ct_image = Some (sv_image spec), ct_pull_policy = None, ct_working_dir = None,
          ct_command = None, ct_args = None,
          ct_ports = [\<lparr>cp_name = Some ''http'', cp_port = port, cp_protocol = Some ''TCP''\<rparr>],
          ct_env = nonempty (map (\<lambda>(n, v). \<lparr>envv_name = n, envv_source = EnvValue v\<rparr>) (sv_env spec)),
          ct_env_from = nonempty (map (\<lambda>s. \<lparr>efs_name = s, efs_optional = Some False\<rparr>) (sv_env_from_secrets spec)),
          ct_requests = Option.bind (sv_resources spec) (\<lambda>r. to_quantities (res_requests r)),
          ct_limits = Option.bind (sv_resources spec) (\<lambda>r. to_quantities (res_limits r)),
          ct_volume_mounts = None, ct_liveness = None,
          ct_readiness = Some \<lparr>pr_action = TcpSocket, pr_port = IntVal port, pr_initial_delay = Some 2,
            pr_period = Some 5, pr_timeout = None, pr_failure_threshold = None, pr_success_threshold = None\<rparr>,
          ct_startup = None, ct_security = None\<rparr>)"

definition build_server_deployment :: "api_crate \<Rightarrow> mcp_server \<Rightarrow> deployment" where
  "build_server_deployment api parent =
     (let spec = sv_spec parent
      in \<lparr>dep_meta = server_meta parent, dep_replicas = Some (server_replicas api spec),
          dep_selector = server_selector_labels parent, dep_strategy = None,
          dep_pod_meta = default_meta\<lparr>meta_labels := Some (server_labels parent)\<rparr>,
          dep_pod = \<lparr>pod_service_account = sv_service_account spec, pod_automount_token = None,
            pod_enable_service_links = None, pod_security_context = None,
            pod_containers = [server_container api parent], pod_volumes = None,
            pod_image_pull_secrets = nonempty (sv_image_pull_secrets spec), pod_node_selector = None,
            pod_priority_class = None, pod_termination_grace = None, pod_topology_spread = None,
            pod_dns_config = None\<rparr>\<rparr>)"

definition build_server_service :: "api_crate \<Rightarrow> mcp_server \<Rightarrow> service" where
  "build_server_service api parent =
     \<lparr>srv_meta = server_meta parent, srv_type = Some ''ClusterIP'', srv_cluster_ip = None,
      srv_publish_not_ready = None, srv_selector = Some (server_selector_labels parent),
      srv_ports = [\<lparr>sp_name = Some ''http'', sp_port = server_port api (sv_spec parent),
        sp_target_port = Some (StrVal ''http''), sp_protocol = Some ''TCP''\<rparr>]\<rparr>"

section \<open>The controller\<close>

datatype server_error =
    SvStatus status_error
  | SvFinalizer finalizer_error
  | SvApply apply_error
  | SvKube kube_error
  | SvMissingName
  | SvMissingNamespace string

record server_status =
  svs_conditions :: "condition list"
  svs_observed_generation :: "int option"
  svs_ready_replicas :: "int option"
  svs_endpoint :: "string option"
  svs_bound_gateway :: "string option"

text \<open>\<open>se_deployment\<close> answers the read of a Deployment of the namespace with its status,
  \<open>se_gateway\<close> says whether a gateway of the namespace exists.\<close>

record 'root server_env =
  se_api :: api_crate
  se_remove_get :: "kube_error + object_meta option"
  se_remove_patch :: "kube_error + unit"
  se_finalizer :: "kube_error + unit"
  se_status :: "(kube_error + unit) \<times> (kube_error + unit)"
  se_cosign :: "'root cosign_env"
  se_trust_state :: "'root trust_state"
  se_apply :: "k8s_object \<Rightarrow> kube_error + unit"
  se_deployment :: "string \<Rightarrow> kube_error + deployment_status option option"
  se_gateway :: "string \<Rightarrow> kube_error + bool"
  se_pod_dns_config :: "json option"
  se_set_condition :: "condition \<Rightarrow> condition list \<Rightarrow> condition list"
  se_resync_secs :: nat
  se_random :: real

type_synonym 'a server_run = "(server_status, k8s_object, server_error, 'a) ctl"

abbreviation server_fm :: string where
  "server_fm \<equiv> field_manager ''server-controller''"

definition image_verification :: "'root server_env \<Rightarrow> server_spec \<Rightarrow> bool \<times> string" where
  "image_verification env spec =
     (case sv_verify spec of
        None \<Rightarrow> (True, ''VerificationNotConfigured'')
      | Some ident \<Rightarrow>
          if \<not> contains_sub ''@sha256:'' (sv_image spec) then (False, ''DigestPinRequired'')
          else
            let pinned = (case digest_of (sv_image spec) of Some d \<Rightarrow> d | None \<Rightarrow> [])
            in case fst (snd (verify_cosign_keyless (se_cosign env) (se_trust_state env) (sv_image spec) ident pinned)) of
                 Inr _ \<Rightarrow> (True, ''CosignVerified'')
               | Inl _ \<Rightarrow> (False, ''CosignVerifyFailed''))"

definition apply_workload :: "'root server_env \<Rightarrow> mcp_server \<Rightarrow> unit server_run" where
  "apply_workload env obj =
     (let dep = build_server_deployment (se_api env) obj;
          dep = ObDeployment (dep\<lparr>dep_pod := apply_pod_dns_config (dep_pod dep) (se_pod_dns_config env)\<rparr>);
          srv = ObService (build_server_service (se_api env) obj)
      in bindT (lift_run SvApply (apply_owned (se_apply env dep) ob_meta dep server_fm)) (\<lambda>_.
         lift_run SvApply (apply_owned (se_apply env srv) ob_meta srv server_fm)))"

definition ready_replicas_of :: "deployment_status option option \<Rightarrow> int" where
  "ready_replicas_of live =
     (case Option.bind (Option.bind live (\<lambda>d. d)) ds_ready of Some n \<Rightarrow> n | None \<Rightarrow> 0)"

definition server_readiness :: "bool \<Rightarrow> int \<Rightarrow> int \<Rightarrow> bool \<times> string" where
  "server_readiness verified n_ready desired =
     (if \<not> verified then (False, ''RenderBlockedByVerification'')
      else if n_ready \<ge> desired then (True, ''Reconciled'')
      else (False, ''RolloutPending''))"

definition gateway_bound :: "api_crate \<Rightarrow> server_federate \<Rightarrow> bool \<Rightarrow> bool \<times> string" where
  "gateway_bound api federate gateway_exists =
     (if federate_governance_error api federate \<noteq> None then (False, ''GovernanceInvalid'')
      else if gateway_exists then (True, ''GatewayBound'')
      else (False, ''GatewayNotFound''))"

definition server_binding :: "'root server_env \<Rightarrow> mcp_server \<Rightarrow> string \<Rightarrow> (bool \<times> string) server_run" where
  "server_binding env obj ns =
     (case sv_federate (sv_spec obj) of
        None \<Rightarrow> ret (False, ''NotFederated'')
      | Some federate \<Rightarrow>
          bindT ([], map_err SvKube (se_gateway env (fed_gateway_ref federate))) (\<lambda>exists.
          let binding = gateway_bound (se_api env) federate exists
          in after (if \<not> fst binding
               then [Publish \<lparr>ev_type = Warning, ev_reason = snd binding, ev_action = ''Bind''\<rparr>] else [])
             (ret binding)))"

definition server_status_of ::
  "'root server_env \<Rightarrow> mcp_server \<Rightarrow> string \<Rightarrow> bool \<times> string \<Rightarrow> int \<Rightarrow> bool \<times> string \<Rightarrow> server_status" where
  "server_status_of env obj ns verification n_ready binding =
     (let gen = generation_of (sv_meta obj); set = se_set_condition env;
          readiness = server_readiness (fst verification) n_ready (server_replicas (se_api env) (sv_spec obj));
          cs = (case sv_conditions obj of Some cs \<Rightarrow> cs | None \<Rightarrow> []);
          cs = set_cond set ''ImageVerified'' (fst verification) (snd verification) gen cs;
          cs = set_cond set ''Ready'' (fst readiness) (snd readiness) gen cs;
          cs = set_cond set ''GatewayBound'' (fst binding) (snd binding) gen cs
      in \<lparr>svs_conditions = cs, svs_observed_generation = Some gen, svs_ready_replicas = Some n_ready,
          svs_endpoint = Some (server_endpoint (se_api env) (sv_spec obj) (server_child_name obj) ns),
          svs_bound_gateway = (case sv_federate (sv_spec obj) of
            Some f \<Rightarrow> if fst binding then Some (ns @ ''/'' @ fed_gateway_ref f) else None | None \<Rightarrow> None)\<rparr>)"

definition server_body :: "'root server_env \<Rightarrow> mcp_server \<Rightarrow> string \<Rightarrow> string \<Rightarrow> (reconcile_action \<times> reconcile_outcome) server_run" where
  "server_body env obj name ns =
     (let verification = image_verification env (sv_spec obj) in
      bindT (if fst verification then apply_workload env obj else ret ()) (\<lambda>_.
      bindT ([], map_err SvKube (se_deployment env (server_child_name obj))) (\<lambda>live.
      let n_ready = ready_replicas_of live in
      bindT (server_binding env obj ns) (\<lambda>binding.
      after (patch_status_logged (fst (se_status env)) (snd (se_status env)) name
               (server_status_of env obj ns verification n_ready binding) server_fm
             @ (if \<not> fst verification
                then [Publish \<lparr>ev_type = Warning, ev_reason = snd verification, ev_action = ''Verify''\<rparr>] else []))
        (ret (Requeue (jittered_resync (se_random env) (se_resync_secs env)),
              if fst (server_readiness (fst verification) n_ready (server_replicas (se_api env) (sv_spec obj)))
              then Success else DependencyPending))))))"

definition server_reconcile_inner :: "'root server_env \<Rightarrow> mcp_server \<Rightarrow> (reconcile_action \<times> reconcile_outcome) server_run" where
  "server_reconcile_inner env obj =
     (case meta_name (sv_meta obj) of
        None \<Rightarrow> throw SvMissingName
      | Some name \<Rightarrow>
        (case meta_namespace (sv_meta obj) of
           None \<Rightarrow> throw (SvMissingNamespace name)
         | Some ns \<Rightarrow>
             guarded SvFinalizer
               (\<lambda>n. remove_finalizer (se_remove_get env) (se_remove_patch env) n OPERATOR_FINALIZER)
               (\<lambda>n. ensure_finalizer (se_finalizer env) n (sv_meta obj) OPERATOR_FINALIZER)
               (sv_meta obj) name (server_body env obj name ns)))"

definition server_permanent :: "server_error \<Rightarrow> bool" where
  "server_permanent e = (case e of SvMissingName \<Rightarrow> True | SvMissingNamespace _ \<Rightarrow> True | _ \<Rightarrow> False)"

definition server_reconcile :: "'root server_env \<Rightarrow> mcp_server \<Rightarrow> reconcile_action server_run" where
  "server_reconcile env obj =
     observed ''server'' (\<lambda>r. case r of Inr (_, o') \<Rightarrow> o'
       | Inl e \<Rightarrow> if server_permanent e then PermanentError else TransientError)
       (server_reconcile_inner env obj)"

text \<open>This controller does not use the backoff map.\<close>

definition server_error_policy :: "server_error \<Rightarrow> reconcile_action" where
  "server_error_policy err = (if server_permanent err then AwaitChange else Requeue 10)"

section \<open>The contract of a reconciler\<close>

interpretation server_ctl: reconciler server_reconcile_inner sv_meta
proof
  fix obj :: mcp_server and env :: "'root server_env"
  assume "meta_name (sv_meta obj) = None"
  then show "fst (server_reconcile_inner env obj) = [] \<and> isl (snd (server_reconcile_inner env obj))"
    by (simp add: server_reconcile_inner_def run_simps)
next
  fix obj :: mcp_server and env :: "'root server_env" and x
  assume "meta_deletion_timestamp (sv_meta obj) \<noteq> None" and "x \<in> set (fst (server_reconcile_inner env obj))"
  then show "\<exists>fs. x = MergeFinalizers (name_any (sv_meta obj)) fs \<and> OPERATOR_FINALIZER \<notin> set fs"
    by (auto simp: server_reconcile_inner_def run_simps split: option.splits dest: guarded_deleting)
next
  fix obj :: mcp_server and env :: "'root server_env"
  assume "meta_deletion_timestamp (sv_meta obj) = None" "\<not> has_finalizer (sv_meta obj) OPERATOR_FINALIZER"
  then show "fst (server_reconcile_inner env obj) = [] \<and> isl (snd (server_reconcile_inner env obj))
    \<or> (\<exists>ops rest. fst (server_reconcile_inner env obj) = PatchFinalizers (name_any (sv_meta obj)) ops # rest)"
    by (cases "meta_name (sv_meta obj)"; cases "meta_namespace (sv_meta obj)")
      (auto simp: server_reconcile_inner_def run_simps dest: guarded_finalizer_first)
qed

lemma server_effects:
  assumes "x \<in> set (fst (server_reconcile env obj))"
  obtains (finalizer) "\<exists>n ops. x = PatchFinalizers n ops" | (released) "\<exists>n fs. x = MergeFinalizers n fs"
    | (outcome) "\<exists>o'. x = ObserveReconcile ''server'' o'"
    | (body) name ns where "meta_deletion_timestamp (sv_meta obj) = None" "meta_name (sv_meta obj) = Some name"
        "meta_namespace (sv_meta obj) = Some ns" "x \<in> set (fst (server_body env obj name ns))"
proof -
  consider "x \<in> set (fst (server_reconcile_inner env obj))" | "\<exists>o'. x = ObserveReconcile ''server'' o'"
    using assms by (auto simp: server_reconcile_def observed_effects)
  then show thesis
  proof cases
    case 1
    then obtain name ns where n: "meta_name (sv_meta obj) = Some name" "meta_namespace (sv_meta obj) = Some ns"
      by (auto simp: server_reconcile_inner_def run_simps split: option.splits)
    with 1 guarded_body [of x SvFinalizer "se_remove_get env" "se_remove_patch env" "se_finalizer env" "sv_meta obj" name
        "server_body env obj name ns"] finalizer released body [OF _ n]
    show thesis by (auto simp: server_reconcile_inner_def)
  next
    case 2
    then show thesis by (rule outcome)
  qed
qed

section \<open>The workload\<close>

lemma digest_of_Some: "CHR ''@'' \<in> set s \<Longrightarrow> \<exists>d. digest_of s = Some d"
  unfolding digest_of_def split_once_def by (induction s) (auto split: option.splits)

lemma apply_workload_effects:
  "x \<in> set (fst (apply_workload env obj)) \<Longrightarrow>
     (\<exists>d. x = Apply (ObDeployment d) server_fm
        \<and> map ct_image (pod_containers (dep_pod d)) = [Some (sv_image (sv_spec obj))])
     \<or> x = Apply (ObService (build_server_service (se_api env) obj)) server_fm"
  by (auto simp: apply_workload_def bindT_effects run_simps Let_def apply_owned_eff build_server_deployment_def
      server_container_def apply_pod_dns_config_def split: option.splits)

lemma server_binding_effects: "x \<in> set (fst (server_binding env obj ns)) \<Longrightarrow> \<exists>e. x = Publish e"
  by (auto simp: server_binding_def bindT_effects run_simps Let_def split: option.splits if_splits)

lemma server_binding_result:
  assumes "snd (server_binding env obj ns) = Inr b"
  shows "fst b \<longleftrightarrow> (\<exists>fed. sv_federate (sv_spec obj) = Some fed \<and> federate_governance_error (se_api env) fed = None
    \<and> se_gateway env (fed_gateway_ref fed) = Inr True)"
  using assms
  by (auto simp: server_binding_def bindT_Inr run_simps Let_def gateway_bound_def map_err_def
      split: option.splits if_splits sum.splits)

text \<open>C12. A server that asks for verification gets a workload only for a verified image: whenever the
  controller applies anything, either no verification is configured, or the image names a digest,
  the cosign verification of exactly this digest succeeded against the configured identity, and the
  container runs this image. When verification fails nothing is written but the status.\<close>

theorem server_workload_only_verified:
  assumes "\<And>ls cs. ce_verify_constraints (se_cosign env) ls cs \<Longrightarrow> \<forall>c \<in> set cs. \<exists>l \<in> set ls. c l"
    and "Apply ob fm \<in> set (fst (server_reconcile env obj))"
  shows "(case sv_verify (sv_spec obj) of
        None \<Rightarrow> True
      | Some ident \<Rightarrow> \<exists>d sd re cosign_image layers c. digest_of (sv_image (sv_spec obj)) = Some d
          \<and> digests_match sd d
          \<and> ce_regex (se_cosign env) (certificate_identity_regexp ident) = Some re
          \<and> ce_triangulate (se_cosign env) (pin_to_digest (sv_image (sv_spec obj)) d) = Some (cosign_image, sd)
          \<and> ce_layers (se_cosign env) cosign_image = Some layers \<and> Some c \<in> set layers
          \<and> cs_issuer c = Some (oidc_issuer ident) \<and> re (subject_text (cs_subject c)))
     \<and> ((\<exists>d. ob = ObDeployment d \<and> map ct_image (pod_containers (dep_pod d)) = [Some (sv_image (sv_spec obj))])
        \<or> ob = ObService (build_server_service (se_api env) obj))"
  using assms(2)
proof (cases rule: server_effects)
  case (body name ns)
  from body(4) have v: "fst (image_verification env (sv_spec obj))" and w: "Apply ob fm \<in> set (fst (apply_workload env obj))"
    using server_binding_effects [of "Apply ob fm"]
    by (auto simp: server_body_def Let_def bindT_effects run_simps patch_status_logged_eff split: if_splits)
  have "\<exists>d sd re cosign_image layers c. digest_of (sv_image (sv_spec obj)) = Some d
          \<and> digests_match sd d
          \<and> ce_regex (se_cosign env) (certificate_identity_regexp ident) = Some re
          \<and> ce_triangulate (se_cosign env) (pin_to_digest (sv_image (sv_spec obj)) d) = Some (cosign_image, sd)
          \<and> ce_layers (se_cosign env) cosign_image = Some layers \<and> Some c \<in> set layers
          \<and> cs_issuer c = Some (oidc_issuer ident) \<and> re (subject_text (cs_subject c))"
    if i: "sv_verify (sv_spec obj) = Some ident" for ident
  proof -
    obtain d r where d: "digest_of (sv_image (sv_spec obj)) = Some d"
      and r: "fst (snd (verify_cosign_keyless (se_cosign env) (se_trust_state env) (sv_image (sv_spec obj)) ident d)) = Inr r"
      using v i digest_of_Some [of "sv_image (sv_spec obj)"]
        contains_sub_subset [of "''@sha256:''" "sv_image (sv_spec obj)"]
      by (auto simp: image_verification_def Let_def split: if_splits sum.splits)
    show ?thesis
      by (rule cosign_success [OF _ r, THEN conjE]) (erule assms(1), use d in blast)
  qed
  then show ?thesis
    using apply_workload_effects [OF w] by (cases "sv_verify (sv_spec obj)") (simp_all only: option.case, auto)
qed auto

definition verified_server :: mcp_server where
  "verified_server = (sample_server ''s'')\<lparr>
     sv_meta := (sv_meta (sample_server ''s''))\<lparr>meta_finalizers := Some [OPERATOR_FINALIZER]\<rparr>,
     sv_spec := (sv_spec (sample_server ''s''))\<lparr>sv_image := ''r/s@sha256:ab'',
       sv_verify := Some \<lparr>certificate_identity_regexp = ''https://gh/'', oidc_issuer = ''iss''\<rparr>\<rparr>\<rparr>"

definition sample_server_env :: "unit server_env" where
  "sample_server_env = \<lparr>se_api = sample_api, se_remove_get = Inr None, se_remove_patch = Inr (), se_finalizer = Inr (),
     se_status = (Inr (), Inr ()), se_cosign = sample_cosign_env,
     se_trust_state = \<lparr>offline_path = None, trust_cached = None\<rparr>, se_apply = (\<lambda>_. Inr ()),
     se_deployment = (\<lambda>_. Inr (Some (Some \<lparr>ds_replicas = Some 1, ds_ready = Some 1, ds_updated = None, ds_available = None\<rparr>))),
     se_gateway = (\<lambda>n. Inr (n = ''gw'')), se_pod_dns_config = None,
     se_set_condition = upsert_condition, se_resync_secs = 300, se_random = 0\<rparr>"

lemma verified_server_fields:
  "meta_name (sv_meta verified_server) = Some ''s''" "meta_namespace (sv_meta verified_server) = Some ''team''"
  "meta_deletion_timestamp (sv_meta verified_server) = None" "has_finalizer (sv_meta verified_server) OPERATOR_FINALIZER"
  "sv_replicas (sv_spec verified_server) = None"
  "sv_verify (sv_spec verified_server) = Some \<lparr>certificate_identity_regexp = ''https://gh/'', oidc_issuer = ''iss''\<rparr>"
  "\<exists>fed. sv_federate (sv_spec verified_server) = Some fed \<and> fed_gateway_ref fed = ''gw'' \<and> fed_governance fed = None"
  by (simp_all add: verified_server_def sample_server_def default_meta_def has_finalizer_def bare_server_spec_def)

lemma verified_server_image: "image_verification sample_server_env (sv_spec verified_server) = (True, ''CosignVerified'')"
  by (simp add: image_verification_def sample_server_env_def verified_server_def sample_server_def contains_sub_def
      digest_of_def split_once_def verify_cosign_keyless_def sample_cosign_env_def trust_root_def Let_def blank_def
      trim_def trim_end_def char_class_defs is_ws2_def is_ws3_def digests_match_def strip_sha256_def
      strip_prefix_def starts_with_def cert_subject_regex_verify_def matches_subject_and_issuer_def subject_text_def
      map_err_def)

lemma verified_server_reconcile:
  "x \<in> set (fst (server_body sample_server_env verified_server ''s'' ''team''))
    \<Longrightarrow> x \<in> set (fst (server_reconcile sample_server_env verified_server))"
  by (simp add: server_reconcile_def observed_effects server_reconcile_inner_def guarded_live verified_server_fields)

lemma verified_server_workload:
  "snd (apply_workload sample_server_env verified_server) = Inr ()"
  "Apply (ObService (build_server_service (se_api sample_server_env) verified_server)) server_fm
     \<in> set (fst (apply_workload sample_server_env verified_server))"
proof -
  have ok: "snd (apply_owned (se_apply sample_server_env ob) ob_meta ob server_fm) = Inr ()"
    if "meta_name (ob_meta ob) \<noteq> None" for ob
    using that by (simp add: apply_owned_ok sample_server_env_def)
  have named: "meta_name (ob_meta (ObService (build_server_service api p))) \<noteq> None"
    "dep_meta D = server_meta p \<Longrightarrow> meta_name (ob_meta (ObDeployment D)) \<noteq> None" for api p D
    by (simp_all add: ob_meta_def build_server_service_def server_meta_def)
  have dep: "dep_meta (build_server_deployment api p \<lparr>dep_pod := d\<rparr>) = server_meta p" for api p d
    by (simp add: build_server_deployment_def Let_def)
  show "snd (apply_workload sample_server_env verified_server) = Inr ()"
    by (simp only: apply_workload_def Let_def bindT_sel lift_run_sel ok [OF named(2) [OF dep]] ok [OF named(1)] map_err_def
        sum.case)
  show "Apply (ObService (build_server_service (se_api sample_server_env) verified_server)) server_fm
     \<in> set (fst (apply_workload sample_server_env verified_server))"
    by (simp only: apply_workload_def Let_def bindT_sel lift_run_sel ok [OF named(2) [OF dep]] ok [OF named(1)] map_err_def
        sum.case set_append apply_owned_eff) (simp add: named(1) apply_owned_eff)
qed

lemma verified_server_body:
  "set (fst (apply_workload sample_server_env verified_server)) \<subseteq> set (fst (server_body sample_server_env verified_server ''s'' ''team''))"
  "\<exists>n_ready b. 1 \<le> n_ready \<and> fst b \<and> PatchStatus ''s'' (server_status_of sample_server_env verified_server ''team''
      (True, ''CosignVerified'') n_ready b) server_fm \<in> set (fst (server_body sample_server_env verified_server ''s'' ''team''))"
proof -
  show "set (fst (apply_workload sample_server_env verified_server)) \<subseteq> set (fst (server_body sample_server_env verified_server ''s'' ''team''))"
    by (auto simp: server_body_def Let_def verified_server_image bindT_effects)
  obtain b where b: "snd (server_binding sample_server_env verified_server ''team'') = Inr b" "fst b"
    using verified_server_fields(7)
    by (auto simp: server_binding_def run_simps map_err_def gateway_bound_def federate_governance_error_def sample_server_env_def)
  show "\<exists>n_ready b. 1 \<le> n_ready \<and> fst b \<and> PatchStatus ''s'' (server_status_of sample_server_env verified_server ''team''
      (True, ''CosignVerified'') n_ready b) server_fm \<in> set (fst (server_body sample_server_env verified_server ''s'' ''team''))"
    using b verified_server_workload(1)
    by (intro exI [of _ 1] exI [of _ b])
      (simp add: server_body_def Let_def verified_server_image bindT_effects map_err_def patch_status_logged_eff run_simps,
        simp add: sample_server_env_def ready_replicas_of_def)
qed

theorem server_workload_only_verified_witness:
  "\<exists>d fm. Apply (ObService d) fm \<in> set (fst (server_reconcile sample_server_env verified_server))
     \<and> digest_of (sv_image (sv_spec verified_server)) = Some ''sha256:ab''"
proof -
  let ?svc = "ObService (build_server_service (se_api sample_server_env) verified_server)"
  from verified_server_workload(2) have e: "Apply ?svc server_fm \<in> set (fst (server_reconcile sample_server_env verified_server))"
    using verified_server_body(1) verified_server_reconcile by blast
  have "\<And>ls cs. ce_verify_constraints (se_cosign sample_server_env) ls cs \<Longrightarrow> \<forall>c \<in> set cs. \<exists>l \<in> set ls. c l"
    by (simp add: sample_server_env_def sample_cosign_env_def list_all_iff list_ex_iff)
  from server_workload_only_verified [OF this e] obtain d where
    "digest_of (sv_image (sv_spec verified_server)) = Some d" by (auto simp: verified_server_fields)
  moreover have "digest_of (sv_image (sv_spec verified_server)) = Some ''sha256:ab''"
    by (simp add: verified_server_def digest_of_def split_once_def)
  ultimately show ?thesis using e by blast
qed

text \<open>The objects of one server fit together: the Service selects exactly the pods its Deployment
  creates, by labels that no other server shares, and reaches the port the container declares.\<close>

theorem server_children_wired:
  "let D = build_server_deployment api p; S = build_server_service api p; E = build_server_deployment api' q
   in srv_selector S = Some (dep_selector D)
    \<and> (dep_selector D \<subseteq>\<^sub>m the (meta_labels (dep_pod_meta E)) \<longleftrightarrow> name_any (sv_meta p) = name_any (sv_meta q))
    \<and> name_any (srv_meta S) = name_any (dep_meta D) \<and> meta_namespace (srv_meta S) = meta_namespace (sv_meta p)
    \<and> (\<forall>sp \<in> set (srv_ports S). \<exists>c \<in> set (pod_containers (dep_pod D)). \<exists>cp \<in> set (ct_ports c).
         sp_target_port sp = map_option StrVal (cp_name cp) \<and> cp_port cp = sp_port sp)"
  by (auto simp: Let_def build_server_deployment_def build_server_service_def server_selector_labels_def server_labels_def
      server_meta_def server_container_def map_le_def label_defs default_meta_def split: if_splits)

theorem server_children_wired_witness:
  "srv_selector (build_server_service sample_api verified_server)
     = Some (dep_selector (build_server_deployment sample_api verified_server))
   \<and> (\<exists>c \<in> set (pod_containers (dep_pod (build_server_deployment sample_api verified_server))).
        \<exists>cp \<in> set (ct_ports c). cp_port cp = server_port sample_api (sv_spec verified_server))"
proof -
  have "\<exists>sp \<in> set (srv_ports (build_server_service sample_api verified_server)). sp_port sp = server_port sample_api (sv_spec verified_server)"
    by (simp add: build_server_service_def)
  then show ?thesis
    using server_children_wired [of sample_api verified_server sample_api verified_server, unfolded Let_def] by metis
qed

text \<open>C24. What the status of a server says. It is Ready exactly when the image passed verification and the
  Deployment reports at least the wanted replicas ready. It is GatewayBound exactly when the gateway it
  names exists and its governance block is admissible. Then the configuration that this gateway merges from
  its servers has an entry of the server's federation name. That entry is the server's, and dials the
  endpoint of the status, when the author's configuration leaves the name free and no other server of
  the gateway claims it; a name the author has taken keeps the author's entry, and the server is
  passed over although it is reported as bound.\<close>

theorem server_status_matches_gateway:
  assumes "condition_setter (se_set_condition env)"
    and "PatchStatus n st fm \<in> set (fst (server_reconcile env obj))"
  shows "\<exists>ns live url. meta_namespace (sv_meta obj) = Some ns \<and> se_deployment env (server_child_name obj) = Inr live
     \<and> svs_endpoint st = Some url
     \<and> (cond_true ''ImageVerified'' (svs_conditions st) \<longleftrightarrow> fst (image_verification env (sv_spec obj)))
     \<and> (cond_true ''Ready'' (svs_conditions st) \<longleftrightarrow> cond_true ''ImageVerified'' (svs_conditions st)
          \<and> server_replicas (se_api env) (sv_spec obj) \<le> ready_replicas_of live)
     \<and> (cond_true ''GatewayBound'' (svs_conditions st) \<longleftrightarrow>
          (\<exists>fed. sv_federate (sv_spec obj) = Some fed \<and> federate_governance_error (se_api env) fed = None
             \<and> se_gateway env (fed_gateway_ref fed) = Inr True))
     \<and> (cond_true ''GatewayBound'' (svs_conditions st) \<longrightarrow> (\<forall>servers config. obj \<in> set servers \<longrightarrow>
          (let gw = fed_gateway_ref (the (sv_federate (sv_spec obj))); name = fed_name_of (se_api env) obj;
               merged = fed_entries (fst (apply_servers_to_config (se_api env) servers gw ns config))
           in list_ex (entry_named name) merged
            \<and> (list_ex (entry_named name) (fed_entries config)
                 \<longrightarrow> filter (entry_named name) merged = filter (entry_named name) (fed_entries config))
            \<and> (\<not> list_ex (entry_named name) (fed_entries config)
                 \<and> (\<forall>sv \<in> set servers. server_targets (se_api env) gw ns sv \<and> fed_name_of (se_api env) sv = name \<longrightarrow> sv = obj)
                 \<longrightarrow> (\<exists>e. filter (entry_named name) merged = [e] \<and> json_path [''upstream'', ''url''] e = Some (JStr url))))))"
  using assms(2)
proof (cases rule: server_effects)
  case (body name ns)
  from body(4) obtain live b where l: "se_deployment env (server_child_name obj) = Inr live"
    and b': "Inr b = snd (server_binding env obj ns)"
    and st: "st = server_status_of env obj ns (image_verification env (sv_spec obj)) (ready_replicas_of live) b"
    using server_binding_effects [of "PatchStatus n st fm"] apply_workload_effects [of "PatchStatus n st fm"]
    by (fastforce simp: server_body_def Let_def bindT_effects run_simps patch_status_logged_eff map_err_def
        split: if_splits sum.splits)
  note b = b' [symmetric]
  define url where "url = server_endpoint (se_api env) (sv_spec obj) (server_child_name obj) ns"
  have dialed: "json_path [''upstream'', ''url''] (server_entry (se_api env) ns obj) = Some (JStr url)"
    by (simp add: url_def server_entry_def federation_entry_def Let_def json_get_def [of _ "JObj _"] split: option.split)
  have bound: "cond_true ''GatewayBound'' (svs_conditions st) \<longleftrightarrow>
      (\<exists>fed. sv_federate (sv_spec obj) = Some fed \<and> federate_governance_error (se_api env) fed = None
         \<and> se_gateway env (fed_gateway_ref fed) = Inr True)"
    using server_binding_result [OF b]
    by (simp add: st server_status_of_def Let_def cond_true_set_cond [OF assms(1)])
  have targets: "server_targets (se_api env) (fed_gateway_ref (the (sv_federate (sv_spec obj)))) ns obj"
    if "cond_true ''GatewayBound'' (svs_conditions st)"
    using that body(3) unfolding bound by (auto simp: server_targets_def)
  have ready: "cond_true ''ImageVerified'' (svs_conditions st) \<longleftrightarrow> fst (image_verification env (sv_spec obj))"
    "cond_true ''Ready'' (svs_conditions st) \<longleftrightarrow> cond_true ''ImageVerified'' (svs_conditions st)
       \<and> server_replicas (se_api env) (sv_spec obj) \<le> ready_replicas_of live"
    "svs_endpoint st = Some url"
    by (auto simp: st server_status_of_def Let_def cond_true_set_cond [OF assms(1)] server_readiness_def url_def split: if_splits)
  note merged = merged_server [OF targets]
  have served: "let gw = fed_gateway_ref (the (sv_federate (sv_spec obj))); name = fed_name_of (se_api env) obj;
               merged = fed_entries (fst (apply_servers_to_config (se_api env) servers gw ns config))
           in list_ex (entry_named name) merged
            \<and> (list_ex (entry_named name) (fed_entries config)
                 \<longrightarrow> filter (entry_named name) merged = filter (entry_named name) (fed_entries config))
            \<and> (\<not> list_ex (entry_named name) (fed_entries config)
                 \<and> (\<forall>sv \<in> set servers. server_targets (se_api env) gw ns sv \<and> fed_name_of (se_api env) sv = name \<longrightarrow> sv = obj)
                 \<longrightarrow> (\<exists>e. filter (entry_named name) merged = [e] \<and> json_path [''upstream'', ''url''] e = Some (JStr url)))"
    if b: "cond_true ''GatewayBound'' (svs_conditions st)" and o: "obj \<in> set servers" for servers config
    unfolding Let_def
  proof (intro conjI impI)
    show "\<exists>e. filter (entry_named (fed_name_of (se_api env) obj)) (fed_entries (fst (apply_servers_to_config (se_api env) servers
        (fed_gateway_ref (the (sv_federate (sv_spec obj)))) ns config))) = [e] \<and> json_path [''upstream'', ''url''] e = Some (JStr url)"
      if h: "\<not> list_ex (entry_named (fed_name_of (se_api env) obj)) (fed_entries config)
        \<and> (\<forall>sv \<in> set servers. server_targets (se_api env) (fed_gateway_ref (the (sv_federate (sv_spec obj)))) ns sv
             \<and> fed_name_of (se_api env) sv = fed_name_of (se_api env) obj \<longrightarrow> sv = obj)"
    proof (intro exI conjI)
      show "filter (entry_named (fed_name_of (se_api env) obj)) (fed_entries (fst (apply_servers_to_config (se_api env) servers
        (fed_gateway_ref (the (sv_federate (sv_spec obj)))) ns config))) = [server_entry (se_api env) ns obj]"
        using merged(3) [OF b o] h by blast
    qed (rule dialed)
  qed (rule merged(1) [OF b o], rule merged(2) [OF b o])
  show ?thesis
    by (intro exI [of _ ns] exI [of _ live] exI [of _ url] conjI impI allI body(3) l ready bound) (rule served)
qed auto

theorem server_status_matches_gateway_witness:
  "\<exists>n st fm. PatchStatus n st fm \<in> set (fst (server_reconcile sample_server_env verified_server))
     \<and> cond_true ''Ready'' (svs_conditions st) \<and> cond_true ''GatewayBound'' (svs_conditions st)"
proof -
  have h: "condition_setter (se_set_condition sample_server_env)" by (simp add: sample_server_env_def)
  obtain n_ready b where b: "1 \<le> n_ready" "fst b" and p: "PatchStatus ''s'' (server_status_of sample_server_env
      verified_server ''team'' (True, ''CosignVerified'') n_ready b) server_fm \<in> set (fst (server_reconcile sample_server_env verified_server))"
    using verified_server_body(2) verified_server_reconcile by blast
  let ?st = "server_status_of sample_server_env verified_server ''team'' (True, ''CosignVerified'') n_ready b"
  have "cond_true ''Ready'' (svs_conditions ?st)" "cond_true ''GatewayBound'' (svs_conditions ?st)"
    using b by (simp_all add: server_status_of_def Let_def cond_true_set_cond [OF h] server_readiness_def)
      (simp add: sample_server_env_def sample_api_def verified_server_fields)
  with server_status_matches_gateway [OF h p] p show ?thesis by blast
qed

end
