(* ===== verification/ManagedNats.thy ===== *)
theory ManagedNats
  imports Templates Decimal
begin

text \<open>
  The renderers of a managed NATS coordinator (\<open>src/src/templates/managed_nats.rs\<close>): the
  configuration file, the ConfigMap, the two Services, the StatefulSet with its claim, and the
  certificate. All of them go to the operator namespace under names that the API crate derives from
  the name of the cluster.
\<close>

section \<open>Constants, labels, metadata\<close>

definition NATS_MONITOR_PORT :: int where "NATS_MONITOR_PORT = 8222"
definition NATS_CLUSTER_PORT :: int where "NATS_CLUSTER_PORT = 6222"
definition NATS_CONFIG_DIR :: string where "NATS_CONFIG_DIR = ''/etc/nats-config''"
definition NATS_DATA_DIR :: string where "NATS_DATA_DIR = ''/data''"
definition NATS_TLS_DIR :: string where "NATS_TLS_DIR = ''/etc/nats-certs''"
definition NATS_SERVER_TOKEN_ENV :: string where "NATS_SERVER_TOKEN_ENV = ''NATS_TOKEN''"
definition NATS_RUN_AS :: int where "NATS_RUN_AS = 1000"
definition MANAGED_CLUSTER_LABEL :: string where "MANAGED_CLUSTER_LABEL = ''mcpg.dev/cluster''"

lemmas nats_consts = NATS_MONITOR_PORT_def NATS_CLUSTER_PORT_def NATS_CONFIG_DIR_def NATS_DATA_DIR_def
  NATS_TLS_DIR_def NATS_SERVER_TOKEN_ENV_def NATS_RUN_AS_def

definition managed_labels :: "string \<Rightarrow> str_map" where
  "managed_labels cluster_name =
     [''app.kubernetes.io/name'' \<mapsto> ''mcpg-nats'', ''app.kubernetes.io/instance'' \<mapsto> cluster_name,
      ''app.kubernetes.io/component'' \<mapsto> ''cluster-coordinator'', ''app.kubernetes.io/part-of'' \<mapsto> ''mcpg'',
      ''app.kubernetes.io/managed-by'' \<mapsto> ''mcpg-operator'', MANAGED_CLUSTER_LABEL \<mapsto> cluster_name]"

definition nats_selector_labels :: "string \<Rightarrow> str_map" where
  "nats_selector_labels cluster_name =
     [''app.kubernetes.io/name'' \<mapsto> ''mcpg-nats'', ''app.kubernetes.io/instance'' \<mapsto> cluster_name]"

definition nats_child_meta :: "cluster \<Rightarrow> string \<Rightarrow> string \<Rightarrow> object_meta" where
  "nats_child_meta cluster name namespace =
     default_meta\<lparr>meta_name := Some name, meta_namespace := Some namespace,
       meta_labels := Some (managed_labels (name_any (cl_meta cluster)))\<rparr>"

section \<open>Configuration\<close>

text \<open>Lines, each with its line feed.\<close>

definition text_lines :: "string list \<Rightarrow> string" where
  "text_lines ls = concat (map (\<lambda>l. l @ [CHR 0x0A]) ls)"

definition quoted :: "string \<Rightarrow> string" where
  "quoted s = CHR 0x22 # s @ [CHR 0x22]"

definition render_nats_conf :: "api_crate \<Rightarrow> bool \<Rightarrow> string" where
  "render_nats_conf api tls_enabled =
     (let tls_block = (if tls_enabled
            then text_lines [[], ''tls {'', ''  cert_file: '' @ quoted (NATS_TLS_DIR @ ''/tls.crt''),
              ''  key_file: '' @ quoted (NATS_TLS_DIR @ ''/tls.key''),
              ''  ca_file: '' @ quoted (NATS_TLS_DIR @ ''/ca.crt''), ''  timeout: 5'', ''}'']
            else [])
      in text_lines [''# Generated by the mcpg operator for a managed MCPGCluster coordinator.'',
           ''server_name: $POD_NAME'', ''listen: 0.0.0.0:'' @ dec_int (MANAGED_NATS_CLIENT_PORT api),
           ''http: 0.0.0.0:'' @ dec_int NATS_MONITOR_PORT, [],
           ''jetstream {'', ''  store_dir: '' @ quoted (NATS_DATA_DIR @ ''/jetstream''),
           ''  max_memory_store: 67108864'', ''}'', [], ''authorization {'', ''  token: $NATS_TOKEN'', ''}'']
         @ tls_block)"

definition build_nats_configmap :: "api_crate \<Rightarrow> cluster \<Rightarrow> string \<Rightarrow> bool \<Rightarrow> config_map" where
  "build_nats_configmap api cluster namespace tls_enabled =
     \<lparr>cm_meta = nats_child_meta cluster (managed_nats_config_name api (name_any (cl_meta cluster))) namespace,
      cm_data = Some [''nats-server.conf'' \<mapsto> render_nats_conf api tls_enabled]\<rparr>"

section \<open>Services\<close>

definition nats_service_ports :: "api_crate \<Rightarrow> service_port list" where
  "nats_service_ports api =
     [\<lparr>sp_name = Some ''client'', sp_port = MANAGED_NATS_CLIENT_PORT api, sp_target_port = Some (StrVal ''client''),
       sp_protocol = Some ''TCP''\<rparr>,
      \<lparr>sp_name = Some ''monitor'', sp_port = NATS_MONITOR_PORT, sp_target_port = Some (StrVal ''monitor''),
       sp_protocol = Some ''TCP''\<rparr>]"

definition build_nats_headless_service :: "api_crate \<Rightarrow> cluster \<Rightarrow> string \<Rightarrow> service" where
  "build_nats_headless_service api cluster namespace =
     \<lparr>srv_meta = nats_child_meta cluster (managed_nats_headless_service_name api (name_any (cl_meta cluster))) namespace,
      srv_type = None, srv_cluster_ip = Some ''None'', srv_publish_not_ready = Some True,
      srv_selector = Some (nats_selector_labels (name_any (cl_meta cluster))), srv_ports = nats_service_ports api\<rparr>"

definition build_nats_client_service :: "api_crate \<Rightarrow> cluster \<Rightarrow> string \<Rightarrow> service" where
  "build_nats_client_service api cluster namespace =
     \<lparr>srv_meta = nats_child_meta cluster (managed_nats_service_name api (name_any (cl_meta cluster))) namespace,
      srv_type = Some ''ClusterIP'', srv_cluster_ip = None, srv_publish_not_ready = None,
      srv_selector = Some (nats_selector_labels (name_any (cl_meta cluster))), srv_ports = nats_service_ports api\<rparr>"

section \<open>The server\<close>

definition nats_probe :: "int \<Rightarrow> int \<Rightarrow> probe" where
  "nats_probe initial_delay period =
     \<lparr>pr_action = HttpGet ''/healthz'' (Some ''HTTP''), pr_port = StrVal ''monitor'',
      pr_initial_delay = Some initial_delay, pr_period = Some period, pr_timeout = Some 3,
      pr_failure_threshold = Some 3, pr_success_threshold = None\<rparr>"

definition given :: "string option \<Rightarrow> string option" where
  "given s = (case s of Some t \<Rightarrow> if blank t then None else Some t | None \<Rightarrow> None)"

definition build_nats_pvc :: "api_crate \<Rightarrow> cluster \<Rightarrow> string option \<Rightarrow> string option \<Rightarrow> volume_claim" where
  "build_nats_pvc api cluster storage_size storage_class =
     \<lparr>pvc_meta = default_meta\<lparr>meta_name := Some ''data'',
        meta_labels := Some (managed_labels (name_any (cl_meta cluster)))\<rparr>,
      pvc_access_modes = [''ReadWriteOnce''],
      pvc_storage = (case given storage_size of Some s \<Rightarrow> s | None \<Rightarrow> DEFAULT_MANAGED_STORAGE_SIZE api),
      pvc_storage_class = given storage_class\<rparr>"

text \<open>Requests and limits of the container.\<close>

definition build_nats_resources :: "cluster \<Rightarrow> (str_map option \<times> str_map option) option" where
  "build_nats_resources cluster =
     (case cl_managed (cl_spec cluster) of
        None \<Rightarrow> None
      | Some managed \<Rightarrow>
          (case mc_resources managed of
             Some rr \<Rightarrow> Some (if res_requests rr = [] then None else Some (map_of (res_requests rr)),
               if res_limits rr = [] then None else Some (map_of (res_limits rr)))
           | None \<Rightarrow> Some (Some [''cpu'' \<mapsto> ''100m'', ''memory'' \<mapsto> ''128Mi''], None)))"

definition nats_mounts :: "bool \<Rightarrow> volume_mount list" where
  "nats_mounts tls_enabled =
     [\<lparr>vm_name = ''config'', vm_path = NATS_CONFIG_DIR, vm_sub_path = None, vm_read_only = Some True\<rparr>,
      \<lparr>vm_name = ''data'', vm_path = NATS_DATA_DIR, vm_sub_path = None, vm_read_only = None\<rparr>]
     @ (if tls_enabled
        then [\<lparr>vm_name = ''tls'', vm_path = NATS_TLS_DIR, vm_sub_path = None, vm_read_only = Some True\<rparr>] else [])"

definition nats_volumes :: "api_crate \<Rightarrow> string \<Rightarrow> bool \<Rightarrow> volume list" where
  "nats_volumes api cluster_name tls_enabled =
     [\<lparr>vol_name = ''config'', vol_source = VolConfigMap (managed_nats_config_name api cluster_name) None\<rparr>]
     @ (if tls_enabled
        then [\<lparr>vol_name = ''tls'', vol_source = VolSecret (managed_nats_tls_secret_name api cluster_name) None\<rparr>] else [])"

definition nats_container :: "api_crate \<Rightarrow> cluster \<Rightarrow> bool \<Rightarrow> container" where
  "nats_container api cluster tls_enabled =
     (let resources = build_nats_resources cluster in
      \<lparr>ct_name = ''nats'',
       ct_image = Some (case given (Option.bind (cl_managed (cl_spec cluster)) mc_image) of
         Some i \<Rightarrow> i | None \<Rightarrow> DEFAULT_MANAGED_NATS_IMAGE api),
       ct_pull_policy = None, ct_working_dir = None, ct_command = None,
       ct_args = Some [''--config'', NATS_CONFIG_DIR @ ''/nats-server.conf''],
       ct_ports =
         [\<lparr>cp_name = Some ''client'', cp_port = MANAGED_NATS_CLIENT_PORT api, cp_protocol = Some ''TCP''\<rparr>,
          \<lparr>cp_name = Some ''monitor'', cp_port = NATS_MONITOR_PORT, cp_protocol = Some ''TCP''\<rparr>,
          \<lparr>cp_name = Some ''cluster'', cp_port = NATS_CLUSTER_PORT, cp_protocol = Some ''TCP''\<rparr>],
       ct_env = Some
         [\<lparr>envv_name = ''POD_NAME'', envv_source = EnvField ''metadata.name''\<rparr>,
          \<lparr>envv_name = NATS_SERVER_TOKEN_ENV, envv_source = EnvSecret
             (managed_coordination_secret_name api (name_any (cl_meta cluster))) (MANAGED_NATS_TOKEN_ENV api)\<rparr>],
       ct_env_from = None,
       ct_requests = Option.bind resources fst, ct_limits = Option.bind resources snd,
       ct_volume_mounts = Some (nats_mounts tls_enabled),
       ct_liveness = Some (nats_probe 10 15), ct_readiness = Some (nats_probe 5 10), ct_startup = None,
       ct_security = Some \<lparr>sc_allow_privilege_escalation = Some False, sc_read_only_root = None,
         sc_run_as_non_root = Some True, sc_run_as_user = Some NATS_RUN_AS, sc_run_as_group = Some NATS_RUN_AS,
         sc_drop_capabilities = [''ALL''], sc_add_capabilities = None, sc_seccomp = Some ''RuntimeDefault''\<rparr>\<rparr>)"

definition build_nats_statefulset :: "api_crate \<Rightarrow> cluster \<Rightarrow> string \<Rightarrow> int \<Rightarrow> bool \<Rightarrow> stateful_set" where
  "build_nats_statefulset api cluster namespace replicas tls_enabled =
     (let cluster_name = name_any (cl_meta cluster); managed = cl_managed (cl_spec cluster)
      in \<lparr>ss_meta = nats_child_meta cluster (managed_nats_statefulset_name api cluster_name) namespace,
          ss_replicas = Some replicas,
          ss_service_name = Some (managed_nats_headless_service_name api cluster_name),
          ss_selector = nats_selector_labels cluster_name,
          ss_pod_meta = default_meta\<lparr>meta_labels := Some (managed_labels cluster_name)\<rparr>,
          ss_pod = \<lparr>pod_service_account = None, pod_automount_token = None, pod_enable_service_links = None,
            pod_security_context = Some \<lparr>pod_run_as_non_root = None, pod_run_as_user = None,
              pod_run_as_group = None, pod_fs_group = Some NATS_RUN_AS, pod_seccomp = None\<rparr>,
            pod_containers = [nats_container api cluster tls_enabled],
            pod_volumes = Some (nats_volumes api cluster_name tls_enabled),
            pod_image_pull_secrets = None, pod_node_selector = None, pod_priority_class = None,
            pod_termination_grace = None, pod_topology_spread = None, pod_dns_config = None\<rparr>,
          ss_claims = [build_nats_pvc api cluster (Option.bind managed mc_storage_size)
            (Option.bind managed mc_storage_class)]\<rparr>)"

section \<open>The certificate\<close>

definition build_nats_certificate :: "api_crate \<Rightarrow> cluster \<Rightarrow> string \<Rightarrow> issuer_ref \<Rightarrow> certificate" where
  "build_nats_certificate api cluster namespace issuer =
     (let cluster_name = name_any (cl_meta cluster); client = managed_nats_service_name api cluster_name;
          headless = managed_nats_headless_service_name api cluster_name;
          tls = managed_nats_tls_secret_name api cluster_name
      in \<lparr>crt_meta = nats_child_meta cluster tls namespace, crt_secret_name = tls,
          crt_dns_names = [client, client @ ''.'' @ namespace, client @ ''.'' @ namespace @ ''.svc'',
            client @ ''.'' @ namespace @ ''.svc.cluster.local'',
            headless @ ''.'' @ namespace @ ''.svc.cluster.local'',
            ''*.'' @ headless @ ''.'' @ namespace @ ''.svc.cluster.local''],
          crt_issuer = iss_name issuer, crt_issuer_kind = iss_kind issuer, crt_issuer_group = iss_group issuer\<rparr>)"

section \<open>The objects fit together\<close>

lemma nats_child_meta_sel [simp]:
  "meta_name (nats_child_meta c n ns) = Some n" "meta_namespace (nats_child_meta c n ns) = Some ns"
  "meta_labels (nats_child_meta c n ns) = Some (managed_labels (name_any (cl_meta c)))"
  "name_any (nats_child_meta c n ns) = n"
  by (simp_all add: nats_child_meta_def name_any_def)

lemma nats_selector_iff: "nats_selector_labels m \<subseteq>\<^sub>m managed_labels n \<longleftrightarrow> m = n"
  by (auto simp: nats_selector_labels_def managed_labels_def MANAGED_CLUSTER_LABEL_def map_le_def split: if_splits)


definition sample_managed :: cluster where
  "sample_managed = \<lparr>cl_meta = default_meta\<lparr>meta_name := Some ''c'', meta_finalizers := Some [''mcpg.dev/operator'']\<rparr>,
     cl_spec = \<lparr>cl_managed = Some \<lparr>mc_replicas = None, mc_image = None, mc_storage_size = None, mc_storage_class = None,
         mc_resources = None, mc_tls = Some (Some \<lparr>iss_name = ''ca'', iss_kind = ''Issuer'', iss_group = ''cert-manager.io''\<rparr>)\<rparr>,
       cl_backend = ''nats'', cl_config = [], cl_credential_refs = [], cl_plugin_ref = None\<rparr>, cl_conditions = None\<rparr>"


end
