(* ===== verification/ClusterCtl.thy ===== *)
theory ClusterCtl
  imports Plugin ManagedNats
    "HOL-Library.Sublist"
begin

text \<open>
  The cluster controller (\<open>src/src/controllers/cluster.rs\<close>): it reports whether a coordination
  backend can be bound, and for a managed one provisions it: certificate, coordination Secret with
  its generated keys, configuration, Services and StatefulSet in the operator namespace.

  The answers of \<open>cluster_env\<close>: the Secrets of the operator namespace, the plugins, the gateways of
  all namespaces, the outcome of each apply, and the ready replicas that the apply of the
  StatefulSet reports. \<open>cn_fill draw n\<close> are the \<open>n\<close> bytes of a draw from the random generator,
  \<open>cn_base64\<close> the URL-safe encoder. Messages are left out.
\<close>

datatype cluster_error =
    ClStatus status_error
  | ClFinalizer finalizer_error
  | ClApply apply_error
  | ClKube kube_error
  | ClMissingName

record cluster_status =
  cls_conditions :: "condition list"
  cls_observed_generation :: "int option"
  cls_plugin_id :: "string option"
  cls_bound_gateways :: "int option"
  cls_config_hash :: "string option"
  cls_managed_ready :: "bool option"
  cls_nats_ready_replicas :: "int option"
  cls_coordination_secret :: "string option"

record cluster_env =
  cn_api :: api_crate
  cn_remove_get :: "kube_error + object_meta option"
  cn_remove_patch :: "kube_error + unit"
  cn_finalizer :: "kube_error + unit"
  cn_status :: "(kube_error + unit) \<times> (kube_error + unit)"
  cn_secret :: "string \<Rightarrow> kube_error + secret option"
  cn_plugin :: "string \<Rightarrow> kube_error + plugin option"
  cn_gateways :: "kube_error + gateway list"
  cn_apply :: "k8s_object \<Rightarrow> kube_error + unit"
  cn_ready_replicas :: "int option"
  cn_fill :: "nat \<Rightarrow> nat \<Rightarrow> string"
  cn_base64 :: "string \<Rightarrow> string"
  cn_print_json :: "json \<Rightarrow> string"
  cn_sha256_hex :: "string \<Rightarrow> string"
  cn_pod_dns_config :: "json option"
  cn_set_condition :: "condition \<Rightarrow> condition list \<Rightarrow> condition list"
  cn_resync_secs :: nat
  cn_random :: real

type_synonym cluster_effect = "(cluster_status, k8s_object) effect"
type_synonym 'a cluster_run = "(cluster_status, k8s_object, cluster_error, 'a) ctl"

abbreviation cluster_fm :: string where
  "cluster_fm \<equiv> field_manager ''cluster-controller''"

section \<open>Triggers and lookups\<close>

definition map_gateway_to_clusters :: "gateway \<Rightarrow> string list" where
  "map_gateway_to_clusters gw = (case gw_cluster_ref (gw_spec gw) of Some r \<Rightarrow> [r] | None \<Rightarrow> [])"

definition map_plugin_to_clusters :: "plugin \<Rightarrow> string list" where
  "map_plugin_to_clusters p = [name_any (pl_meta p)]"

definition plugin_is_ready :: "plugin \<Rightarrow> bool" where
  "plugin_is_ready p =
     (case pl_status p of
        None \<Rightarrow> False
      | Some status \<Rightarrow> ps_revoked_by_sha status \<noteq> Some True \<and> cond_true ''Ready'' (ps_conditions status))"

definition count_bound_gateways :: "kube_error + gateway list \<Rightarrow> string \<Rightarrow> cluster_error + int" where
  "count_bound_gateways ans cluster_name =
     bindE (map_err ClKube ans) (\<lambda>gateways.
     Inr (int (length (filter (\<lambda>g. gw_cluster_ref (gw_spec g) = Some cluster_name) gateways))))"

section \<open>The coordination Secret\<close>

definition gen_url_safe_key :: "cluster_env \<Rightarrow> nat \<Rightarrow> nat \<Rightarrow> string" where
  "gen_url_safe_key env draw bytes = cn_base64 env (cn_fill env draw bytes)"

text \<open>\<open>entry(k).or_insert_with(v)\<close>.\<close>

definition or_insert :: "str_map \<Rightarrow> string \<Rightarrow> string \<Rightarrow> str_map" where
  "or_insert m k v = (case m k of Some _ \<Rightarrow> m | None \<Rightarrow> m(k \<mapsto> v))"

definition merge_coordination_data :: "cluster_env \<Rightarrow> str_map \<Rightarrow> string option \<Rightarrow> str_map" where
  "merge_coordination_data env existing ca =
     (let data = or_insert existing (MANAGED_NATS_TOKEN_ENV (cn_api env)) (gen_url_safe_key env 0 32);
          data = or_insert data (MANAGED_STATE_KEY_ENV (cn_api env)) (gen_url_safe_key env 1 32)
      in data(MANAGED_NATS_CA_ENV (cn_api env) := ca))"

text \<open>An error of the read is no CA.\<close>

definition read_ca_cert :: "kube_error + secret option \<Rightarrow> string option" where
  "read_ca_cert ans =
     (case ans of
        Inl _ \<Rightarrow> None
      | Inr found \<Rightarrow>
          (case Option.bind (Option.bind found sec_data) (\<lambda>d. d ''ca.crt'') of
             None \<Rightarrow> None
           | Some ca \<Rightarrow> if valid_utf8 ca \<and> \<not> blank ca then Some ca else None))"

definition cluster_apply :: "cluster_env \<Rightarrow> k8s_object \<Rightarrow> unit cluster_run" where
  "cluster_apply env ob = lift_run ClApply (apply_owned (cn_apply env ob) ob_meta ob cluster_fm)"

definition coordination_secret :: "cluster_env \<Rightarrow> string \<Rightarrow> string \<Rightarrow> str_map \<Rightarrow> secret" where
  "coordination_secret env namespace cluster_name data =
     \<lparr>sec_meta = default_meta\<lparr>meta_name := Some (managed_coordination_secret_name (cn_api env) cluster_name),
        meta_namespace := Some namespace, meta_labels := Some (managed_labels cluster_name)\<rparr>,
      sec_type = Some ''Opaque'', sec_immutable = None, sec_data = Some data\<rparr>"

definition ensure_coordination_secret ::
  "cluster_env \<Rightarrow> string \<Rightarrow> string \<Rightarrow> string option \<Rightarrow> string cluster_run" where
  "ensure_coordination_secret env namespace cluster_name ca =
     (let secret_name = managed_coordination_secret_name (cn_api env) cluster_name in
      bindT ([], map_err ClKube (cn_secret env secret_name)) (\<lambda>found.
      let existing = (case Option.bind found sec_data of Some d \<Rightarrow> d | None \<Rightarrow> Map.empty);
          data = merge_coordination_data env existing ca
      in bindT (cluster_apply env (ObSecret (coordination_secret env namespace cluster_name data))) (\<lambda>_.
         ret secret_name)))"

section \<open>Provisioning\<close>

record managed_outcome =
  mo_ready :: bool
  mo_nats_ready_replicas :: int
  mo_secret_name :: string

definition emit_warning :: "string \<Rightarrow> cluster_effect" where
  "emit_warning reason = Publish \<lparr>ev_type = Warning, ev_reason = reason, ev_action = ''Provision''\<rparr>"

definition managed_warnings :: "api_crate \<Rightarrow> cluster_spec \<Rightarrow> cluster_effect list" where
  "managed_warnings api spec =
     (if \<not> managed_tls_enabled api spec then [emit_warning ''PlaintextCoordinator''] else [])
     @ (if managed_replicas_capped api spec then [emit_warning ''ReplicasCapped''] else [])"

definition managed_certificate :: "cluster_env \<Rightarrow> cluster \<Rightarrow> unit cluster_run" where
  "managed_certificate env obj =
     (case (managed_tls_enabled (cn_api env) (cl_spec obj),
            Option.bind (Option.bind (cl_managed (cl_spec obj)) mc_tls) (\<lambda>t. t)) of
        (True, Some issuer) \<Rightarrow>
          cluster_apply env (ObCertificate (build_nats_certificate (cn_api env) obj DEFAULT_OPERATOR_NAMESPACE issuer))
      | _ \<Rightarrow> ret ())"

definition managed_ca :: "cluster_env \<Rightarrow> cluster \<Rightarrow> string \<Rightarrow> string option" where
  "managed_ca env obj name =
     (if managed_tls_enabled (cn_api env) (cl_spec obj)
      then read_ca_cert (cn_secret env (managed_nats_tls_secret_name (cn_api env) name)) else None)"

definition managed_statefulset :: "cluster_env \<Rightarrow> cluster \<Rightarrow> stateful_set" where
  "managed_statefulset env obj =
     (let replicas = (case managed_nats_replicas (cn_api env) (cl_spec obj) of Some n \<Rightarrow> n | None \<Rightarrow> 1);
          s = build_nats_statefulset (cn_api env) obj DEFAULT_OPERATOR_NAMESPACE replicas
            (managed_tls_enabled (cn_api env) (cl_spec obj))
      in s\<lparr>ss_pod := apply_pod_dns_config (ss_pod s) (cn_pod_dns_config env)\<rparr>)"

definition reconcile_managed :: "cluster_env \<Rightarrow> cluster \<Rightarrow> string \<Rightarrow> managed_outcome cluster_run" where
  "reconcile_managed env obj name =
     (let api = cn_api env; ns = DEFAULT_OPERATOR_NAMESPACE; tls_enabled = managed_tls_enabled api (cl_spec obj);
          ca = managed_ca env obj name; ca_available = (\<not> tls_enabled \<or> ca \<noteq> None)
      in after (managed_warnings api (cl_spec obj))
        (bindT (managed_certificate env obj) (\<lambda>_.
         bindT (ensure_coordination_secret env ns name ca) (\<lambda>secret_name.
         bindT (cluster_apply env (ObConfigMap (build_nats_configmap api obj ns tls_enabled))) (\<lambda>_.
         bindT (cluster_apply env (ObService (build_nats_headless_service api obj ns))) (\<lambda>_.
         bindT (cluster_apply env (ObService (build_nats_client_service api obj ns))) (\<lambda>_.
         bindT (cluster_apply env (ObStatefulSet (managed_statefulset env obj))) (\<lambda>_.
         let nats_ready = (case cn_ready_replicas env of Some n \<Rightarrow> n | None \<Rightarrow> 0)
         in ret \<lparr>mo_ready = (nats_ready \<ge> 1 \<and> ca_available), mo_nats_ready_replicas = nats_ready,
              mo_secret_name = secret_name\<rparr>))))))))"

section \<open>The verdict\<close>

definition classify_readiness :: "cluster_env \<Rightarrow> cluster \<Rightarrow> managed_outcome option \<Rightarrow> cluster_error + bool \<times> string" where
  "classify_readiness env obj managed =
     (if (case managed of Some m \<Rightarrow> \<not> mo_ready m | None \<Rightarrow> False)
      then Inr (False, ''ManagedCoordinatorProvisioning'')
      else case cl_plugin_ref (cl_spec obj) of
        Some plugin_ref \<Rightarrow>
          bindE (map_err ClKube (cn_plugin env plugin_ref)) (\<lambda>found.
          Inr (case found of
                 None \<Rightarrow> (False, ''ClusterPluginNotFound'')
               | Some p \<Rightarrow> if plugin_is_ready p then (True, ''Bindable'') else (False, ''ClusterPluginNotReady'')))
      | None \<Rightarrow> Inr (True, ''Bindable''))"

definition prune_managed_children :: "api_crate \<Rightarrow> string \<Rightarrow> string \<Rightarrow> cluster_effect list" where
  "prune_managed_children api namespace cluster_name =
     [DeleteKind ''StatefulSet'' namespace (managed_nats_statefulset_name api cluster_name),
      DeleteKind ''Service'' namespace (managed_nats_service_name api cluster_name),
      DeleteKind ''Service'' namespace (managed_nats_headless_service_name api cluster_name),
      DeleteKind ''ConfigMap'' namespace (managed_nats_config_name api cluster_name),
      DeleteKind ''Secret'' namespace (managed_coordination_secret_name api cluster_name),
      DeleteKind ''Certificate'' namespace (managed_nats_tls_secret_name api cluster_name),
      DeleteKind ''Secret'' namespace (managed_nats_tls_secret_name api cluster_name)]"

section \<open>The reconcile\<close>

definition cluster_status_of ::
  "cluster_env \<Rightarrow> cluster \<Rightarrow> string \<Rightarrow> managed_outcome option \<Rightarrow> bool \<times> string \<Rightarrow> int \<Rightarrow> cluster_status" where
  "cluster_status_of env obj name managed verdict bound_gateways =
     (let gen = generation_of (cl_meta obj);
          cs = (case cl_conditions obj of Some cs \<Rightarrow> cs | None \<Rightarrow> []);
          block = render_cluster_block_with (cn_api env) (cl_spec obj) name DEFAULT_OPERATOR_NAMESPACE
      in \<lparr>cls_conditions = cn_set_condition env (cond ''Ready'' (if fst verdict then ''True'' else ''False'')
            (if fst verdict then ''Reconciled'' else snd verdict) gen) cs,
          cls_observed_generation = Some gen,
          cls_plugin_id = backend_plugin_id (cn_api env) (effective_backend (cn_api env) (cl_spec obj)),
          cls_bound_gateways = Some bound_gateways,
          cls_config_hash = Some (cn_sha256_hex env (cn_print_json env block)),
          cls_managed_ready = map_option mo_ready managed,
          cls_nats_ready_replicas = map_option mo_nats_ready_replicas managed,
          cls_coordination_secret = map_option mo_secret_name managed\<rparr>)"

definition cluster_managed :: "cluster_env \<Rightarrow> cluster \<Rightarrow> string \<Rightarrow> managed_outcome option cluster_run" where
  "cluster_managed env obj name =
     (case cl_managed (cl_spec obj) of
        Some _ \<Rightarrow> bindT (reconcile_managed env obj name) (\<lambda>m. ret (Some m))
      | None \<Rightarrow> ret None)"

definition cluster_body :: "cluster_env \<Rightarrow> cluster \<Rightarrow> string \<Rightarrow> (reconcile_action \<times> reconcile_outcome) cluster_run" where
  "cluster_body env obj name =
     bindT (cluster_managed env obj name) (\<lambda>managed.
     bindT ([], classify_readiness env obj managed) (\<lambda>verdict.
     bindT ([], count_bound_gateways (cn_gateways env) name) (\<lambda>bound_gateways.
     after (patch_status_logged (fst (cn_status env)) (snd (cn_status env)) name
              (cluster_status_of env obj name managed verdict bound_gateways) cluster_fm
            @ (if \<not> fst verdict
               then [Publish \<lparr>ev_type = Warning, ev_reason = snd verdict, ev_action = ''Bind''\<rparr>] else []))
       (ret (if fst verdict then (Requeue (jittered_resync (cn_random env) (cn_resync_secs env)), Success)
             else (Requeue (if managed \<noteq> None then 15 else jittered_resync (cn_random env) (cn_resync_secs env)),
                   DependencyPending))))))"

definition cluster_cleanup :: "cluster_env \<Rightarrow> cluster \<Rightarrow> cluster_effect list" where
  "cluster_cleanup env obj =
     (if cl_managed (cl_spec obj) \<noteq> None
      then prune_managed_children (cn_api env) DEFAULT_OPERATOR_NAMESPACE (name_any (cl_meta obj)) else [])"

definition cluster_reconcile_inner :: "cluster_env \<Rightarrow> cluster \<Rightarrow> (reconcile_action \<times> reconcile_outcome) cluster_run" where
  "cluster_reconcile_inner env obj =
     (case meta_name (cl_meta obj) of
        None \<Rightarrow> throw ClMissingName
      | Some name \<Rightarrow>
          guarded ClFinalizer
            (\<lambda>n. after (cluster_cleanup env obj)
               (remove_finalizer (cn_remove_get env) (cn_remove_patch env) n OPERATOR_FINALIZER))
            (\<lambda>n. ensure_finalizer (cn_finalizer env) n (cl_meta obj) OPERATOR_FINALIZER)
            (cl_meta obj) name (cluster_body env obj name))"

definition cluster_reconcile :: "cluster_env \<Rightarrow> cluster \<Rightarrow> reconcile_action cluster_run" where
  "cluster_reconcile env obj =
     observed ''cluster'' (\<lambda>r. case r of Inr (_, o') \<Rightarrow> o'
       | Inl e \<Rightarrow> if e = ClMissingName then PermanentError else TransientError)
       (cluster_reconcile_inner env obj)"

definition cluster_key :: "cluster \<Rightarrow> string" where
  "cluster_key obj = resource_key ''cluster'' [] (name_any (cl_meta obj))"

definition cluster_error_policy ::
  "real \<Rightarrow> cluster \<Rightarrow> cluster_error \<Rightarrow> backoff_map \<Rightarrow> reconcile_action \<times> backoff_map" where
  "cluster_error_policy r obj err m = error_policy (\<lambda>e. e = ClMissingName) (cluster_key obj) r err m"

section \<open>The contract of a reconciler\<close>

interpretation cluster_ctl: cleanup_reconciler cluster_reconcile_inner cl_meta cluster_cleanup
proof
  fix obj :: cluster and env
  assume "meta_name (cl_meta obj) = None"
  then show "fst (cluster_reconcile_inner env obj) = [] \<and> isl (snd (cluster_reconcile_inner env obj))"
    by (simp add: cluster_reconcile_inner_def run_simps)
next
  fix obj :: cluster and env x
  assume "meta_deletion_timestamp (cl_meta obj) \<noteq> None" and "x \<in> set (fst (cluster_reconcile_inner env obj))"
  then show "x \<in> set (cluster_cleanup env obj)
      \<or> (\<exists>fs. x = MergeFinalizers (name_any (cl_meta obj)) fs \<and> OPERATOR_FINALIZER \<notin> set fs)"
    using remove_finalizer_eff
    by (auto simp: cluster_reconcile_inner_def guarded_deleted bindT_effects run_simps split: option.splits) blast+
next
  fix obj :: cluster and env
  assume "meta_deletion_timestamp (cl_meta obj) = None" "\<not> has_finalizer (cl_meta obj) OPERATOR_FINALIZER"
  note first = guarded_finalizer_first [OF this]
  show "fst (cluster_reconcile_inner env obj) = [] \<and> isl (snd (cluster_reconcile_inner env obj))
    \<or> (\<exists>ops rest. fst (cluster_reconcile_inner env obj) = PatchFinalizers (name_any (cl_meta obj)) ops # rest)"
  proof (cases "meta_name (cl_meta obj)")
    case (Some name)
    then show ?thesis unfolding cluster_reconcile_inner_def by (simp add: first)
  qed (simp add: cluster_reconcile_inner_def run_simps)
qed

section \<open>What a reconcile writes\<close>

lemma cluster_reconcile_shape:
  "cluster_reconcile env obj = guarded_cleanup ''cluster'' (\<lambda>r. case r of Inr (_, o') \<Rightarrow> o'
       | Inl e \<Rightarrow> if e = ClMissingName then PermanentError else TransientError) ClMissingName ClFinalizer
     (cluster_cleanup env obj) (cn_remove_get env) (cn_remove_patch env) (cn_finalizer env) (cl_meta obj) (cluster_body env obj)"
  by (simp add: cluster_reconcile_def cluster_reconcile_inner_def guarded_cleanup_def)

lemma cluster_effects:
  assumes "x \<in> set (fst (cluster_reconcile env obj))"
  obtains (finalizer) "\<exists>n ops. x = PatchFinalizers n ops" | (released) "\<exists>n fs. x = MergeFinalizers n fs"
    | (observed) "\<exists>o'. x = ObserveReconcile ''cluster'' o'"
    | (cleanup) "meta_deletion_timestamp (cl_meta obj) \<noteq> None" "x \<in> set (cluster_cleanup env obj)"
    | (body) name where "meta_deletion_timestamp (cl_meta obj) = None" "meta_name (cl_meta obj) = Some name"
        "x \<in> set (fst (cluster_body env obj name))"
        "\<exists>pre rest. fst (cluster_reconcile env obj) = pre @ fst (cluster_body env obj name) @ rest"
  using assms unfolding cluster_reconcile_shape by (rule guarded_cleanup_effects)

text \<open>The objects a list of effects applies, in order, and the objects of a managed coordinator.\<close>

definition applied_objects :: "('st, 'ob) effect list \<Rightarrow> 'ob list" where
  "applied_objects xs = concat (map (\<lambda>x. case x of Apply ob fm \<Rightarrow> [ob] | _ \<Rightarrow> []) xs)"

lemma applied_objects_simps [simp]:
  "applied_objects [] = []" "applied_objects (xs @ ys) = applied_objects xs @ applied_objects ys"
  "applied_objects (x # xs) = (case x of Apply ob fm \<Rightarrow> [ob] | _ \<Rightarrow> []) @ applied_objects xs"
  by (simp_all add: applied_objects_def)

lemma applied_objects_mem: "ob \<in> set (applied_objects xs) \<longleftrightarrow> (\<exists>fm. Apply ob fm \<in> set xs)"
  by (force simp: applied_objects_def split: effect.splits)

definition existing_coordination :: "cluster_env \<Rightarrow> string \<Rightarrow> str_map" where
  "existing_coordination env name =
     (case cn_secret env (managed_coordination_secret_name (cn_api env) name) of
        Inr found \<Rightarrow> (case Option.bind found sec_data of Some d \<Rightarrow> d | None \<Rightarrow> Map.empty)
      | Inl _ \<Rightarrow> Map.empty)"

definition managed_secret :: "cluster_env \<Rightarrow> cluster \<Rightarrow> string \<Rightarrow> secret" where
  "managed_secret env obj name = coordination_secret env DEFAULT_OPERATOR_NAMESPACE name
     (merge_coordination_data env (existing_coordination env name) (managed_ca env obj name))"

definition certificate_objects :: "cluster_env \<Rightarrow> cluster \<Rightarrow> k8s_object list" where
  "certificate_objects env obj =
     (case (managed_tls_enabled (cn_api env) (cl_spec obj),
            Option.bind (Option.bind (cl_managed (cl_spec obj)) mc_tls) (\<lambda>t. t)) of
        (True, Some issuer) \<Rightarrow> [ObCertificate (build_nats_certificate (cn_api env) obj DEFAULT_OPERATOR_NAMESPACE issuer)]
      | _ \<Rightarrow> [])"

definition managed_objects :: "cluster_env \<Rightarrow> cluster \<Rightarrow> string \<Rightarrow> k8s_object list" where
  "managed_objects env obj name =
     (let api = cn_api env; ns = DEFAULT_OPERATOR_NAMESPACE; tls = managed_tls_enabled api (cl_spec obj)
      in certificate_objects env obj
         @ [ObSecret (managed_secret env obj name), ObConfigMap (build_nats_configmap api obj ns tls),
            ObService (build_nats_headless_service api obj ns), ObService (build_nats_client_service api obj ns),
            ObStatefulSet (managed_statefulset env obj)])"

lemma managed_objects_named: "ob \<in> set (managed_objects env obj name) \<Longrightarrow> meta_name (ob_meta ob) \<noteq> None"
  by (auto simp: managed_objects_def certificate_objects_def Let_def ob_meta_def build_nats_certificate_def
      managed_secret_def coordination_secret_def build_nats_configmap_def build_nats_headless_service_def
      build_nats_client_service_def managed_statefulset_def build_nats_statefulset_def split: bool.splits option.splits)

text \<open>A list of objects applied one after the other, up to the first refusal.\<close>

fun cluster_applies :: "cluster_env \<Rightarrow> k8s_object list \<Rightarrow> unit cluster_run" where
  "cluster_applies env [] = ret ()"
| "cluster_applies env (ob # obs) = bindT (cluster_apply env ob) (\<lambda>_. cluster_applies env obs)"

lemma cluster_apply_sel:
  assumes "meta_name (ob_meta ob) \<noteq> None"
  shows "fst (cluster_apply env ob) = [Apply ob cluster_fm]"
    "snd (cluster_apply env ob) = (case cn_apply env ob of
       Inl e \<Rightarrow> Inl (ClApply (ApplyFailed (name_any (ob_meta ob)) e)) | Inr k \<Rightarrow> Inr k)"
  using assms by (auto simp: cluster_apply_def apply_owned_def run_simps map_err_def split: sum.splits)

lemma cluster_applies_sel:
  assumes "\<forall>ob \<in> set obs. meta_name (ob_meta ob) \<noteq> None"
  shows "prefix (applied_objects (fst (cluster_applies env obs))) obs"
    "set (fst (cluster_applies env obs)) \<subseteq> (\<lambda>ob. Apply ob cluster_fm) ` set obs"
    "snd (cluster_applies env obs) = Inr u \<Longrightarrow>
       fst (cluster_applies env obs) = map (\<lambda>ob. Apply ob cluster_fm) obs \<and> (\<forall>ob \<in> set obs. cn_apply env ob = Inr ())"
  using assms
  by (induction obs) (auto simp: run_simps cluster_apply_sel split: sum.splits)

lemma cluster_applies_append:
  "cluster_applies env (xs @ ys) = bindT (cluster_applies env xs) (\<lambda>_. cluster_applies env ys)"
  by (induction xs) (simp_all add: bindT_pure bindT_assoc)

definition managed_outcome_of :: "cluster_env \<Rightarrow> cluster \<Rightarrow> string \<Rightarrow> managed_outcome" where
  "managed_outcome_of env obj name =
     (let nats_ready = (case cn_ready_replicas env of Some n \<Rightarrow> n | None \<Rightarrow> 0) in
      \<lparr>mo_ready = (nats_ready \<ge> 1 \<and> (\<not> managed_tls_enabled (cn_api env) (cl_spec obj) \<or> managed_ca env obj name \<noteq> None)),
       mo_nats_ready_replicas = nats_ready, mo_secret_name = managed_coordination_secret_name (cn_api env) name\<rparr>)"

lemma managed_certificate_run: "managed_certificate env obj = cluster_applies env (certificate_objects env obj)"
  by (simp add: managed_certificate_def certificate_objects_def bindT_unit split: bool.split option.split)

lemma reconcile_managed_run:
  "reconcile_managed env obj name = after (managed_warnings (cn_api env) (cl_spec obj))
     (case cn_secret env (managed_coordination_secret_name (cn_api env) name) of
        Inr _ \<Rightarrow> bindT (cluster_applies env (managed_objects env obj name)) (\<lambda>_. ret (managed_outcome_of env obj name))
      | Inl e \<Rightarrow> bindT (cluster_applies env (certificate_objects env obj)) (\<lambda>_. ([], Inl (ClKube e))))"
proof (cases "cn_secret env (managed_coordination_secret_name (cn_api env) name)")
  case (Inl e)
  then show ?thesis
    by (simp add: reconcile_managed_def Let_def ensure_coordination_secret_def managed_certificate_run map_err_def
        bindT_pure)
next
  case (Inr found)
  then show ?thesis
    by (simp add: reconcile_managed_def Let_def ensure_coordination_secret_def managed_certificate_run map_err_def
        bindT_pure bindT_assoc managed_objects_def cluster_applies_append managed_outcome_of_def managed_secret_def
        existing_coordination_def)
qed

lemma applied_warnings [simp]: "applied_objects (managed_warnings api spec) = []"
  by (simp add: managed_warnings_def emit_warning_def)

lemma reconcile_managed_applies:
  "prefix (applied_objects (fst (reconcile_managed env obj name))) (managed_objects env obj name)"
  "snd (reconcile_managed env obj name) = Inr m \<Longrightarrow> m = managed_outcome_of env obj name
     \<and> applied_objects (fst (reconcile_managed env obj name)) = managed_objects env obj name
     \<and> (\<forall>ob \<in> set (managed_objects env obj name). cn_apply env ob = Inr ())"
proof -
  let ?a = "cluster_applies env (managed_objects env obj name)"
  have named: "\<forall>ob \<in> set (managed_objects env obj name). meta_name (ob_meta ob) \<noteq> None"
    using managed_objects_named by blast
  then have cert: "\<forall>ob \<in> set (certificate_objects env obj). meta_name (ob_meta ob) \<noteq> None"
    by (auto simp: managed_objects_def Let_def)
  have "prefix (applied_objects (fst (cluster_applies env (certificate_objects env obj)))) (managed_objects env obj name)"
    using cluster_applies_sel(1) [OF cert, of env] by (simp add: managed_objects_def Let_def prefix_prefix)
  then show "prefix (applied_objects (fst (reconcile_managed env obj name))) (managed_objects env obj name)"
    using cluster_applies_sel(1) [OF named, of env]
    by (auto simp: reconcile_managed_run run_simps split: sum.splits)
  have all: "applied_objects (map (\<lambda>ob. Apply ob cluster_fm) obs) = obs" for obs :: "k8s_object list"
    by (induction obs) auto
  show "snd (reconcile_managed env obj name) = Inr m \<Longrightarrow> m = managed_outcome_of env obj name
     \<and> applied_objects (fst (reconcile_managed env obj name)) = managed_objects env obj name
     \<and> (\<forall>ob \<in> set (managed_objects env obj name). cn_apply env ob = Inr ())"
    using cluster_applies_sel(3) [OF named, of env]
    by (auto simp: reconcile_managed_run run_simps all split: sum.splits)
qed

lemma applied_finalizer [simp]:
  "applied_objects (fst (ensure_finalizer a name m fin)) = []" "applied_objects (fst (remove_finalizer g p name fin)) = []"
  by (simp_all add: ensure_finalizer_def remove_finalizer_def Let_def run_simps split: option.split sum.split)

lemma applied_prune [simp]: "applied_objects (cluster_cleanup env obj) = []"
  by (simp add: cluster_cleanup_def prune_managed_children_def)

lemma applied_status [simp]: "applied_objects (patch_status_logged a b name st fm) = []"
  by (simp add: patch_status_logged_def patch_status_def run_simps split: sum.split)

lemma cluster_reconcile_applied:
  "applied_objects (fst (cluster_reconcile env obj)) = []
   \<or> (\<exists>name. meta_name (cl_meta obj) = Some name \<and> meta_deletion_timestamp (cl_meta obj) = None
        \<and> applied_objects (fst (cluster_reconcile env obj)) = applied_objects (fst (cluster_body env obj name)))"
  by (auto simp: cluster_reconcile_def observed_def cluster_reconcile_inner_def guarded_def run_simps
      split: option.split sum.split)

lemma cluster_body_applied:
  "applied_objects (fst (cluster_body env obj name)) = applied_objects (fst (cluster_managed env obj name))"
  by (simp add: cluster_body_def run_simps split: sum.split)

lemma cluster_managed_applied:
  "prefix (applied_objects (fst (cluster_managed env obj name)))
     (if cl_managed (cl_spec obj) = None then [] else managed_objects env obj name)"
  "snd (cluster_managed env obj name) = Inr m \<Longrightarrow>
     m = (if cl_managed (cl_spec obj) = None then None else Some (managed_outcome_of env obj name))
     \<and> (cl_managed (cl_spec obj) \<noteq> None \<longrightarrow> applied_objects (fst (cluster_managed env obj name)) = managed_objects env obj name
          \<and> (\<forall>ob \<in> set (managed_objects env obj name). cn_apply env ob = Inr ()))"
  using reconcile_managed_applies [of env obj name]
  by (auto simp: cluster_managed_def run_simps bindT_Inr split: option.splits sum.splits)

lemma cluster_managed_effects:
  "x \<in> set (fst (cluster_managed env obj name)) \<Longrightarrow> (\<exists>e. x = Publish e) \<or> (\<exists>ob. x = Apply ob cluster_fm)"
proof -
  have named: "\<forall>ob \<in> set (managed_objects env obj name). meta_name (ob_meta ob) \<noteq> None"
    "\<forall>ob \<in> set (certificate_objects env obj). meta_name (ob_meta ob) \<noteq> None"
    using managed_objects_named [of _ env obj name] by (auto simp: managed_objects_def Let_def)
  show "x \<in> set (fst (cluster_managed env obj name)) \<Longrightarrow> (\<exists>e. x = Publish e) \<or> (\<exists>ob. x = Apply ob cluster_fm)"
    using cluster_applies_sel(2) [OF named(1), of env] cluster_applies_sel(2) [OF named(2), of env]
    by (auto simp: cluster_managed_def reconcile_managed_run managed_warnings_def emit_warning_def bindT_effects run_simps
        split: option.splits sum.splits if_splits)
qed

lemma cluster_body_status:
  assumes "PatchStatus n st fm \<in> set (fst (cluster_body env obj name))"
  obtains m v gws where "snd (cluster_managed env obj name) = Inr m" "classify_readiness env obj m = Inr v"
    "cn_gateways env = Inr gws"
    "st = cluster_status_of env obj name m v (int (length (filter (\<lambda>g. gw_cluster_ref (gw_spec g) = Some name) gws)))"
proof -
  from assms obtain m v b where "Inr m = snd (cluster_managed env obj name)" "Inr v = classify_readiness env obj m"
    and b: "Inr b = count_bound_gateways (cn_gateways env) name" and st: "st = cluster_status_of env obj name m v b"
    using cluster_managed_effects [of "PatchStatus n st fm" env obj name]
    by (fastforce simp: cluster_body_def bindT_effects run_simps patch_status_logged_eff split: if_splits)
  moreover from b obtain gws where "cn_gateways env = Inr gws"
    "b = int (length (filter (\<lambda>g. gw_cluster_ref (gw_spec g) = Some name) gws))"
    by (cases "cn_gateways env") (auto simp: count_bound_gateways_def map_err_def bindE_def)
  ultimately show thesis using that st by metis
qed

text \<open>C18. The order of provisioning. What a reconcile applies is an initial part of the objects of the
  coordinator: the certificate comes first, the Secret with its keys before anything that reads
  it, the StatefulSet last; a deleted cluster and one that is not managed apply nothing. When the
  status is written, all of them have been applied and accepted.\<close>

theorem cluster_provision_ordered:
  assumes "objs = (if cl_managed (cl_spec obj) \<noteq> None \<and> meta_deletion_timestamp (cl_meta obj) = None
     then managed_objects env obj (name_any (cl_meta obj)) else [])"
  shows "prefix (applied_objects (fst (cluster_reconcile env obj))) objs
    \<and> (PatchStatus n st fm \<in> set (fst (cluster_reconcile env obj)) \<longrightarrow>
        applied_objects (fst (cluster_reconcile env obj)) = objs \<and> (\<forall>ob \<in> set objs. cn_apply env ob = Inr ()))"
proof (intro conjI impI)
  show "prefix (applied_objects (fst (cluster_reconcile env obj))) objs"
    using cluster_reconcile_applied [of env obj] cluster_managed_applied(1) [of env obj "name_any (cl_meta obj)"] assms
    by (auto simp: cluster_body_applied)
next
  assume "PatchStatus n st fm \<in> set (fst (cluster_reconcile env obj))"
  then have "applied_objects (fst (cluster_reconcile env obj)) = objs \<and> (\<forall>ob \<in> set objs. cn_apply env ob = Inr ())"
  proof (cases rule: cluster_effects)
    case cleanup
    then show ?thesis by (simp add: cluster_cleanup_def prune_managed_children_def split: if_splits)
  next
    case (body name)
    from body(3) obtain m where m: "snd (cluster_managed env obj name) = Inr m" by (rule cluster_body_status)
    have "applied_objects (fst (cluster_reconcile env obj)) = applied_objects (fst (cluster_body env obj name))"
      using cluster_reconcile_applied [of env obj] body(2,4) by auto
    then show ?thesis
      using cluster_managed_applied [of env obj name] m assms body(1,2)
      by (auto simp: cluster_body_applied)
  qed auto
  then show "applied_objects (fst (cluster_reconcile env obj)) = objs" "\<forall>ob \<in> set objs. cn_apply env ob = Inr ()"
    by auto
qed

section \<open>The generated keys\<close>

lemma applied_secret:
  assumes "Apply (ObSecret s) fm \<in> set (fst (cluster_reconcile env obj))"
  shows "\<exists>name found. meta_name (cl_meta obj) = Some name \<and> meta_deletion_timestamp (cl_meta obj) = None
    \<and> cl_managed (cl_spec obj) \<noteq> None \<and> s = managed_secret env obj name
    \<and> cn_secret env (managed_coordination_secret_name (cn_api env) name) = Inr found"
proof -
  have mem: "ObSecret s \<in> set (applied_objects (fst (cluster_reconcile env obj)))"
    using assms by (auto simp: applied_objects_mem)
  then obtain name where n: "meta_name (cl_meta obj) = Some name" "meta_deletion_timestamp (cl_meta obj) = None"
    and b: "ObSecret s \<in> set (applied_objects (fst (cluster_managed env obj name)))"
    using cluster_reconcile_applied [of env obj] by (auto simp: cluster_body_applied)
  from b have m: "cl_managed (cl_spec obj) \<noteq> None" and "ObSecret s \<in> set (managed_objects env obj name)"
    using cluster_managed_applied(1) [of env obj name] set_mono_prefix by (auto split: if_splits)
  then have s: "s = managed_secret env obj name"
    by (auto simp: managed_objects_def certificate_objects_def Let_def split: bool.splits option.splits)
  have "\<exists>found. cn_secret env (managed_coordination_secret_name (cn_api env) name) = Inr found"
  proof (rule ccontr)
    assume "\<nexists>found. cn_secret env (managed_coordination_secret_name (cn_api env) name) = Inr found"
    then obtain e where "cn_secret env (managed_coordination_secret_name (cn_api env) name) = Inl e"
      by (cases "cn_secret env (managed_coordination_secret_name (cn_api env) name)") auto
    with b m have "ObSecret s \<in> set (applied_objects (fst (cluster_applies env (certificate_objects env obj))))"
      by (auto simp: cluster_managed_def reconcile_managed_run run_simps split: option.splits sum.splits)
    moreover have "\<forall>ob \<in> set (certificate_objects env obj). meta_name (ob_meta ob) \<noteq> None"
      using managed_objects_named [of _ env obj name] by (auto simp: managed_objects_def Let_def)
    ultimately have "ObSecret s \<in> set (certificate_objects env obj)"
      using cluster_applies_sel(1) [of "certificate_objects env obj" env] set_mono_prefix by blast
    then show False by (auto simp: certificate_objects_def split: bool.splits option.splits)
  qed
  with n m s show ?thesis by blast
qed

lemma merge_keys:
  assumes "k \<in> {MANAGED_NATS_TOKEN_ENV (cn_api env), MANAGED_STATE_KEY_ENV (cn_api env)}"
    and "k \<noteq> MANAGED_NATS_CA_ENV (cn_api env)"
  shows "d k = Some v \<Longrightarrow> merge_coordination_data env d ca k = Some v"
    "merge_coordination_data env d ca k \<noteq> None"
  using assms by (auto simp: merge_coordination_data_def or_insert_def Let_def split: option.splits)

text \<open>What one effect of a reconcile makes of the data of the coordination Secret: an accepted apply
  replaces it, a deletion removes it.\<close>

definition stored_after :: "cluster_env \<Rightarrow> string \<Rightarrow> cluster_effect \<Rightarrow> str_map option \<Rightarrow> str_map option" where
  "stored_after env sname x store =
     (case x of
        Apply ob fm \<Rightarrow>
          (case ob of ObSecret s \<Rightarrow>
             if meta_name (sec_meta s) = Some sname \<and> cn_apply env ob = Inr () then sec_data s else store
           | _ \<Rightarrow> store)
      | DeleteKind kind ns n \<Rightarrow> if kind = ''Secret'' \<and> n = sname then None else store
      | _ \<Rightarrow> store)"

text \<open>The histories of the Secret of one cluster: reconciles of the live cluster, with any spec and
  any answers, as long as a successful read returns what is stored.\<close>

inductive key_history :: "api_crate \<Rightarrow> string \<Rightarrow> str_map option \<Rightarrow> str_map option \<Rightarrow> bool" for api name s0 where
  kh_start: "key_history api name s0 s0"
| kh_reconcile: "key_history api name s0 (fold (stored_after env sname) (fst (cluster_reconcile env obj)) s)"
    if "key_history api name s0 s" "sname = managed_coordination_secret_name api name" "cn_api env = api"
      "meta_name (cl_meta obj) = Some name" "meta_deletion_timestamp (cl_meta obj) = None"
      "\<And>found. cn_secret env sname = Inr found \<Longrightarrow> Option.bind found sec_data = s"

lemma stored_after_live:
  assumes "\<And>s' fm. Apply (ObSecret s') fm \<in> set xs \<Longrightarrow> sec_data s' = d" and "\<And>k ns n. DeleteKind k ns n \<notin> set xs"
  shows "fold (stored_after env sname) xs s \<in> {s, d}"
  using assms
proof (induction xs arbitrary: s)
  case (Cons x xs)
  have "x \<noteq> DeleteKind k ns n" for k ns n using Cons.prems(2) [of k ns n] by auto
  moreover have "sec_data s' = d" if "x = Apply (ObSecret s') fm" for s' fm
    using Cons.prems(1) [of s' fm] that by simp
  ultimately have "stored_after env sname x s \<in> {s, d}"
    by (auto simp: stored_after_def split: effect.splits k8s_object.splits)
  moreover have "fold (stored_after env sname) xs s' \<in> {s', d}" for s'
    using Cons.prems by (intro Cons.IH) auto
  ultimately show ?case by (metis fold_simps(2) insert_iff singletonD)
qed simp

lemma live_deletes_nothing:
  "meta_deletion_timestamp (cl_meta obj) = None \<Longrightarrow> DeleteKind k ns n \<notin> set (fst (cluster_reconcile env obj))"
  using cluster_managed_effects [of "DeleteKind k ns n" env obj]
  by (auto elim!: cluster_effects simp: cluster_body_def bindT_effects run_simps patch_status_logged_eff split: if_splits)

lemma key_step:
  assumes "sname = managed_coordination_secret_name (cn_api env) name" "meta_name (cl_meta obj) = Some name"
    and "meta_deletion_timestamp (cl_meta obj) = None"
    and "\<And>found. cn_secret env sname = Inr found \<Longrightarrow> Option.bind found sec_data = s"
  shows "fold (stored_after env sname) (fst (cluster_reconcile env obj)) s
    \<in> {s, Some (merge_coordination_data env (case s of Some d \<Rightarrow> d | None \<Rightarrow> Map.empty) (managed_ca env obj name))}"
proof (rule stored_after_live)
  fix s' fm
  assume "Apply (ObSecret s') fm \<in> set (fst (cluster_reconcile env obj))"
  from applied_secret [OF this] assms obtain found where "s' = managed_secret env obj name" "cn_secret env sname = Inr found"
    by auto
  with assms(1) assms(4) show "sec_data s' = Some (merge_coordination_data env
      (case s of Some d \<Rightarrow> d | None \<Rightarrow> Map.empty) (managed_ca env obj name))"
    by (auto simp: managed_secret_def coordination_secret_def existing_coordination_def)
qed (rule live_deletes_nothing [OF assms(3)])

text \<open>C6. The token and the state-encryption key are created once. Over every history of reconciles of a
  live cluster, whatever its spec becomes and whichever calls fail, a key that is in the Secret
  keeps its value.\<close>

theorem coordination_keys_never_rotated:
  assumes "key_history api name (Some d) s" and "d k = Some v"
    and "k \<in> {MANAGED_NATS_TOKEN_ENV api, MANAGED_STATE_KEY_ENV api}" and "k \<noteq> MANAGED_NATS_CA_ENV api"
  shows "\<exists>d'. s = Some d' \<and> d' k = Some v"
  using assms(1)
proof induction
  case kh_start
  with assms(2) show ?case by simp
next
  case (kh_reconcile s sname env obj)
  from kh_reconcile.IH obtain d' where d: "s = Some d'" "d' k = Some v" by blast
  then have "merge_coordination_data env d' ca k = Some v" for ca
    using merge_keys(1) [of k env d' v] assms(3,4) kh_reconcile.hyps by simp
  then show ?case
    using key_step [of sname env name obj s] kh_reconcile.hyps d by auto
qed

text \<open>Deleting a managed cluster removes the Secret with the state-encryption key but no volume claim,
  so the sealed state outlives its key: a cluster of the same name that is provisioned afterwards
  gets a freshly generated one.\<close>

theorem cluster_deletion_loses_state_key:
  assumes "meta_name (cl_meta obj) = Some name" and "meta_deletion_timestamp (cl_meta obj) \<noteq> None"
    and "cl_managed (cl_spec obj) \<noteq> None" and "sname = managed_coordination_secret_name (cn_api env) name"
    and "MANAGED_STATE_KEY_ENV (cn_api env) \<notin> {MANAGED_NATS_TOKEN_ENV (cn_api env), MANAGED_NATS_CA_ENV (cn_api env)}"
    and "meta_name (cl_meta obj') = Some name" and "cn_api env' = cn_api env"
    and "\<And>found. cn_secret env' sname = Inr found \<Longrightarrow>
      found = None \<longleftrightarrow> fold (stored_after env sname) (fst (cluster_reconcile env obj)) store = None"
    and "Apply (ObSecret s) fm \<in> set (fst (cluster_reconcile env' obj'))"
  shows "fold (stored_after env sname) (fst (cluster_reconcile env obj)) store = None
    \<and> (\<forall>k ns n. DeleteKind k ns n \<in> set (fst (cluster_reconcile env obj)) \<longrightarrow> k \<noteq> ''PersistentVolumeClaim'')
    \<and> the (sec_data s) (MANAGED_STATE_KEY_ENV (cn_api env)) = Some (gen_url_safe_key env' 1 32)"
proof -
  let ?tail = "fst (remove_finalizer (cn_remove_get env) (cn_remove_patch env) name OPERATOR_FINALIZER)"
  have run: "\<exists>o'. fst (cluster_reconcile env obj) = cluster_cleanup env obj @ ?tail @ [ObserveReconcile ''cluster'' o']"
    using assms(1,2) by (auto simp: cluster_reconcile_def observed_def cluster_reconcile_inner_def guarded_deleted run_simps
        split: sum.split)
  have tail: "fold (stored_after env sname) ?tail s0 = s0" for s0
    by (auto simp: remove_finalizer_def Let_def run_simps stored_after_def split: option.split sum.split)
  have gone: "fold (stored_after env sname) (fst (cluster_reconcile env obj)) store = None"
    using run assms(1,3,4) tail
    by (auto simp: cluster_cleanup_def prune_managed_children_def stored_after_def)
  moreover have "k \<noteq> ''PersistentVolumeClaim''" if "DeleteKind k ns n \<in> set (fst (cluster_reconcile env obj))" for k ns n
    using that run remove_finalizer_eff [of "DeleteKind k ns n"] assms(3)
    by (auto simp: cluster_cleanup_def prune_managed_children_def)
  moreover have "the (sec_data s) (MANAGED_STATE_KEY_ENV (cn_api env)) = Some (gen_url_safe_key env' 1 32)"
  proof -
    from applied_secret [OF assms(9)] assms(4,6,7) obtain found where
      "s = managed_secret env' obj' name" "cn_secret env' sname = Inr found" by auto
    moreover from this gone assms(8) have "found = None" by simp
    ultimately show ?thesis using assms(4,5,7)
      by (auto simp: managed_secret_def coordination_secret_def existing_coordination_def merge_coordination_data_def
          or_insert_def Let_def)
  qed
  ultimately show ?thesis by blast
qed

section \<open>What the status says\<close>

lemma cluster_live_status:
  assumes "PatchStatus n st fm \<in> set (fst (cluster_reconcile env obj))"
  obtains name v gws where "meta_name (cl_meta obj) = Some name" "meta_deletion_timestamp (cl_meta obj) = None"
    "classify_readiness env obj (if cl_managed (cl_spec obj) = None then None else Some (managed_outcome_of env obj name)) = Inr v"
    "cn_gateways env = Inr gws"
    "st = cluster_status_of env obj name (if cl_managed (cl_spec obj) = None then None else Some (managed_outcome_of env obj name))
       v (int (length (filter (\<lambda>g. gw_cluster_ref (gw_spec g) = Some name) gws)))"
    "cl_managed (cl_spec obj) \<noteq> None \<longrightarrow> Apply (ObSecret (managed_secret env obj name)) cluster_fm
       \<in> set (fst (cluster_reconcile env obj)) \<and> cn_apply env (ObSecret (managed_secret env obj name)) = Inr ()"
  using assms
proof (cases rule: cluster_effects)
  case (body name)
  from body(3) obtain m v gws where m: "snd (cluster_managed env obj name) = Inr m" and v: "classify_readiness env obj m = Inr v"
    and g: "cn_gateways env = Inr gws"
    and st: "st = cluster_status_of env obj name m v (int (length (filter (\<lambda>g. gw_cluster_ref (gw_spec g) = Some name) gws)))"
    by (rule cluster_body_status)
  note c = cluster_managed_applied(2) [OF m]
  have "Apply (ObSecret (managed_secret env obj name)) cluster_fm \<in> set (fst (cluster_reconcile env obj))
      \<and> cn_apply env (ObSecret (managed_secret env obj name)) = Inr ()" if managed: "cl_managed (cl_spec obj) \<noteq> None"
  proof -
    have s: "ObSecret (managed_secret env obj name) \<in> set (managed_objects env obj name)"
      by (simp add: managed_objects_def Let_def)
    with c managed have "ObSecret (managed_secret env obj name) \<in> set (applied_objects (fst (cluster_managed env obj name)))"
      by simp
    then obtain fm' where "Apply (ObSecret (managed_secret env obj name)) fm' \<in> set (fst (cluster_managed env obj name))"
      by (auto simp: applied_objects_mem)
    moreover from cluster_managed_effects [OF this] have "fm' = cluster_fm" by auto
    ultimately show ?thesis using body(4) c managed s by (auto simp: cluster_body_def bindT_sel)
  qed
  then show thesis using that [OF body(2,1)] v g st c by simp
next
  case cleanup
  then show thesis by (simp add: cluster_cleanup_def prune_managed_children_def split: if_splits)
qed auto

lemma classify_ready:
  assumes "classify_readiness env obj m = Inr v"
  shows "fst v \<longleftrightarrow> (\<forall>mo. m = Some mo \<longrightarrow> mo_ready mo)
    \<and> (\<forall>r. cl_plugin_ref (cl_spec obj) = Some r \<longrightarrow> (\<exists>p. cn_plugin env r = Inr (Some p) \<and> plugin_is_ready p))"
proof (cases "cl_plugin_ref (cl_spec obj)")
  case None
  with assms show ?thesis by (cases m) (auto simp: classify_readiness_def split: if_splits)
next
  case (Some r)
  with assms show ?thesis
    by (cases m; cases "cn_plugin env r") (auto simp: classify_readiness_def map_err_def bindE_def split: if_splits option.splits)
qed

lemma cluster_status_lemma:
  assumes "condition_setter (cn_set_condition env)" and "distinct [MANAGED_NATS_TOKEN_ENV (cn_api env),
      MANAGED_STATE_KEY_ENV (cn_api env), MANAGED_NATS_CA_ENV (cn_api env)]"
    and "PatchStatus n st fm \<in> set (fst (cluster_reconcile env obj))"
  shows "(cond_true ''Ready'' (cls_conditions st) \<longleftrightarrow>
        (cl_managed (cl_spec obj) = None \<or> cls_managed_ready st = Some True)
        \<and> (\<forall>r. cl_plugin_ref (cl_spec obj) = Some r \<longrightarrow> (\<exists>p. cn_plugin env r = Inr (Some p) \<and> plugin_is_ready p)))
    \<and> (\<exists>gws. cn_gateways env = Inr gws \<and> cls_bound_gateways st =
        Some (int (length (filter (\<lambda>g. gw_cluster_ref (gw_spec g) = Some (name_any (cl_meta obj))) gws))))
    \<and> (cl_managed (cl_spec obj) = None \<longrightarrow> cls_managed_ready st = None)
    \<and> (cl_managed (cl_spec obj) \<noteq> None \<longrightarrow> (\<exists>s data. Apply (ObSecret s) cluster_fm \<in> set (fst (cluster_reconcile env obj))
        \<and> cn_apply env (ObSecret s) = Inr () \<and> sec_data s = Some data
        \<and> data (MANAGED_NATS_TOKEN_ENV (cn_api env)) \<noteq> None \<and> data (MANAGED_STATE_KEY_ENV (cn_api env)) \<noteq> None
        \<and> (cls_managed_ready st = Some True \<longleftrightarrow> (\<exists>k. cn_ready_replicas env = Some k \<and> 1 \<le> k)
             \<and> (managed_tls_enabled (cn_api env) (cl_spec obj) \<longrightarrow> data (MANAGED_NATS_CA_ENV (cn_api env)) \<noteq> None))))"
proof -
  from assms(3) obtain name v gws where n: "meta_name (cl_meta obj) = Some name" "meta_deletion_timestamp (cl_meta obj) = None"
    and v: "classify_readiness env obj (if cl_managed (cl_spec obj) = None then None else Some (managed_outcome_of env obj name)) = Inr v"
    and g: "cn_gateways env = Inr gws"
    and st: "st = cluster_status_of env obj name (if cl_managed (cl_spec obj) = None then None else Some (managed_outcome_of env obj name))
       v (int (length (filter (\<lambda>g. gw_cluster_ref (gw_spec g) = Some name) gws)))"
    and s: "cl_managed (cl_spec obj) \<noteq> None \<longrightarrow> Apply (ObSecret (managed_secret env obj name)) cluster_fm
       \<in> set (fst (cluster_reconcile env obj)) \<and> cn_apply env (ObSecret (managed_secret env obj name)) = Inr ()"
    by (rule cluster_live_status)
  let ?data = "merge_coordination_data env (existing_coordination env name) (managed_ca env obj name)"
  have ready: "cond_true ''Ready'' (cls_conditions st) \<longleftrightarrow> fst v"
    by (simp add: st cluster_status_of_def Let_def cond_true_set [OF assms(1)])
  have keys: "?data (MANAGED_NATS_TOKEN_ENV (cn_api env)) \<noteq> None" "?data (MANAGED_STATE_KEY_ENV (cn_api env)) \<noteq> None"
    using assms(2) by (simp_all add: merge_keys)
  have ca: "?data (MANAGED_NATS_CA_ENV (cn_api env)) = managed_ca env obj name"
    by (simp add: merge_coordination_data_def Let_def)
  have mr: "cls_managed_ready st = map_option mo_ready
      (if cl_managed (cl_spec obj) = None then None else Some (managed_outcome_of env obj name))"
    by (simp only: st cluster_status_of_def Let_def cluster_status.simps)
  have "fst v \<longleftrightarrow> (cl_managed (cl_spec obj) = None \<or> cls_managed_ready st = Some True)
      \<and> (\<forall>r. cl_plugin_ref (cl_spec obj) = Some r \<longrightarrow> (\<exists>p. cn_plugin env r = Inr (Some p) \<and> plugin_is_ready p))"
    unfolding classify_ready [OF v] mr by auto
  moreover have "sec_data (managed_secret env obj name) = Some ?data"
    by (simp add: managed_secret_def coordination_secret_def)
  moreover have "cls_managed_ready st = Some True \<longleftrightarrow> (\<exists>k. cn_ready_replicas env = Some k \<and> 1 \<le> k)
      \<and> (managed_tls_enabled (cn_api env) (cl_spec obj) \<longrightarrow> ?data (MANAGED_NATS_CA_ENV (cn_api env)) \<noteq> None)"
    if "cl_managed (cl_spec obj) \<noteq> None"
    unfolding ca mr using that by (auto simp: managed_outcome_of_def Let_def split: option.splits)
  moreover have "cls_managed_ready st = None" if "cl_managed (cl_spec obj) = None"
    using that by (simp add: mr)
  moreover have "cls_bound_gateways st =
        Some (int (length (filter (\<lambda>g. gw_cluster_ref (gw_spec g) = Some (name_any (cl_meta obj))) gws)))"
    using n by (simp add: st cluster_status_of_def Let_def)
  ultimately show ?thesis using ready keys g s by blast
qed

text \<open>C19. What the status of a cluster says. It is Ready exactly when the coordinator it manages, if any,
  is ready and the plugin it pins, if any, is ready and not revoked; a managed coordinator is ready
  exactly when the StatefulSet reports a ready replica and, with TLS, the Secret that was just
  applied carries the CA; that Secret then holds both generated keys, so a gateway that binds the
  cluster finds everything its configuration refers to. The bound gateways are those that name the
  cluster.\<close>

theorem cluster_status_meaning:
  assumes "condition_setter (cn_set_condition env)" and "distinct [MANAGED_NATS_TOKEN_ENV (cn_api env),
      MANAGED_STATE_KEY_ENV (cn_api env), MANAGED_NATS_CA_ENV (cn_api env)]"
    and "PatchStatus n st fm \<in> set (fst (cluster_reconcile env obj))"
  shows "(cond_true ''Ready'' (cls_conditions st) \<longleftrightarrow>
        (cl_managed (cl_spec obj) = None \<or> cls_managed_ready st = Some True)
        \<and> (\<forall>r. cl_plugin_ref (cl_spec obj) = Some r \<longrightarrow> (\<exists>p. cn_plugin env r = Inr (Some p) \<and> plugin_is_ready p)))
    \<and> (\<exists>gws. cn_gateways env = Inr gws \<and> cls_bound_gateways st =
        Some (int (length (filter (\<lambda>g. gw_cluster_ref (gw_spec g) = Some (name_any (cl_meta obj))) gws))))
    \<and> (cl_managed (cl_spec obj) = None \<longrightarrow> cls_managed_ready st = None)
    \<and> (cl_managed (cl_spec obj) \<noteq> None \<longrightarrow> (\<exists>s data. Apply (ObSecret s) cluster_fm \<in> set (fst (cluster_reconcile env obj))
        \<and> cn_apply env (ObSecret s) = Inr () \<and> sec_data s = Some data
        \<and> data (MANAGED_NATS_TOKEN_ENV (cn_api env)) \<noteq> None \<and> data (MANAGED_STATE_KEY_ENV (cn_api env)) \<noteq> None
        \<and> (cls_managed_ready st = Some True \<longleftrightarrow> (\<exists>k. cn_ready_replicas env = Some k \<and> 1 \<le> k)
             \<and> (managed_tls_enabled (cn_api env) (cl_spec obj) \<longrightarrow> data (MANAGED_NATS_CA_ENV (cn_api env)) \<noteq> None))))"
  using assms by (rule cluster_status_lemma)

text \<open>A failed read of the issued certificate drops the CA from the coordination Secret, although TLS
  stays on: the reconcile goes on with no CA, as if the certificate had never been issued.\<close>

theorem ca_dropped_on_failed_read:
  assumes "managed_tls_enabled (cn_api env) (cl_spec obj)"
    and "cn_secret env (managed_nats_tls_secret_name (cn_api env) (name_any (cl_meta obj))) = Inl e"
    and "Apply (ObSecret s) fm \<in> set (fst (cluster_reconcile env obj))"
  shows "the (sec_data s) (MANAGED_NATS_CA_ENV (cn_api env)) = None
    \<and> (\<forall>n st fm. PatchStatus n st fm \<in> set (fst (cluster_reconcile env obj)) \<longrightarrow> cls_managed_ready st = Some False)"
proof (intro conjI allI impI)
  from applied_secret [OF assms(3)] obtain name where n: "meta_name (cl_meta obj) = Some name"
    and s: "s = managed_secret env obj name" and m: "cl_managed (cl_spec obj) \<noteq> None" by blast
  have ca: "managed_ca env obj name = None"
    using assms(1,2) n by (simp add: managed_ca_def read_ca_cert_def)
  show "the (sec_data s) (MANAGED_NATS_CA_ENV (cn_api env)) = None"
    by (simp add: s managed_secret_def coordination_secret_def merge_coordination_data_def Let_def ca)
  fix n' st fm'
  assume "PatchStatus n' st fm' \<in> set (fst (cluster_reconcile env obj))"
  then show "cls_managed_ready st = Some False"
    by (rule cluster_live_status)
      (use n m ca assms(1) in \<open>auto simp: cluster_status_of_def Let_def managed_outcome_of_def\<close>)
qed

section \<open>An instance\<close>

text \<open>A cluster whose certificate has been issued; the Secret does not exist yet.\<close>

definition sample_cluster_env :: cluster_env where
  "sample_cluster_env = \<lparr>cn_api = sample_api, cn_remove_get = Inr None, cn_remove_patch = Inr (), cn_finalizer = Inr (),
     cn_status = (Inr (), Inr ()),
     cn_secret = (\<lambda>n. Inr (if n = ''c-nats-tls'' then Some \<lparr>sec_meta = default_meta, sec_type = None, sec_immutable = None,
       sec_data = Some [''ca.crt'' \<mapsto> ''P'']\<rparr> else None)),
     cn_plugin = (\<lambda>_. Inr None), cn_gateways = Inr [], cn_apply = (\<lambda>_. Inr ()), cn_ready_replicas = Some 1,
     cn_fill = (\<lambda>i n. replicate n (CHR ''k'')), cn_base64 = id, cn_print_json = (\<lambda>_. ''{}''), cn_sha256_hex = id,
     cn_pod_dns_config = None, cn_set_condition = upsert_condition, cn_resync_secs = 300, cn_random = 0\<rparr>"

definition deleted_managed :: cluster where
  "deleted_managed = sample_managed\<lparr>cl_meta := (cl_meta sample_managed)\<lparr>meta_deletion_timestamp := Some 0\<rparr>\<rparr>"

lemma sample_managed_fields:
  "meta_name (cl_meta sample_managed) = Some ''c''" "meta_deletion_timestamp (cl_meta sample_managed) = None"
  "has_finalizer (cl_meta sample_managed) OPERATOR_FINALIZER" "cl_managed (cl_spec sample_managed) \<noteq> None"
  "cl_plugin_ref (cl_spec sample_managed) = None" "managed_tls_enabled sample_api (cl_spec sample_managed)"
  by (simp_all add: sample_managed_def default_meta_def has_finalizer_def OPERATOR_FINALIZER_def sample_api_def)

lemma sample_cluster_fields:
  "cn_api sample_cluster_env = sample_api" "cn_apply sample_cluster_env ob = Inr ()"
  "cn_secret sample_cluster_env (managed_coordination_secret_name sample_api ''c'') = Inr None"
  "cn_ready_replicas sample_cluster_env = Some 1" "condition_setter (cn_set_condition sample_cluster_env)"
  by (simp_all add: sample_cluster_env_def sample_api_def)

lemma valid_utf8_P: "valid_utf8 ''P''"
  by (subst valid_utf8.simps, simp add: utf8_char_def byte_in_def, subst valid_utf8.simps, simp)

lemma sample_managed_run:
  assumes "cn_api env = sample_api" and "\<And>ob. cn_apply env ob = Inr ()" and "cn_gateways env = Inr []"
    and "cn_secret env (managed_coordination_secret_name sample_api ''c'') = Inr found"
  shows "Apply (ObSecret (managed_secret env sample_managed ''c'')) cluster_fm \<in> set (fst (cluster_reconcile env sample_managed))"
    "\<exists>n st fm. PatchStatus n st fm \<in> set (fst (cluster_reconcile env sample_managed))"
proof -
  have body: "x \<in> set (fst (cluster_body env sample_managed ''c'')) \<Longrightarrow> x \<in> set (fst (cluster_reconcile env sample_managed))" for x
    by (simp add: cluster_reconcile_def observed_effects cluster_reconcile_inner_def guarded_live sample_managed_fields)
  have "snd (cluster_applies env obs) = Inr ()" if "\<forall>ob \<in> set obs. meta_name (ob_meta ob) \<noteq> None" for obs
    using that by (induction obs) (auto simp: run_simps cluster_apply_sel assms(2))
  then have m: "snd (cluster_managed env sample_managed ''c'') = Inr (Some (managed_outcome_of env sample_managed ''c''))"
    using sample_managed_fields(4) managed_objects_named [of _ env sample_managed "''c''"]
    by (auto simp: cluster_managed_def reconcile_managed_run assms(1,4) run_simps)
  obtain v where "classify_readiness env sample_managed (Some (managed_outcome_of env sample_managed ''c'')) = Inr v"
    by (cases "mo_ready (managed_outcome_of env sample_managed ''c'')") (auto simp: classify_readiness_def sample_managed_fields)
  with m have "\<exists>st. PatchStatus ''c'' st cluster_fm \<in> set (fst (cluster_body env sample_managed ''c''))"
    by (auto simp: cluster_body_def bindT_sel run_simps patch_status_logged_eff count_bound_gateways_def assms(3)
        map_err_def bindE_def)
  with body show p: "\<exists>n st fm. PatchStatus n st fm \<in> set (fst (cluster_reconcile env sample_managed))" by blast
  then obtain n st fm where "PatchStatus n st fm \<in> set (fst (cluster_reconcile env sample_managed))" by blast
  then show "Apply (ObSecret (managed_secret env sample_managed ''c'')) cluster_fm \<in> set (fst (cluster_reconcile env sample_managed))"
    by (rule cluster_live_status) (use sample_managed_fields in auto)
qed

theorem cluster_provision_ordered_witness:
  "\<exists>n st fm. PatchStatus n st fm \<in> set (fst (cluster_reconcile sample_cluster_env sample_managed))
     \<and> applied_objects (fst (cluster_reconcile sample_cluster_env sample_managed)) = managed_objects sample_cluster_env sample_managed ''c''"
proof -
  have "cn_gateways sample_cluster_env = Inr []" by (simp add: sample_cluster_env_def)
  from sample_managed_run(2) [OF sample_cluster_fields(1,2) this sample_cluster_fields(3)]
  obtain n st fm where p: "PatchStatus n st fm \<in> set (fst (cluster_reconcile sample_cluster_env sample_managed))" by blast
  then show ?thesis
    using cluster_provision_ordered [OF refl, of sample_cluster_env sample_managed n st fm] sample_managed_fields(1,2,4)
    by auto
qed

lemma cluster_sample_ready:
  "\<exists>n st fm. PatchStatus n st fm \<in> set (fst (cluster_reconcile sample_cluster_env sample_managed))
     \<and> cond_true ''Ready'' (cls_conditions st) \<and> cls_managed_ready st = Some True \<and> cls_bound_gateways st = Some 0"
proof -
  have g: "cn_gateways sample_cluster_env = Inr []" by (simp add: sample_cluster_env_def)
  from sample_managed_run(2) [OF sample_cluster_fields(1,2) g sample_cluster_fields(3)]
  obtain n st fm where p: "PatchStatus n st fm \<in> set (fst (cluster_reconcile sample_cluster_env sample_managed))" by blast
  have ca: "managed_ca sample_cluster_env sample_managed ''c'' = Some ''P''"
    using sample_managed_fields(6) valid_utf8_P
    by (simp add: managed_ca_def sample_cluster_env_def sample_api_def read_ca_cert_def blank_def trim_def trim_end_def
        char_class_defs is_ws2_def is_ws3_def)
  have "distinct [MANAGED_NATS_TOKEN_ENV (cn_api sample_cluster_env), MANAGED_STATE_KEY_ENV (cn_api sample_cluster_env),
      MANAGED_NATS_CA_ENV (cn_api sample_cluster_env)]"
    by (simp add: sample_cluster_env_def sample_api_def)
  note meaning = cluster_status_lemma [OF sample_cluster_fields(5) this p]
  have "\<exists>s data. Apply (ObSecret s) cluster_fm \<in> set (fst (cluster_reconcile sample_cluster_env sample_managed))
      \<and> sec_data s = Some data \<and> (cls_managed_ready st = Some True \<longleftrightarrow> data (MANAGED_NATS_CA_ENV sample_api) \<noteq> None)"
    using meaning sample_managed_fields(4,6) by (auto simp: sample_cluster_fields)
  then obtain s data where a: "Apply (ObSecret s) cluster_fm \<in> set (fst (cluster_reconcile sample_cluster_env sample_managed))"
    and d: "sec_data s = Some data" "cls_managed_ready st = Some True \<longleftrightarrow> data (MANAGED_NATS_CA_ENV sample_api) \<noteq> None" by blast
  from applied_secret [OF a] d(1) ca have "data (MANAGED_NATS_CA_ENV sample_api) = Some ''P''"
    by (auto simp: sample_managed_fields managed_secret_def coordination_secret_def merge_coordination_data_def Let_def
        sample_cluster_fields)
  with d have "cls_managed_ready st = Some True" by simp
  with meaning p show ?thesis by (auto simp: sample_managed_fields sample_cluster_fields g)
qed

theorem cluster_status_meaning_witness:
  "\<exists>n st fm. PatchStatus n st fm \<in> set (fst (cluster_reconcile sample_cluster_env sample_managed))
     \<and> cls_managed_ready st = Some True \<and> cls_bound_gateways st = Some 0"
proof -
  obtain n st fm where p: "PatchStatus n st fm \<in> set (fst (cluster_reconcile sample_cluster_env sample_managed))"
    and r: "cond_true ''Ready'' (cls_conditions st)" using cluster_sample_ready by blast
  have "distinct [MANAGED_NATS_TOKEN_ENV (cn_api sample_cluster_env), MANAGED_STATE_KEY_ENV (cn_api sample_cluster_env),
      MANAGED_NATS_CA_ENV (cn_api sample_cluster_env)]" "cn_gateways sample_cluster_env = Inr []"
    by (simp_all add: sample_cluster_env_def sample_api_def)
  then show ?thesis
    using cluster_status_meaning [OF sample_cluster_fields(5) _ p] r p sample_managed_fields(4) by auto
qed

text \<open>A second reconcile, which reads a Secret with other keys and fails to read the certificate.\<close>

definition stored_cluster_env :: cluster_env where
  "stored_cluster_env = sample_cluster_env\<lparr>cn_secret := (\<lambda>n. if n = ''c-nats-tls'' then Inl (KubeApi 500)
     else Inr (Some \<lparr>sec_meta = default_meta, sec_type = None, sec_immutable = None, sec_data = Some [''STATE_KEY'' \<mapsto> ''k'']\<rparr>)),
     cn_fill := (\<lambda>i n. replicate n (CHR ''j''))\<rparr>"

lemma stored_cluster_fields:
  "cn_api stored_cluster_env = sample_api" "cn_apply stored_cluster_env ob = Inr ()"
  "cn_gateways stored_cluster_env = Inr []"
  "cn_secret stored_cluster_env (managed_coordination_secret_name sample_api ''c'') =
     Inr (Some \<lparr>sec_meta = default_meta, sec_type = None, sec_immutable = None, sec_data = Some [''STATE_KEY'' \<mapsto> ''k'']\<rparr>)"
  "cn_secret stored_cluster_env (managed_nats_tls_secret_name sample_api ''c'') = Inl (KubeApi 500)"
  by (simp_all add: stored_cluster_env_def sample_cluster_env_def sample_api_def)

theorem coordination_keys_never_rotated_witness:
  "\<exists>s d'. key_history sample_api ''c'' (Some [''STATE_KEY'' \<mapsto> ''k'']) s
     \<and> s = fold (stored_after stored_cluster_env ''c-coordination'') (fst (cluster_reconcile stored_cluster_env sample_managed))
         (Some [''STATE_KEY'' \<mapsto> ''k''])
     \<and> s = Some d' \<and> d' ''STATE_KEY'' = Some ''k''"
proof -
  let ?s = "fold (stored_after stored_cluster_env ''c-coordination'') (fst (cluster_reconcile stored_cluster_env sample_managed))
         (Some [''STATE_KEY'' \<mapsto> ''k''])"
  have h: "key_history sample_api ''c'' (Some [''STATE_KEY'' \<mapsto> ''k'']) ?s"
    by (rule kh_reconcile [OF kh_start])
      (use stored_cluster_fields(1,4) sample_managed_fields(1,2) in \<open>auto simp: sample_api_def\<close>)
  have "MANAGED_STATE_KEY_ENV sample_api = ''STATE_KEY''" "MANAGED_NATS_CA_ENV sample_api = ''NATS_CA''"
    by (simp_all add: sample_api_def)
  then show ?thesis
    using coordination_keys_never_rotated [OF h, of "''STATE_KEY''" "''k''"] h by simp
qed

theorem cluster_deletion_loses_state_key_witness:
  "fold (stored_after stored_cluster_env ''c-coordination'') (fst (cluster_reconcile stored_cluster_env deleted_managed))
     (Some [''STATE_KEY'' \<mapsto> ''k'']) = None
   \<and> (\<exists>s fm. Apply (ObSecret s) fm \<in> set (fst (cluster_reconcile sample_cluster_env sample_managed))
        \<and> the (sec_data s) ''STATE_KEY'' = Some (gen_url_safe_key sample_cluster_env 1 32))"
proof -
  have g: "cn_gateways sample_cluster_env = Inr []" by (simp add: sample_cluster_env_def)
  note a = sample_managed_run(1) [OF sample_cluster_fields(1,2) g sample_cluster_fields(3)]
  have del: "meta_name (cl_meta deleted_managed) = Some ''c''" "meta_deletion_timestamp (cl_meta deleted_managed) \<noteq> None"
    "cl_managed (cl_spec deleted_managed) \<noteq> None"
    by (simp_all add: deleted_managed_def sample_managed_def default_meta_def)
  have n: "''c-coordination'' = managed_coordination_secret_name (cn_api stored_cluster_env) ''c''"
    by (simp add: stored_cluster_fields sample_api_def)
  have k: "MANAGED_STATE_KEY_ENV (cn_api stored_cluster_env)
      \<notin> {MANAGED_NATS_TOKEN_ENV (cn_api stored_cluster_env), MANAGED_NATS_CA_ENV (cn_api stored_cluster_env)}"
    by (simp add: stored_cluster_fields sample_api_def)
  have e: "cn_api sample_cluster_env = cn_api stored_cluster_env" by (simp add: stored_cluster_fields sample_cluster_fields)
  have gone: "fold (stored_after stored_cluster_env ''c-coordination'') (fst (cluster_reconcile stored_cluster_env deleted_managed))
      (Some [''STATE_KEY'' \<mapsto> ''k'']) = None"
    using del(2,3) n
    by (auto simp: cluster_reconcile_def observed_def cluster_reconcile_inner_def del(1) guarded_deleted run_simps
        cluster_cleanup_def prune_managed_children_def stored_after_def stored_cluster_env_def sample_cluster_env_def
        remove_finalizer_def split: option.split sum.split)
  have r: "found = None \<longleftrightarrow> fold (stored_after stored_cluster_env ''c-coordination'')
      (fst (cluster_reconcile stored_cluster_env deleted_managed)) (Some [''STATE_KEY'' \<mapsto> ''k'']) = None"
    if "cn_secret sample_cluster_env ''c-coordination'' = Inr found" for found
    using that gone n by (simp add: sample_cluster_fields stored_cluster_fields)
  show ?thesis
    using cluster_deletion_loses_state_key [OF del n k sample_managed_fields(1) e r a] a
    by (auto simp: stored_cluster_fields) (auto simp: sample_api_def)
qed

theorem ca_dropped_on_failed_read_witness:
  "\<exists>s n st fm fm'. Apply (ObSecret s) fm' \<in> set (fst (cluster_reconcile stored_cluster_env sample_managed))
     \<and> the (sec_data s) ''NATS_CA'' = None
     \<and> PatchStatus n st fm \<in> set (fst (cluster_reconcile stored_cluster_env sample_managed)) \<and> cls_managed_ready st = Some False"
proof -
  note run = sample_managed_run [OF stored_cluster_fields(1,2,3,4)]
  from run(2) obtain n st fm where p: "PatchStatus n st fm \<in> set (fst (cluster_reconcile stored_cluster_env sample_managed))" by blast
  have t: "managed_tls_enabled (cn_api stored_cluster_env) (cl_spec sample_managed)"
    "cn_secret stored_cluster_env (managed_nats_tls_secret_name (cn_api stored_cluster_env) (name_any (cl_meta sample_managed)))
       = Inl (KubeApi 500)"
    by (simp_all add: stored_cluster_fields sample_managed_fields)
  have ca: "MANAGED_NATS_CA_ENV (cn_api stored_cluster_env) = ''NATS_CA''"
    by (simp add: stored_cluster_fields sample_api_def)
  note ca_dropped_on_failed_read [OF t run(1), unfolded ca]
  with run(1) p show ?thesis by blast
qed

end
