(* ===== verification/Composition.thy ===== *)
theory Composition
  imports AdmissionFacts MirrorCtl RouteCtl TenantCtl ClusterCtl GatewaySafety
begin

text \<open>
  Properties of controllers together. The failure counters over the life of a process: which
  controllers reset them and which never do. The coordination Secret from the cluster that
  generates it to the gateway that binds the cluster.
\<close>

section \<open>The life of a failure counter\<close>

text \<open>One reconcile and, after an error, the error policy: what they make of the backoff map.\<close>

definition run_backoff ::
  "('st, 'ob) effect list \<times> ('e + 'a) \<Rightarrow> ('e \<Rightarrow> backoff_map \<Rightarrow> reconcile_action \<times> backoff_map)
    \<Rightarrow> backoff_map \<Rightarrow> backoff_map" where
  "run_backoff run policy m =
     (let m' = fold (\<lambda>x m. case x of BackoffReset k \<Rightarrow> record_success k m
                                 | BackoffFailure k \<Rightarrow> snd (record_error k m) | _ \<Rightarrow> m) (fst run) m
      in case snd run of Inl e \<Rightarrow> snd (policy e m') | Inr _ \<Rightarrow> m')"

text \<open>The map after a sequence of runs, each of an object with the answers of its time and the draw of
  its jitter, and the runs that count as failures of a key.\<close>

definition backoff_life ::
  "('env \<Rightarrow> 'obj \<Rightarrow> ('st, 'ob, 'e, reconcile_action) ctl)
    \<Rightarrow> (real \<Rightarrow> 'obj \<Rightarrow> 'e \<Rightarrow> backoff_map \<Rightarrow> reconcile_action \<times> backoff_map)
    \<Rightarrow> ('env \<times> 'obj \<times> real) list \<Rightarrow> backoff_map" where
  "backoff_life run policy xs = fold (\<lambda>(env, obj, r). run_backoff (run env obj) (policy r obj)) xs backoff_new"

definition failed_run ::
  "('env \<Rightarrow> 'obj \<Rightarrow> ('st, 'ob, 'e, reconcile_action) ctl) \<Rightarrow> ('obj \<Rightarrow> string) \<Rightarrow> ('e \<Rightarrow> bool)
    \<Rightarrow> string \<Rightarrow> 'env \<times> 'obj \<times> real \<Rightarrow> bool" where
  "failed_run run key permanent k x =
     (case x of (env, obj, r) \<Rightarrow> key obj = k \<and> (case snd (run env obj) of Inl e \<Rightarrow> \<not> permanent e | Inr _ \<Rightarrow> False))"

text \<open>A controller that never touches the map in a reconcile, and whose policy counts every error
  that is not permanent.\<close>

locale unreset_controller =
  fixes run :: "'env \<Rightarrow> 'obj \<Rightarrow> ('st, 'ob, 'e, reconcile_action) ctl"
    and policy :: "real \<Rightarrow> 'obj \<Rightarrow> 'e \<Rightarrow> backoff_map \<Rightarrow> reconcile_action \<times> backoff_map"
    and key :: "'obj \<Rightarrow> string" and permanent :: "'e \<Rightarrow> bool"
  assumes no_reset: "BackoffReset k \<notin> set (fst (run env obj))"
    and no_failure: "BackoffFailure k \<notin> set (fst (run env obj))"
    and policy: "policy r obj e m = error_policy permanent (key obj) r e m"
begin

lemma fold_untouched:
  assumes "\<And>k. BackoffReset k \<notin> set xs" "\<And>k. BackoffFailure k \<notin> set xs"
  shows "fold (\<lambda>x m. case x of BackoffReset k \<Rightarrow> record_success k m
      | BackoffFailure k \<Rightarrow> snd (record_error k m) | _ \<Rightarrow> m) xs m = m"
  using assms
proof (induction xs arbitrary: m)
  case (Cons x xs)
  have "x \<noteq> BackoffReset k" "x \<noteq> BackoffFailure k" for k using Cons.prems [of k] by auto
  moreover have "\<And>k. BackoffReset k \<notin> set xs" "\<And>k. BackoffFailure k \<notin> set xs"
    using Cons.prems by (metis list.set_intros(2))+
  ultimately show ?case using Cons.IH by (cases x) auto
qed simp

lemma step_count:
  "unat (count (run_backoff (run env obj) (policy r obj) m) k)
     = min (2 ^ 32 - 1) (unat (count m k) + (if failed_run run key permanent k (env, obj, r) then 1 else 0))"
proof -
  have "unat (count m k) \<le> 2 ^ 32 - 1" using unsigned_less [of "count m k", where ?'a = nat] by simp
  then show ?thesis
    by (auto simp: run_backoff_def Let_def fold_untouched [OF no_reset no_failure] policy error_policy_def error_backoff_def
        failed_run_def unat_saturating_add min_def split: sum.split)
qed

text \<open>The counter of a key is the number of all failures, whatever succeeded in between.\<close>

lemma life_count: "unat (count (backoff_life run policy xs) k) = min (2 ^ 32 - 1) (length (filter (failed_run run key permanent k) xs))"
proof (induction xs rule: rev_induct)
  case (snoc x xs)
  obtain env obj r where x: "x = (env, obj, r)" by (cases x)
  have "count (backoff_life run policy (xs @ [x])) k = count (run_backoff (run env obj) (policy r obj) (backoff_life run policy xs)) k"
    by (simp add: backoff_life_def x)
  with step_count [of env obj r "backoff_life run policy xs" k] snoc show ?case by (simp add: x min_def)
qed (simp add: backoff_life_def)

end


text \<open>The controllers of clusters, tenants, routes and mirrors meet it.\<close>

lemma guarded_no_backoff:
  assumes "x \<in> set (fst (guarded err (\<lambda>n. after cl (remove_finalizer g p n OPERATOR_FINALIZER))
      (\<lambda>n. ensure_finalizer a n m OPERATOR_FINALIZER) m name body))"
    and "x = BackoffReset k \<or> x = BackoffFailure k"
  shows "x \<in> set cl \<or> x \<in> set (fst body)"
  using assms by (auto simp: guarded_def bindT_effects run_simps split: if_splits
      dest!: remove_finalizer_eff ensure_finalizer_eff)

interpretation cluster_backoff: unreset_controller cluster_reconcile cluster_error_policy cluster_key "\<lambda>e. e = ClMissingName"
proof
  have "x \<notin> set (fst (cluster_reconcile env obj))" if "x = BackoffReset k \<or> x = BackoffFailure k" for x k env obj
    using that cluster_managed_effects
    by (auto elim!: cluster_effects simp: cluster_body_def bindT_effects run_simps patch_status_logged_eff cluster_cleanup_def
        prune_managed_children_def split: if_splits dest: cluster_managed_effects)
  then show "BackoffReset k \<notin> set (fst (cluster_reconcile env obj))" "BackoffFailure k \<notin> set (fst (cluster_reconcile env obj))"
    for k env obj by blast+
qed (simp add: cluster_error_policy_def)

interpretation tenant_backoff: unreset_controller tenant_reconcile tenant_error_policy tenant_key "\<lambda>e. e = TnMissingName"
proof
  have "x \<notin> set (fst (tenant_reconcile env obj))" if "x = BackoffReset k \<or> x = BackoffFailure k" for x k env obj
    using that
    by (auto elim!: tenant_effects dest!: tenant_body_effects
        simp: tenant_cleanup_def teardown_namespace_def bind_namespace_def tenant_objects split: if_splits)
  then show "BackoffReset k \<notin> set (fst (tenant_reconcile env obj))" "BackoffFailure k \<notin> set (fst (tenant_reconcile env obj))"
    for k env obj by blast+
qed (simp add: tenant_error_policy_def)

interpretation route_backoff: unreset_controller route_reconcile route_error_policy route_key route_permanent
proof
  have "x \<notin> set (fst (route_reconcile env obj))" if "x = BackoffReset k \<or> x = BackoffFailure k" for x k env obj
    using that
    by (auto simp: route_reconcile_def observed_effects route_reconcile_inner_def run_simps route_body_def Let_def
        bindT_effects patch_status_logged_eff split: option.splits if_splits dest!: guarded_body)
  then show "BackoffReset k \<notin> set (fst (route_reconcile env obj))" "BackoffFailure k \<notin> set (fst (route_reconcile env obj))"
    for k env obj by blast+
qed (simp add: route_error_policy_def)

interpretation mirror_backoff: unreset_controller mirror_reconcile mirror_error_policy
    "\<lambda>obj. resource_key ''plugin-mirror'' [] (name_any (pm_meta obj))" "\<lambda>e. e = MMissingName"
proof
  have "x \<notin> set (fst (mirror_reconcile env obj))" if "x = BackoffReset k \<or> x = BackoffFailure k" for x k env obj
    using that
    by (auto simp: mirror_reconcile_def observed_effects mirror_reconcile_inner_def run_simps mirror_body_def Let_def
        bindT_effects patch_status_logged_eff split: option.splits if_splits dest!: guarded_body)
  then show "BackoffReset k \<notin> set (fst (mirror_reconcile env obj))" "BackoffFailure k \<notin> set (fst (mirror_reconcile env obj))"
    for k env obj by blast+
qed (simp add: mirror_error_policy_def)

text \<open>The failure counters of clusters, tenants, routes and mirrors never go down: whatever runs
  succeed, the count of a key is the number of all its failed runs so far, saturated at the largest
  \<open>u32\<close>.\<close>

theorem backoff_never_reset:
  "unat (count (backoff_life cluster_reconcile cluster_error_policy cs) k)
      = min (2 ^ 32 - 1) (length (filter (failed_run cluster_reconcile cluster_key (\<lambda>e. e = ClMissingName) k) cs))
   \<and> unat (count (backoff_life tenant_reconcile tenant_error_policy ts) k)
      = min (2 ^ 32 - 1) (length (filter (failed_run tenant_reconcile tenant_key (\<lambda>e. e = TnMissingName) k) ts))
   \<and> unat (count (backoff_life route_reconcile route_error_policy rs) k)
      = min (2 ^ 32 - 1) (length (filter (failed_run route_reconcile route_key route_permanent k) rs))
   \<and> unat (count (backoff_life mirror_reconcile mirror_error_policy ms) k)
      = min (2 ^ 32 - 1) (length (filter (failed_run mirror_reconcile
          (\<lambda>obj. resource_key ''plugin-mirror'' [] (name_any (pm_meta obj))) (\<lambda>e. e = MMissingName) k) ms))"
  by (intro conjI cluster_backoff.life_count tenant_backoff.life_count route_backoff.life_count mirror_backoff.life_count)

section \<open>From the cluster to the gateway\<close>

lemma stored_after_accepted:
  assumes "Apply (ObSecret S) fm \<in> set xs" and "meta_name (sec_meta S) = Some sname" and "cn_apply env (ObSecret S) = Inr ()"
    and "\<And>s' fm. Apply (ObSecret s') fm \<in> set xs \<Longrightarrow> sec_data s' = sec_data S" and "\<And>k ns n. DeleteKind k ns n \<notin> set xs"
  shows "fold (stored_after env sname) xs s = sec_data S"
proof -
  obtain ys zs where xs: "xs = ys @ Apply (ObSecret S) fm # zs" using assms(1) by (meson split_list)
  have "fold (stored_after env sname) zs (sec_data S) \<in> {sec_data S, sec_data S}"
    using assms(4,5) by (intro stored_after_live) (auto simp: xs)
  with assms(2,3) show ?thesis by (simp add: xs stored_after_def)
qed

text \<open>What the reconcile of a managed cluster leaves in the coordination Secret.\<close>

lemma stored_coordination:
  assumes "PatchStatus n st fm \<in> set (fst (cluster_reconcile env obj))" and "cl_managed (cl_spec obj) \<noteq> None"
    and "sname = managed_coordination_secret_name (cn_api env) (name_any (cl_meta obj))"
  shows "\<exists>name. meta_name (cl_meta obj) = Some name \<and> meta_deletion_timestamp (cl_meta obj) = None
    \<and> fold (stored_after env sname) (fst (cluster_reconcile env obj)) store = sec_data (managed_secret env obj name)"
  using assms(1)
proof (rule cluster_live_status)
  fix name v gws
  assume n: "meta_name (cl_meta obj) = Some name" "meta_deletion_timestamp (cl_meta obj) = None"
    and s: "cl_managed (cl_spec obj) \<noteq> None \<longrightarrow> Apply (ObSecret (managed_secret env obj name)) cluster_fm
       \<in> set (fst (cluster_reconcile env obj)) \<and> cn_apply env (ObSecret (managed_secret env obj name)) = Inr ()"
  have "fold (stored_after env sname) (fst (cluster_reconcile env obj)) store = sec_data (managed_secret env obj name)"
  proof (rule stored_after_accepted)
    show "meta_name (sec_meta (managed_secret env obj name)) = Some sname"
      using assms(3) n(1) by (simp add: managed_secret_def coordination_secret_def)
    show "sec_data s' = sec_data (managed_secret env obj name)"
      if "Apply (ObSecret s') fm' \<in> set (fst (cluster_reconcile env obj))" for s' fm'
      using applied_secret [OF that] n(1) by auto
  qed (use s assms(2) live_deletes_nothing [OF n(2)] in auto)
  with n show ?thesis by blast
qed

text \<open>C7. The keys reach the gateway. When the cluster controller has written the status of a managed
  cluster and the gateway controller, reading that status and the Secret as it was left, rolls a
  Deployment out, then before the Deployment it has put a copy of the Secret into the namespace of
  the gateway that holds the token, the state key and, with TLS, the CA, and the container of the
  Deployment takes its environment from this copy.\<close>

theorem gateway_gets_cluster_keys:
  assumes "condition_setter (cn_set_condition cenv)"
    and "distinct [MANAGED_NATS_TOKEN_ENV (cn_api cenv), MANAGED_STATE_KEY_ENV (cn_api cenv), MANAGED_NATS_CA_ENV (cn_api cenv)]"
    and "PatchStatus n st fm \<in> set (fst (cluster_reconcile cenv cl))" and "cl_managed (cl_spec cl) \<noteq> None"
    and "ge_api genv = cn_api cenv" and "gw_cluster_ref (gw_spec gw) = Some r"
    and "ge_cluster genv r = Inr (Some (cl\<lparr>cl_conditions := Some (cls_conditions st)\<rparr>))"
    and "\<And>found. ge_source_secret genv (managed_coordination_secret_name (cn_api cenv) (name_any (cl_meta cl))) = Inr found
      \<Longrightarrow> Option.bind found sec_data = fold (stored_after cenv (managed_coordination_secret_name (cn_api cenv) (name_any (cl_meta cl))))
            (fst (cluster_reconcile cenv cl)) store"
    and "Apply (ObDeployment d) fm' \<in> set (fst (gateway_reconcile genv gw))"
  shows "\<exists>copy data pre post. fst (gateway_reconcile genv gw) = pre @ Apply (ObDeployment d) fm' # post
    \<and> Apply (ObSecret copy) gateway_fm \<in> set pre \<and> ge_apply genv (ObSecret copy) = Inr ()
    \<and> meta_namespace (sec_meta copy) = meta_namespace (gw_meta gw) \<and> sec_data copy = Some data
    \<and> data (MANAGED_NATS_TOKEN_ENV (cn_api cenv)) \<noteq> None \<and> data (MANAGED_STATE_KEY_ENV (cn_api cenv)) \<noteq> None
    \<and> (managed_tls_enabled (cn_api cenv) (cl_spec cl) \<longrightarrow> data (MANAGED_NATS_CA_ENV (cn_api cenv)) \<noteq> None)
    \<and> (\<exists>es e. ct_env_from (hd (pod_containers (dep_pod d))) = Some es \<and> e \<in> set es
         \<and> efs_name e = name_any (sec_meta copy) \<and> efs_optional e = Some False)"
proof -
  let ?x = "Apply (ObDeployment d) fm' :: (gateway_status, k8s_object) effect"
  let ?c = "cl\<lparr>cl_conditions := Some (cls_conditions st)\<rparr>"
  from applied_deployment [OF assms(9)] obtain ns pset rl rcl c al cm h A C where
    ns: "meta_namespace (gw_meta gw) = Some ns" and rc: "resolve_cluster genv gw = Inr rcl" "\<not> held genv gw"
    and d: "d = gateway_deployment genv gw h pset rl rcl"
    and all: "fst (gateway_reconcile genv gw) = A @ fst (gateway_apply genv gw ns cm d rcl) @ C"
    and x: "?x \<in> set (fst (gateway_apply genv gw ns cm d rcl))"
    by blast
  have "is_deployment ?x" by (simp add: is_deployment_def)
  from gateway_apply_deployment [OF x this] obtain post where
    post: "fst (gateway_apply genv gw ns cm d rcl) = map (\<lambda>ob. Apply ob gateway_fm)
          [ObConfigMap cm, ObService (build_service gw), ObServiceAccount (build_service_account gw)]
          @ fst (apply_coordination genv gw ns rcl) @ ?x # post"
    and coord: "snd (apply_coordination genv gw ns rcl) = Inr ()"
    by auto
  from stored_coordination [OF assms(3,4) refl, of store] obtain name where
    n: "meta_name (cl_meta cl) = Some name" "fold (stored_after cenv (managed_coordination_secret_name (cn_api cenv) name))
        (fst (cluster_reconcile cenv cl)) store = sec_data (managed_secret cenv cl name)"
    by auto
  let ?data = "merge_coordination_data cenv (existing_coordination cenv name) (managed_ca cenv cl name)"
  let ?sname = "managed_coordination_secret_name (cn_api cenv) name"
  have data: "sec_data (managed_secret cenv cl name) = Some ?data"
    by (simp add: managed_secret_def coordination_secret_def)
  have bind: "bindable (ge_api genv) gw (Some ?c)"
    using resolve_cluster_held [OF assms(6,7)] rc by (auto simp: held_def)
  then have ready: "cond_true ''Ready'' (cls_conditions st)" by (simp add: bindable_def)
  let ?proj = "\<lparr>coord_secret_name = ?sname, coord_data = ?data\<rparr>"
  have proj: "Option.bind rcl rc_coordination = Some ?proj"
  proof -
    let ?rc = "classify_cluster_binding (ge_api genv) (ge_operator_namespace genv) gw (Some ?c)"
    have t: "c_status (rc_condition ?rc) = ''True''" using bind by (simp only: classify_bindable)
    obtain m where m: "cl_managed (cl_spec cl) = Some m" using assms(4) by auto
    from rc(1) t m n(1) obtain found where f: "ge_source_secret genv ?sname = Inr found"
      using assms(5-7) by (auto simp: resolve_cluster_def Let_def split: sum.splits)
    with assms(8) n data have "Option.bind found sec_data = Some ?data" by simp
    with rc(1) t m n(1) f show ?thesis
      using assms(5-7) by (auto simp: resolve_cluster_def Let_def)
  qed
  note copy = coordination_ok [OF coord proj]
  let ?copy = "build_coordination_secret_copy gw ns ?proj"
  have keys: "?data (MANAGED_NATS_TOKEN_ENV (cn_api cenv)) \<noteq> None" "?data (MANAGED_STATE_KEY_ENV (cn_api cenv)) \<noteq> None"
    using assms(2) by (simp_all add: merge_keys)
  from assms(3) have "mo_ready (managed_outcome_of cenv cl name)"
  proof (rule cluster_live_status)
    fix name' v gws
    assume n': "meta_name (cl_meta cl) = Some name'"
      and v: "classify_readiness cenv cl (if cl_managed (cl_spec cl) = None then None else Some (managed_outcome_of cenv cl name')) = Inr v"
      and st: "st = cluster_status_of cenv cl name' (if cl_managed (cl_spec cl) = None then None else Some (managed_outcome_of cenv cl name'))
         v (int (length (filter (\<lambda>g. gw_cluster_ref (gw_spec g) = Some name') gws)))"
    have "fst v" using ready by (simp add: st cluster_status_of_def Let_def cond_true_set [OF assms(1)] split: if_splits)
    with classify_ready [OF v] n n' assms(4) show ?thesis by simp
  qed
  then have ca: "managed_tls_enabled (cn_api cenv) (cl_spec cl) \<longrightarrow> ?data (MANAGED_NATS_CA_ENV (cn_api cenv)) \<noteq> None"
    by (auto simp: managed_outcome_of_def Let_def merge_coordination_data_def)
  have e: "ct_env_from (hd (pod_containers (dep_pod d))) = build_env_from gw [?sname]"
    by (simp add: d gateway_deployment_pod proj)
  have sel: "meta_namespace (sec_meta ?copy) = meta_namespace (gw_meta gw)" "sec_data ?copy = Some ?data"
    "name_any (sec_meta ?copy) = ?sname"
    using ns by (simp_all add: build_coordination_secret_copy_def)
  have env: "\<exists>es e. ct_env_from (hd (pod_containers (dep_pod d))) = Some es \<and> e \<in> set es
      \<and> efs_name e = name_any (sec_meta ?copy) \<and> efs_optional e = Some False"
    unfolding sel by (intro exI [of _ "map (\<lambda>name. \<lparr>efs_name = name, efs_optional = Some False\<rparr>)
        (gw_env_from_secrets (gw_spec gw) @ [?sname])"] exI [of _ "\<lparr>efs_name = ?sname, efs_optional = Some False\<rparr>"])
      (simp add: e build_env_from_def)
  let ?pre = "A @ map (\<lambda>ob. Apply ob gateway_fm)
          [ObConfigMap cm, ObService (build_service gw), ObServiceAccount (build_service_account gw)]
          @ fst (apply_coordination genv gw ns rcl)"
  have "fst (gateway_reconcile genv gw) = ?pre @ ?x # post @ C" by (simp add: all post)
  moreover have "Apply (ObSecret ?copy) gateway_fm \<in> set ?pre" using copy by simp
  ultimately show ?thesis using keys ca copy sel env by blast
qed

theorem gateway_gets_cluster_keys_witness:
  "\<exists>genv gw d fm copy. Apply (ObDeployment d) fm \<in> set (fst (gateway_reconcile genv gw))
     \<and> Apply (ObSecret copy) gateway_fm \<in> set (fst (gateway_reconcile genv gw))
     \<and> the (sec_data copy) ''NATS_CA'' \<noteq> None"
proof -
  let ?cenv = "sample_cluster_env" and ?cl = "sample_managed"
  let ?sname = "managed_coordination_secret_name (cn_api sample_cluster_env) (name_any (cl_meta sample_managed))"
  obtain n st fm where p: "PatchStatus n st fm \<in> set (fst (cluster_reconcile ?cenv ?cl))"
    and ready: "cond_true ''Ready'' (cls_conditions st)"
    using cluster_sample_ready by blast
  let ?stored = "fold (stored_after ?cenv ?sname) (fst (cluster_reconcile ?cenv ?cl)) None"
  define genv where "genv = sample_gateway_env\<lparr>
    ge_cluster := (\<lambda>_. Inr (Some (?cl\<lparr>cl_conditions := Some (cls_conditions st)\<rparr>))),
    ge_source_secret := (\<lambda>_. Inr (Some \<lparr>sec_meta = default_meta, sec_type = None, sec_immutable = None, sec_data = ?stored\<rparr>))\<rparr>"
  define gw where "gw = sample_gw\<lparr>gw_spec := bare_gateway_spec\<lparr>gw_cluster_ref := Some ''c''\<rparr>\<rparr>"
  have api: "ge_api genv = cn_api ?cenv" by (simp add: genv_def sample_gateway_env_def sample_cluster_fields)
  have ref: "gw_cluster_ref (gw_spec gw) = Some ''c''" by (simp add: gw_def)
  have cl: "ge_cluster genv ''c'' = Inr (Some (?cl\<lparr>cl_conditions := Some (cls_conditions st)\<rparr>))" by (simp add: genv_def)
  have read: "\<And>found. ge_source_secret genv ?sname = Inr found \<Longrightarrow> Option.bind found sec_data = ?stored"
    by (auto simp: genv_def)
  have bind: "bindable (ge_api genv) gw (Some (?cl\<lparr>cl_conditions := Some (cls_conditions st)\<rparr>))"
    using ready by (simp add: bindable_def api sample_cluster_fields) (simp add: sample_api_def sample_managed_def)
  then have t: "c_status (rc_condition (classify_cluster_binding (ge_api genv) ons gw
      (Some (?cl\<lparr>cl_conditions := Some (cls_conditions st)\<rparr>)))) = ''True''" for ons
    by (simp only: classify_bindable)
  have "\<exists>rc. resolve_cluster genv gw = Inr (Some rc) \<and> c_status (rc_condition rc) = ''True''"
    using t by (auto simp: resolve_cluster_def Let_def ref cl read genv_def split: option.split)
  then obtain rc where rc: "resolve_cluster genv gw = Inr (Some rc)" "\<not> held genv gw"
    by (auto simp: held_def)
  have sel: "meta_namespace (gw_meta gw) = Some ''team''" "meta_name (gw_meta gw) = Some ''gw''"
    "meta_deletion_timestamp (gw_meta gw) = None" "finalizer_placed genv gw"
    by (simp_all add: gw_def sample_gw_sel default_meta_def finalizer_placed_def has_finalizer_def)
  have "gw_plugin_set_ref (gw_spec gw) = None" "gw_revocation_list_ref (gw_spec gw) = None"
    by (simp_all add: gw_def bare_gateway_spec_def)
  moreover have "ge_revocation_list genv r = Inr None" for r by (simp add: genv_def sample_gateway_env_def)
  ultimately have res: "resolve_plugin_set genv gw = Inr None" "snd (resolve_revocation_list genv gw) = Inr None"
    by (simp_all add: resolve_plugin_set_def resolve_revocation_list_def run_simps)
  have env: "hex_digest (ge_sha256_hex genv)" "\<And>ob. ge_apply genv ob = Inr ()" "ge_binding genv = Inr ()"
    using hex_digest_sample by (simp_all add: genv_def sample_gateway_env_def)
  have "\<exists>d. Apply (ObDeployment d) gateway_fm \<in> set (fst (gateway_reconcile genv gw))"
    using accepted_reconcile [OF sel res rc env] by blast
  then obtain d where d: "Apply (ObDeployment d) gateway_fm \<in> set (fst (gateway_reconcile genv gw))" by blast
  have dist: "distinct [MANAGED_NATS_TOKEN_ENV (cn_api ?cenv), MANAGED_STATE_KEY_ENV (cn_api ?cenv), MANAGED_NATS_CA_ENV (cn_api ?cenv)]"
    and ca: "MANAGED_NATS_CA_ENV (cn_api ?cenv) = ''NATS_CA''"
    by (simp_all add: sample_cluster_env_def sample_api_def)
  from gateway_gets_cluster_keys [OF sample_cluster_fields(5) dist p sample_managed_fields(4) api ref cl read d]
  obtain copy data pre post where "fst (gateway_reconcile genv gw) = pre @ Apply (ObDeployment d) gateway_fm # post"
    "Apply (ObSecret copy) gateway_fm \<in> set pre" "sec_data copy = Some data"
    "managed_tls_enabled (cn_api ?cenv) (cl_spec ?cl) \<longrightarrow> data (MANAGED_NATS_CA_ENV (cn_api ?cenv)) \<noteq> None" by blast
  then have "Apply (ObSecret copy) gateway_fm \<in> set (fst (gateway_reconcile genv gw))" "the (sec_data copy) ''NATS_CA'' \<noteq> None"
    using sample_managed_fields(6) by (simp_all add: sample_cluster_fields(1) ca [unfolded sample_cluster_fields(1)])
  with d show ?thesis by blast
qed

section \<open>Tenants side by side\<close>

text \<open>C17. Tenant controllers never write to the same namespace: for two tenants of any store that was built
  under the webhook, each last written with the current tenant list read, what their reconciles write,
  or what their deletions write, goes to different namespaces, whatever the cluster answers. A
  tenant that was admitted because the list could not be read is not covered.\<close>

theorem tenants_write_apart:
  assumes "\<And>a b. overlapping_namespaces api a b = [] \<longleftrightarrow> set (tn_namespaces a) \<inter> set (tn_namespaces b) = {}"
    and "tenant_store api blind ts" and "t \<in> set ts" and "u \<in> set ts"
    and "meta_name (tn_meta t) \<notin> blind" and "meta_name (tn_meta u) \<notin> blind" and "meta_name (tn_meta t) \<noteq> meta_name (tn_meta u)"
    and "tn_spec t' = tn_spec t" and "tn_spec u' = tn_spec u"
    and "x \<in> set (fst (tenant_reconcile env t'))" and "y \<in> set (fst (tenant_reconcile env' u'))"
    and "(\<exists>ob fm. x = Apply ob fm) \<or> (\<exists>k ns n. x = DeleteKind k ns n)"
    and "(\<exists>ob fm. y = Apply ob fm) \<or> (\<exists>k ns n. y = DeleteKind k ns n)"
  shows "\<exists>a b. written_namespace x = Some a \<and> written_namespace y = Some b \<and> a \<noteq> b"
proof -
  have "set (tn_namespaces (tn_spec t)) \<inter> set (tn_namespaces (tn_spec u)) = {}"
    using tenant_store_disjoint [OF assms(1,2)] assms(3-7) unfolding tenants_disjoint_def by blast
  moreover obtain a b where "a \<in> set (tn_namespaces (tn_spec t))" "written_namespace x = Some a"
    "b \<in> set (tn_namespaces (tn_spec u))" "written_namespace y = Some b"
    using tenant_writes_confined_lemma [OF assms(10)] tenant_writes_confined_lemma [OF assms(11)] assms(8,9,12,13) by auto
  ultimately show ?thesis by blast
qed

definition one_namespace :: "string \<Rightarrow> string \<Rightarrow> tenant" where
  "one_namespace name ns = two_namespaces\<lparr>tn_meta := (tn_meta two_namespaces)\<lparr>meta_name := Some name\<rparr>,
     tn_spec := (tn_spec two_namespaces)\<lparr>tn_namespaces := [ns]\<rparr>\<rparr>"

theorem tenants_write_apart_witness:
  "tenant_store sample_api {} [one_namespace ''t'' ''a'', one_namespace ''u'' ''b'']
   \<and> (\<exists>x y a b. x \<in> set (fst (tenant_reconcile sample_tenant_env (one_namespace ''t'' ''a'')))
     \<and> y \<in> set (fst (tenant_reconcile (sample_tenant_env\<lparr>te_namespace := (\<lambda>_. Inr True)\<rparr>) (one_namespace ''u'' ''b'')))
     \<and> written_namespace x = Some a \<and> written_namespace y = Some b \<and> a \<noteq> b)"
proof -
  let ?t = "one_namespace ''t'' ''a''" and ?u = "one_namespace ''u'' ''b''"
  have "tenant_validate sample_api (Inr []) (Some \<lparr>req_object = Some ?t, req_old_object = None\<rparr>) = Allowed []" by code_simp
  from ts_create [OF ts_empty _ _ this, of "''t''"] have s: "tenant_store sample_api {} [?t]"
    by (simp add: one_namespace_def)
  have "tenant_validate sample_api (Inr [?t]) (Some \<lparr>req_object = Some ?u, req_old_object = None\<rparr>) = Allowed []" by code_simp
  from ts_create [OF s _ _ this, of "''u''"] have store: "tenant_store sample_api {} [?t, ?u]"
    by (simp add: one_namespace_def)
  let ?x = "Apply (ObNamespace (tenant_namespace_meta ''a'' [TENANT_LABEL \<mapsto> ''t''])) tenant_fm :: tenant_effect"
  let ?y = "Apply (ObNamespace (tenant_namespace_meta ''b'' [TENANT_LABEL \<mapsto> ''u''])) tenant_fm :: tenant_effect"
  have x: "?x \<in> set (fst (tenant_reconcile sample_tenant_env ?t))"
    by (simp add: tenant_run_defs one_namespace_def bind_namespace_def ensure_namespace_label_def)
  have y: "?y \<in> set (fst (tenant_reconcile (sample_tenant_env\<lparr>te_namespace := (\<lambda>_. Inr True)\<rparr>) ?u))"
    by (simp add: tenant_run_defs one_namespace_def bind_namespace_def ensure_namespace_label_def)
  have "meta_name (tn_meta ?t) \<noteq> meta_name (tn_meta ?u)" by (simp add: one_namespace_def)
  from tenants_write_apart [OF sample_api_overlap store _ _ _ _ this refl refl x y] store x y show ?thesis by auto
qed

end
