(* ===== verification/Ownership.thy ===== *)
theory Ownership
  imports GatewaySafety ServerCtl
begin

text \<open>
  Where a reconcile may write: a child object carries the namespace of its parent and the one owner
  reference to it, so that deleting the parent deletes it. What a gateway writes outside that form is
  listed in full.
\<close>

definition owned_child :: "object_meta \<Rightarrow> owner_ref \<Rightarrow> k8s_object \<Rightarrow> bool" where
  "owned_child parent ref ob \<longleftrightarrow> meta_name (ob_meta ob) \<noteq> None \<and> meta_namespace (ob_meta ob) = meta_namespace parent
     \<and> meta_owner_references (ob_meta ob) = Some [ref]"

abbreviation gateway_child :: "gateway \<Rightarrow> k8s_object \<Rightarrow> bool" where
  "gateway_child obj ob \<equiv> owned_child (gw_meta obj) (gateway_owner_ref obj) ob"

text \<open>The binding that lets the operator write Secrets of the namespace.\<close>

definition tenant_binding :: "gateway_env \<Rightarrow> gateway \<Rightarrow> k8s_object \<Rightarrow> bool" where
  "tenant_binding env obj ob \<longleftrightarrow> (\<exists>ns. meta_namespace (gw_meta obj) = Some ns \<and> ns \<noteq> ge_operator_namespace env
     \<and> ob = ObRoleBinding (build_tenant_binding ns (ge_operator_namespace env) (oc_operator_service_account (ge_config env))))"

text \<open>What a gateway with custom domains writes for the shared edge: listeners under a field manager of
  its own, and certificates that carry its uid, for its own domains.\<close>

definition edge_object :: "gateway_env \<Rightarrow> gateway \<Rightarrow> k8s_object \<Rightarrow> string \<Rightarrow> bool" where
  "edge_object env obj ob fm \<longleftrightarrow> (\<exists>cloud. gw_cloud (gw_spec obj) = Some cloud
     \<and> ((\<exists>ds. set ds \<subseteq> set (custom_domains cloud) \<and> ob = ObEdgeGateway (build_edge_listener_apply (ge_sha256_hex env) ds)
           \<and> fm = edge_field_manager (gateway_uid obj))
        \<or> (\<exists>h i. h \<in> set (custom_domains cloud) \<and> oc_edge_cluster_issuer (ge_config env) = Some i
             \<and> ob = ObCertificate (build_certificate (ge_sha256_hex env) obj h i)
             \<and> fm = gateway_fm)))"

definition gateway_may_delete :: "gateway_env \<Rightarrow> gateway \<Rightarrow> string \<Rightarrow> string \<Rightarrow> string \<Rightarrow> bool" where
  "gateway_may_delete env obj kind ns n \<longleftrightarrow>
     (kind = ''PodDisruptionBudget'' \<and> meta_namespace (gw_meta obj) = Some ns \<and> n = child_name obj ''gateway'')
     \<or> (kind = ''Certificate'' \<and> ns = CLOUD_GATEWAY_NAMESPACE \<and> gw_cloud (gw_spec obj) \<noteq> None
        \<and> (\<exists>items. ge_certificates env (gateway_uid obj) = Inr items \<and> n \<in> name_any ` set items))"

definition permitted_write :: "gateway_env \<Rightarrow> gateway \<Rightarrow> (gateway_status, k8s_object) effect \<Rightarrow> bool" where
  "permitted_write env obj x \<longleftrightarrow>
     (case x of
        Apply ob fm \<Rightarrow> (gateway_child obj ob \<and> fm = gateway_fm) \<or> (tenant_binding env obj ob \<and> fm = gateway_fm)
          \<or> edge_object env obj ob fm
      | DeleteKind kind ns n \<Rightarrow> gateway_may_delete env obj kind ns n
      | DeleteObj _ \<Rightarrow> False
      | _ \<Rightarrow> True)"

section \<open>The steps of a gateway\<close>

lemma gateway_children_owned:
  "gateway_child obj (ObService (build_service obj))"
  "gateway_child obj (ObServiceAccount (build_service_account obj))"
  "build_configmap ty sha obj c = Some (cm, h) \<Longrightarrow> gateway_child obj (ObConfigMap cm)"
  "gateway_child obj (ObDeployment (gateway_deployment env obj h pset rl cl))"
  "build_httproute obj = Some r \<Longrightarrow> gateway_child obj (ObHttpRoute r)"
  "build_hpa ok obj = Some a \<Longrightarrow> gateway_child obj (ObHpa a)"
  "build_pdb api obj = Some b \<Longrightarrow> gateway_child obj (ObPdb b)"
  "gateway_child obj (ObConfigMap (build_revocation_configmap obj n t k))"
  "meta_namespace (gw_meta obj) = Some ns \<Longrightarrow> gateway_child obj (ObSecret (build_coordination_secret_copy obj ns proj))"
  by (auto simp: owned_child_def ob_meta_def build_service_def build_service_account_def build_configmap_def
      gateway_deployment_def build_deployment_def build_httproute_def build_hpa_def build_pdb_def
      build_revocation_configmap_def build_coordination_secret_copy_def child_meta_def default_meta_def Let_def
      split: option.splits if_splits)

lemma certificate_deletes_permitted:
  assumes "gw_cloud (gw_spec obj) \<noteq> None" and "x \<in> set (certificate_deletes env (gateway_uid obj) w)"
  shows "permitted_write env obj x"
  using assms
  by (cases "ge_certificates env (gateway_uid obj)")
    (auto simp: certificate_deletes_def permitted_write_def gateway_may_delete_def)

lemma edge_permitted:
  assumes "x \<in> set (fst (reconcile_edge_domains env obj))"
  shows "permitted_write env obj x"
proof (cases "gw_cloud (gw_spec obj)")
  case None
  then show ?thesis using assms by (simp add: reconcile_edge_domains_def ret_sel)
next
  case (Some cloud)
  define certs where "certs = (case oc_edge_cluster_issuer (ge_config env) of
      Some i \<Rightarrow> map (\<lambda>h. ObCertificate (build_certificate (ge_sha256_hex env) obj h i)) (custom_domains cloud) | None \<Rightarrow> [])"
  consider "x = Apply (ObEdgeGateway (build_edge_listener_apply (ge_sha256_hex env) (custom_domains cloud)))
        (edge_field_manager (gateway_uid obj))"
    | "x \<in> set (fst (apply_children env certs))"
    | w where "x \<in> set (certificate_deletes env (gateway_uid obj) w)"
    using assms
    by (simp add: reconcile_edge_domains_def Let_def Some after_sel bindT_effects ret_sel throw_sel
        certs_def[symmetric] split: if_splits) blast+
  then show ?thesis
  proof cases
    case 1
    then show ?thesis by (auto simp: permitted_write_def edge_object_def Some)
  next
    case 2
    from apply_children_eff [OF this] obtain h i where "h \<in> set (custom_domains cloud)"
      "oc_edge_cluster_issuer (ge_config env) = Some i"
      "x = Apply (ObCertificate (build_certificate (ge_sha256_hex env) obj h i)) gateway_fm"
      by (cases "oc_edge_cluster_issuer (ge_config env)") (auto simp: certs_def)
    then show ?thesis unfolding permitted_write_def edge_object_def Some by simp blast
  next
    case 3
    then show ?thesis using certificate_deletes_permitted Some by blast
  qed
qed

lemma cleanup_permitted:
  assumes "x \<in> set (cleanup_edge_domains env obj)"
  shows "permitted_write env obj x"
proof (cases "gw_cloud (gw_spec obj)")
  case None
  then show ?thesis using assms by (simp add: cleanup_edge_domains_def)
next
  case (Some cloud)
  consider "x = Apply (ObEdgeGateway (build_edge_listener_apply (ge_sha256_hex env) [])) (edge_field_manager (gateway_uid obj))"
    | "x \<in> set (certificate_deletes env (gateway_uid obj) {})"
    using assms by (auto simp: cleanup_edge_domains_def Some)
  then show ?thesis
  proof cases
    case 1
    then show ?thesis by (auto simp: permitted_write_def edge_object_def Some intro!: exI[of _ "[]"])
  next
    case 2
    then show ?thesis using certificate_deletes_permitted Some by blast
  qed
qed

lemma children_permitted:
  assumes "x \<in> set (fst (apply_children env obs))" and "\<And>ob. ob \<in> set obs \<Longrightarrow> gateway_child obj ob"
  shows "permitted_write env obj x"
  using apply_children_eff [OF assms(1)] assms(2) by (auto simp: permitted_write_def)

lemma coordination_permitted:
  assumes "meta_namespace (gw_meta obj) = Some ns" and "x \<in> set (fst (apply_coordination env obj ns cl))"
  shows "permitted_write env obj x"
  using assms gateway_children_owned(9) [OF assms(1)]
  by (auto simp: apply_coordination_def bindT_effects lift_run_sel apply_child_eff ensure_tenant_secret_binding_def
      after_sel ret_sel permitted_write_def tenant_binding_def split: option.splits if_splits)

lemma pdb_permitted:
  assumes "meta_namespace (gw_meta obj) = Some ns" and "x \<in> set (fst (pdb_step env obj ns))"
  shows "permitted_write env obj x"
  using assms gateway_children_owned(7)
  by (auto simp: pdb_step_def apply_child_eff after_sel ret_sel permitted_write_def gateway_may_delete_def
      split: option.splits)

lemma gateway_apply_permitted:
  assumes ns: "meta_namespace (gw_meta obj) = Some ns" and "build_configmap ty sha obj c = Some (cm, h)"
    and "x \<in> set (fst (gateway_apply env obj ns cm (gateway_deployment env obj h' pset rl cl) cl))"
  shows "permitted_write env obj x"
proof -
  note child = gateway_children_owned
  have "gateway_child obj ob" if "ob \<in> set [ObConfigMap cm, ObService (build_service obj), ObServiceAccount (build_service_account obj)]"
    for ob using that child(1,2) child(3) [OF assms(2)] by auto
  moreover have "gateway_child obj ob"
    if "ob \<in> set (ObDeployment (gateway_deployment env obj h' pset rl cl) # optional_children ObHttpRoute (build_httproute obj))"
    for ob using that child(4,5) by (auto simp: optional_children_def split: option.splits)
  moreover have "gateway_child obj ob" if "ob \<in> set (optional_children ObHpa (build_hpa (ge_metric_typed env) obj))" for ob
    using that child(6) by (auto simp: optional_children_def split: option.splits)
  ultimately show ?thesis
    using assms(3) coordination_permitted [OF ns] edge_permitted pdb_permitted [OF ns] children_permitted
    unfolding gateway_apply_def bindT_effects by blast
qed

text \<open>Reports: a status, an event, a metric, a finalizer, the failure counter.\<close>

definition report :: "('st, 'ob) effect \<Rightarrow> bool" where
  "report x \<longleftrightarrow> \<not> (\<exists>ob fm. x = Apply ob fm) \<and> \<not> (\<exists>k ns n. x = DeleteKind k ns n) \<and> \<not> (\<exists>n. x = DeleteObj n)"

lemma report_permitted: "report x \<Longrightarrow> permitted_write env obj x"
  by (cases x) (simp_all add: report_def permitted_write_def)

lemma hold_permitted: "x \<in> set (fst (gateway_hold env obj ns name cl)) \<Longrightarrow> permitted_write env obj x"
  by (rule report_permitted) (auto simp: gateway_hold_def after_sel ret_sel patch_status_logged_eff report_def)

lemma finish_permitted:
  "x \<in> set (fst (gateway_finish env obj ns name h pset rl cl al)) \<Longrightarrow> permitted_write env obj x"
  by (rule report_permitted)
    (auto simp: gateway_finish_def after_sel ret_sel patch_status_logged_eff report_def split: option.splits if_splits)

lemma render_apply_permitted:
  assumes ns: "meta_namespace (gw_meta obj) = Some ns"
    and x: "x \<in> set (fst (gateway_render_apply env obj ns name pset rl cl))"
  shows "permitted_write env obj x"
proof -
  from render_apply_cases [of env obj ns name pset rl cl] x obtain c al cm h
    where cm: "build_configmap (ge_to_yaml env) (ge_sha256_hex env) obj c = Some (cm, h)"
      and eq: "gateway_render_apply env obj ns name pset rl cl
        = bindT (gateway_apply env obj ns cm (gateway_deployment env obj h pset rl cl) cl)
            (\<lambda>_. gateway_finish env obj ns name h pset rl cl al)"
    by (auto simp: throw_sel)
  from x show ?thesis
    unfolding eq bindT_effects using gateway_apply_permitted [OF ns cm] finish_permitted by blast
qed

lemma body_permitted:
  assumes ns: "meta_namespace (gw_meta obj) = Some ns" and x: "x \<in> set (fst (gateway_body env obj ns name))"
  shows "permitted_write env obj x"
proof -
  have rl: "permitted_write env obj y" if "y \<in> set (fst (resolve_revocation_list env obj))" for y
    using revocation_eff [OF that] gateway_children_owned(8) by (auto simp: permitted_write_def)
  from x have "x \<in> set (fst (resolve_revocation_list env obj)) \<or> (\<exists>k d w. x = ObserveDependency k d w)
      \<or> (\<exists>pset rl cl. x \<in> set (fst (gateway_render_apply env obj ns name pset rl cl)))
      \<or> (\<exists>cl. x \<in> set (fst (gateway_hold env obj ns name cl)))"
    by (cases "resolve_plugin_set env obj"; cases "resolve_cluster env obj")
      (auto simp: gateway_body_def bindT_effects after_sel throw_sel all_conj_distrib split: option.splits if_splits)
  then show ?thesis
    using rl render_apply_permitted [OF ns] hold_permitted by (fastforce simp: permitted_write_def)
qed

text \<open>C11. Whatever the cluster answers, a reconcile of a gateway creates or changes only children in the
  gateway's own namespace that are owned by the gateway, the Secret binding of that namespace, and,
  for a gateway with a cloud block, listeners under its own field manager and certificates with its
  own uid for its own domains; it deletes only its own disruption budget and certificates listed
  under its uid.\<close>

theorem gateway_writes_confined:
  assumes "x \<in> set (fst (gateway_reconcile env obj))"
  shows "permitted_write env obj x"
proof -
  from assms consider "\<exists>n o'. x = ObserveReconcile n o'" | "x \<in> set (fst (gateway_reconcile_inner env obj))"
    by (auto simp: gateway_reconcile_def observed_def)
  then show ?thesis
  proof cases
    case 2
    then obtain ns name where ns: "meta_namespace (gw_meta obj) = Some ns" "meta_name (gw_meta obj) = Some name"
      by (auto simp: gateway_reconcile_inner_def throw_sel split: option.splits)
    from 2 consider "x \<in> set (cleanup_edge_domains env obj)" | "\<exists>n fs. x = MergeFinalizers n fs"
      | "\<exists>n ops. x = PatchFinalizers n ops" | "x \<in> set (fst (gateway_body env obj ns name))"
      using ensure_finalizer_eff remove_finalizer_eff
      by (auto simp: gateway_reconcile_inner_def ns guarded_def bindT_effects lift_run_sel after_sel ret_sel split: if_splits) blast+
    then show ?thesis
      by cases (use cleanup_permitted body_permitted [OF ns(1)] in \<open>auto simp: permitted_write_def\<close>)
  qed (auto simp: permitted_write_def)
qed

theorem gateway_writes_confined_witness:
  "\<exists>d. Apply (ObDeployment d) gateway_fm \<in> set (fst (gateway_reconcile sample_gateway_env (sample_gw\<lparr>gw_spec := bare_gateway_spec\<rparr>)))
     \<and> meta_namespace (dep_meta d) = Some ''team''
     \<and> meta_owner_references (dep_meta d) = Some [gateway_owner_ref (sample_gw\<lparr>gw_spec := bare_gateway_spec\<rparr>)]"
proof -
  let ?o = "sample_gw\<lparr>gw_spec := bare_gateway_spec\<rparr>"
  have "resolve_plugin_set sample_gateway_env ?o = Inr None" "gw_cluster_ref bare_gateway_spec = None"
    by (simp_all add: resolve_plugin_set_def bare_gateway_spec_def)
  then obtain d where d: "Apply (ObDeployment d) gateway_fm \<in> set (fst (gateway_reconcile sample_gateway_env ?o))"
    using sample_accepted by blast
  have "gw_cloud (gw_spec ?o) = None" by (simp add: bare_gateway_spec_def)
  with gateway_writes_confined [OF d] have "gateway_child ?o (ObDeployment d)"
    by (simp add: permitted_write_def tenant_binding_def edge_object_def)
  with d show ?thesis by (auto simp: owned_child_def ob_meta_def sample_gw_sel default_meta_def)
qed

section \<open>A provisioned server\<close>

text \<open>A server reconcile writes nothing but its two children and deletes nothing.\<close>

lemma server_writes_confined:
  assumes "x \<in> set (fst (server_reconcile env obj))"
  shows "report x \<or> (\<exists>ob. x = Apply ob server_fm \<and> owned_child (sv_meta obj) (server_owner_ref obj) ob)"
proof -
  have workload: "\<exists>ob. y = Apply ob server_fm \<and> owned_child (sv_meta obj) (server_owner_ref obj) ob"
    if "y \<in> set (fst (apply_workload env obj))" for y
    using that
    by (auto simp: apply_workload_def Let_def bindT_effects lift_run_sel apply_owned_eff owned_child_def ob_meta_def
        build_server_deployment_def build_server_service_def server_meta_def default_meta_def)
  have body: "report y \<or> (\<exists>ob. y = Apply ob server_fm \<and> owned_child (sv_meta obj) (server_owner_ref obj) ob)"
    if "y \<in> set (fst (server_body env obj name ns))" for y name ns
    using that workload
    by (auto simp: server_body_def server_binding_def Let_def bindT_effects after_sel ret_sel patch_status_logged_eff
        report_def split: if_splits option.splits)
  from assms consider "\<exists>n o'. x = ObserveReconcile n o'" | "x \<in> set (fst (server_reconcile_inner env obj))"
    by (auto simp: server_reconcile_def observed_def)
  then show ?thesis
  proof cases
    case 2
    then obtain ns name where "meta_namespace (sv_meta obj) = Some ns" "meta_name (sv_meta obj) = Some name"
      by (auto simp: server_reconcile_inner_def throw_sel split: option.splits)
    with 2 consider "\<exists>n fs. x = MergeFinalizers n fs" | "\<exists>n ops. x = PatchFinalizers n ops"
      | "x \<in> set (fst (server_body env obj name ns))"
      using ensure_finalizer_eff remove_finalizer_eff
      by (auto simp: server_reconcile_inner_def guarded_def bindT_effects lift_run_sel after_sel ret_sel split: if_splits) blast+
    then show ?thesis by cases (use body in \<open>auto simp: report_def\<close>)
  qed (auto simp: report_def)
qed

end
