(* ===== verification/Withdrawal.thy ===== *)
theory Withdrawal
  imports Plugin GatewaySafety
begin

text \<open>
  How a plugin that no longer passes its gates is withdrawn: from the status the plugin
  controller writes, through the plugin sets that list the plugin, to what the gateways that name the
  sets resolve. Each step is triggered by the change before it.
\<close>

section \<open>The plugin\<close>

text \<open>A status that names an artefact is written only after the gates passed.\<close>

lemma artefact_named_gated:
  assumes "PatchStatus n st fm \<in> set (fst (plugin_reconcile env obj))" and "ps_artefact_secret_name st \<noteq> None"
  shows "\<exists>ref options art vr. plugin_pulled env obj ref options art \<and> trust_gates env obj art vr"
proof -
  have pub: "published (PatchStatus n st fm)" using assms(2) by simp
  from reconcile_published [OF assms(1) pub] obtain name where
    "PatchStatus n st fm \<in> set (fst (plugin_body env obj name))" by blast
  from body_published [OF this pub] show ?thesis by blast
qed

section \<open>The set\<close>

lemma unnamed_artefact_fails:
  assumes "sn_plugin env (entry_plugin_ref e) = Inr (Some p)" and "Option.bind (pl_status p) ps_artefact_secret_name = None"
  shows "isl (entry_verdict env e)"
  using assms by (auto simp: entry_verdict_def resolve_entry_def Let_def split: option.splits)

lemma failed_entry_not_ready:
  assumes "condition_setter (sn_set_condition env)" and "PatchStatus n st fm \<in> set (fst (set_reconcile env obj))"
    and "e \<in> set (set_entries (set_spec obj))" and "entry_enabled e" and "isl (entry_verdict env e)"
  shows "\<not> cond_true ''Ready'' (ss_conditions st)" "entry_id e \<in> fst ` set (ss_failed_entries st)"
  using set_status_faithful [OF assms(1,2)] assms(3-5) by (auto simp: list_all_iff image_iff intro!: bexI [of _ e])

lemma resolved_names:
  "n \<in> r_secret_name ` set (fst (snd (resolve_entries env es))) \<longleftrightarrow>
     (\<exists>e \<in> set es. entry_enabled e \<and> \<not> isl (entry_verdict env e) \<and> r_secret_name (projr (entry_verdict env e)) = n)"
  by (auto simp: resolve_entries_partition)

text \<open>A written status means that the pruning was done.\<close>

lemma stale_secret_deleted:
  assumes "PatchStatus m st fm \<in> set (fst (set_reconcile env obj))" and "meta_name (set_meta obj) = Some name"
    and "sn_list env (MANAGED_BY_SET_LABEL @ ''='' @ name) = Inr items" and "s \<in> set items" and "meta_name (sec_meta s) = Some n"
    and "\<And>e. e \<in> set (set_entries (set_spec obj)) \<Longrightarrow> entry_enabled e \<Longrightarrow> \<not> isl (entry_verdict env e)
      \<Longrightarrow> r_secret_name (projr (entry_verdict env e)) \<noteq> n"
  shows "DeleteObj n \<in> set (fst (set_reconcile env obj))"
proof -
  obtain action where "snd (set_reconcile env obj) = Inr action" using set_status_means_done [OF assms(1)] by blast
  moreover have "meta_deletion_timestamp (set_meta obj) = None"
  proof (rule ccontr)
    assume "meta_deletion_timestamp (set_meta obj) \<noteq> None"
    moreover have "PatchStatus m st fm \<in> set (fst (set_reconcile_inner env obj))"
      using assms(1) by (auto simp: set_reconcile_def observed_def)
    ultimately show False using set_ctl.deleting by fastforce
  qed
  ultimately have "snd (set_reconcile env obj) = Inr action" "meta_deletion_timestamp (set_meta obj) = None" by blast+
  from set_prunes [OF this, of n] obtain a rs where a: "meta_name (set_meta obj) = Some a"
    and rs: "rs = fst (snd (resolve_entries env (set_entries (set_spec obj))))"
    and iff: "DeleteObj n \<in> set (fst (set_reconcile env obj)) \<longleftrightarrow>
      (\<exists>items s. sn_list env (MANAGED_BY_SET_LABEL @ ''='' @ a) = Inr items \<and> s \<in> set items
         \<and> meta_name (sec_meta s) = Some n) \<and> n \<notin> r_secret_name ` set rs"
    by (elim exE conjE) (rule that)
  have "a = name" using a assms(2) by (metis option.inject)
  have "n \<notin> r_secret_name ` set rs" unfolding rs resolved_names using assms(6) by blast
  with assms(3-5) show ?thesis unfolding iff \<open>a = name\<close> by blast
qed

section \<open>The gateway\<close>

lemma unready_set_unresolved:
  assumes "gw_plugin_set_ref (gw_spec gw) = Some r" and "ge_plugin_set env r = Inr (Some s)"
    and "set_conditions s = Some cs" and "\<not> cond_true ''Ready'' cs"
  shows "\<exists>p. resolve_plugin_set env gw = Inr (Some p) \<and> rps_view p = None \<and> rps_mounts p = []
    \<and> c_type (rps_condition p) = ''PluginSetReady'' \<and> c_status (rps_condition p) = ''False''"
  using assms by (simp add: resolve_plugin_set_def unresolved_set_def Let_def)


section \<open>Witness\<close>

definition refusing_env :: "(unit, unit) plugin_env" where
  "refusing_env = sample_plugin_env\<lparr>pn_host_verify := (\<lambda>_ _. Inl ''refused'')\<rparr>"

definition pulling_status :: plugin_status where
  "pulling_status = default_plugin_status\<lparr>ps_conditions := [cond ''Progressing'' ''True'' ''PullingArtefact'' 1],
     ps_observed_generation := Some 1\<rparr>"

definition refused_set_env :: set_env where
  "refused_set_env = sample_set_env\<lparr>sn_plugin := (\<lambda>_. Inr (Some (sample_mirrored_plugin\<lparr>pl_status := Some pulling_status\<rparr>)))\<rparr>"

lemma ensured_finalizer:
  "has_finalizer m fin \<Longrightarrow> ensure_finalizer a n m fin = ret False"
  by (simp add: ensure_finalizer_def has_finalizer_def)

lemma refusing_env_patches:
  "PatchStatus ''p1'' pulling_status plugin_fm \<in> set (fst (plugin_reconcile refusing_env sample_mirrored_plugin))"
proof -
  let ?p = sample_mirrored_plugin
  have m: "meta_name (pl_meta ?p) = Some ''p1''" "meta_deletion_timestamp (pl_meta ?p) = None"
    "has_finalizer (pl_meta ?p) OPERATOR_FINALIZER"
    by (simp_all add: sample_mirrored_plugin_def default_meta_def has_finalizer_def)
  have "record_pulling refusing_env ?p (generation_of (pl_meta ?p))
      = patch_status_logged (Inr ()) (Inr ()) ''p1'' pulling_status plugin_fm"
    by (simp add: record_pulling_def plugin_patch_def refusing_env_def sample_plugin_env_def sample_mirrored_plugin_def
        pulling_status_def plugin_conditions_def generation_of_def name_any_def default_meta_def)
  then have "PatchStatus ''p1'' pulling_status plugin_fm \<in> set (fst (plugin_body refusing_env ?p ''p1''))"
    by (simp add: plugin_body_def Let_def run_simps(1-13) bindT_effects patch_status_logged_eff)
  then show ?thesis
    using m(1,2) by (simp add: plugin_reconcile_def observed_def plugin_reconcile_inner_def guarded_def bindT_effects
        lift_run_sel ret_sel ensured_finalizer [OF m(3)] ex_bool_eq)
qed

lemma refused_set_effects:
  "map set_effect_tag (fst (set_reconcile refused_set_env sample_set)) =
     [(''other'', []), (''other'', []), (''other'', []), (''delete'', ''stale''), (''delete'', ''mcpg-plugin-p1-01234567''),
      (''status'', ''s''), (''other'', [])]"
  by code_simp

lemma status_tag_inv:
  "(''status'', n) = set_effect_tag x \<Longrightarrow> \<exists>st fm. x = PatchStatus n st fm"
  by (cases x rule: set_effect_tag.cases; auto split: if_splits)


end
