(* ===== verification/Triggers.thy ===== *)
theory Triggers
  imports GatewaySafety ClusterCtl RouteCtl ServerCtl TenantCtl MirrorCtl RevocationCtl
begin

text \<open>
  What makes the controllers run: the wiring of their watches (the \<open>run\<close> functions of
  \<open>controllers/\<close>) as data, and the question whether it is complete. A controller does not react to
  a change that its watches do not report, so such a change must not matter: its reconcile must
  send the same requests after it. The locale \<open>watched_reconciler\<close> is this contract.
\<close>

section \<open>The wiring\<close>

datatype watched =
    OfPlugin plugin
  | OfPluginSet plugin_set
  | OfRevocationList revocation_list
  | OfCluster cluster
  | OfRoute route
  | OfServer mcp_server
  | OfGateway gateway

datatype child_kind = Deployments | Services | ConfigMaps | ServiceAccounts | Secrets

text \<open>The namespace whose objects of its own kind a controller sees (\<open>None\<close>: all), the kinds of
  children whose changes queue their owner, and for a change of another resource the objects it
  queues. Children and other resources are watched in every namespace.\<close>

record 'r wiring =
  wi_scope :: "string option"
  wi_owns :: "child_kind list"
  wi_watches :: "watched \<Rightarrow> 'r list"

definition watch_scope :: "string option \<Rightarrow> string option" where
  "watch_scope watch_namespace =
     (case watch_namespace of Some ns \<Rightarrow> if ns \<noteq> [] then Some ns else None | None \<Rightarrow> None)"

text \<open>\<open>store\<close> is the snapshot of the objects of the controller's own kind.\<close>

definition run_gateway :: "api_crate \<Rightarrow> string option \<Rightarrow> gateway list \<Rightarrow> object_ref wiring" where
  "run_gateway api watch_namespace store =
     \<lparr>wi_scope = watch_scope watch_namespace,
      wi_owns = [Deployments, Services, ConfigMaps, ServiceAccounts],
      wi_watches = (\<lambda>w. case w of
          OfPluginSet s \<Rightarrow> map_plugin_set_to_gateways store s
        | OfRevocationList rl \<Rightarrow> map_revocation_list_to_gateways store rl
        | OfCluster c \<Rightarrow> map_cluster_to_gateways store c
        | OfRoute r \<Rightarrow> map_route_to_gateways api store r
        | OfServer s \<Rightarrow> map_server_to_gateways store s
        | _ \<Rightarrow> [])\<rparr>"

definition run_plugin :: "string wiring" where
  "run_plugin = \<lparr>wi_scope = None, wi_owns = [Secrets], wi_watches = (\<lambda>_. [])\<rparr>"

definition run_plugin_set :: "string option \<Rightarrow> plugin_set list \<Rightarrow> object_ref wiring" where
  "run_plugin_set watch_namespace store =
     \<lparr>wi_scope = watch_scope watch_namespace, wi_owns = [Secrets, ConfigMaps],
      wi_watches = (\<lambda>w. case w of OfPlugin p \<Rightarrow> map_plugin_to_plugin_sets store p | _ \<Rightarrow> [])\<rparr>"

definition run_plugin_mirror :: "string wiring" where
  "run_plugin_mirror =
     \<lparr>wi_scope = None, wi_owns = [],
      wi_watches = (\<lambda>w. case w of OfPlugin p \<Rightarrow> map_plugin_to_mirrors p | _ \<Rightarrow> [])\<rparr>"

definition run_revocation_list :: "string wiring" where
  "run_revocation_list = \<lparr>wi_scope = None, wi_owns = [ConfigMaps], wi_watches = (\<lambda>_. [])\<rparr>"

definition run_route :: "string option \<Rightarrow> object_ref wiring" where
  "run_route watch_namespace =
     \<lparr>wi_scope = watch_scope watch_namespace, wi_owns = [],
      wi_watches = (\<lambda>w. case w of OfGateway gw \<Rightarrow> map_gateway_to_routes gw | _ \<Rightarrow> [])\<rparr>"

definition run_server :: "string option \<Rightarrow> object_ref wiring" where
  "run_server watch_namespace =
     \<lparr>wi_scope = watch_scope watch_namespace, wi_owns = [Deployments], wi_watches = (\<lambda>_. [])\<rparr>"

definition run_tenant :: "string wiring" where
  "run_tenant = \<lparr>wi_scope = None, wi_owns = [], wi_watches = (\<lambda>_. [])\<rparr>"

definition run_cluster :: "string wiring" where
  "run_cluster =
     \<lparr>wi_scope = None, wi_owns = [],
      wi_watches = (\<lambda>w. case w of
          OfGateway gw \<Rightarrow> map_gateway_to_clusters gw
        | OfPlugin p \<Rightarrow> map_plugin_to_clusters p
        | _ \<Rightarrow> [])\<rparr>"

section \<open>The contract\<close>

text \<open>\<open>unreported_history\<close>: changes none of which queued the object \<open>r\<close>. Each change is seen with the wiring of
  its own moment.\<close>

inductive unreported_history :: "('ch \<Rightarrow> 'env \<Rightarrow> 'env \<Rightarrow> bool) \<Rightarrow> ('ch \<Rightarrow> 'r list) set \<Rightarrow> 'r \<Rightarrow> 'env \<Rightarrow> 'env \<Rightarrow> bool"
  for changes wirings r where
  "unreported_history changes wirings r env env"
| "unreported_history changes wirings r env env1 \<Longrightarrow> changes ch env1 env2 \<Longrightarrow> w \<in> wirings \<Longrightarrow> r \<notin> set (w ch)
    \<Longrightarrow> unreported_history changes wirings r env env2"

locale watched_reconciler =
  fixes reconcile :: "'env \<Rightarrow> 'obj \<Rightarrow> 'res"
    and changes :: "'obj \<Rightarrow> 'ch \<Rightarrow> 'env \<Rightarrow> 'env \<Rightarrow> bool"
    and wirings :: "'obj \<Rightarrow> ('ch \<Rightarrow> 'r list) set"
    and ref_of :: "'obj \<Rightarrow> 'r"
  assumes unreported: "changes obj ch env env' \<Longrightarrow> w \<in> wirings obj \<Longrightarrow> ref_of obj \<notin> set (w ch)
    \<Longrightarrow> reconcile env' obj = reconcile env obj"
begin

lemma relevant_reported:
  assumes "changes obj ch env env'" and "w \<in> wirings obj" and "reconcile env' obj \<noteq> reconcile env obj"
  shows "ref_of obj \<in> set (w ch)"
  using unreported [OF assms(1,2)] assms(3) by blast

lemma unreported_history_same:
  assumes "unreported_history (changes obj) (wirings obj) (ref_of obj) env env'"
  shows "reconcile env' obj = reconcile env obj"
  using assms by induction (auto dest: unreported)

end

section \<open>The gateway\<close>

text \<open>How a change of another resource shows in what the reconcile of a gateway reads: any object may
  be created, deleted or edited in any way within its namespace, routes and servers that move from
  gateway to gateway included. The ConfigMap of a set changes only together with the status of the
  set; it and the coordination Secret of a cluster are held fixed.\<close>

inductive gateway_change :: "gateway \<Rightarrow> watched \<Rightarrow> gateway_env \<Rightarrow> gateway_env \<Rightarrow> bool" for gw where
  set_changed: "meta_name (set_meta s) = Some n \<Longrightarrow> meta_namespace (set_meta s) = meta_namespace (gw_meta gw)
    \<Longrightarrow> found \<in> {Some s, None}
    \<Longrightarrow> gateway_change gw (OfPluginSet s) env (env\<lparr>ge_plugin_set := (ge_plugin_set env)(n := Inr found)\<rparr>)"
| list_changed: "meta_name (rl_meta l) = Some n \<Longrightarrow> found \<in> {Some l, None}
    \<Longrightarrow> gateway_change gw (OfRevocationList l) env (env\<lparr>ge_revocation_list := (ge_revocation_list env)(n := Inr found)\<rparr>)"
| cluster_changed: "meta_name (cl_meta c) = Some n \<Longrightarrow> found \<in> {Some c, None}
    \<Longrightarrow> gateway_change gw (OfCluster c) env (env\<lparr>ge_cluster := (ge_cluster env)(n := Inr found)\<rparr>)"
| route_added: "ge_routes env = Inr (xs @ ys)
    \<Longrightarrow> gateway_change gw (OfRoute r) env (env\<lparr>ge_routes := Inr (xs @ r # ys)\<rparr>)"
| route_deleted: "ge_routes env = Inr (xs @ r # ys)
    \<Longrightarrow> gateway_change gw (OfRoute r) env (env\<lparr>ge_routes := Inr (xs @ ys)\<rparr>)"
| route_edited: "ge_routes env = Inr (xs @ old # ys) \<Longrightarrow> meta_namespace (rt_meta old) = meta_namespace (rt_meta r)
    \<Longrightarrow> gateway_change gw (OfRoute r) env (env\<lparr>ge_routes := Inr (xs @ r # ys)\<rparr>)"
| server_added: "ge_servers env = Inr (xs @ ys)
    \<Longrightarrow> gateway_change gw (OfServer v) env (env\<lparr>ge_servers := Inr (xs @ v # ys)\<rparr>)"
| server_deleted: "ge_servers env = Inr (xs @ v # ys)
    \<Longrightarrow> gateway_change gw (OfServer v) env (env\<lparr>ge_servers := Inr (xs @ ys)\<rparr>)"
| server_edited: "ge_servers env = Inr (xs @ old # ys) \<Longrightarrow> meta_namespace (sv_meta old) = meta_namespace (sv_meta v)
    \<Longrightarrow> gateway_change gw (OfServer v) env (env\<lparr>ge_servers := Inr (xs @ v # ys)\<rparr>)"

text \<open>The one kind of change the watches cannot report to a gateway: a watch sees the object as it is after the
  change, and a route or a server that named this gateway before may no longer name it then.\<close>

definition route_names :: "api_crate \<Rightarrow> gateway \<Rightarrow> route \<Rightarrow> bool" where
  "route_names api gw r \<longleftrightarrow> (\<exists>ns. meta_namespace (rt_meta r) = Some ns \<and> rt_gateway_ref (rt_spec r) = name_any (gw_meta gw)
     \<and> meta_namespace (gw_meta gw) = Some (gateway_namespace api (rt_spec r) ns))"

definition server_names :: "gateway \<Rightarrow> mcp_server \<Rightarrow> bool" where
  "server_names gw v \<longleftrightarrow> (\<exists>ns fed. meta_namespace (sv_meta v) = Some ns \<and> sv_federate (sv_spec v) = Some fed
     \<and> fed_gateway_ref fed = name_any (gw_meta gw) \<and> meta_namespace (gw_meta gw) = Some ns)"

definition leaves_gateway :: "gateway \<Rightarrow> watched \<Rightarrow> gateway_env \<Rightarrow> gateway_env \<Rightarrow> bool" where
  "leaves_gateway gw ch env env' \<longleftrightarrow>
     (\<exists>xs old r ys. ch = OfRoute r \<and> ge_routes env = Inr (xs @ old # ys) \<and> ge_routes env' = Inr (xs @ r # ys)
        \<and> route_names (ge_api env) gw old \<and> \<not> route_names (ge_api env) gw r)
   \<or> (\<exists>xs old v ys. ch = OfServer v \<and> ge_servers env = Inr (xs @ old # ys) \<and> ge_servers env' = Inr (xs @ v # ys)
        \<and> server_names gw old \<and> \<not> server_names gw v)"

lemma mapped_route:
  "gw \<in> set store \<Longrightarrow> gateway_ref_of gw \<in> set (map_route_to_gateways api store r) \<longleftrightarrow> route_names api gw r"
  by (cases "meta_namespace (rt_meta r)") (auto simp: map_route_to_gateways_def route_names_def gateway_ref_of_def)

lemma mapped_server:
  "gw \<in> set store \<Longrightarrow> gateway_ref_of gw \<in> set (map_server_to_gateways store v) \<longleftrightarrow> server_names gw v"
  by (cases "meta_namespace (sv_meta v)"; cases "sv_federate (sv_spec v)")
    (auto simp: map_server_to_gateways_def server_names_def gateway_ref_of_def)

definition gateway_wirings :: "api_crate \<Rightarrow> string option \<Rightarrow> gateway \<Rightarrow> (watched \<Rightarrow> object_ref list) set" where
  "gateway_wirings api watch_namespace gw =
     {wi_watches (run_gateway api watch_namespace store) | store. gw \<in> set store}"

text \<open>\<open>reread env a b c d e\<close> differs from \<open>env\<close> only in the answers that other resources give.\<close>

abbreviation reread where
  "reread env a b c d e \<equiv> env\<lparr>ge_plugin_set := a, ge_revocation_list := b, ge_cluster := c, ge_routes := d, ge_servers := e\<rparr>"

lemma reread_sel [simp]:
  "ge_api (reread env a b c d e) = ge_api env"
  "ge_defaults (reread env a b c d e) = ge_defaults env"
  "ge_config (reread env a b c d e) = ge_config env"
  "ge_operator_namespace (reread env a b c d e) = ge_operator_namespace env"
  "ge_remove_get (reread env a b c d e) = ge_remove_get env"
  "ge_remove_patch (reread env a b c d e) = ge_remove_patch env"
  "ge_finalizer (reread env a b c d e) = ge_finalizer env"
  "ge_status (reread env a b c d e) = ge_status env"
  "ge_config_map (reread env a b c d e) = ge_config_map env"
  "ge_source_secret (reread env a b c d e) = ge_source_secret env"
  "ge_certificates (reread env a b c d e) = ge_certificates env"
  "ge_apply (reread env a b c d e) = ge_apply env"
  "ge_binding (reread env a b c d e) = ge_binding env"
  "ge_deployment_status (reread env a b c d e) = ge_deployment_status env"
  "ge_set_condition (reread env a b c d e) = ge_set_condition env"
  "ge_parse_json (reread env a b c d e) = ge_parse_json env"
  "ge_print_json (reread env a b c d e) = ge_print_json env"
  "ge_to_yaml (reread env a b c d e) = ge_to_yaml env"
  "ge_sha256_hex (reread env a b c d e) = ge_sha256_hex env"
  "ge_version_at_least (reread env a b c d e) = ge_version_at_least env"
  "ge_metric_typed (reread env a b c d e) = ge_metric_typed env"
  "ge_random (reread env a b c d e) = ge_random env"
  by simp_all

lemma reread_render:
  "opt_condition (reread env a b c d e) = opt_condition env"
  "deployment_counts (reread env a b c d e) = deployment_counts env"
  "gateway_deployment (reread env a b c d e) = gateway_deployment env"
  "held_status (reread env a b c d e) = held_status env"
  "inject_cloud_identity (reread env a b c d e) = inject_cloud_identity env"
  "apply_child (reread env a b c d e) = apply_child env"
  "certificate_deletes (reread env a b c d e) = certificate_deletes env"
  unfolding fun_eq_iff opt_condition_def deployment_counts_def gateway_deployment_def held_status_def
    inject_cloud_identity_def apply_child_def certificate_deletes_def reread_sel by (intro conjI allI refl)+

lemma reread_children: "apply_children (reread env a b c d e) obs = apply_children env obs"
  by (induction obs) (simp_all add: reread_render)

lemma reread_steps:
  "all_replicas_available (reread env a b c d e) = all_replicas_available env"
  "gateway_conditions (reread env a b c d e) = gateway_conditions env"
  "gateway_status_of (reread env a b c d e) = gateway_status_of env"
  "cleanup_edge_domains (reread env a b c d e) = cleanup_edge_domains env"
  "reconcile_edge_domains (reread env a b c d e) = reconcile_edge_domains env"
  "apply_coordination (reread env a b c d e) = apply_coordination env"
  "pdb_step (reread env a b c d e) = pdb_step env"
  "gateway_apply (reread env a b c d e) = gateway_apply env"
  "gateway_finish (reread env a b c d e) = gateway_finish env"
  "gateway_hold (reread env a b c d e) = gateway_hold env"
  unfolding fun_eq_iff all_replicas_available_def gateway_conditions_def gateway_status_of_def cleanup_edge_domains_def
    reconcile_edge_domains_def apply_coordination_def pdb_step_def gateway_apply_def gateway_finish_def gateway_hold_def
    reread_render reread_children reread_sel
  by (intro conjI allI refl)+

text \<open>What a reconcile takes from other resources goes through five functions.\<close>

lemma reread_reconcile:
  assumes "env' = reread env a b c d e"
    and "resolve_plugin_set env' gw = resolve_plugin_set env gw"
    and "resolve_revocation_list env' gw = resolve_revocation_list env gw"
    and "resolve_cluster env' gw = resolve_cluster env gw"
    and "\<And>ns j. meta_namespace (gw_meta gw) = Some ns \<Longrightarrow> fst (merge_routes (ge_api env) d gw ns j) = fst (merge_routes (ge_api env) (ge_routes env) gw ns j)"
    and "\<And>ns j. meta_namespace (gw_meta gw) = Some ns \<Longrightarrow> fst (merge_servers (ge_api env) e gw ns j) = fst (merge_servers (ge_api env) (ge_servers env) gw ns j)"
  shows "gateway_reconcile env' gw = gateway_reconcile env gw"
proof -
  have cfg: "render_config env' gw ns = render_config env gw ns" if "meta_namespace (gw_meta gw) = Some ns" for ns
    using assms(5,6) [OF that] by (simp add: fun_eq_iff render_config_def assms(1) reread_render)
  have ra: "gateway_render_apply env' gw ns = gateway_render_apply env gw ns" if "meta_namespace (gw_meta gw) = Some ns" for ns
    unfolding fun_eq_iff gateway_render_apply_def cfg [OF that] unfolding assms(1) reread_steps reread_render reread_sel by simp
  have hold: "gateway_hold env' = gateway_hold env" by (simp add: assms(1) reread_steps)
  have "gateway_body env' gw ns name = gateway_body env gw ns name" if "meta_namespace (gw_meta gw) = Some ns" for ns name
    unfolding gateway_body_def assms(2-4) ra [OF that] hold by (rule refl)
  moreover have "cleanup_edge_domains env' = cleanup_edge_domains env" by (simp add: assms(1) reread_steps)
  ultimately have "gateway_reconcile_inner env' gw = gateway_reconcile_inner env gw"
    unfolding gateway_reconcile_inner_def by (auto simp: assms(1) split: option.splits)
  then show ?thesis by (simp add: gateway_reconcile_def)
qed


text \<open>A route or a server that does not name the gateway contributes nothing.\<close>

lemma unmapped_route:
  assumes "gateway_ref_of gw \<notin> set (map_route_to_gateways api store r)" and "gw \<in> set store"
    and "meta_namespace (gw_meta gw) = Some ns"
  shows "\<not> route_accepted api (name_any (gw_meta gw)) ns acc r"
  using assms by (auto simp: route_accepted_def map_route_to_gateways_def split: option.splits)

lemma unmapped_server:
  assumes "gateway_ref_of gw \<notin> set (map_server_to_gateways store v)" and "gw \<in> set store"
    and "meta_namespace (gw_meta gw) = Some ns"
  shows "apply_server api (name_any (gw_meta gw)) ns acc v = acc"
  using assms by (cases acc) (auto simp: apply_server_def map_server_to_gateways_def split: option.splits)

lemma merge_routes_same:
  assumes "filter (route_accepted api (name_any (gw_meta gw)) ns (gw_accepted_route_namespaces (gw_spec gw))) rs
    = filter (route_accepted api (name_any (gw_meta gw)) ns (gw_accepted_route_namespaces (gw_spec gw))) rs'"
  shows "merge_routes api (Inr rs) gw ns j = merge_routes api (Inr rs') gw ns j"
  using assms by (simp add: merge_routes_def apply_routes_to_config_def)

lemma merge_servers_drop:
  assumes "\<And>acc. apply_server api (name_any (gw_meta gw)) ns acc v = acc"
  shows "merge_servers api (Inr (xs @ v # ys)) gw ns j = merge_servers api (Inr (xs @ ys)) gw ns j"
  by (simp add: merge_servers_def apply_servers_to_config_def assms)

lemma reread_one:
  "env\<lparr>ge_plugin_set := a\<rparr> = reread env a (ge_revocation_list env) (ge_cluster env) (ge_routes env) (ge_servers env)"
  "env\<lparr>ge_revocation_list := b\<rparr> = reread env (ge_plugin_set env) b (ge_cluster env) (ge_routes env) (ge_servers env)"
  "env\<lparr>ge_cluster := c\<rparr> = reread env (ge_plugin_set env) (ge_revocation_list env) c (ge_routes env) (ge_servers env)"
  "env\<lparr>ge_routes := d\<rparr> = reread env (ge_plugin_set env) (ge_revocation_list env) (ge_cluster env) d (ge_servers env)"
  "env\<lparr>ge_servers := e\<rparr> = reread env (ge_plugin_set env) (ge_revocation_list env) (ge_cluster env) (ge_routes env) e"
  by simp_all

lemma reread_set:
  assumes "\<And>r. gw_plugin_set_ref (gw_spec gw) = Some r \<Longrightarrow> a r = ge_plugin_set env r"
  shows "resolve_plugin_set (reread env a b c d e) gw = resolve_plugin_set env gw"
  unfolding resolve_plugin_set_def reread_sel using assms by (cases "gw_plugin_set_ref (gw_spec gw)") simp_all

lemma reread_list:
  assumes "b (case gw_revocation_list_ref (gw_spec gw) of Some r \<Rightarrow> r | None \<Rightarrow> DEFAULT_REVOCATION_LIST_NAME)
    = ge_revocation_list env (case gw_revocation_list_ref (gw_spec gw) of Some r \<Rightarrow> r | None \<Rightarrow> DEFAULT_REVOCATION_LIST_NAME)"
  shows "resolve_revocation_list (reread env a b c d e) gw = resolve_revocation_list env gw"
  unfolding resolve_revocation_list_def reread_sel using assms by (cases "gw_revocation_list_ref (gw_spec gw)") simp_all

lemma reread_cluster:
  assumes "\<And>r. gw_cluster_ref (gw_spec gw) = Some r \<Longrightarrow> c r = ge_cluster env r"
  shows "resolve_cluster (reread env a b c d e) gw = resolve_cluster env gw"
  unfolding resolve_cluster_def reread_sel using assms by (cases "gw_cluster_ref (gw_spec gw)") simp_all

lemma reread_same:
  assumes "env' = reread env a b c d e"
    and "\<And>r. gw_plugin_set_ref (gw_spec gw) = Some r \<Longrightarrow> a r = ge_plugin_set env r"
    and "b (case gw_revocation_list_ref (gw_spec gw) of Some r \<Rightarrow> r | None \<Rightarrow> DEFAULT_REVOCATION_LIST_NAME)
      = ge_revocation_list env (case gw_revocation_list_ref (gw_spec gw) of Some r \<Rightarrow> r | None \<Rightarrow> DEFAULT_REVOCATION_LIST_NAME)"
    and "\<And>r. gw_cluster_ref (gw_spec gw) = Some r \<Longrightarrow> c r = ge_cluster env r"
    and "\<And>ns j. meta_namespace (gw_meta gw) = Some ns \<Longrightarrow> merge_routes (ge_api env) d gw ns j = merge_routes (ge_api env) (ge_routes env) gw ns j"
    and "\<And>ns j. meta_namespace (gw_meta gw) = Some ns \<Longrightarrow> merge_servers (ge_api env) e gw ns j = merge_servers (ge_api env) (ge_servers env) gw ns j"
  shows "gateway_reconcile env' gw = gateway_reconcile env gw"
  by (rule reread_reconcile [OF assms(1)])
    (simp_all only: assms(1) reread_set [OF assms(2)] reread_list [where b = b and gw = gw and env = env, OF assms(3)] reread_cluster [OF assms(4)] assms(5,6))

lemma gateway_unreported:
  assumes "gateway_change gw ch env env'" and stays: "\<not> leaves_gateway gw ch env env'" and api: "ge_api env = api" and gw: "gw \<in> set store"
    and un: "gateway_ref_of gw \<notin> set (wi_watches (run_gateway api watch_namespace store) ch)"
  shows "gateway_reconcile env' gw = gateway_reconcile env gw"
proof -
  have r: "merge_routes api (Inr (xs @ r # ys)) gw ns j = merge_routes api (Inr (xs @ ys)) gw ns j"
    if "ch = OfRoute r" "meta_namespace (gw_meta gw) = Some ns" for r xs ys ns j
    using unmapped_route [OF _ gw that(2)] un that(1) by (intro merge_routes_same) (simp add: run_gateway_def)
  have v: "merge_servers api (Inr (xs @ v # ys)) gw ns j = merge_servers api (Inr (xs @ ys)) gw ns j"
    if "ch = OfServer v" "meta_namespace (gw_meta gw) = Some ns" for v xs ys ns j
    using unmapped_server [OF _ gw that(2)] un that(1) by (intro merge_servers_drop) (simp add: run_gateway_def)
  show ?thesis using assms(1)
  proof cases
    case (set_changed s n found)
    with gw un have "gw_plugin_set_ref (gw_spec gw) \<noteq> Some n"
      by (auto simp: run_gateway_def map_plugin_set_to_gateways_def gateway_uses_plugin_set_def)
    then show ?thesis unfolding set_changed(2) by (intro reread_same [OF reread_one(1)]) auto
  next
    case (list_changed l n found)
    with gw un have "(case gw_revocation_list_ref (gw_spec gw) of Some r \<Rightarrow> r | None \<Rightarrow> DEFAULT_REVOCATION_LIST_NAME) \<noteq> n"
      by (auto simp: run_gateway_def map_revocation_list_to_gateways_def gateway_uses_revocation_list_def)
    then show ?thesis unfolding list_changed(2) by (intro reread_same [OF reread_one(2)]) auto
  next
    case (cluster_changed c n found)
    with gw un have "gw_cluster_ref (gw_spec gw) \<noteq> Some n" by (auto simp: run_gateway_def map_cluster_to_gateways_def)
    then show ?thesis unfolding cluster_changed(2) by (intro reread_same [OF reread_one(3)]) auto
  next
    case (route_added xs ys r)
    show ?thesis unfolding route_added(2)
      by (rule reread_same [OF reread_one(4)]) (simp_all add: route_added(3) api r [OF route_added(1)])
  next
    case (route_deleted xs r ys)
    show ?thesis unfolding route_deleted(2)
      by (rule reread_same [OF reread_one(4)]) (simp_all add: route_deleted(3) api r [OF route_deleted(1)])
  next
    case (server_added xs ys v)
    show ?thesis unfolding server_added(2)
      by (rule reread_same [OF reread_one(5)]) (simp_all add: server_added(3) api v [OF server_added(1)])
  next
    case (server_deleted xs v ys)
    show ?thesis unfolding server_deleted(2)
      by (rule reread_same [OF reread_one(5)]) (simp_all add: server_deleted(3) api v [OF server_deleted(1)])
  next
    case (route_edited xs old ys r)
    have "\<not> route_names api gw r" using un mapped_route [OF gw] route_edited(1) by (simp add: run_gateway_def)
    then have "\<not> route_names api gw old" using stays route_edited(1-3) api unfolding leaves_gateway_def by fastforce
    then have "gateway_ref_of gw \<notin> set (map_route_to_gateways api store old)" by (simp add: mapped_route [OF gw])
    note old = unmapped_route [OF this gw]
    show ?thesis unfolding route_edited(2)
      by (rule reread_same [OF reread_one(4)])
        (simp_all add: route_edited(3) api r [OF route_edited(1)] merge_routes_same [of _ _ _ "xs @ old # ys" "xs @ ys"] old)
  next
    case (server_edited xs old ys v)
    have "\<not> server_names gw v" using un mapped_server [OF gw] server_edited(1) by (simp add: run_gateway_def)
    then have "\<not> server_names gw old" using stays server_edited(1-3) unfolding leaves_gateway_def by fastforce
    then have "gateway_ref_of gw \<notin> set (map_server_to_gateways store old)" by (simp add: mapped_server [OF gw])
    note old = unmapped_server [OF this gw]
    show ?thesis unfolding server_edited(2)
      by (rule reread_same [OF reread_one(5)])
        (simp_all add: server_edited(3) api v [OF server_edited(1)] merge_servers_drop [of _ _ _ old] old)
  qed
qed


interpretation gateway_watch: watched_reconciler gateway_reconcile
  "\<lambda>gw ch env env'. ge_api env = api \<and> gateway_change gw ch env env' \<and> \<not> leaves_gateway gw ch env env'" "gateway_wirings api watch_namespace" gateway_ref_of
  for api watch_namespace
proof
  fix gw ch env env' and w :: "watched \<Rightarrow> object_ref list"
  assume "ge_api env = api \<and> gateway_change gw ch env env' \<and> \<not> leaves_gateway gw ch env env'" and "w \<in> gateway_wirings api watch_namespace gw"
    and "gateway_ref_of gw \<notin> set (w ch)"
  then show "gateway_reconcile env' gw = gateway_reconcile env gw"
    using gateway_unreported by (auto simp: gateway_wirings_def)
qed

lemma gateway_change_api: "gateway_change gw ch env env' \<Longrightarrow> ge_api env' = ge_api env"
  by (auto elim!: gateway_change.cases)

lemma history_api:
  assumes "unreported_history (\<lambda>ch e e'. gateway_change gw ch e e' \<and> \<not> leaves_gateway gw ch e e') ws r env env'"
  shows "unreported_history (\<lambda>ch e e'. ge_api e = ge_api env \<and> gateway_change gw ch e e' \<and> \<not> leaves_gateway gw ch e e') ws r env env'
    \<and> ge_api env' = ge_api env"
  using assms by induction (auto dest: gateway_change_api intro: unreported_history.intros)

text \<open>C21. What the watches of the gateway controller miss. Whatever happens to plugin sets, revocation
  lists, clusters, routes and servers, created, deleted or edited in any way, also moved between other
  gateways: as long as no watch queues the gateway, and no route or server that named it is edited
  to name it no longer, a reconcile now sends the requests it would have sent before. The exception is
  a gap in the watches: such an edit queues only the gateway the object names afterwards.\<close>

theorem unreported_gateway_same:
  assumes "unreported_history (\<lambda>ch e e'. gateway_change gw ch e e' \<and> \<not> leaves_gateway gw ch e e')
      (gateway_wirings (ge_api env) watch_namespace gw) (gateway_ref_of gw) env env'"
  shows "gateway_reconcile env' gw = gateway_reconcile env gw"
  using gateway_watch.unreported_history_same history_api [OF assms] by blast

text \<open>The witness: a route moves from one other gateway to another.\<close>

definition route_to :: "string \<Rightarrow> route" where
  "route_to n = (sample_route ''t'' ''a'')\<lparr>rt_spec := (rt_spec (sample_route ''t'' ''a''))\<lparr>rt_gateway_ref := n\<rparr>\<rparr>"

theorem unreported_gateway_same_witness:
  "gateway_change sample_gw (OfRoute (route_to ''new'')) (sample_gateway_env\<lparr>ge_routes := Inr [route_to ''old'']\<rparr>)
     (sample_gateway_env\<lparr>ge_routes := Inr [route_to ''new'']\<rparr>)
   \<and> gateway_reconcile (sample_gateway_env\<lparr>ge_routes := Inr [route_to ''new'']\<rparr>) sample_gw
     = gateway_reconcile (sample_gateway_env\<lparr>ge_routes := Inr [route_to ''old'']\<rparr>) sample_gw"
proof -
  let ?e = "sample_gateway_env\<lparr>ge_routes := Inr [route_to ''old'']\<rparr>" and ?e' = "sample_gateway_env\<lparr>ge_routes := Inr [route_to ''new'']\<rparr>"
  have ns: "meta_namespace (rt_meta (route_to n)) = meta_namespace (rt_meta (route_to m))" for n m by (simp add: route_to_def)
  have c: "gateway_change sample_gw (OfRoute (route_to ''new'')) ?e ?e'"
    using route_edited [of ?e "[]" "route_to ''old''" "[]" "route_to ''new''" sample_gw, OF _ ns] by simp
  have other: "\<not> route_names api sample_gw (route_to n)" if "n \<noteq> ''gw''" for api n
    using that by (simp add: route_names_def route_to_def sample_gw_sel default_meta_def name_any_def)
  have "\<not> leaves_gateway sample_gw (OfRoute (route_to ''new'')) ?e ?e'"
    using other by (auto simp: leaves_gateway_def Cons_eq_append_conv)
  moreover have "wi_watches (run_gateway (ge_api ?e) None [sample_gw]) \<in> gateway_wirings (ge_api ?e) None sample_gw"
    by (auto simp: gateway_wirings_def)
  moreover have "gateway_ref_of sample_gw \<notin> set (wi_watches (run_gateway (ge_api ?e) None [sample_gw]) (OfRoute (route_to ''new'')))"
    using mapped_route [of sample_gw "[sample_gw]"] other by (simp add: run_gateway_def)
  ultimately have "unreported_history (\<lambda>ch e e'. gateway_change sample_gw ch e e' \<and> \<not> leaves_gateway sample_gw ch e e')
      (gateway_wirings (ge_api ?e) None sample_gw) (gateway_ref_of sample_gw) ?e ?e'"
    using c by (blast intro: unreported_history.intros)
  from unreported_gateway_same [OF this] c show ?thesis by blast
qed

text \<open>A route that moves to another gateway is reported for the new gateway only: the old one keeps
  the access rule until its next resync. The same holds for a server that moves or stops federating.\<close>

lemma moved_route_unseen:
  defines "r \<equiv> sample_route ''t'' ''a''" and "gw \<equiv> plain_gateway ''gw''"
  defines "moved \<equiv> r\<lparr>rt_spec := (rt_spec r)\<lparr>rt_gateway_ref := ''other''\<rparr>\<rparr>"
  shows "wi_watches (run_gateway sample_api None [gw]) (OfRoute moved) = []"
    and "merge_routes sample_api (Inr [moved]) gw ''team'' (JObj []) \<noteq> merge_routes sample_api (Inr [r]) gw ''team'' (JObj [])"
  unfolding assms by code_simp+


lemma unfederated_server_unseen:
  "sv_federate (sv_spec v) = None \<Longrightarrow> wi_watches (run_gateway api watch_namespace store) (OfServer v) = []"
  by (simp add: run_gateway_def map_server_to_gateways_def split: option.splits)

section \<open>Plugin sets, mirrors, clusters\<close>

text \<open>\<open>relisted f old new xs ys\<close>: the list \<open>ys\<close> is \<open>xs\<close> with one object added, deleted, or edited
  without a change of \<open>f\<close>.\<close>

inductive relisted :: "('a \<Rightarrow> 'b) \<Rightarrow> 'a \<Rightarrow> 'a list \<Rightarrow> 'a list \<Rightarrow> bool" for f x where
  "relisted f x (xs @ ys) (xs @ x # ys)"
| "relisted f x (xs @ x # ys) (xs @ ys)"
| "f old = f x \<Longrightarrow> relisted f x (xs @ old # ys) (xs @ x # ys)"

lemma relisted_filter:
  assumes "relisted f x xs ys" and "f x \<noteq> k"
  shows "filter (\<lambda>x. f x = k) xs = filter (\<lambda>x. f x = k) ys"
  using assms by cases auto

inductive set_change :: "plugin_set \<Rightarrow> watched \<Rightarrow> set_env \<Rightarrow> set_env \<Rightarrow> bool" for s where
  "meta_name (pl_meta p) = Some n \<Longrightarrow> found \<in> {Some p, None}
    \<Longrightarrow> set_change s (OfPlugin p) env (env\<lparr>sn_plugin := (sn_plugin env)(n := Inr found)\<rparr>)"

inductive mirror_change :: "plugin_mirror \<Rightarrow> watched \<Rightarrow> mirror_env \<Rightarrow> mirror_env \<Rightarrow> bool" for m where
  "mn_plugins env = Inr ps \<Longrightarrow> relisted (\<lambda>p. mirror_ref (p_oci (pl_spec p))) p ps qs
    \<Longrightarrow> mirror_change m (OfPlugin p) env (env\<lparr>mn_plugins := Inr qs\<rparr>)"

inductive cluster_change :: "cluster \<Rightarrow> watched \<Rightarrow> cluster_env \<Rightarrow> cluster_env \<Rightarrow> bool" for c where
  "cn_gateways env = Inr gs \<Longrightarrow> relisted (\<lambda>g. gw_cluster_ref (gw_spec g)) g gs hs
    \<Longrightarrow> cluster_change c (OfGateway g) env (env\<lparr>cn_gateways := Inr hs\<rparr>)"

lemma resolve_entries_same:
  assumes "\<And>e. e \<in> set es \<Longrightarrow> sn_plugin env' (entry_plugin_ref e) = sn_plugin env (entry_plugin_ref e)"
  shows "resolve_entries env' es = resolve_entries env es"
  using assms by (induction es) (auto split: prod.splits)

lemma copy_secrets_plugins: "copy_secrets (env\<lparr>sn_plugin := f\<rparr>) obj ns rs = copy_secrets env obj ns rs"
  by (induction rs) (auto split: sum.splits option.splits)

interpretation set_watch: watched_reconciler set_reconcile set_change
  "\<lambda>s. {wi_watches (run_plugin_set watch_namespace store) | store. s \<in> set store}"
  "\<lambda>s. (meta_namespace (set_meta s), name_any (set_meta s))" for watch_namespace
proof
  fix s ch env env' and w :: "watched \<Rightarrow> object_ref list"
  assume "set_change s ch env env'" and "w \<in> {wi_watches (run_plugin_set watch_namespace store) | store. s \<in> set store}"
    and un: "(meta_namespace (set_meta s), name_any (set_meta s)) \<notin> set (w ch)"
  then obtain p n found store where ch: "ch = OfPlugin p" "env' = env\<lparr>sn_plugin := (sn_plugin env)(n := Inr found)\<rparr>"
    and "meta_name (pl_meta p) = Some n" "s \<in> set store" "w = wi_watches (run_plugin_set watch_namespace store)"
    by (auto elim: set_change.cases)
  with un have "\<not> plugin_set_references s n" by (auto simp: run_plugin_set_def map_plugin_to_plugin_sets_def)
  then have "resolve_entries env' (set_entries (set_spec s)) = resolve_entries env (set_entries (set_spec s))"
    by (intro resolve_entries_same) (auto simp: ch(2) plugin_set_references_def list_ex_iff)
  moreover have "set_materialise env' s ns rs = set_materialise env s ns rs" "set_status_of env' s rs fs = set_status_of env s rs fs" for ns rs fs
    by (simp_all add: ch(2) set_materialise_def set_status_of_def set_final_conditions_def render_resolved_set_def
        copy_secrets_plugins Let_def)
  ultimately have "set_body env' s name ns = set_body env s name ns" for name ns
    unfolding set_body_def by (simp add: ch(2))
  then show "set_reconcile env' s = set_reconcile env s"
    by (simp add: set_reconcile_def set_reconcile_inner_def ch(2) cong: option.case_cong)
qed

interpretation mirror_watch: watched_reconciler mirror_reconcile mirror_change
  "\<lambda>_. {wi_watches run_plugin_mirror}" "\<lambda>m. name_any (pm_meta m)"
proof
  fix m ch env env' and w :: "watched \<Rightarrow> string list"
  assume "mirror_change m ch env env'" and "w \<in> {wi_watches run_plugin_mirror}" and un: "name_any (pm_meta m) \<notin> set (w ch)"
  then obtain p ps qs where ch: "ch = OfPlugin p" "env' = env\<lparr>mn_plugins := Inr qs\<rparr>" "mn_plugins env = Inr ps"
    and re: "relisted (\<lambda>p. mirror_ref (p_oci (pl_spec p))) p ps qs" and w: "w = wi_watches run_plugin_mirror"
    by (auto elim: mirror_change.cases)
  have "mirror_ref (p_oci (pl_spec p)) \<noteq> Some (name_any (pm_meta m))"
    using un by (auto simp: ch(1) w run_plugin_mirror_def map_plugin_to_mirrors_def)
  note same = relisted_filter [OF re this]
  have "count_proxied_plugins (Inr qs) name = count_proxied_plugins (Inr ps) name" if "meta_name (pm_meta m) = Some name" for name
    using same that by (simp add: count_proxied_plugins_def name_any_def map_err_def bindE_def)
  moreover have "mirror_status_of env' m r n = mirror_status_of env m r n" for r n by (simp add: mirror_status_of_def ch(2))
  ultimately have "mirror_body env' m name = mirror_body env m name" if "meta_name (pm_meta m) = Some name" for name
    using that by (simp add: mirror_body_def ch(2,3))
  then show "mirror_reconcile env' m = mirror_reconcile env m"
    by (cases "meta_name (pm_meta m)") (simp_all add: mirror_reconcile_def mirror_reconcile_inner_def ch(2))
qed

lemma recount_sel [simp]:
  "cn_api (env\<lparr>cn_gateways := g\<rparr>) = cn_api env"
  "cn_remove_get (env\<lparr>cn_gateways := g\<rparr>) = cn_remove_get env"
  "cn_remove_patch (env\<lparr>cn_gateways := g\<rparr>) = cn_remove_patch env"
  "cn_finalizer (env\<lparr>cn_gateways := g\<rparr>) = cn_finalizer env"
  "cn_status (env\<lparr>cn_gateways := g\<rparr>) = cn_status env"
  "cn_secret (env\<lparr>cn_gateways := g\<rparr>) = cn_secret env"
  "cn_plugin (env\<lparr>cn_gateways := g\<rparr>) = cn_plugin env"
  "cn_apply (env\<lparr>cn_gateways := g\<rparr>) = cn_apply env"
  "cn_ready_replicas (env\<lparr>cn_gateways := g\<rparr>) = cn_ready_replicas env"
  "cn_fill (env\<lparr>cn_gateways := g\<rparr>) = cn_fill env"
  "cn_base64 (env\<lparr>cn_gateways := g\<rparr>) = cn_base64 env"
  "cn_print_json (env\<lparr>cn_gateways := g\<rparr>) = cn_print_json env"
  "cn_sha256_hex (env\<lparr>cn_gateways := g\<rparr>) = cn_sha256_hex env"
  "cn_pod_dns_config (env\<lparr>cn_gateways := g\<rparr>) = cn_pod_dns_config env"
  "cn_set_condition (env\<lparr>cn_gateways := g\<rparr>) = cn_set_condition env"
  "cn_resync_secs (env\<lparr>cn_gateways := g\<rparr>) = cn_resync_secs env"
  "cn_random (env\<lparr>cn_gateways := g\<rparr>) = cn_random env"
  by simp_all

lemma recount_steps:
  "cluster_managed (env\<lparr>cn_gateways := g\<rparr>) = cluster_managed env"
  "classify_readiness (env\<lparr>cn_gateways := g\<rparr>) = classify_readiness env"
  "cluster_status_of (env\<lparr>cn_gateways := g\<rparr>) = cluster_status_of env"
  "cluster_cleanup (env\<lparr>cn_gateways := g\<rparr>) = cluster_cleanup env"
  unfolding fun_eq_iff cluster_managed_def reconcile_managed_def managed_certificate_def ensure_coordination_secret_def
    cluster_apply_def managed_ca_def managed_statefulset_def merge_coordination_data_def gen_url_safe_key_def
    coordination_secret_def classify_readiness_def cluster_status_of_def cluster_cleanup_def recount_sel
  by (intro conjI allI refl)+

interpretation cluster_watch: watched_reconciler cluster_reconcile cluster_change
  "\<lambda>_. {wi_watches run_cluster}" "\<lambda>c. name_any (cl_meta c)"
proof
  fix c ch env env' and w :: "watched \<Rightarrow> string list"
  assume "cluster_change c ch env env'" and "w \<in> {wi_watches run_cluster}" and un: "name_any (cl_meta c) \<notin> set (w ch)"
  then obtain g gs hs where ch: "ch = OfGateway g" "env' = env\<lparr>cn_gateways := Inr hs\<rparr>" "cn_gateways env = Inr gs"
    and re: "relisted (\<lambda>g. gw_cluster_ref (gw_spec g)) g gs hs" and w: "w = wi_watches run_cluster"
    by (auto elim: cluster_change.cases)
  have "gw_cluster_ref (gw_spec g) \<noteq> Some (name_any (cl_meta c))"
    using un by (auto simp: ch(1) w run_cluster_def map_gateway_to_clusters_def)
  note same = relisted_filter [OF re this]
  have "count_bound_gateways (Inr hs) name = count_bound_gateways (Inr gs) name" if "meta_name (cl_meta c) = Some name" for name
    using same that by (simp add: count_bound_gateways_def name_any_def map_err_def bindE_def)
  moreover have "cn_gateways env' = Inr hs" by (simp add: ch(2))
  ultimately have "cluster_body env' c name = cluster_body env c name" if "meta_name (cl_meta c) = Some name" for name
    unfolding cluster_body_def ch(3) using that by (simp add: ch(2) recount_steps cong: if_cong)
  then show "cluster_reconcile env' c = cluster_reconcile env c"
    by (cases "meta_name (cl_meta c)") (simp_all add: cluster_reconcile_def cluster_reconcile_inner_def ch(2) recount_steps)
qed


text \<open>A cluster that pins a plugin of another name does not hear of the plugin, and a cluster does
  not hear of a gateway that stops naming it: its verdict and its count wait for the next resync.\<close>

lemma cluster_unseen:
  "gw_cluster_ref (gw_spec gw) = None \<Longrightarrow> wi_watches run_cluster (OfGateway gw) = []"
  "name_any (pl_meta p) \<noteq> n \<Longrightarrow> n \<notin> set (wi_watches run_cluster (OfPlugin p))"
  by (simp_all add: run_cluster_def map_gateway_to_clusters_def map_plugin_to_clusters_def)

end
