(* ===== verification/Telemetry.thy ===== *)
theory Telemetry
  imports Triggers Plugin PluginSet
begin

text \<open>
  What the operator tells the metrics library (\<open>telemetry.rs\<close>): the calls that stand behind the
  observations of the controllers, and how often a reconcile is counted. The instruments themselves
  belong to the library; a model of a run of the operator is the list of the calls it makes.
\<close>

section \<open>Calls of the metrics library\<close>

datatype metric_call =
    IncReconcile string string
  | ObserveReconcileDuration string real
  | SetLastReconcile string int
  | IncDependencyUnresolved string string string
  | SetLeaderElected string int
  | IncOciPull string
  | ObserveOciPullDuration real

fun as_str :: "reconcile_outcome \<Rightarrow> string" where
  "as_str Success = ''success''"
| "as_str TransientError = ''transient_error''"
| "as_str PermanentError = ''permanent_error''"
| "as_str DependencyPending = ''dependency_pending''"

text \<open>The seconds since the epoch, \<open>None\<close> for a clock before it; \<open>as i64\<close> keeps the bits.\<close>

definition unix_timestamp :: "u64 option \<Rightarrow> int" where
  "unix_timestamp now = (case now of Some s \<Rightarrow> sint s | None \<Rightarrow> 0)"

definition observe_reconcile :: "u64 option \<Rightarrow> string \<Rightarrow> reconcile_outcome \<Rightarrow> real \<Rightarrow> metric_call list" where
  "observe_reconcile now controller outc duration_seconds =
     [IncReconcile controller (as_str outc), ObserveReconcileDuration controller duration_seconds,
      SetLastReconcile controller (unix_timestamp now)]"

definition observe_dependency_unresolved :: "string \<Rightarrow> string \<Rightarrow> string \<Rightarrow> metric_call list" where
  "observe_dependency_unresolved controller dependency reason = [IncDependencyUnresolved controller dependency reason]"

definition set_leader_elected :: "string \<Rightarrow> bool \<Rightarrow> metric_call list" where
  "set_leader_elected lease elected = [SetLeaderElected lease (if elected then 1 else 0)]"

definition observe_oci_pull :: "string \<Rightarrow> real \<Rightarrow> metric_call list" where
  "observe_oci_pull outc duration_seconds = [IncOciPull outc, ObserveOciPullDuration duration_seconds]"

section \<open>Registration\<close>

text \<open>Name and unit of every metric, in the order of registration, under the prefix of the registry.
  The histograms start at a first bound and grow by a factor, for a number of buckets.\<close>

definition registry_prefix :: string where "registry_prefix = ''mcpg_operator''"

definition operator_metrics_new :: "(string \<times> string option) list" where
  "operator_metrics_new =
     [(''reconcile'', None), (''reconcile_duration'', Some ''Seconds''), (''dependency_unresolved'', None),
      (''last_reconcile_timestamp'', Some ''Seconds''), (''leader_elected'', None), (''oci_pull'', None),
      (''oci_pull_duration'', Some ''Seconds'')]"

definition reconcile_duration_histogram :: "rat \<times> rat \<times> nat" where
  "reconcile_duration_histogram = (5 / 1000, 2, 12)"

definition oci_pull_duration_histogram :: "rat \<times> rat \<times> nat" where
  "oci_pull_duration_histogram = (5 / 100, 25 / 10, 14)"

section \<open>The calls behind the effects of a controller\<close>

text \<open>\<open>clock\<close> gives the time and the duration a call reads.\<close>

definition metric_calls :: "u64 option \<times> real \<Rightarrow> ('st, 'ob) effect \<Rightarrow> metric_call list" where
  "metric_calls = (\<lambda>(now, d) x. case x of
      ObserveReconcile c o' \<Rightarrow> observe_reconcile now c o' d
    | ObserveDependency c dep reason \<Rightarrow> observe_dependency_unresolved c dep reason
    | ObservePull o' \<Rightarrow> observe_oci_pull o' d
    | _ \<Rightarrow> [])"

fun reconcile_count :: "metric_call \<Rightarrow> (string \<times> string) list" where
  "reconcile_count (IncReconcile c o') = [(c, o')]"
| "reconcile_count _ = []"

definition reconcile_counts :: "(('st, 'ob) effect \<Rightarrow> u64 option \<times> real) \<Rightarrow> ('st, 'ob) effect list \<Rightarrow> (string \<times> string) list" where
  "reconcile_counts clock xs = concat (map (\<lambda>x. concat (map reconcile_count (metric_calls (clock x) x))) xs)"

section \<open>Bodies do not count\<close>

fun measures :: "('st, 'ob) effect \<Rightarrow> bool" where
  "measures (ObserveReconcile _ _) = True"
| "measures _ = False"

definition unmeasured :: "('st, 'ob) effect list \<Rightarrow> bool" where
  "unmeasured xs \<longleftrightarrow> (\<forall>x \<in> set xs. \<not> measures x)"

lemma unmeasured_simps [simp]:
  "unmeasured []" "unmeasured (x # xs) \<longleftrightarrow> \<not> measures x \<and> unmeasured xs" "unmeasured (xs @ ys) \<longleftrightarrow> unmeasured xs \<and> unmeasured ys"
  "unmeasured (map f zs) \<longleftrightarrow> (\<forall>z \<in> set zs. \<not> measures (f z))" "unmeasured (concat xss) \<longleftrightarrow> (\<forall>xs \<in> set xss. unmeasured xs)"
  by (auto simp: unmeasured_def)

named_theorems unmeasured_intros

lemma unmeasured_run [unmeasured_intros]:
  "unmeasured (fst (ret a))" "unmeasured (fst (throw e))" "unmeasured (fst ([], r))"
  "unmeasured xs \<Longrightarrow> unmeasured (fst m) \<Longrightarrow> unmeasured (fst (after xs m))"
  "unmeasured (fst m) \<Longrightarrow> unmeasured (fst (lift_run f m))"
  by (auto simp: run_simps)

lemma unmeasured_bindT [unmeasured_intros]:
  "unmeasured (fst m) \<Longrightarrow> (\<And>a. unmeasured (fst (f a))) \<Longrightarrow> unmeasured (fst (bindT m f))"
  by (auto simp: unmeasured_def bindT_effects)

lemma unmeasured_helpers [unmeasured_intros]:
  "unmeasured (fst (apply_owned a meta ob fm))" "unmeasured (fst (ensure_finalizer a n m fin))"
  "unmeasured (fst (remove_finalizer g p n fin))" "unmeasured (patch_status_logged a1 a2 n st fm)"
  "unmeasured (fst (ensure_tenant_secret_binding b ns ons sa fm))"
  by (auto simp: unmeasured_def patch_status_logged_eff apply_owned_def ensure_tenant_secret_binding_def run_simps
      dest!: ensure_finalizer_eff remove_finalizer_eff split: option.splits sum.splits if_splits)

lemma unmeasured_guarded [unmeasured_intros]:
  "(\<And>n. unmeasured (fst (rel n))) \<Longrightarrow> (\<And>n. unmeasured (fst (ens n))) \<Longrightarrow> unmeasured (fst body)
    \<Longrightarrow> unmeasured (fst (guarded err rel ens m name body))"
  by (auto simp: guarded_def intro!: unmeasured_intros)

lemma reconcile_counts_observed:
  assumes "unmeasured (fst m)"
  shows "reconcile_counts clock (fst (observed c classify m)) = [(c, as_str (classify (snd m)))]"
proof -
  have "reconcile_counts clock xs = []" if "unmeasured xs" for xs
    using that by (induction xs) (auto simp: reconcile_counts_def metric_calls_def observe_dependency_unresolved_def
        observe_oci_pull_def split: effect.splits prod.splits)
  with assms show ?thesis
    by (simp add: reconcile_counts_def observed_def metric_calls_def observe_reconcile_def split: prod.splits)
qed

lemma unmeasured_mirror: "unmeasured (fst (mirror_reconcile_inner env m))"
  by (auto simp: mirror_reconcile_inner_def mirror_body_def Let_def split: option.splits intro!: unmeasured_intros)

lemma unmeasured_route: "unmeasured (fst (route_reconcile_inner env r))"
  by (auto simp: route_reconcile_inner_def route_body_def Let_def split: option.splits intro!: unmeasured_intros)


lemma unmeasured_fan_out: "fan_out env obj r h nss = (xs, k) \<Longrightarrow> unmeasured xs"
  by (induction nss arbitrary: xs k) (auto simp: Let_def split: prod.splits if_splits intro: unmeasured_intros)

lemma unmeasured_revocation: "unmeasured (fst (revocation_reconcile_inner env l))"
  by (auto simp: revocation_reconcile_inner_def revocation_body_def Let_def unmeasured_fan_out split: option.splits prod.splits
      intro!: unmeasured_intros)

lemma unmeasured_bind_namespaces: "unmeasured (fst (bind_namespaces env t q nss))"
  by (induction nss) (auto simp: bind_namespace_def ensure_namespace_label_def ensure_resource_quota_def
      split: sum.splits bool.splits intro!: unmeasured_intros)

lemma unmeasured_tenant: "unmeasured (fst (tenant_reconcile_inner env t))"
  by (auto simp: tenant_reconcile_inner_def tenant_body_def tenant_cleanup_def teardown_namespace_def split: option.splits
      intro!: unmeasured_intros unmeasured_bind_namespaces)

lemma unmeasured_server: "unmeasured (fst (server_reconcile_inner env v))"
  by (auto simp: server_reconcile_inner_def server_body_def apply_workload_def server_binding_def Let_def split: option.splits
      intro!: unmeasured_intros)

lemma unmeasured_cluster: "unmeasured (fst (cluster_reconcile_inner env c))"
  by (auto simp: cluster_reconcile_inner_def cluster_body_def cluster_managed_def reconcile_managed_def
      managed_certificate_def managed_warnings_def emit_warning_def ensure_coordination_secret_def cluster_apply_def
      cluster_cleanup_def prune_managed_children_def Let_def split: option.splits bool.splits
      intro!: unmeasured_intros)

lemma unmeasured_copies: "unmeasured (fst (copy_secrets env obj ns rs))"
  by (induction rs) (auto simp: Let_def split: sum.splits option.splits intro!: unmeasured_intros)

lemma unmeasured_resolving: "unmeasured (fst (resolve_entries env es))"
  by (induction es) (auto split: prod.splits sum.splits)

lemma unmeasured_set: "unmeasured (fst (set_reconcile_inner env s))"
  using unmeasured_resolving [of env "set_entries (set_spec s)"]
  by (auto simp: set_reconcile_inner_def set_body_def set_materialise_def prune_stale_secrets_def Let_def
      split: option.splits prod.splits sum.splits intro!: unmeasured_intros unmeasured_copies)


lemma unmeasured_body [unmeasured_intros]:
  "unmeasured (fst m) \<Longrightarrow> unmeasured (fst (return_run m))" "unmeasured (fst k) \<Longrightarrow> unmeasured (fst (run_body k))"
  by (simp_all add: run_simps)

lemma unmeasured_records [unmeasured_intros]:
  "unmeasured (plugin_patch a obj st)" "unmeasured (record_pulling env obj gen)"
  "unmeasured (fst (record_mirror_failure env obj gen))" "unmeasured (fst (record_pull_failure env obj gen))"
  "unmeasured (fst (record_verify_failure env obj gen d))" "unmeasured (fst (record_revoked env obj gen d sha))"
  by (auto simp: plugin_patch_def record_pulling_def record_mirror_failure_def record_pull_failure_def
      record_verify_failure_def record_revoked_def Let_def intro!: unmeasured_intros)


lemma unmeasured_pull: "pull_and_unpack env spec options = (eff, r) \<Longrightarrow> unmeasured eff"
  unfolding pull_and_unpack_def resolve_reference_def Let_def
  by (drule arg_cong [of _ _ "unmeasured \<circ> fst"], simp add: run_simps)
    (auto simp: bindT_def run_simps split: sum.splits option.splits pull_reply.splits if_splits)

lemma unmeasured_plugin_steps [unmeasured_intros]:
  "unmeasured (fst (resolve_pull_target env up gen p))" "unmeasured (fst (plugin_pull_step env p gen t))"
  "unmeasured (fst (plugin_verify_step env p gen art))" "unmeasured (fst (plugin_cosign_step env p gen art))"
  "unmeasured (fst (plugin_slsa_step env p gen art sha))" "unmeasured (fst (plugin_materialise env p name gen art vr c s))"
  by (auto simp: resolve_pull_target_def plugin_pull_step_def plugin_verify_step_def plugin_cosign_step_def
      plugin_slsa_step_def plugin_materialise_def question_def unmeasured_pull
      split: option.splits sum.splits prod.splits verify_error.splits intro!: unmeasured_intros)

lemma unmeasured_plugin: "unmeasured (fst (plugin_reconcile_inner env p))"
  by (auto simp: plugin_reconcile_inner_def plugin_body_def Let_def split: option.splits intro!: unmeasured_intros)

lemma unmeasured_gateway_children: "unmeasured (fst (apply_children env obs))"
  by (induction obs) (auto simp: apply_child_def intro!: unmeasured_intros)

lemma unmeasured_edge: "unmeasured (certificate_deletes env uid w)" "unmeasured (cleanup_edge_domains env obj)"
  "unmeasured (fst (reconcile_edge_domains env obj))"
  by (auto simp: certificate_deletes_def cleanup_edge_domains_def reconcile_edge_domains_def Let_def
      split: sum.splits option.splits intro!: unmeasured_intros unmeasured_gateway_children)

lemma unmeasured_gateway_apply: "unmeasured (fst (gateway_apply env obj ns cm dep cl))"
  by (auto simp: gateway_apply_def apply_coordination_def pdb_step_def apply_child_def unmeasured_edge split: option.splits
      intro!: unmeasured_intros unmeasured_gateway_children)


lemma unmeasured_gateway_steps [unmeasured_intros]:
  "unmeasured (fst (gateway_hold env gw ns name c))" "unmeasured (fst (gateway_finish env gw ns name h pset rl cl al))"
  "unmeasured (fst (gateway_render_apply env gw ns name pset rl cl))" "unmeasured (fst (resolve_revocation_list env gw))"
  by (auto simp: gateway_hold_def gateway_finish_def gateway_render_apply_def resolve_revocation_list_def Let_def
      split: option.splits sum.splits prod.splits intro!: unmeasured_intros unmeasured_gateway_apply)

lemma unmeasured_gateway: "unmeasured (fst (gateway_reconcile_inner env gw))"
  by (auto simp: gateway_reconcile_inner_def gateway_body_def unmeasured_edge split: option.splits sum.splits
      intro!: unmeasured_intros)


section \<open>Outcomes\<close>

text \<open>A body that returns reports a success or a pending dependency.\<close>

definition settled :: "('st, 'ob, 'e, reconcile_action \<times> reconcile_outcome) ctl \<Rightarrow> bool" where
  "settled m \<longleftrightarrow> (\<forall>a o'. snd m = Inr (a, o') \<longrightarrow> o' \<in> {Success, DependencyPending})"

named_theorems settled_intros

lemma settled_run [settled_intros]:
  "settled (throw e)" "settled m \<Longrightarrow> settled (after xs m)" "(\<And>a. settled (f a)) \<Longrightarrow> settled (bindT k f)"
  "settled body \<Longrightarrow> settled (guarded err rel ens mt name body)"
  by (auto simp: settled_def guarded_def run_simps split: sum.splits)

lemma settled_ret [simp]: "settled (ret (a, o')) \<longleftrightarrow> o' = Success \<or> o' = DependencyPending"
  by (auto simp: settled_def run_simps)

lemma settled_gateway_steps [settled_intros]:
  "settled (gateway_hold env gw ns name c)" "settled (gateway_finish env gw ns name h pset rl cl al)"
  "settled (gateway_render_apply env gw ns name pset rl cl)"
  by (auto simp: gateway_hold_def gateway_finish_def gateway_render_apply_def split: option.splits prod.splits
      intro!: settled_intros)

lemma settled_gateway: "settled (gateway_reconcile_inner env gw)"
  by (auto simp: gateway_reconcile_inner_def gateway_body_def split: option.splits sum.splits intro!: settled_intros)

lemma settled_set: "settled (set_reconcile_inner env s)"
  by (auto simp: set_reconcile_inner_def set_body_def Let_def split: option.splits prod.splits intro!: settled_intros)

lemma settled_mirror: "settled (mirror_reconcile_inner env m)"
  by (auto simp: mirror_reconcile_inner_def mirror_body_def Let_def split: option.splits intro!: settled_intros)

lemma settled_revocation: "settled (revocation_reconcile_inner env l)"
  by (auto simp: revocation_reconcile_inner_def revocation_body_def Let_def split: option.splits prod.splits intro!: settled_intros)

lemma settled_route: "settled (route_reconcile_inner env r)"
  by (auto simp: route_reconcile_inner_def route_body_def Let_def split: option.splits intro!: settled_intros)

lemma settled_server: "settled (server_reconcile_inner env v)"
  by (auto simp: server_reconcile_inner_def server_body_def Let_def split: option.splits intro!: settled_intros)

lemma settled_tenant: "settled (tenant_reconcile_inner env t)"
  by (auto simp: tenant_reconcile_inner_def tenant_body_def split: option.splits intro!: settled_intros)

lemma settled_cluster: "settled (cluster_reconcile_inner env c)"
  by (auto simp: cluster_reconcile_inner_def cluster_body_def split: option.splits intro!: settled_intros)

text \<open>\<open>counted_once c r\<close>: whatever the clock says, the calls behind the run \<open>r\<close> count one reconcile of
  the controller \<open>c\<close>, under an error label if the run ended with an error.\<close>

definition counted_once :: "string \<Rightarrow> ('st, 'ob, 'e, 'a) ctl \<Rightarrow> bool" where
  "counted_once c r \<longleftrightarrow> (\<forall>clock. \<exists>o'. reconcile_counts clock (fst r) = [(c, as_str o')]
     \<and> (isl (snd r) \<longrightarrow> o' = TransientError \<or> o' = PermanentError))"

definition errors_exact :: "string \<Rightarrow> ('st, 'ob, 'e, 'a) ctl \<Rightarrow> bool" where
  "errors_exact c r \<longleftrightarrow> (\<forall>clock. \<exists>o'. reconcile_counts clock (fst r) = [(c, as_str o')]
     \<and> (isl (snd r) \<longleftrightarrow> o' = TransientError \<or> o' = PermanentError))"

lemma observed_exact:
  assumes "unmeasured (fst m)" and "settled m" and "\<And>a o'. classify (Inr (a, o')) = o'"
    and "\<And>e. classify (Inl e) = TransientError \<or> classify (Inl e) = PermanentError"
  shows "errors_exact c (observed c classify m)"
proof -
  have "isl (snd (observed c classify m)) \<longleftrightarrow> classify (snd m) = TransientError \<or> classify (snd m) = PermanentError"
    using assms(2-4) by (cases "snd m") (auto simp: observed_def settled_def)
  then show ?thesis using reconcile_counts_observed [OF assms(1)] by (auto simp: errors_exact_def)
qed

lemma observed_counted:
  assumes "unmeasured (fst m)" and "\<And>e. classify (Inl e) = TransientError \<or> classify (Inl e) = PermanentError"
  shows "counted_once c (observed c classify m)"
proof -
  have "isl (snd (observed c classify m)) \<Longrightarrow> classify (snd m) = TransientError \<or> classify (snd m) = PermanentError"
    using assms(2) by (cases "snd m") (auto simp: observed_def)
  then show ?thesis using reconcile_counts_observed [OF assms(1)] by (auto simp: counted_once_def)
qed

text \<open>Every reconcile of every controller is counted exactly once, under the name of its controller
  and, except for the plugin controller, under an error label exactly when it ended with an error.
  The plugin controller reports a failed pull or verification as an error and returns normally.\<close>

theorem reconcile_counted_once:
  "counted_once ''plugin'' (plugin_reconcile penv p) \<and> errors_exact ''gateway'' (gateway_reconcile genv gw)
    \<and> errors_exact ''plugin-set'' (set_reconcile senv s) \<and> errors_exact ''plugin-mirror'' (mirror_reconcile menv m)
    \<and> errors_exact ''revocation-list'' (revocation_reconcile renv l) \<and> errors_exact ''route'' (route_reconcile tenv r)
    \<and> errors_exact ''server'' (server_reconcile venv v) \<and> errors_exact ''tenant'' (tenant_reconcile nenv t)
    \<and> errors_exact ''cluster'' (cluster_reconcile cenv c)"
proof (intro conjI)
  have "plugin_classify_outcome (Inl e) = TransientError \<or> plugin_classify_outcome (Inl e) = PermanentError" for e
    by (cases e) (simp_all add: plugin_classify_outcome_def)
  then show "counted_once ''plugin'' (plugin_reconcile penv p)"
    unfolding plugin_reconcile_def by (rule observed_counted [OF unmeasured_plugin])
qed (unfold gateway_reconcile_def set_reconcile_def mirror_reconcile_def revocation_reconcile_def route_reconcile_def
    server_reconcile_def tenant_reconcile_def cluster_reconcile_def,
    (rule observed_exact, (rule unmeasured_gateway unmeasured_set unmeasured_mirror unmeasured_revocation unmeasured_route
      unmeasured_server unmeasured_tenant unmeasured_cluster), (rule settled_gateway settled_set settled_mirror
      settled_revocation settled_route settled_server settled_tenant settled_cluster), simp, simp)+)

end
