(* ===== verification/FleetAgent.thy ===== *)
theory FleetAgent
  imports Kube Decimal "HOL-Library.Log_Nat"
begin

text \<open>
  The agent of a pull cell (\<open>src/src/fleet_agent.rs\<close>): it applies the objects the fleet assigns,
  deletes instances and namespaces, observes the capacity of the cell, reads its token and keeps
  its channel connected.

  Parameters are the JSON parser, kind parsing and discovery of the client library, the answers of
  the API server, and the fleet library's names of an instance's Secrets. Numbers are parsed as the
  standard library parses an \<open>f64\<close>, and every value is rounded to one.
\<close>

section \<open>Quantities\<close>

datatype f64 = Fin rat | Inf bool | NaN

text \<open>\<open>as i64\<close> truncates and saturates.\<close>

definition f64_to_i64 :: "f64 \<Rightarrow> int" where
  "f64_to_i64 v =
     (case v of
        Fin x \<Rightarrow> max (- (2 ^ 63)) (min (2 ^ 63 - 1) (if 0 \<le> x then floor x else ceiling x))
      | Inf neg \<Rightarrow> if neg then - (2 ^ 63) else 2 ^ 63 - 1
      | NaN \<Rightarrow> 0)"

text \<open>The \<open>f64\<close> nearest to a number, ties to even: 53 bits of significand, the smallest unit \<open>2\<^sup>-\<^sup>1\<^sup>0\<^sup>7\<^sup>4\<close>, and
  infinity from \<open>2\<^sup>1\<^sup>0\<^sup>2\<^sup>4\<close> on. The sign of a zero does not matter here.\<close>

definition power_of_two :: "int \<Rightarrow> rat" where
  "power_of_two e = (if 0 \<le> e then 2 ^ nat e else 1 / 2 ^ nat (- e))"

definition round_half_even :: "rat \<Rightarrow> int" where
  "round_half_even q =
     (let f = floor q; r = q - of_int f
      in if r < 1 / 2 \<or> (r = 1 / 2 \<and> even f) then f else f + 1)"

definition round_f64 :: "rat \<Rightarrow> f64" where
  "round_f64 x =
     (if x = 0 then Fin 0
      else let (n, d) = quotient_of \<bar>x\<bar>;
               k = bitlen n - bitlen d;
               e = max (- 1074) (if \<bar>x\<bar> < power_of_two k then k - 53 else k - 52);
               y = of_int (round_half_even (\<bar>x\<bar> / power_of_two e)) * power_of_two e
           in if 2 ^ 1024 \<le> y then Inf (x < 0) else Fin (if x < 0 then - y else y))"

definition f64_times :: "f64 \<Rightarrow> int \<Rightarrow> f64" where
  "f64_times v k = (case v of Fin x \<Rightarrow> round_f64 (x * of_int k) | w \<Rightarrow> w)"

definition span_digits :: "string \<Rightarrow> string \<times> string" where
  "span_digits s = (takeWhile is_ascii_digit s, dropWhile is_ascii_digit s)"

definition split_sign :: "string \<Rightarrow> bool \<times> string" where
  "split_sign s =
     (case s of
        c # u \<Rightarrow> if c = CHR ''-'' then (True, u) else if c = CHR ''+'' then (False, u) else (False, s)
      | [] \<Rightarrow> (False, s))"

text \<open>The exponent of a number: nothing, or \<open>e\<close> with an optional sign and digits to the end.\<close>

definition parse_exponent :: "string \<Rightarrow> int option" where
  "parse_exponent s =
     (case s of
        [] \<Rightarrow> Some 0
      | c # t \<Rightarrow>
          if c \<noteq> CHR ''e'' \<and> c \<noteq> CHR ''E'' then None
          else let (neg, ds) = split_sign t
               in if ds \<noteq> [] \<and> list_all is_ascii_digit ds
                  then Some (if neg then - int (dec_value ds) else int (dec_value ds)) else None)"

definition parse_number :: "string \<Rightarrow> rat option" where
  "parse_number s =
     (let (whole, r) = span_digits s;
          (frac, r) = (case r of CHR ''.'' # t \<Rightarrow> span_digits t | _ \<Rightarrow> ([], r))
      in if whole = [] \<and> frac = [] then None
         else case parse_exponent r of
           None \<Rightarrow> None
         | Some e \<Rightarrow>
             let k = e - int (length frac); digits = rat_of_nat (dec_value (whole @ frac))
             in Some (if 0 \<le> k then digits * 10 ^ nat k else digits / 10 ^ nat (- k)))"

definition parse_f64 :: "string \<Rightarrow> f64 option" where
  "parse_f64 s =
     (let (neg, t) = split_sign s
      in if eq_ignore_ascii_case t ''inf'' \<or> eq_ignore_ascii_case t ''infinity'' then Some (Inf neg)
         else if eq_ignore_ascii_case t ''nan'' then Some NaN
         else map_option (\<lambda>x. round_f64 (if neg then - x else x)) (parse_number t))"

definition parse_or_zero :: "(f64 \<Rightarrow> f64) \<Rightarrow> string \<Rightarrow> int" where
  "parse_or_zero f s = (case parse_f64 s of Some v \<Rightarrow> f64_to_i64 (f v) | None \<Rightarrow> 0)"

definition parse_cpu_millicores :: "string \<Rightarrow> int" where
  "parse_cpu_millicores q0 =
     (let q = trim q0
      in case strip_suffix ''m'' q of
           Some m \<Rightarrow> parse_or_zero (\<lambda>v. v) m
         | None \<Rightarrow> parse_or_zero (\<lambda>v. f64_times v 1000) q)"

definition UNITS :: "(string \<times> int) list" where
  "UNITS = [(''Ki'', 2 ^ 10), (''Mi'', 2 ^ 20), (''Gi'', 2 ^ 30), (''Ti'', 2 ^ 40), (''Pi'', 2 ^ 50),
     (''k'', 1000), (''K'', 1000), (''M'', 1000000), (''G'', 1000000000), (''T'', 1000000000000)]"

text \<open>The loop over \<open>UNITS\<close>: the first suffix that fits decides.\<close>

fun parse_with_units :: "(string \<times> int) list \<Rightarrow> string \<Rightarrow> int" where
  "parse_with_units [] q = parse_or_zero (\<lambda>v. v) q"
| "parse_with_units ((sfx, mult) # units) q =
     (case strip_suffix sfx q of
        Some v \<Rightarrow> parse_or_zero (\<lambda>n. f64_times n mult) v
      | None \<Rightarrow> parse_with_units units q)"

definition parse_memory_bytes :: "string \<Rightarrow> int" where
  "parse_memory_bytes q = parse_with_units UNITS (trim q)"

section \<open>Applying an assignment\<close>

datatype scope = Namespaced | ClusterScope

datatype api_handle = NamespacedApi string | DefaultNamespacedApi | ClusterApi

record dyn_object =
  dy_types :: "(string \<times> string) option"
  dy_meta :: object_meta
  dy_data :: json

datatype fleet_error =
    BadJson nat
  | NoName nat
  | NoTypes
  | BadTypes
  | DiscoveryFailed kube_error
  | NoResource string
  | FleetApply string kube_error
  | FleetDelete string kube_error
  | FleetList kube_error

text \<open>\<open>fe_gvk\<close> reads group, version and kind; \<open>fe_discover n\<close> is the answer to the \<open>n\<close>-th discovery
  run of this agent, which maps a kind to its scope.\<close>

record fleet_env =
  fe_parse :: "string \<Rightarrow> dyn_object option"
  fe_gvk :: "string \<times> string \<Rightarrow> string option"
  fe_discover :: "nat \<Rightarrow> kube_error + (string \<Rightarrow> scope option)"
  fe_patch :: "api_handle \<Rightarrow> string \<Rightarrow> kube_error + unit"

record discovery_state =
  ds_cache :: "(string \<Rightarrow> scope option) option"
  ds_runs :: nat

definition scoped_api :: "scope \<Rightarrow> string option \<Rightarrow> api_handle" where
  "scoped_api sc ns =
     (case (sc, ns) of
        (Namespaced, Some n) \<Rightarrow> NamespacedApi n
      | (Namespaced, None) \<Rightarrow> DefaultNamespacedApi
      | (ClusterScope, _) \<Rightarrow> ClusterApi)"

fun api_attempts ::
  "fleet_env \<Rightarrow> string \<Rightarrow> string option \<Rightarrow> nat list \<Rightarrow> discovery_state \<Rightarrow> (fleet_error + api_handle) \<times> discovery_state" where
  "api_attempts env gvk ns [] st = (Inl (NoResource gvk), st)"
| "api_attempts env gvk ns (attempt # rest) st =
     (let fresh = (ds_cache st = None \<or> attempt = 1)
      in case (if fresh then fe_discover env (ds_runs st) else Inr (the (ds_cache st))) of
           Inl e \<Rightarrow> (Inl (DiscoveryFailed e), st\<lparr>ds_runs := ds_runs st + 1\<rparr>)
         | Inr d \<Rightarrow>
             let st' = (if fresh then \<lparr>ds_cache = Some d, ds_runs = ds_runs st + 1\<rparr> else st)
             in case d gvk of
                  Some sc \<Rightarrow> (Inr (scoped_api sc ns), st')
                | None \<Rightarrow> api_attempts env gvk ns rest st')"

definition api_for :: "fleet_env \<Rightarrow> dyn_object \<Rightarrow> discovery_state \<Rightarrow> (fleet_error + api_handle) \<times> discovery_state" where
  "api_for env obj st =
     (case dy_types obj of
        None \<Rightarrow> (Inl NoTypes, st)
      | Some t \<Rightarrow>
          (case fe_gvk env t of
             None \<Rightarrow> (Inl BadTypes, st)
           | Some gvk \<Rightarrow> api_attempts env gvk (meta_namespace (dy_meta obj)) [0, 1] st))"

definition pin_namespace :: "string \<Rightarrow> dyn_object \<Rightarrow> dyn_object" where
  "pin_namespace namespace obj =
     (if meta_namespace (dy_meta obj) \<noteq> None
      then obj\<lparr>dy_meta := (dy_meta obj)\<lparr>meta_namespace := Some namespace\<rparr>\<rparr> else obj)"

text \<open>The patches of an assignment, each with the handle it goes through, and the outcome.\<close>

fun fleet_apply_from ::
  "fleet_env \<Rightarrow> string \<Rightarrow> nat \<Rightarrow> string list \<Rightarrow> discovery_state
    \<Rightarrow> (api_handle \<times> dyn_object) list \<times> (fleet_error + unit) \<times> discovery_state" where
  "fleet_apply_from env namespace i [] st = ([], Inr (), st)"
| "fleet_apply_from env namespace i (raw # objects) st =
     (case fe_parse env raw of
        None \<Rightarrow> ([], Inl (BadJson i), st)
      | Some obj0 \<Rightarrow>
          (case meta_name (dy_meta obj0) of
             None \<Rightarrow> ([], Inl (NoName i), st)
           | Some name \<Rightarrow>
               let obj = pin_namespace namespace obj0
               in case api_for env obj st of
                    (Inl e, st') \<Rightarrow> ([], Inl e, st')
                  | (Inr api, st') \<Rightarrow>
                      (case fe_patch env api name of
                         Inl e \<Rightarrow> ([(api, obj)], Inl (FleetApply name e), st')
                       | Inr _ \<Rightarrow>
                           (case fleet_apply_from env namespace (i + 1) objects st' of
                              (effs, r) \<Rightarrow> ((api, obj) # effs, r)))))"

definition fleet_apply ::
  "fleet_env \<Rightarrow> string \<Rightarrow> string list \<Rightarrow> discovery_state
    \<Rightarrow> (api_handle \<times> dyn_object) list \<times> (fleet_error + unit) \<times> discovery_state" where
  "fleet_apply env namespace objects st = fleet_apply_from env namespace 0 objects st"

section \<open>Deleting\<close>

datatype fleet_delete = DelGateway string string | DelSecret string string | DelNamespace string

definition tolerated :: "kube_error \<Rightarrow> bool" where
  "tolerated e = (case e of KubeApi code \<Rightarrow> code = 404 | _ \<Rightarrow> False)"

definition delete_instance ::
  "(string \<Rightarrow> string list) \<Rightarrow> (kube_error + unit) \<Rightarrow> string \<Rightarrow> string \<Rightarrow> fleet_delete list \<times> (fleet_error + unit)" where
  "delete_instance instance_secret_names ans namespace instance_uid =
     (case ans of
        Inl e \<Rightarrow>
          if tolerated e
          then (DelGateway namespace instance_uid # map (DelSecret namespace) (instance_secret_names instance_uid), Inr ())
          else ([DelGateway namespace instance_uid], Inl (FleetDelete instance_uid e))
      | Inr _ \<Rightarrow>
          (DelGateway namespace instance_uid # map (DelSecret namespace) (instance_secret_names instance_uid), Inr ()))"

definition delete_namespace :: "(kube_error + unit) \<Rightarrow> string \<Rightarrow> fleet_delete list \<times> (fleet_error + unit)" where
  "delete_namespace ans namespace =
     ([DelNamespace namespace], case ans of
        Inl e \<Rightarrow> if tolerated e then Inr () else Inl (FleetDelete namespace e) | Inr _ \<Rightarrow> Inr ())"

section \<open>Observing the cell\<close>

record node =
  nd_unschedulable :: "bool option"
  nd_conditions :: "(string \<times> string) list option"
  nd_allocatable :: "str_map option"

record pod =
  pd_phase :: "string option"
  pd_requests :: "str_map option list option"

record cell_observation =
  allocatable_cpu_m :: int
  allocatable_mem_bytes :: int
  requested_cpu_m :: int
  requested_mem_bytes :: int
  gateway_count :: int

text \<open>Addition of two \<open>i64\<close> in a release build, and the cast to \<open>i32\<close>.\<close>

definition wrap :: "nat \<Rightarrow> int \<Rightarrow> int" where
  "wrap w x = (x + 2 ^ (w - 1)) mod 2 ^ w - 2 ^ (w - 1)"

definition node_counts :: "node \<Rightarrow> bool" where
  "node_counts n =
     (let cordoned = (case nd_unschedulable n of Some b \<Rightarrow> b | None \<Rightarrow> False);
          ready = (case nd_conditions n of Some cs \<Rightarrow> list_ex (\<lambda>c. c = (''Ready'', ''True'')) cs | None \<Rightarrow> False)
      in \<not> cordoned \<and> ready)"

definition add_quantities :: "str_map option \<Rightarrow> int \<times> int \<Rightarrow> int \<times> int" where
  "add_quantities m acc =
     (let cpu = (case Option.bind m (\<lambda>m. m ''cpu'') of Some q \<Rightarrow> wrap 64 (fst acc + parse_cpu_millicores q) | None \<Rightarrow> fst acc);
          mem = (case Option.bind m (\<lambda>m. m ''memory'') of Some q \<Rightarrow> wrap 64 (snd acc + parse_memory_bytes q) | None \<Rightarrow> snd acc)
      in (cpu, mem))"

definition observe_nodes :: "node list \<Rightarrow> int \<times> int" where
  "observe_nodes nodes =
     fold (\<lambda>n acc. if \<not> node_counts n then acc else add_quantities (nd_allocatable n) acc) nodes (0, 0)"

definition pod_counts :: "pod \<Rightarrow> bool" where
  "pod_counts p \<longleftrightarrow> pd_phase p \<noteq> Some ''Succeeded'' \<and> pd_phase p \<noteq> Some ''Failed''"

definition observe_pods :: "pod list \<Rightarrow> int \<times> int" where
  "observe_pods pods =
     fold (\<lambda>p acc. if \<not> pod_counts p then acc
       else case pd_requests p of None \<Rightarrow> acc | Some cs \<Rightarrow> fold add_quantities cs acc) pods (0, 0)"

definition observe ::
  "kube_error + node list \<Rightarrow> kube_error + pod list \<Rightarrow> kube_error + nat \<Rightarrow> fleet_error + cell_observation" where
  "observe nodes pods gateways =
     bindE (map_err FleetList nodes) (\<lambda>ns.
     bindE (map_err FleetList pods) (\<lambda>ps.
     Inr \<lparr>allocatable_cpu_m = fst (observe_nodes ns), allocatable_mem_bytes = snd (observe_nodes ns),
       requested_cpu_m = fst (observe_pods ps), requested_mem_bytes = snd (observe_pods ps),
       gateway_count = (case gateways of Inr n \<Rightarrow> wrap 32 (int n) | Inl _ \<Rightarrow> 0)\<rparr>))"

section \<open>Token and channel\<close>

datatype token_error = TokenUnreadable string | TokenFileEmpty string | TokenMissing

definition read_token :: "(string \<Rightarrow> string option) \<Rightarrow> string option \<Rightarrow> string option \<Rightarrow> token_error + string" where
  "read_token read_file inline path =
     (case path of
        Some p \<Rightarrow>
          (case read_file p of
             None \<Rightarrow> Inl (TokenUnreadable p)
           | Some raw \<Rightarrow> let t = trim raw in if t = [] then Inl (TokenFileEmpty p) else Inr t)
      | None \<Rightarrow>
          (case map_option trim inline of
             Some t \<Rightarrow> if t \<noteq> [] then Inr t else Inl TokenMissing
           | None \<Rightarrow> Inl TokenMissing))"

definition RECONNECT_MIN :: nat where "RECONNECT_MIN = 2"
definition RECONNECT_MAX :: nat where "RECONNECT_MAX = 60"

text \<open>One enrolment and one lifetime of the channel. \<open>ae_register\<close> answers the enrolment with the
  credential of the cell and the key that signs its assignments, \<open>ae_verify_key\<close> reads such a key,
  \<open>ae_header_value\<close> says whether a text may be a header value. The message loop of the fleet library
  is the last event.\<close>

record enrolment =
  en_cell_jwt :: string
  en_verify_key :: string

record 'key attach_env =
  ae_connect :: bool
  ae_register :: "enrolment option"
  ae_verify_key :: "string \<Rightarrow> 'key option"
  ae_header_value :: "string \<Rightarrow> bool"
  ae_channel :: bool

datatype 'key attach_event =
    Dial string
  | RegisterCell string
  | OpenChannel string
  | RunLoop 'key nat string

datatype attach_error = DialFailed string | EnrolFailed | BadVerifyKey | BadCredential | ChannelRefused

definition attach_once ::
  "'key attach_env \<Rightarrow> string \<Rightarrow> string \<Rightarrow> string \<Rightarrow> nat \<Rightarrow> ('key attach_event, attach_error, unit) run" where
  "attach_once env endpoint token edge_address heartbeat_every =
     after [Dial endpoint]
       (if \<not> ae_connect env then throw (DialFailed endpoint)
        else after [RegisterCell token]
          (case ae_register env of
             None \<Rightarrow> throw EnrolFailed
           | Some enrolled \<Rightarrow>
               (case ae_verify_key env (en_verify_key enrolled) of
                  None \<Rightarrow> throw BadVerifyKey
                | Some verify_key \<Rightarrow>
                    let bearer = ''Bearer '' @ en_cell_jwt enrolled
                    in if \<not> ae_header_value env bearer then throw BadCredential
                       else after [OpenChannel bearer]
                         (if \<not> ae_channel env then throw ChannelRefused
                          else after [RunLoop verify_key heartbeat_every edge_address] (ret ())))))"

text \<open>The agent accepts messages only with the key of its enrolment, after the channel was opened with
  the credential of the same enrolment.\<close>

lemma loop_only_enrolled:
  assumes "RunLoop key beat edge \<in> set (fst (attach_once env endpoint token edge_address heartbeat_every))"
  shows "\<exists>e. ae_register env = Some e \<and> ae_verify_key env (en_verify_key e) = Some key
    \<and> attach_once env endpoint token edge_address heartbeat_every
        = ([Dial endpoint, RegisterCell token, OpenChannel (''Bearer '' @ en_cell_jwt e), RunLoop key beat edge], Inr ())"
  using assms by (auto simp: attach_once_def run_simps after_def ret_def Let_def split: option.splits if_splits)

text \<open>The reconnect loop over the outcomes of its attachments: the seconds it sleeps after each.
  \<open>True\<close> is a channel that closed cleanly.\<close>

fun run_sleeps :: "nat \<Rightarrow> bool list \<Rightarrow> nat list" where
  "run_sleeps backoff [] = []"
| "run_sleeps backoff (ok # outcomes) =
     (let b = (if ok then RECONNECT_MIN else min (backoff * 2) RECONNECT_MAX) in b # run_sleeps b outcomes)"

definition fleet_run :: "bool list \<Rightarrow> nat list" where
  "fleet_run outcomes = run_sleeps RECONNECT_MIN outcomes"

section \<open>Numbers read back\<close>

definition graphic :: "char \<Rightarrow> bool" where
  "graphic c \<longleftrightarrow> 33 \<le> (of_char c :: nat) \<and> (of_char c :: nat) < 127"

lemma trim_start_graphic: "list_all graphic s \<Longrightarrow> trim_start s = s"
  by (cases s rule: trim_start.cases) (auto simp: graphic_def is_ascii_ws_def is_ws2_def is_ws3_def Let_def)

lemma trim_rev_graphic: "list_all graphic s \<Longrightarrow> trim_rev s = s"
  by (cases s rule: trim_rev.cases) (auto simp: graphic_def is_ascii_ws_def is_ws2_def is_ws3_def Let_def)

lemma trim_graphic: "list_all graphic s \<Longrightarrow> trim s = s"
  by (simp add: trim_def trim_end_def trim_start_graphic trim_rev_graphic)

lemma digit_graphic: "is_ascii_digit c \<Longrightarrow> graphic c"
  by (auto simp: is_ascii_digit_def graphic_def)

lemma dec_nat_all: "list_all is_ascii_digit (dec_nat n)" "dec_nat n \<noteq> []"
  using dec_nat_digits [of _ n] by (auto simp: list_all_iff) (subst (asm) dec_nat.simps, simp split: if_splits)

lemma parse_number_dec_nat: "parse_number (dec_nat n) = Some (of_nat n)"
proof -
  have "span_digits (dec_nat n) = (dec_nat n, [])"
    using dec_nat_all(1) [of n] by (simp add: span_digits_def takeWhile_eq_all_conv dropWhile_eq_Nil_conv list_all_iff)
  with dec_nat_all(2) [of n] show ?thesis by (simp add: parse_number_def parse_exponent_def)
qed

lemma dec_nat_head: "dec_nat n = c # s \<Longrightarrow> is_ascii_digit c"
  using dec_nat_digits [of c n] by simp

text \<open>Whole numbers below \<open>2\<^sup>5\<^sup>3\<close> are not rounded.\<close>

lemma round_half_even_int [simp]: "round_half_even (of_int k) = k"
  by (simp add: round_half_even_def Let_def)

lemma round_f64_exact:
  assumes "0 \<le> k" and "k < 2 ^ 53"
  shows "round_f64 (of_int k) = Fin (of_int k)"
proof (cases "k = 0")
  case False
  then have pos: "0 < k" using assms(1) by simp
  define l where "l = bitlen k - bitlen 1"
  define e where "e = max (- 1074) (if (of_int k :: rat) < power_of_two l then l - 53 else l - 52)"
  have "bitlen k \<le> 53" using assms(2) by (simp add: bitlen_le_iff_power)
  moreover have "bitlen 1 = 1" by (simp add: bitlen_alt_def)
  ultimately have e: "e \<le> 0" unfolding e_def l_def by simp
  have p: "power_of_two e = 1 / 2 ^ nat (- e)" using e by (cases "e = 0") (simp_all add: power_of_two_def)
  have "(of_int k :: rat) / power_of_two e = of_int (k * 2 ^ nat (- e))" by (simp add: p)
  then have y: "of_int (round_half_even (of_int k / power_of_two e)) * power_of_two e = of_int k"
    unfolding \<open>_ = of_int (k * 2 ^ nat (- e))\<close> round_half_even_int by (simp add: p)
  have "(of_int k :: rat) < 2 ^ 53" using assms(2) by (metis of_int_less_iff of_int_numeral of_int_power)
  also have "(2::rat) ^ 53 \<le> 2 ^ 1024" by (rule power_increasing) simp_all
  finally have "\<not> 2 ^ 1024 \<le> (of_int k :: rat)" by simp
  moreover have "quotient_of \<bar>of_int k :: rat\<bar> = (k, 1)" using pos by simp
  ultimately show ?thesis
    using pos y unfolding round_f64_def Let_def e_def l_def by simp
qed (simp add: round_f64_def)

lemma parse_f64_dec_nat: "parse_f64 (dec_nat n) = Some (round_f64 (of_nat n))"
proof -
  obtain c s where d: "dec_nat n = c # s" using dec_nat_all(2) [of n] by (cases "dec_nat n") auto
  have c: "is_ascii_digit c" using dec_nat_head [OF d] .
  have "to_lower c = c" using c by (auto simp: to_lower_def is_ascii_uppercase_def is_ascii_digit_def)
  then have w: "\<not> eq_ignore_ascii_case (c # s) ''inf''" "\<not> eq_ignore_ascii_case (c # s) ''infinity''"
    "\<not> eq_ignore_ascii_case (c # s) ''nan''"
    using c by (auto simp: eq_ignore_ascii_case_def to_ascii_lowercase_def to_lower_def is_ascii_uppercase_def is_ascii_digit_def)
  have "c \<noteq> CHR ''-''" "c \<noteq> CHR ''+''" using c by (auto simp: is_ascii_digit_def)
  then have "split_sign (c # s) = (False, c # s)" by (simp add: split_sign_def)
  with w parse_number_dec_nat [of n] show ?thesis by (simp add: parse_f64_def d)
qed

lemma i64_small: "0 \<le> k \<Longrightarrow> k < 2 ^ 53 \<Longrightarrow> f64_to_i64 (Fin (of_int k)) = k"
  by (simp add: f64_to_i64_def)

lemma parse_or_zero_dec_nat:
  "int n < 2 ^ 53 \<Longrightarrow> parse_or_zero (\<lambda>v. v) (dec_nat n) = int n"
  "0 < k \<Longrightarrow> int n * k < 2 ^ 53 \<Longrightarrow> parse_or_zero (\<lambda>v. f64_times v k) (dec_nat n) = int n * k"
proof -
  show small: "parse_or_zero (\<lambda>v. v) (dec_nat n) = int n" if "int n < 2 ^ 53"
    using that i64_small [of "int n"] round_f64_exact [of "int n"] by (simp add: parse_or_zero_def parse_f64_dec_nat)
  assume k: "0 < k" "int n * k < 2 ^ 53"
  then have "int n * 1 \<le> int n * k" by (intro mult_left_mono) auto
  with k(2) have "int n < 2 ^ 53" by simp
  then show "parse_or_zero (\<lambda>v. f64_times v k) (dec_nat n) = int n * k"
    using k i64_small [of "int n * k"] round_f64_exact [of "int n"] round_f64_exact [of "int n * k"]
    by (simp add: parse_or_zero_def parse_f64_dec_nat f64_times_def)
qed

lemma strip_suffix_same [simp]: "strip_suffix u (d @ u) = Some d"
  by (simp add: strip_suffix_def ends_with_def starts_with_def)

lemma strip_suffix_digits:
  assumes "p \<noteq> []" and "\<not> is_ascii_digit (last p)"
  shows "strip_suffix p (dec_nat n) = None"
proof -
  obtain d c where d: "dec_nat n = d @ [c]" using dec_nat_all(2) [of n] by (cases "dec_nat n" rule: rev_cases) auto
  then have "is_ascii_digit c" using dec_nat_digits [of c n] by simp
  moreover obtain p' x where "p = p' @ [x]" using assms(1) by (cases p rule: rev_cases) auto
  ultimately show ?thesis using assms(2) d by (auto simp: strip_suffix_def ends_with_def starts_with_def)
qed

lemma strip_suffix_other:
  assumes "take (length p) (rev u) \<noteq> take (length u) (rev p)"
  shows "strip_suffix p (d @ u) = None"
proof -
  have "take (length u) (take (length p) (rev u @ rev d)) = take (length p) (rev u)" by (simp add: min_def)
  with assms have "take (length p) (rev u @ rev d) \<noteq> rev p" by metis
  then show ?thesis by (simp add: strip_suffix_def ends_with_def starts_with_def)
qed

text \<open>C34. Quantities are read back. A whole number of any of the units, or without one, is read as exactly
  this number of bytes, and millicores and cores as millicores, as long as the value is below
  \<open>2\<^sup>5\<^sup>3\<close>, up to which an \<open>f64\<close> is exact; in particular the binary units are not taken for the decimal ones.\<close>

theorem quantity_round_trip:
  assumes "(u, mult) \<in> set UNITS" and "int n * mult < 2 ^ 53"
  shows "parse_memory_bytes (dec_nat n @ u) = int n * mult \<and> parse_memory_bytes (dec_nat n) = int n
    \<and> parse_cpu_millicores (dec_nat n @ ''m'') = int n \<and> parse_cpu_millicores (dec_nat n) = 1000 * int n"
proof -
  have m: "1000 \<le> mult" using assms(1) by (auto simp: UNITS_def)
  then have k: "int n * 1000 \<le> int n * mult" by (intro mult_left_mono) auto
  with assms(2) have small: "int n < 2 ^ 53" "int n * 1000 < 2 ^ 53" by linarith+
  have g: "list_all graphic (dec_nat n)"
    using dec_nat_all(1) [of n] digit_graphic by (auto simp: list_all_iff)
  moreover have "list_all graphic u" using assms(1) by (auto simp: UNITS_def graphic_def)
  ultimately have t: "trim (dec_nat n @ u) = dec_nat n @ u" "trim (dec_nat n) = dec_nat n"
    "trim (dec_nat n @ ''m'') = dec_nat n @ ''m''"
    by (auto intro!: trim_graphic) (simp add: graphic_def)
  have "parse_with_units UNITS (dec_nat n) = int n"
    using small(1) by (simp add: UNITS_def strip_suffix_digits is_ascii_digit_def parse_or_zero_dec_nat)
  moreover have "parse_with_units UNITS (dec_nat n @ u) = int n * mult"
    using assms m by (auto simp: UNITS_def strip_suffix_other parse_or_zero_dec_nat)
  moreover have "parse_cpu_millicores (dec_nat n) = 1000 * int n"
    using small by (simp add: parse_cpu_millicores_def t strip_suffix_digits is_ascii_digit_def parse_or_zero_dec_nat)
  moreover have "parse_cpu_millicores (dec_nat n @ ''m'') = int n"
    using small by (simp add: parse_cpu_millicores_def t parse_or_zero_dec_nat)
  ultimately show ?thesis by (simp add: parse_memory_bytes_def t)
qed

theorem quantity_round_trip_witness:
  "parse_memory_bytes (dec_nat 512 @ ''Mi'') = 512 * 2 ^ 20 \<and> parse_cpu_millicores (dec_nat 512 @ ''m'') = 512"
  using quantity_round_trip [of "''Mi''" "2 ^ 20" 512] by (simp add: UNITS_def)

text \<open>From there on the last digit may be rounded away.\<close>

lemma large_number_rounds: "round_f64 9007199254740993 = Fin 9007199254740992"
proof -
  have "bitlen 9007199254740993 \<le> 54" "54 \<le> bitlen 9007199254740993"
    by (simp_all add: bitlen_le_iff_power bitlen_ge_iff_power)
  then have "bitlen 9007199254740993 = 54" by simp
  moreover have "bitlen 1 = 1" by (simp add: bitlen_alt_def)
  moreover have "quotient_of \<bar>9007199254740993\<bar> = (9007199254740993, 1)" by simp
  moreover have "\<lfloor>9007199254740993 / (2::rat)\<rfloor> = 4503599627370496" by (rule floor_unique) simp_all
  ultimately show ?thesis
    by (simp add: round_f64_def power_of_two_def round_half_even_def Let_def)
qed

section \<open>Totals\<close>

lemma wrap_add: "wrap w (wrap w a + b) = wrap w (a + b)"
proof -
  have "wrap w a + b + 2 ^ (w - 1) = (a + 2 ^ (w - 1)) mod 2 ^ w + b" by (simp add: wrap_def)
  then have "(wrap w a + b + 2 ^ (w - 1)) mod 2 ^ w = (a + 2 ^ (w - 1) + b) mod 2 ^ w" by (simp only: mod_add_left_eq)
  also have "a + 2 ^ (w - 1) + b = a + b + 2 ^ (w - 1)" by simp
  finally show ?thesis by (simp only: wrap_def)
qed

lemma wrap_small: "- (2 ^ 63) \<le> x \<Longrightarrow> x < 2 ^ 63 \<Longrightarrow> wrap 64 x = x"
  by (simp add: wrap_def)

text \<open>What a map of quantities holds under a key.\<close>

definition quantity :: "(string \<Rightarrow> int) \<Rightarrow> string \<Rightarrow> str_map option \<Rightarrow> int" where
  "quantity parse key m = (case Option.bind m (\<lambda>m. m key) of Some q \<Rightarrow> parse q | None \<Rightarrow> 0)"

lemma add_quantities_wrap:
  "add_quantities m (wrap 64 a, wrap 64 b) =
     (wrap 64 (a + quantity parse_cpu_millicores ''cpu'' m), wrap 64 (b + quantity parse_memory_bytes ''memory'' m))"
  by (simp add: add_quantities_def quantity_def wrap_add Let_def split: option.split)

lemma fold_quantities_wrap:
  "fold add_quantities ms (wrap 64 a, wrap 64 b) =
     (wrap 64 (a + (\<Sum>m \<leftarrow> ms. quantity parse_cpu_millicores ''cpu'' m)),
      wrap 64 (b + (\<Sum>m \<leftarrow> ms. quantity parse_memory_bytes ''memory'' m)))"
  by (induction ms arbitrary: a b) (simp_all add: add_quantities_wrap add.assoc)

definition pod_requests :: "pod \<Rightarrow> str_map option list" where
  "pod_requests p = (case pd_requests p of Some ms \<Rightarrow> ms | None \<Rightarrow> [])"

lemma observe_nodes_wrap: "observe_nodes ns = fold add_quantities (map nd_allocatable (filter node_counts ns)) (0, 0)"
proof -
  have "fold (\<lambda>n acc. if \<not> node_counts n then acc else add_quantities (nd_allocatable n) acc) ns acc
      = fold add_quantities (map nd_allocatable (filter node_counts ns)) acc" for acc
    by (induction ns arbitrary: acc) auto
  then show ?thesis by (simp add: observe_nodes_def)
qed

lemma observe_pods_wrap: "observe_pods ps = fold add_quantities (concat (map pod_requests (filter pod_counts ps))) (0, 0)"
proof -
  have "fold (\<lambda>p acc. if \<not> pod_counts p then acc
       else case pd_requests p of None \<Rightarrow> acc | Some cs \<Rightarrow> fold add_quantities cs acc) ps acc
      = fold add_quantities (concat (map pod_requests (filter pod_counts ps))) acc" for acc
    by (induction ps arbitrary: acc) (auto simp: pod_requests_def split: option.split)
  then show ?thesis by (simp add: observe_pods_def)
qed

lemma totals_wrap:
  "fold add_quantities ms (0, 0) =
     (wrap 64 (\<Sum>m \<leftarrow> ms. quantity parse_cpu_millicores ''cpu'' m), wrap 64 (\<Sum>m \<leftarrow> ms. quantity parse_memory_bytes ''memory'' m))"
  using fold_quantities_wrap [of ms 0 0] by (simp add: wrap_small)

text \<open>What the agent reports of the cell: the sum of the allocatable quantities of exactly the nodes
  that are Ready and not cordoned, and of the requests of every container of every pod that has
  not finished, as \<open>i64\<close>. A list that cannot be read fails the whole observation, except the list of
  gateways, whose failure is reported as none.\<close>

theorem observe_totals:
  "observe nodes pods gws = Inr ob \<longleftrightarrow> (\<exists>ns ps. nodes = Inr ns \<and> pods = Inr ps
     \<and> (let alloc = map nd_allocatable (filter node_counts ns); req = concat (map pod_requests (filter pod_counts ps))
        in ob = \<lparr>allocatable_cpu_m = wrap 64 (\<Sum>m \<leftarrow> alloc. quantity parse_cpu_millicores ''cpu'' m),
             allocatable_mem_bytes = wrap 64 (\<Sum>m \<leftarrow> alloc. quantity parse_memory_bytes ''memory'' m),
             requested_cpu_m = wrap 64 (\<Sum>m \<leftarrow> req. quantity parse_cpu_millicores ''cpu'' m),
             requested_mem_bytes = wrap 64 (\<Sum>m \<leftarrow> req. quantity parse_memory_bytes ''memory'' m),
             gateway_count = (case gws of Inr n \<Rightarrow> wrap 32 (int n) | Inl _ \<Rightarrow> 0)\<rparr>))"
  by (cases nodes; cases pods)
    (auto simp: observe_def bindE_def map_err_def Let_def observe_nodes_wrap observe_pods_wrap totals_wrap)

section \<open>Where an assignment lands\<close>

lemma api_attempts_scope:
  "fst (api_attempts env gvk ns ks st) = Inr api \<Longrightarrow> \<exists>sc. api = scoped_api sc ns"
  by (induction env gvk ns ks st rule: api_attempts.induct)
    (auto simp: Let_def split: sum.splits option.splits if_splits)

definition lands_in :: "string \<Rightarrow> dyn_object \<Rightarrow> api_handle \<Rightarrow> bool" where
  "lands_in namespace obj api \<longleftrightarrow>
     (case api of
        NamespacedApi a \<Rightarrow> a = namespace \<and> meta_namespace (dy_meta obj) \<noteq> None
      | DefaultNamespacedApi \<Rightarrow> meta_namespace (dy_meta obj) = None
      | ClusterApi \<Rightarrow> True)"

lemma api_for_lands:
  assumes "api_for env (pin_namespace namespace obj) st = (Inr api, st')"
  shows "lands_in namespace obj api"
proof -
  from assms obtain gvk where "fst (api_attempts env gvk (meta_namespace (dy_meta (pin_namespace namespace obj))) [0, 1] st) = Inr api"
    unfolding api_for_def by (metis (no_types, lifting) Pair_inject fst_conv option.case_eq_if sum.distinct(1))
  from api_attempts_scope [OF this] obtain sc where
    "api = scoped_api sc (meta_namespace (dy_meta (pin_namespace namespace obj)))" by blast
  then show ?thesis
    by (cases sc; cases "meta_namespace (dy_meta obj)") (auto simp: lands_in_def scoped_api_def pin_namespace_def)
qed

text \<open>Where an assignment lands. The objects are patched in order, each with its namespace replaced by
  the assigned one if it had any; the patch goes to the assigned namespace, or to the cluster for a
  kind that has no namespaces. An object of a namespaced kind that carries no namespace is not
  pinned: it goes to the default namespace of the agent's client. Everything is patched exactly
  when the assignment succeeds.\<close>

theorem fleet_apply_lands:
  assumes "fleet_apply env namespace raws st = (patches, result, st')"
  shows "length patches \<le> length raws \<and> (result = Inr () \<longrightarrow> length patches = length raws)
    \<and> (\<forall>i < length patches. \<exists>obj. fe_parse env (raws ! i) = Some obj
         \<and> snd (patches ! i) = pin_namespace namespace obj \<and> lands_in namespace obj (fst (patches ! i)))"
proof -
  have "length patches \<le> length raws \<and> (result = Inr () \<longrightarrow> length patches = length raws)
    \<and> (\<forall>i < length patches. \<exists>obj. fe_parse env (raws ! i) = Some obj
         \<and> snd (patches ! i) = pin_namespace namespace obj \<and> lands_in namespace obj (fst (patches ! i)))"
    if "fleet_apply_from env namespace k raws st = (patches, result, st')" for k
    using that
  proof (induction env namespace k raws st arbitrary: patches result st' rule: fleet_apply_from.induct)
    case (2 env namespace k raw objects st)
    show ?case
    proof (cases "\<exists>obj name api st1. fe_parse env raw = Some obj \<and> meta_name (dy_meta obj) = Some name
        \<and> api_for env (pin_namespace namespace obj) st = (Inr api, st1)")
      case False
      with 2(2) have "patches = []" "result \<noteq> Inr ()" by (auto simp: Let_def split: option.splits prod.splits sum.splits)
      then show ?thesis by simp
    next
      case True
      then obtain obj name api st1 where o: "fe_parse env raw = Some obj" "meta_name (dy_meta obj) = Some name"
        "api_for env (pin_namespace namespace obj) st = (Inr api, st1)" by blast
      note l = api_for_lands [OF o(3)]
      show ?thesis
      proof (cases "fe_patch env api name")
        case (Inl e)
        with 2(2) o l show ?thesis by (auto simp: Let_def)
      next
        case (Inr u)
        obtain ps r s2 where rest: "fleet_apply_from env namespace (k + 1) objects st1 = (ps, r, s2)" by (metis prod_cases3)
        from 2(1) [OF o(1,2) refl o(3) [symmetric] refl Inr rest] 2(2) o l Inr rest
        show ?thesis by (auto simp: Let_def nth_Cons split: nat.splits)
      qed
    qed
  qed simp
  with assms show ?thesis unfolding fleet_apply_def by blast
qed

definition sample_fleet :: fleet_env where
  "sample_fleet = \<lparr>fe_parse = (\<lambda>raw. Some \<lparr>dy_types = Some (''v1'', ''ConfigMap''),
       dy_meta = default_meta\<lparr>meta_name := Some ''cm'', meta_namespace := if raw = ''pinned'' then Some ''elsewhere'' else None\<rparr>,
       dy_data = JNull\<rparr>),
     fe_gvk = (\<lambda>(v, k). Some k), fe_discover = (\<lambda>n. Inr (\<lambda>k. if k = ''ConfigMap'' then Some Namespaced else None)),
     fe_patch = (\<lambda>_ _. Inr ())\<rparr>"

theorem fleet_apply_lands_witness:
  "\<exists>patches st'. fleet_apply sample_fleet ''org-a'' [''pinned'', ''bare''] \<lparr>ds_cache = None, ds_runs = 0\<rparr> = (patches, Inr (), st')
     \<and> map fst patches = [NamespacedApi ''org-a'', DefaultNamespacedApi]
     \<and> lands_in ''org-a'' (the (fe_parse sample_fleet ''bare'')) DefaultNamespacedApi"
proof -
  obtain patches r st' where run: "fleet_apply sample_fleet ''org-a'' [''pinned'', ''bare''] \<lparr>ds_cache = None, ds_runs = 0\<rparr> = (patches, r, st')"
    by (metis prod_cases3)
  moreover from run have p: "map fst patches = [NamespacedApi ''org-a'', DefaultNamespacedApi]" "r = Inr ()"
    by (auto simp: fleet_apply_def sample_fleet_def api_for_def pin_namespace_def scoped_api_def default_meta_def Let_def)
  moreover have "lands_in ''org-a'' (the (fe_parse sample_fleet ''bare'')) DefaultNamespacedApi"
  proof -
    from p have "length patches = 2" by (metis length_map length_Cons list.size(3) numeral_2_eq_2)
    moreover from this p(1) have "fst (patches ! 1) = DefaultNamespacedApi" by (metis nth_map nth_Cons_Suc nth_Cons_0 One_nat_def one_less_numeral_iff semiring_norm(76))
    moreover have "1 < length patches" using calculation(1) by simp
    then obtain obj where "fe_parse sample_fleet ([''pinned'', ''bare''] ! 1) = Some obj" "lands_in ''org-a'' obj (fst (patches ! 1))"
      using fleet_apply_lands [OF run] by blast
    ultimately show ?thesis by simp
  qed
  ultimately show ?thesis by (intro exI [of _ patches] exI [of _ st']) simp
qed

text \<open>C39. Resolving an object runs discovery at most twice, whatever comes of it. A handle is given only for
  a kind that the cached discovery knows, with the scope it has there, and the cache is one of before or
  a run of this call; a failure to discover is the failure of the last run; and a kind is
  refused only when the last run was made in this call and does not know it, however old the
  cache was before.\<close>

theorem refused_kind_is_unknown:
  "case api_for env obj st of (res, st') \<Rightarrow>
     ds_runs st \<le> ds_runs st' \<and> ds_runs st' \<le> ds_runs st + 2
   \<and> (\<forall>api. res = Inr api \<longrightarrow> (\<exists>t g d sc. dy_types obj = Some t \<and> fe_gvk env t = Some g \<and> ds_cache st' = Some d \<and> d g = Some sc
        \<and> api = scoped_api sc (meta_namespace (dy_meta obj))
        \<and> (if ds_runs st' = ds_runs st then ds_cache st = Some d else fe_discover env (ds_runs st' - 1) = Inr d)))
   \<and> (\<forall>e. res = Inl (DiscoveryFailed e) \<longrightarrow> ds_runs st < ds_runs st' \<and> fe_discover env (ds_runs st' - 1) = Inl e)
   \<and> (\<forall>g. res = Inl (NoResource g) \<longrightarrow> (\<exists>t d. dy_types obj = Some t \<and> fe_gvk env t = Some g \<and> ds_runs st < ds_runs st'
        \<and> fe_discover env (ds_runs st' - 1) = Inr d \<and> ds_cache st' = Some d \<and> d g = None))"
proof (cases "dy_types obj")
  case (Some t)
  show ?thesis
  proof (cases "fe_gvk env t")
    case (Some g)
    with \<open>dy_types obj = Some t\<close> show ?thesis
      by (cases "ds_cache st"; cases "fe_discover env (ds_runs st)"; cases "fe_discover env (ds_runs st + 1)")
        (auto simp: api_for_def Let_def split: option.splits sum.splits if_splits)
  qed (simp add: api_for_def \<open>dy_types obj = Some t\<close>)
qed (simp add: api_for_def)

theorem refused_kind_is_unknown_witness:
  "ds_runs (snd (api_for (sample_fleet\<lparr>fe_gvk := (\<lambda>_. Some ''Pod'')\<rparr>) (the (fe_parse sample_fleet ''bare''))
     \<lparr>ds_cache = Some (\<lambda>_. None), ds_runs = 3\<rparr>)) = 4
   \<and> (\<exists>d. fe_discover sample_fleet 3 = Inr d \<and> d ''Pod'' = None)"
proof -
  let ?env = "sample_fleet\<lparr>fe_gvk := (\<lambda>_. Some ''Pod'')\<rparr>" and ?obj = "the (fe_parse sample_fleet ''bare'')"
  obtain st' where run: "api_for ?env ?obj \<lparr>ds_cache = Some (\<lambda>_. None), ds_runs = 3\<rparr> = (Inl (NoResource ''Pod''), st')"
    and n: "ds_runs st' = 4"
    by (simp add: api_for_def sample_fleet_def Let_def)
  from refused_kind_is_unknown [where env = ?env and obj = ?obj and st = "\<lparr>ds_cache = Some (\<lambda>_. None), ds_runs = 3\<rparr>", unfolded run prod.case] n
  have "\<exists>d. fe_discover ?env (4 - 1) = Inr d \<and> d ''Pod'' = None" by auto
  with run n show ?thesis by simp
qed

section \<open>Token and reconnects\<close>

text \<open>The token of the agent is never blank and never has surrounding space: it is what the file holds
  when a file is named, whatever was given inline, and the inline one only otherwise.\<close>

theorem read_token_exact:
  "read_token read_file inline path = Inr t \<longleftrightarrow> t \<noteq> []
     \<and> (case path of Some p \<Rightarrow> map_option trim (read_file p) = Some t | None \<Rightarrow> map_option trim inline = Some t)"
  by (auto simp: read_token_def Let_def split: option.splits)

lemma run_sleeps_snoc:
  "run_sleeps b (os @ [x]) = run_sleeps b os @ [if x then RECONNECT_MIN else min (last (b # run_sleeps b os) * 2) RECONNECT_MAX]"
  by (induction os arbitrary: b) (simp_all add: Let_def)

text \<open>The reconnect delay after any sequence of attachments: twice the minimum per failure since the
  last channel that closed cleanly, up to a minute, and the minimum after a clean close. The first
  retry after a failure waits four seconds, not the minimum.\<close>

theorem reconnect_delay:
  "last (RECONNECT_MIN # fleet_run outcomes) = min 60 (2 * 2 ^ length (takeWhile Not (rev outcomes)))
   \<and> length (fleet_run outcomes) = length outcomes"
proof -
  have "length (run_sleeps b outcomes) = length outcomes" for b by (induction outcomes arbitrary: b) (simp_all add: Let_def)
  moreover have "last (RECONNECT_MIN # fleet_run outcomes) = min 60 (2 * 2 ^ length (takeWhile Not (rev outcomes)))"
  proof (induction outcomes rule: rev_induct)
    case (snoc x xs)
    then show ?case by (auto simp: fleet_run_def run_sleeps_snoc RECONNECT_MIN_def RECONNECT_MAX_def min_def)
  qed (simp add: fleet_run_def RECONNECT_MIN_def)
  ultimately show ?thesis by (simp add: fleet_run_def)
qed

end
