(* ===== verification/Boot.thy ===== *)
theory Boot
  imports Leader FleetAgent
begin

text \<open>
  The process entry point (\<open>src/src/main.rs\<close>): what it starts, in which order and under which
  conditions, and the three health flags up to the shutdown. A task that is spawned is an event of
  the boot trace; what the tasks do is in their own theories. Binding, the Kubernetes client and
  the election are answers of \<open>boot_env\<close>.
\<close>

section \<open>Start\<close>

record boot_config =
  cf_trust_root :: "string option"
  cf_webhook_bind :: string
  cf_metrics_bind :: string
  cf_leader_election :: bool
  cf_leader :: leader_cfg
  cf_fleet_attach :: bool
  cf_fleet_endpoint :: "string option"
  cf_fleet_token :: "string option"
  cf_fleet_token_file :: "string option"
  cf_fleet_heartbeat_secs :: nat

datatype boot_error =
    NoClient
  | BadWebhookBind
  | BadMetricsBind
  | NoFleetEndpoint
  | FleetToken token_error
  | NoFleetFeature
  | LeaderMisconfigured leader_cfg_error

datatype boot_event =
    SetTrustRoot "string option"
  | SpawnWebhook
  | SpawnMetrics
  | SpawnFleet string string nat
  | SpawnElection
  | LeaderGauge bool
  | WaitUntilLeader

record boot_env =
  be_client :: bool
  be_socket :: "string \<Rightarrow> bool"
  be_read_file :: "string \<Rightarrow> string option"
  be_fleet_feature :: bool

definition boot_fleet :: "boot_env \<Rightarrow> boot_config \<Rightarrow> (boot_event, boot_error, unit) run" where
  "boot_fleet env cfg =
     (if \<not> cf_fleet_attach cfg then ret ()
      else if \<not> be_fleet_feature env then throw NoFleetFeature
      else case cf_fleet_endpoint cfg of
        None \<Rightarrow> throw NoFleetEndpoint
      | Some endpoint \<Rightarrow>
          bindT ([], map_err FleetToken (read_token (be_read_file env) (cf_fleet_token cfg) (cf_fleet_token_file cfg))) (\<lambda>token.
          after [SpawnFleet endpoint token (max (cf_fleet_heartbeat_secs cfg) 5)] (ret ())))"

definition boot_election :: "boot_config \<Rightarrow> (boot_event, boot_error, unit) run" where
  "boot_election cfg =
     (if cf_leader_election cfg
      then bindT ([], map_err LeaderMisconfigured (leader_validate (cf_leader cfg))) (\<lambda>_.
           after [SpawnElection, LeaderGauge False, WaitUntilLeader] (ret ()))
      else after [LeaderGauge True] (ret ()))"

text \<open>Everything before the controllers. A trace that ends in \<open>WaitUntilLeader\<close> goes on when the
  replica is elected.\<close>

definition boot :: "boot_env \<Rightarrow> boot_config \<Rightarrow> (boot_event, boot_error, unit) run" where
  "boot env cfg =
     after [SetTrustRoot (cf_trust_root cfg)]
       (if \<not> be_client env then throw NoClient
        else if \<not> be_socket env (cf_webhook_bind cfg) then throw BadWebhookBind
        else after [SpawnWebhook]
          (if \<not> be_socket env (cf_metrics_bind cfg) then throw BadMetricsBind
           else after [SpawnMetrics] (bindT (boot_fleet env cfg) (\<lambda>_. boot_election cfg))))"

section \<open>The running process\<close>

definition CONTROLLERS :: "string list" where
  "CONTROLLERS = [''gateway'', ''revocation-list'', ''plugin'', ''plugin-set'', ''cluster'', ''route'', ''plugin-mirror'',
     ''tenant'', ''server'']"

text \<open>Where \<open>main\<close> is: waiting for the lease, spawning the controllers one by one, storing the readiness
  flag, spawning the readiness gate, waiting for a signal, and the steps of the shutdown. The
  gate is past its only await once the store is synced; from there on an abort comes too late
  for it. \<open>pc_events\<close> records what the election task has seen, \<open>pc_late_gate\<close> that the abort came too late.\<close>

datatype main_at =
    AwaitLease
  | Spawn "string list"
  | SetReady
  | SpawnGate
  | AwaitSignal
  | AbortGate
  | ClearHealthy
  | ClearReady
  | ClearReconcile
  | RequestRelease
  | Drain
  | Done

datatype gate_task = NoGate | GateWaiting | GateSynced | GateEnded

record proc =
  pc_at :: main_at
  pc_loop :: replica
  pc_waiter :: waiter
  pc_events :: "loop_event list"
  pc_gauge :: bool
  pc_spawned :: "string list"
  pc_running :: "string list"
  pc_gate :: gate_task
  pc_late_gate :: bool
  pc_healthy :: bool
  pc_ready :: bool
  pc_reconcile_ready :: bool
  pc_shutdown_sent :: bool

definition proc_init :: proc where
  "proc_init = \<lparr>pc_at = AwaitLease, pc_loop = loop_start, pc_waiter = Checking, pc_events = [], pc_gauge = False,
     pc_spawned = [], pc_running = [], pc_gate = NoGate, pc_late_gate = False, pc_healthy = True, pc_ready = False,
     pc_reconcile_ready = False, pc_shutdown_sent = False\<rparr>"

text \<open>The one place at which \<open>main\<close> waits for the election.\<close>

definition may_proceed :: "bool \<Rightarrow> proc \<Rightarrow> bool" where
  "may_proceed leader_election p =
     (case pc_at p of
        AwaitLease \<Rightarrow> leader_election \<longrightarrow> pc_waiter p = Returned
      | Done \<Rightarrow> False
      | _ \<Rightarrow> True)"

definition bring_up :: "proc \<Rightarrow> proc" where
  "bring_up p =
     (case pc_at p of
        AwaitLease \<Rightarrow> p\<lparr>pc_at := Spawn CONTROLLERS, pc_gauge := True\<rparr>
      | Spawn (c # cs) \<Rightarrow> p\<lparr>pc_at := Spawn cs, pc_spawned := pc_spawned p @ [c], pc_running := pc_running p @ [c]\<rparr>
      | Spawn [] \<Rightarrow> p\<lparr>pc_at := SetReady\<rparr>
      | SetReady \<Rightarrow> p\<lparr>pc_at := SpawnGate, pc_ready := True\<rparr>
      | SpawnGate \<Rightarrow> p\<lparr>pc_at := AwaitSignal, pc_gate := GateWaiting\<rparr>
      | _ \<Rightarrow> p)"

definition shut_down :: "bool \<Rightarrow> proc \<Rightarrow> proc" where
  "shut_down leader_election p =
     (case pc_at p of
        AwaitSignal \<Rightarrow> p\<lparr>pc_at := AbortGate\<rparr>
      | AbortGate \<Rightarrow> p\<lparr>pc_at := ClearHealthy, pc_late_gate := pc_gate p = GateSynced,
          pc_gate := (if pc_gate p = GateWaiting then GateEnded else pc_gate p)\<rparr>
      | ClearHealthy \<Rightarrow> p\<lparr>pc_at := ClearReady, pc_healthy := False\<rparr>
      | ClearReady \<Rightarrow> p\<lparr>pc_at := ClearReconcile, pc_ready := False\<rparr>
      | ClearReconcile \<Rightarrow> p\<lparr>pc_at := RequestRelease, pc_reconcile_ready := False\<rparr>
      | RequestRelease \<Rightarrow> p\<lparr>pc_at := Drain, pc_shutdown_sent := leader_election\<rparr>
      | Drain \<Rightarrow> p\<lparr>pc_at := Done, pc_running := []\<rparr>
      | _ \<Rightarrow> p)"

definition main_step :: "bool \<Rightarrow> proc \<Rightarrow> proc" where
  "main_step leader_election p =
     (case pc_at p of
        AwaitLease \<Rightarrow> bring_up p
      | Spawn _ \<Rightarrow> bring_up p
      | SetReady \<Rightarrow> bring_up p
      | SpawnGate \<Rightarrow> bring_up p
      | _ \<Rightarrow> shut_down leader_election p)"

text \<open>One turn of the election task of \<open>Leader\<close>, whose transitions wake the waiting \<open>main\<close>.\<close>

definition election_step :: "leader_cfg \<Rightarrow> loop_event \<Rightarrow> proc \<Rightarrow> proc" where
  "election_step c ev p =
     (let (fs, r) = run_loop c (pc_loop p) ev
      in p\<lparr>pc_loop := r, pc_events := pc_events p @ [ev],
           pc_waiter := (if NotifyTransition \<in> set fs then notify_waiter (pc_waiter p) else pc_waiter p)\<rparr>)"

fun is_shutdown :: "loop_event \<Rightarrow> bool" where
  "is_shutdown (ShutdownNotified now ans) = True"
| "is_shutdown ev = False"

text \<open>The tasks run beside \<open>main\<close> and in any order: the election, the wait for it, the gate, and the
  controllers, of which each may end at any time, which is only logged.\<close>

inductive proc_step :: "leader_cfg \<Rightarrow> bool \<Rightarrow> proc \<Rightarrow> proc \<Rightarrow> bool" for c leader_election where
  ps_main: "proc_step c leader_election p (main_step leader_election p)" if "may_proceed leader_election p"
| ps_election: "proc_step c leader_election p (election_step c ev p)"
    if "leader_election" "pc_at p \<noteq> Done" "is_shutdown ev \<longrightarrow> pc_shutdown_sent p \<and> \<not> list_ex is_shutdown (pc_events p)"
| ps_wait: "proc_step c leader_election p (p\<lparr>pc_waiter := w\<rparr>)"
    if "leader_election" "pc_at p = AwaitLease" "wait_until_leader (is_leader (pc_loop p), pc_waiter p) (is_leader (pc_loop p), w)"
| ps_synced: "proc_step c leader_election p (p\<lparr>pc_gate := GateSynced\<rparr>)" if "pc_at p \<noteq> Done" "pc_gate p = GateWaiting"
| ps_gate: "proc_step c leader_election p (p\<lparr>pc_gate := GateEnded, pc_reconcile_ready := True\<rparr>)"
    if "pc_at p \<noteq> Done" "pc_gate p = GateSynced"
| ps_ended: "proc_step c leader_election p (p\<lparr>pc_running := removeAll n (pc_running p)\<rparr>)"
    if "pc_at p \<noteq> Done" "n \<in> set (pc_running p)"

inductive proc_reach :: "leader_cfg \<Rightarrow> bool \<Rightarrow> proc \<Rightarrow> bool" for c leader_election where
  pr_init: "proc_reach c leader_election proc_init"
| pr_step: "proc_reach c leader_election q" if "proc_reach c leader_election p" "proc_step c leader_election p q"

inductive_cases proc_stepE: "proc_step c le p q"

section \<open>Properties\<close>

lemma boot_fleet_iff:
  "snd (boot_fleet env cfg) = Inr () \<longleftrightarrow> \<not> cf_fleet_attach cfg \<or> (\<exists>e t. be_fleet_feature env \<and> cf_fleet_endpoint cfg = Some e
     \<and> read_token (be_read_file env) (cf_fleet_token cfg) (cf_fleet_token_file cfg) = Inr t)"
  by (cases "read_token (be_read_file env) (cf_fleet_token cfg) (cf_fleet_token_file cfg)")
    (auto simp: boot_fleet_def run_simps map_err_def split: option.split)

lemma boot_fleet_trace:
  "snd (boot_fleet env cfg) = Inr () \<Longrightarrow> (if cf_fleet_attach cfg then \<exists>e t. (be_fleet_feature env \<and> cf_fleet_endpoint cfg = Some e
       \<and> read_token (be_read_file env) (cf_fleet_token cfg) (cf_fleet_token_file cfg) = Inr t)
       \<and> fst (boot_fleet env cfg) = [SpawnFleet e t (max (cf_fleet_heartbeat_secs cfg) 5)]
     else fst (boot_fleet env cfg) = [])"
  by (cases "read_token (be_read_file env) (cf_fleet_token cfg) (cf_fleet_token_file cfg)"; cases "cf_fleet_endpoint cfg")
    (auto simp: boot_fleet_def run_simps map_err_def split: if_splits)

lemma boot_fleet_events: "x \<in> set (fst (boot_fleet env cfg)) \<Longrightarrow> \<exists>e t h. x = SpawnFleet e t h"
  by (auto simp: boot_fleet_def run_simps map_err_def split: option.splits sum.splits if_splits)

lemma boot_election_iff:
  "snd (boot_election cfg) = Inr () \<longleftrightarrow> \<not> cf_leader_election cfg \<or> leader_validate (cf_leader cfg) = Inr ()"
  by (cases "leader_validate (cf_leader cfg)") (auto simp: boot_election_def run_simps map_err_def)

lemma boot_election_trace:
  "snd (boot_election cfg) = Inr () \<Longrightarrow> fst (boot_election cfg) =
     (if cf_leader_election cfg then [SpawnElection, LeaderGauge False, WaitUntilLeader] else [LeaderGauge True])"
  by (cases "leader_validate (cf_leader cfg)") (auto simp: boot_election_def run_simps map_err_def)

text \<open>The order of the start. Whatever fails, the election is only entered after both servers and the
  fleet agent are up, and the metrics server only after the webhook; the start succeeds exactly
  when the client, both addresses, the token of an attached agent and the timing of the election
  are usable, and its trace is then fixed. A start that fails never reports leadership.\<close>

theorem boot_order:
  "let fleet_ok = (\<lambda>endpoint token. be_fleet_feature env \<and> cf_fleet_endpoint cfg = Some endpoint
         \<and> read_token (be_read_file env) (cf_fleet_token cfg) (cf_fleet_token_file cfg) = Inr token);
       servers = [SetTrustRoot (cf_trust_root cfg), SpawnWebhook, SpawnMetrics];
       election = (if cf_leader_election cfg then [SpawnElection, LeaderGauge False, WaitUntilLeader] else [LeaderGauge True])
   in (snd (boot env cfg) = Inr () \<longleftrightarrow> be_client env \<and> be_socket env (cf_webhook_bind cfg) \<and> be_socket env (cf_metrics_bind cfg)
         \<and> (\<not> cf_fleet_attach cfg \<or> (\<exists>e t. fleet_ok e t)) \<and> (\<not> cf_leader_election cfg \<or> leader_validate (cf_leader cfg) = Inr ()))
    \<and> (snd (boot env cfg) = Inr () \<longrightarrow> (\<exists>fleet. fst (boot env cfg) = servers @ fleet @ election
         \<and> (if cf_fleet_attach cfg then \<exists>e t. fleet_ok e t \<and> fleet = [SpawnFleet e t (max (cf_fleet_heartbeat_secs cfg) 5)]
            else fleet = [])))
    \<and> (snd (boot env cfg) \<noteq> Inr () \<longrightarrow> LeaderGauge True \<notin> set (fst (boot env cfg)) \<and> WaitUntilLeader \<notin> set (fst (boot env cfg)))"
proof -
  let ?ready = "be_client env \<and> be_socket env (cf_webhook_bind cfg) \<and> be_socket env (cf_metrics_bind cfg)"
  have stop: "\<not> ?ready \<Longrightarrow> snd (boot env cfg) \<noteq> Inr () \<and> set (fst (boot env cfg)) \<subseteq> {SetTrustRoot (cf_trust_root cfg), SpawnWebhook}"
    by (cases "be_client env"; cases "be_socket env (cf_webhook_bind cfg)") (auto simp: boot_def run_simps)
  have go: "?ready \<Longrightarrow> boot env cfg = after [SetTrustRoot (cf_trust_root cfg), SpawnWebhook, SpawnMetrics]
      (bindT (boot_fleet env cfg) (\<lambda>_. boot_election cfg))"
    by (simp add: boot_def after_def)
  have ok: "snd (boot env cfg) = Inr () \<longleftrightarrow> ?ready \<and> snd (boot_fleet env cfg) = Inr () \<and> snd (boot_election cfg) = Inr ()"
    using stop go by (cases ?ready) (auto simp: after_sel bindT_Inr)
  have trace: "fst (boot env cfg) = [SetTrustRoot (cf_trust_root cfg), SpawnWebhook, SpawnMetrics]
      @ fst (boot_fleet env cfg) @ fst (boot_election cfg)" if "snd (boot env cfg) = Inr ()"
    using that go ok by (simp add: after_sel bindT_sel)
  have quiet: "x \<notin> set (fst (boot env cfg))" if fail: "snd (boot env cfg) \<noteq> Inr ()" and x: "x = LeaderGauge True \<or> x = WaitUntilLeader" for x
  proof (cases ?ready)
    case True
    have "x \<notin> set (fst (boot_fleet env cfg))" using boot_fleet_events [of x env cfg] x by auto
    moreover have "snd (boot_election cfg) = Inr ()" if "x \<in> set (fst (boot_election cfg))"
      using that by (cases "leader_validate (cf_leader cfg)") (auto simp: boot_election_def run_simps map_err_def split: if_splits)
    ultimately show ?thesis using go [OF True] ok fail True x by (auto simp: after_sel bindT_effects)
  next
    case False
    with stop x show ?thesis by auto
  qed
  have tr: "\<exists>fleet. fst (boot env cfg) = [SetTrustRoot (cf_trust_root cfg), SpawnWebhook, SpawnMetrics] @ fleet
      @ (if cf_leader_election cfg then [SpawnElection, LeaderGauge False, WaitUntilLeader] else [LeaderGauge True])
      \<and> (if cf_fleet_attach cfg then \<exists>e t. (be_fleet_feature env \<and> cf_fleet_endpoint cfg = Some e
           \<and> read_token (be_read_file env) (cf_fleet_token cfg) (cf_fleet_token_file cfg) = Inr t)
           \<and> fleet = [SpawnFleet e t (max (cf_fleet_heartbeat_secs cfg) 5)] else fleet = [])" if b: "snd (boot env cfg) = Inr ()"
    using trace [OF b] boot_fleet_trace [of env cfg] boot_election_trace [of cfg] ok b
    by (intro exI [of _ "fst (boot_fleet env cfg)"]) (simp del: append.simps)
  have iff: "snd (boot env cfg) = Inr () \<longleftrightarrow> be_client env \<and> be_socket env (cf_webhook_bind cfg) \<and> be_socket env (cf_metrics_bind cfg)
      \<and> (\<not> cf_fleet_attach cfg \<or> (\<exists>e t. be_fleet_feature env \<and> cf_fleet_endpoint cfg = Some e
           \<and> read_token (be_read_file env) (cf_fleet_token cfg) (cf_fleet_token_file cfg) = Inr t))
      \<and> (\<not> cf_leader_election cfg \<or> leader_validate (cf_leader cfg) = Inr ())"
    by (simp only: ok boot_fleet_iff boot_election_iff conj_assoc)
  show ?thesis
    unfolding Let_def by (intro conjI impI iff) (erule tr, erule quiet, rule disjI1, rule refl, erule quiet, rule disjI2, rule refl)
qed

definition sample_boot :: boot_config where
  "sample_boot = \<lparr>cf_trust_root = None, cf_webhook_bind = ''w'', cf_metrics_bind = ''m'', cf_leader_election = True,
     cf_leader = sample_cfg 0, cf_fleet_attach = True, cf_fleet_endpoint = Some ''f'', cf_fleet_token = None,
     cf_fleet_token_file = Some ''/token'', cf_fleet_heartbeat_secs = 1\<rparr>"

text \<open>The lease was held: an attempt of the election task has returned \<open>Ok(true)\<close>.\<close>

fun won_lease :: "leader_cfg \<Rightarrow> loop_event \<Rightarrow> bool" where
  "won_lease c (AttemptDone now now' got wrote) = (snd (try_acquire_or_renew c now now' got wrote) = Inr True)"
| "won_lease c ev = False"

definition attempt_won :: "leader_cfg \<Rightarrow> loop_event list \<Rightarrow> bool" where
  "attempt_won c evs = list_ex (won_lease c) evs"

lemma won_lease_iff:
  "won_lease c ev \<longleftrightarrow>
     (\<exists>now now' got wrote. ev = AttemptDone now now' got wrote \<and> snd (try_acquire_or_renew c now now' got wrote) = Inr True)"
  by (cases ev) auto

lemma attempt_won_iff:
  "attempt_won c evs \<longleftrightarrow>
     (\<exists>now now' got wrote. AttemptDone now now' got wrote \<in> set evs \<and> snd (try_acquire_or_renew c now now' got wrote) = Inr True)"
  unfolding attempt_won_def list_ex_iff won_lease_iff by blast

lemma attempt_won_snoc [intro]: "attempt_won c evs \<Longrightarrow> attempt_won c (evs @ [ev])"
  by (simp add: attempt_won_def)

lemma leads_after_win:
  assumes "is_leader (snd (run_loop c r ev))" and "\<not> is_leader r"
  shows "attempt_won c [ev]"
  using assms by (cases ev) (auto simp: attempt_won_def set_leader_def Let_def
      split: loop_phase.splits if_splits prod.splits sum.splits bool.splits)

lemma notify_returned: "notify_waiter w = Returned \<longleftrightarrow> w = Returned"
  by (cases w) simp_all

text \<open>What has been spawned at each point of \<open>main\<close>.\<close>

fun spawned_at :: "main_at \<Rightarrow> string list \<Rightarrow> bool" where
  "spawned_at AwaitLease cs = (cs = [])"
| "spawned_at (Spawn rest) cs = (cs @ rest = CONTROLLERS)"
| "spawned_at _ cs = (cs = CONTROLLERS)"

definition elected_inv :: "leader_cfg \<Rightarrow> bool \<Rightarrow> proc \<Rightarrow> bool" where
  "elected_inv c le p \<longleftrightarrow> (is_leader (pc_loop p) \<or> pc_waiter p = Returned \<longrightarrow> attempt_won c (pc_events p))
     \<and> (le \<and> pc_at p \<noteq> AwaitLease \<longrightarrow> attempt_won c (pc_events p))"

definition flags_inv :: "bool \<Rightarrow> proc \<Rightarrow> bool" where
  "flags_inv le p \<longleftrightarrow> spawned_at (pc_at p) (pc_spawned p)
     \<and> (pc_gauge p \<longleftrightarrow> pc_at p \<noteq> AwaitLease)
     \<and> (pc_ready p \<longleftrightarrow> pc_at p \<in> {SpawnGate, AwaitSignal, AbortGate, ClearHealthy, ClearReady})
     \<and> (pc_healthy p \<longleftrightarrow> pc_at p \<notin> {ClearReady, ClearReconcile, RequestRelease, Drain, Done})
     \<and> (pc_at p \<notin> {AwaitSignal, AbortGate, ClearHealthy, ClearReady, ClearReconcile, RequestRelease, Drain, Done}
          \<longrightarrow> pc_gate p = NoGate \<and> \<not> pc_reconcile_ready p)
     \<and> (pc_at p \<in> {ClearHealthy, ClearReady, ClearReconcile, RequestRelease, Drain, Done}
          \<longrightarrow> pc_gate p \<noteq> GateWaiting \<and> (pc_gate p = GateSynced \<longrightarrow> pc_late_gate p))
     \<and> (pc_at p \<in> {RequestRelease, Drain, Done} \<and> pc_reconcile_ready p \<longrightarrow> pc_late_gate p)
     \<and> (pc_at p \<in> {Drain, Done} \<longrightarrow> pc_shutdown_sent p = le)"

lemma proc_sel_election:
  "pc_at (election_step c ev p) = pc_at p" "pc_spawned (election_step c ev p) = pc_spawned p"
  "pc_gauge (election_step c ev p) = pc_gauge p" "pc_ready (election_step c ev p) = pc_ready p"
  "pc_healthy (election_step c ev p) = pc_healthy p" "pc_gate (election_step c ev p) = pc_gate p"
  "pc_reconcile_ready (election_step c ev p) = pc_reconcile_ready p" "pc_late_gate (election_step c ev p) = pc_late_gate p"
  "pc_shutdown_sent (election_step c ev p) = pc_shutdown_sent p" "pc_running (election_step c ev p) = pc_running p"
  "pc_loop (election_step c ev p) = snd (run_loop c (pc_loop p) ev)" "pc_events (election_step c ev p) = pc_events p @ [ev]"
  "pc_waiter (election_step c ev p) = Returned \<longleftrightarrow> pc_waiter p = Returned"
  by (simp_all add: election_step_def split_beta Let_def notify_returned)

lemma main_step_election:
  "pc_loop (main_step le p) = pc_loop p" "pc_waiter (main_step le p) = pc_waiter p" "pc_events (main_step le p) = pc_events p"
  "main_step le p = p \<or> pc_at (main_step le p) \<noteq> AwaitLease"
  by (auto simp: main_step_def bring_up_def shut_down_def split: main_at.splits list.splits)

lemma elected_inv_init: "elected_inv c le proc_init"
  by (simp add: elected_inv_def proc_init_def loop_start_def)

lemma flags_inv_init: "flags_inv le proc_init"
  by (simp add: flags_inv_def proc_init_def)

lemma elected_inv_step:
  assumes "proc_step c le p q" and "elected_inv c le p"
  shows "elected_inv c le q"
  using assms(1)
proof (cases rule: proc_step.cases)
  case ps_main
  have "attempt_won c (pc_events p)" if "le"
    using that ps_main(2) assms(2) by (cases "pc_at p") (auto simp: elected_inv_def may_proceed_def)
  with assms(2) show ?thesis unfolding ps_main(1) elected_inv_def main_step_election(1-3) by blast
next
  case (ps_election ev)
  have "attempt_won c (pc_events p @ [ev])" if "is_leader (snd (run_loop c (pc_loop p) ev))"
  proof (cases "is_leader (pc_loop p)")
    case True
    then show ?thesis using assms(2) by (auto simp: elected_inv_def)
  next
    case False
    from leads_after_win [OF that this] show ?thesis by (simp add: attempt_won_def)
  qed
  with assms(2) show ?thesis unfolding ps_election(1) by (auto simp: elected_inv_def proc_sel_election)
next
  case (ps_wait w)
  with assms(2) show ?thesis by (auto simp: elected_inv_def elim: wait_until_leader.cases)
qed (use assms(2) in \<open>auto simp: elected_inv_def\<close>)

lemma flags_inv_main:
  assumes "flags_inv le p"
  shows "flags_inv le (main_step le p)"
  using assms
  by (cases "pc_at p") (auto simp: flags_inv_def main_step_def bring_up_def shut_down_def split: list.splits)

lemma flags_inv_step:
  assumes "proc_step c le p q" and "flags_inv le p"
  shows "flags_inv le q"
  using assms(1)
proof (cases rule: proc_step.cases)
  case ps_main
  show ?thesis using flags_inv_main [OF assms(2)] unfolding ps_main(1) .
next
  case (ps_election ev)
  show ?thesis using assms(2) unfolding ps_election(1) flags_inv_def proc_sel_election .
next
  case ps_synced
  with assms(2) show ?thesis by (cases "pc_at p") (auto simp: flags_inv_def)
next
  case ps_gate
  with assms(2) show ?thesis by (cases "pc_at p") (auto simp: flags_inv_def)
qed (use assms(2) in \<open>auto simp: flags_inv_def\<close>)

lemma proc_invs: "proc_reach c le p \<Longrightarrow> elected_inv c le p \<and> flags_inv le p"
  by (induction rule: proc_reach.induct) (auto intro: elected_inv_init flags_inv_init elected_inv_step flags_inv_step)

lemma spawned_prefix: "spawned_at a cs \<Longrightarrow> \<exists>rest. CONTROLLERS = cs @ rest"
  by (cases "(a, cs)" rule: spawned_at.cases) (auto intro: sym)

text \<open>C38. What holds of the process at any time, in every interleaving of \<open>main\<close> with the election, the
  gate and the controllers. The controllers are spawned in order, and with leader election neither
  a controller is spawned nor a flag or the gauge set before an attempt on the lease of this replica
  returned that it holds it. A pod that reports ready has spawned all nine. Once the flags
  are cleared no one comes back, but for the reconcile flag of a gate that the abort found past its
  await, and the release of the lease has been requested when the drain begins.\<close>

theorem process_flags:
  assumes "proc_reach c le p"
  shows "(\<exists>rest. CONTROLLERS = pc_spawned p @ rest)
    \<and> (le \<and> (pc_spawned p \<noteq> [] \<or> pc_ready p \<or> pc_reconcile_ready p \<or> pc_gauge p) \<longrightarrow>
         (\<exists>now now' got wrote. AttemptDone now now' got wrote \<in> set (pc_events p)
            \<and> snd (try_acquire_or_renew c now now' got wrote) = Inr True))
    \<and> (pc_ready p \<or> pc_reconcile_ready p \<longrightarrow> pc_spawned p = CONTROLLERS \<and> pc_gauge p)
    \<and> (pc_at p \<in> {RequestRelease, Drain, Done} \<longrightarrow> \<not> pc_healthy p \<and> \<not> pc_ready p \<and> (pc_reconcile_ready p \<longrightarrow> pc_late_gate p))
    \<and> (pc_at p \<in> {Drain, Done} \<longrightarrow> pc_shutdown_sent p = le)"
proof -
  from proc_invs [OF assms] have e: "elected_inv c le p" and f: "flags_inv le p" by blast+
  have start: "pc_at p \<noteq> AwaitLease" if "pc_spawned p \<noteq> [] \<or> pc_ready p \<or> pc_reconcile_ready p \<or> pc_gauge p"
  proof
    assume "pc_at p = AwaitLease"
    with f that show False by (simp add: flags_inv_def)
  qed
  have all: "pc_spawned p = CONTROLLERS \<and> pc_gauge p" if "pc_ready p \<or> pc_reconcile_ready p"
    using f that spawned_at.simps(3-) unfolding flags_inv_def by (cases "pc_at p") simp_all
  have pre: "\<exists>rest. CONTROLLERS = pc_spawned p @ rest" using f spawned_prefix unfolding flags_inv_def by blast
  have won: "attempt_won c (pc_events p)" if "le" "pc_spawned p \<noteq> [] \<or> pc_ready p \<or> pc_reconcile_ready p \<or> pc_gauge p"
    using e start [OF that(2)] that(1) by (simp add: elected_inv_def)
  have clear: "\<not> pc_healthy p \<and> \<not> pc_ready p \<and> (pc_reconcile_ready p \<longrightarrow> pc_late_gate p)"
    if "pc_at p \<in> {RequestRelease, Drain, Done}"
    using f that unfolding flags_inv_def by (cases "pc_at p") simp_all
  have sent: "pc_shutdown_sent p = le" if "pc_at p \<in> {Drain, Done}" using f that unfolding flags_inv_def by blast
  have "le \<and> (pc_spawned p \<noteq> [] \<or> pc_ready p \<or> pc_reconcile_ready p \<or> pc_gauge p) \<longrightarrow>
      (\<exists>now now' got wrote. AttemptDone now now' got wrote \<in> set (pc_events p)
         \<and> snd (try_acquire_or_renew c now now' got wrote) = Inr True)"
    by (rule impI, rule attempt_won_iff [THEN iffD1], elim conjE, erule (1) won)
  then show ?thesis by (intro conjI) (rule pre, assumption, rule impI, erule all, rule impI, erule clear, rule impI, erule sent)
qed

text \<open>A run with a won lease, up to the wait for a signal.\<close>

definition small_cfg :: leader_cfg where
  "small_cfg = \<lparr>lease_name = ''l'', lease_namespace = ''n'', identity = ''a'', lease_duration = 3, renew_deadline = 2,
     retry_period = 1\<rparr>"

abbreviation granted :: loop_event where
  "granted \<equiv> AttemptDone 0 0 (Inl (KubeApi 404)) (Inr ())"

lemma proc_run:
  "proc_reach c le p \<Longrightarrow> may_proceed le p \<Longrightarrow> proc_reach c le (main_step le p)"
  by (rule pr_step, assumption) (rule ps_main)

lemmas start_defs = main_step_def bring_up_def shut_down_def may_proceed_def CONTROLLERS_def

fun mains :: "bool \<Rightarrow> nat \<Rightarrow> proc \<Rightarrow> proc" where
  "mains le 0 p = p"
| "mains le (Suc n) p = mains le n (main_step le p)"

fun may_proceed_all :: "bool \<Rightarrow> nat \<Rightarrow> proc \<Rightarrow> bool" where
  "may_proceed_all le 0 p = True"
| "may_proceed_all le (Suc n) p = (may_proceed le p \<and> may_proceed_all le n (main_step le p))"

lemma mains_reach: "proc_reach c le p \<Longrightarrow> may_proceed_all le n p \<Longrightarrow> proc_reach c le (mains le n p)"
  by (induction n arbitrary: p) (simp_all add: proc_run)

lemma granted_election:
  "election_step small_cfg granted proc_init = proc_init\<lparr>pc_loop := \<lparr>is_leader = True, phase = Sleeping 2\<rparr>, pc_events := [granted]\<rparr>"
  by (simp add: election_step_def proc_init_def loop_start_def try_acquire_or_renew_def is_not_found_def set_leader_def run_simps
      small_cfg_def)

definition elected_proc :: proc where
  "elected_proc = proc_init\<lparr>pc_loop := \<lparr>is_leader = True, phase = Sleeping 2\<rparr>, pc_events := [granted], pc_waiter := Returned\<rparr>"

lemma elected_reach: "proc_reach small_cfg True elected_proc"
proof -
  have e: "proc_reach small_cfg True (election_step small_cfg granted proc_init)"
    by (rule pr_step [OF pr_init]) (rule ps_election, simp_all add: proc_init_def)
  have "proc_step small_cfg True (election_step small_cfg granted proc_init)
      ((election_step small_cfg granted proc_init)\<lparr>pc_waiter := Returned\<rparr>)"
    by (rule ps_wait) (simp_all add: granted_election, simp_all add: proc_init_def see_leader)
  then show ?thesis using pr_step [OF e] by (simp add: granted_election elected_proc_def)
qed

definition serving_proc :: proc where
  "serving_proc = elected_proc\<lparr>pc_at := AwaitSignal, pc_gauge := True, pc_spawned := CONTROLLERS, pc_running := CONTROLLERS,
     pc_gate := GateWaiting, pc_ready := True\<rparr>"

lemma serving_reach: "proc_reach small_cfg True serving_proc"
proof -
  have "proc_reach small_cfg True (mains True 13 elected_proc)"
    by (rule mains_reach [OF elected_reach])
      (simp add: eval_nat_numeral start_defs elected_proc_def proc_init_def)
  moreover have "mains True 13 elected_proc = serving_proc"
    by (simp add: eval_nat_numeral start_defs elected_proc_def proc_init_def serving_proc_def)
  ultimately show ?thesis by simp
qed

lemma serving_sel:
  "pc_at serving_proc = AwaitSignal" "pc_spawned serving_proc = CONTROLLERS" "pc_running serving_proc = CONTROLLERS"
  "pc_ready serving_proc" "pc_healthy serving_proc" "pc_gauge serving_proc" "pc_gate serving_proc = GateWaiting"
  "pc_loop serving_proc = \<lparr>is_leader = True, phase = Sleeping 2\<rparr>" "pc_events serving_proc = [granted]"
  by (simp_all add: serving_proc_def elected_proc_def proc_init_def)

theorem process_flags_witness:
  "proc_reach small_cfg True serving_proc \<and> pc_ready serving_proc
   \<and> (\<exists>now now' got wrote. AttemptDone now now' got wrote \<in> set (pc_events serving_proc)
        \<and> snd (try_acquire_or_renew small_cfg now now' got wrote) = Inr True)"
  using process_flags [OF serving_reach] serving_reach serving_sel(4) by blast

text \<open>Losing the lease stops nothing: a replica can have all its controllers running, report ready and
  report leadership while another one holds the lease.\<close>

theorem deposed_replica_keeps_reconciling:
  "\<exists>c p. proc_reach c True p \<and> \<not> is_leader (pc_loop p) \<and> pc_running p = CONTROLLERS \<and> pc_ready p \<and> pc_gauge p"
proof -
  let ?c = "small_cfg"
  let ?a = "election_step ?c SleepElapsed serving_proc"
  let ?b = "election_step ?c (AttemptDone 0 0 (Inl (KubeApi 500)) (Inr ())) ?a"
  have a: "proc_reach ?c True ?a"
    by (rule pr_step [OF serving_reach]) (rule ps_election, simp_all add: serving_sel)
  have "proc_reach ?c True ?b"
    by (rule pr_step [OF a]) (rule ps_election, simp_all add: serving_sel proc_sel_election)
  moreover have "\<not> is_leader (pc_loop ?b)"
    by (simp add: proc_sel_election serving_sel try_acquire_or_renew_def set_leader_def Let_def split_beta is_not_found_def run_simps)
  ultimately show ?thesis by (intro exI [of _ ?c] exI [of _ ?b]) (simp add: proc_sel_election serving_sel)
qed

text \<open>A controller task that ends is only logged: the pod stays healthy and ready without it, also when
  it was the last one.\<close>

lemma ended_reach:
  "proc_reach c le p \<Longrightarrow> pc_at p \<noteq> Done \<Longrightarrow> \<exists>q. proc_reach c le q \<and> pc_running q = [] \<and> pc_ready q = pc_ready p \<and> pc_healthy q = pc_healthy p"
proof (induction "length (pc_running p)" arbitrary: p rule: less_induct)
  case less
  show ?case
  proof (cases "pc_running p")
    case Nil
    with less.prems show ?thesis by blast
  next
    case (Cons n ns)
    let ?q = "p\<lparr>pc_running := removeAll n (pc_running p)\<rparr>"
    have "proc_reach c le ?q" by (rule pr_step [OF less.prems(1)]) (rule ps_ended, simp_all add: less.prems Cons)
    moreover have "length (pc_running ?q) < length (pc_running p)" using Cons by (simp add: le_imp_less_Suc)
    ultimately show ?thesis using less.hyps [of ?q] less.prems(2) by simp
  qed
qed

theorem ready_without_controllers:
  "\<exists>c p. proc_reach c True p \<and> pc_running p = [] \<and> pc_ready p \<and> pc_healthy p"
  using ended_reach [OF serving_reach] serving_sel by auto

text \<open>A gate that is past its await when it is aborted stores its flag after the shutdown has cleared it.\<close>

theorem late_gate_restores_flag:
  "\<exists>c p. proc_reach c True p \<and> pc_at p = Drain \<and> pc_reconcile_ready p"
proof -
  let ?a = "serving_proc\<lparr>pc_gate := GateSynced\<rparr>"
  let ?b = "?a\<lparr>pc_at := Drain, pc_late_gate := True, pc_healthy := False, pc_ready := False, pc_reconcile_ready := False,
    pc_shutdown_sent := True\<rparr>"
  have "proc_reach small_cfg True ?a"
    by (rule pr_step [OF serving_reach]) (rule ps_synced, simp_all add: serving_sel)
  moreover have "may_proceed_all True 6 ?a" "mains True 6 ?a = ?b"
    by (simp_all add: eval_nat_numeral start_defs serving_proc_def)
  ultimately have "proc_reach small_cfg True ?b" using mains_reach by metis
  then have "proc_reach small_cfg True (?b\<lparr>pc_gate := GateEnded, pc_reconcile_ready := True\<rparr>)"
    by (rule pr_step) (rule ps_gate, simp_all)
  then show ?thesis by (intro exI [of _ small_cfg] exI) (erule conjI, simp)
qed

theorem boot_order_witness:
  "fst (boot \<lparr>be_client = True, be_socket = (\<lambda>_. True), be_read_file = (\<lambda>_. Some ''t''), be_fleet_feature = True\<rparr> sample_boot)
     = [SetTrustRoot None, SpawnWebhook, SpawnMetrics, SpawnFleet ''f'' ''t'' 5, SpawnElection, LeaderGauge False, WaitUntilLeader]"
proof -
  let ?env = "\<lparr>be_client = True, be_socket = (\<lambda>_. True), be_read_file = (\<lambda>_. Some ''t''), be_fleet_feature = True\<rparr>"
  have "list_all graphic ''t''" by (simp add: graphic_def)
  from trim_graphic [OF this] have tok: "read_token (be_read_file ?env) (cf_fleet_token sample_boot) (cf_fleet_token_file sample_boot) = Inr ''t''"
    by (simp add: read_token_def sample_boot_def Let_def)
  have le: "leader_validate (cf_leader sample_boot) = Inr ()"
    by (simp add: sample_boot_def sample_cfg_def leader_validate_def ensure_def first_err.simps)
  have ok: "snd (boot ?env sample_boot) = Inr ()"
    using boot_order [of ?env sample_boot, unfolded Let_def] tok le by (simp add: sample_boot_def)
  then show ?thesis
    using boot_order [of ?env sample_boot, unfolded Let_def] tok by (auto simp: sample_boot_def)
qed

end
