(* ===== verification/Config.thy ===== *)
theory Config
  imports Boot Readiness GatewayCtl
begin

text \<open>
  The operator's configuration: the flags of \<open>config.rs\<close> with the values they have when nothing is
  given, what \<open>main.rs\<close> and the controllers read from them, and the image defaults of \<open>lib.rs\<close>. The
  command-line parser is a library; \<open>cli_defaults\<close> is its result on an empty command line and an
  empty environment.
\<close>

section \<open>The flags\<close>

datatype log_format = Pretty | LogJson

record cli_config =
  ci_metrics_bind :: string
  ci_webhook_bind :: string
  ci_tls_cert_dir :: "string option"
  ci_leader_election :: bool
  ci_lease_name :: string
  ci_lease_namespace :: string
  ci_lease_duration_secs :: u64
  ci_lease_renew_secs :: u64
  ci_lease_retry_secs :: u64
  ci_pod_name :: string
  ci_resync_interval_secs :: u64
  ci_reconcile_concurrency :: u64
  ci_watch_namespace :: "string option"
  ci_operator_service_account :: string
  ci_log_format :: log_format
  ci_log_filter :: string
  ci_sigstore_trust_root_path :: "string option"
  ci_edge_cluster_issuer :: "string option"
  ci_cloud_default_plugins :: "string option"
  ci_default_otlp_traces_url :: "string option"
  ci_events_egress_probe_url :: "string option"
  ci_gateway_pod_annotations :: "string option"
  ci_pod_dns_config :: "json option"
  ci_fleet_attach :: bool
  ci_fleet_endpoint :: "string option"
  ci_fleet_token_file :: "string option"
  ci_fleet_token :: "string option"
  ci_fleet_edge_address :: string
  ci_fleet_heartbeat_secs :: u64

definition cli_defaults :: cli_config where
  "cli_defaults = \<lparr>ci_metrics_bind = ''0.0.0.0:8443'', ci_webhook_bind = ''0.0.0.0:9443'', ci_tls_cert_dir = None,
     ci_leader_election = True, ci_lease_name = ''mcpg-operator'', ci_lease_namespace = ''mcpg-system'',
     ci_lease_duration_secs = 30, ci_lease_renew_secs = 20, ci_lease_retry_secs = 4, ci_pod_name = ''mcpg-operator'',
     ci_resync_interval_secs = 600, ci_reconcile_concurrency = 8, ci_watch_namespace = None,
     ci_operator_service_account = ''mcpg-operator'', ci_log_format = LogJson,
     ci_log_filter = ''mcpg_operator=info,kube=warn'', ci_sigstore_trust_root_path = None, ci_edge_cluster_issuer = None,
     ci_cloud_default_plugins = None, ci_default_otlp_traces_url = None, ci_events_egress_probe_url = None,
     ci_gateway_pod_annotations = None, ci_pod_dns_config = None, ci_fleet_attach = False, ci_fleet_endpoint = None,
     ci_fleet_token_file = None, ci_fleet_token = None, ci_fleet_edge_address = [], ci_fleet_heartbeat_secs = 30\<rparr>"

text \<open>\<open>parse\<close> reads the JSON of a pod DNS configuration, \<open>None\<close> for any other text.\<close>

definition parse_pod_dns_config :: "(string \<Rightarrow> json option) \<Rightarrow> string \<Rightarrow> unit + json" where
  "parse_pod_dns_config parse raw = (case parse raw of Some v \<Rightarrow> Inr v | None \<Rightarrow> Inl ())"

definition webhook_enabled :: "cli_config \<Rightarrow> bool" where
  "webhook_enabled c \<longleftrightarrow> ci_tls_cert_dir c \<noteq> None"

section \<open>What the program takes from the flags\<close>

text \<open>A \<open>Duration\<close> of whole seconds, in nanoseconds.\<close>

definition from_secs :: "u64 \<Rightarrow> nat" where
  "from_secs s = unat s * 10 ^ 9"

definition leader_cfg_of :: "cli_config \<Rightarrow> leader_cfg" where
  "leader_cfg_of c = \<lparr>lease_name = ci_lease_name c, lease_namespace = ci_lease_namespace c, identity = ci_pod_name c,
     lease_duration = from_secs (ci_lease_duration_secs c), renew_deadline = from_secs (ci_lease_renew_secs c),
     retry_period = from_secs (ci_lease_retry_secs c)\<rparr>"

definition boot_config_of :: "cli_config \<Rightarrow> boot_config" where
  "boot_config_of c = \<lparr>cf_trust_root = ci_sigstore_trust_root_path c, cf_webhook_bind = ci_webhook_bind c,
     cf_metrics_bind = ci_metrics_bind c, cf_leader_election = ci_leader_election c, cf_leader = leader_cfg_of c,
     cf_fleet_attach = ci_fleet_attach c, cf_fleet_endpoint = ci_fleet_endpoint c, cf_fleet_token = ci_fleet_token c,
     cf_fleet_token_file = ci_fleet_token_file c, cf_fleet_heartbeat_secs = unat (ci_fleet_heartbeat_secs c)\<rparr>"

definition operator_config_of :: "cli_config \<Rightarrow> operator_config" where
  "operator_config_of c = \<lparr>oc_cloud_default_plugins = ci_cloud_default_plugins c,
     oc_default_otlp_traces_url = ci_default_otlp_traces_url c, oc_events_egress_probe_url = ci_events_egress_probe_url c,
     oc_gateway_pod_annotations = gateway_pod_annotations_map (ci_gateway_pod_annotations c),
     oc_pod_dns_config = ci_pod_dns_config c, oc_edge_cluster_issuer = ci_edge_cluster_issuer c,
     oc_operator_service_account = ci_operator_service_account c,
     oc_resync_interval_secs = unat (ci_resync_interval_secs c)\<rparr>"

section \<open>Image defaults (\<open>lib.rs\<close>)\<close>

definition DEFAULT_GATEWAY_IMAGE_REPOSITORY :: string where
  "DEFAULT_GATEWAY_IMAGE_REPOSITORY = ''ghcr.io/mcpg-dev/mcpg''"
definition ENV_DEFAULT_GATEWAY_IMAGE_REPOSITORY :: string where
  "ENV_DEFAULT_GATEWAY_IMAGE_REPOSITORY = ''MCPG_DEFAULT_GATEWAY_IMAGE_REPOSITORY''"
definition DEFAULT_GATEWAY_IMAGE_TAG :: string where "DEFAULT_GATEWAY_IMAGE_TAG = ''v1.0.0-dev''"
definition ENV_DEFAULT_GATEWAY_IMAGE_TAG :: string where
  "ENV_DEFAULT_GATEWAY_IMAGE_TAG = ''MCPG_DEFAULT_GATEWAY_IMAGE_TAG''"

text \<open>\<open>pinned\<close> is the value of \<open>MCPG_OPERATOR_DEFAULT_PLUGIN_VERSION\<close> when the operator was built.\<close>

definition DEFAULT_PLUGIN_VERSION :: "string option \<Rightarrow> string" where
  "DEFAULT_PLUGIN_VERSION pinned = (case pinned of Some v \<Rightarrow> v | None \<Rightarrow> ''protocol-1'')"
definition ENV_DEFAULT_PLUGIN_VERSION :: string where "ENV_DEFAULT_PLUGIN_VERSION = ''MCPG_DEFAULT_PLUGIN_VERSION''"

text \<open>The process environment is read through \<open>env\<close>; each value is fixed by its first use.\<close>

definition gateway_image_repository :: "(string \<Rightarrow> string option) \<Rightarrow> string option \<Rightarrow> string \<times> string option" where
  "gateway_image_repository env = default_once env ENV_DEFAULT_GATEWAY_IMAGE_REPOSITORY DEFAULT_GATEWAY_IMAGE_REPOSITORY"

definition gateway_image_tag :: "(string \<Rightarrow> string option) \<Rightarrow> string option \<Rightarrow> string \<times> string option" where
  "gateway_image_tag env = default_once env ENV_DEFAULT_GATEWAY_IMAGE_TAG DEFAULT_GATEWAY_IMAGE_TAG"

definition plugin_version_default :: "string option \<Rightarrow> (string \<Rightarrow> string option) \<Rightarrow> string option \<Rightarrow> string \<times> string option" where
  "plugin_version_default pinned env = default_once env ENV_DEFAULT_PLUGIN_VERSION (DEFAULT_PLUGIN_VERSION pinned)"

definition process_defaults :: "string option \<Rightarrow> (string \<Rightarrow> string option) \<Rightarrow> image_defaults" where
  "process_defaults pinned env =
     \<lparr>default_gateway_image_repository = fst (gateway_image_repository env None),
      default_gateway_image_tag = fst (gateway_image_tag env None),
      default_plugin_version = fst (plugin_version_default pinned env None)\<rparr>"

section \<open>Facts\<close>

lemma from_secs_less [simp]: "from_secs a < from_secs b \<longleftrightarrow> unat a < unat b"
  by (simp add: from_secs_def)

text \<open>The election timing a command line may ask for.\<close>

lemma leader_flags_accepted_iff:
  "leader_validate (leader_cfg_of c) = Inr () \<longleftrightarrow>
     ci_lease_retry_secs c < ci_lease_renew_secs c \<and> ci_lease_renew_secs c < ci_lease_duration_secs c
     \<and> ci_pod_name c \<noteq> [] \<and> ci_lease_name c \<noteq> [] \<and> ci_lease_namespace c \<noteq> []"
  by (auto simp: leader_validate_def leader_cfg_of_def ensure_def first_err.simps word_less_nat_alt split: if_splits)

text \<open>An operator that is given nothing starts on any cluster it can reach, elects a leader with an
  admissible timing, opens no webhook and attaches to no fleet.\<close>

theorem defaults_start:
  "snd (boot env (boot_config_of cli_defaults)) = Inr () \<longleftrightarrow>
     be_client env \<and> be_socket env ''0.0.0.0:9443'' \<and> be_socket env ''0.0.0.0:8443''"
  "\<not> webhook_enabled cli_defaults" "cf_leader_election (boot_config_of cli_defaults)"
proof -
  have "leader_validate (leader_cfg_of cli_defaults) = Inr ()"
    unfolding leader_flags_accepted_iff by (simp add: cli_defaults_def word_less_nat_alt)
  then show "snd (boot env (boot_config_of cli_defaults)) = Inr () \<longleftrightarrow>
     be_client env \<and> be_socket env ''0.0.0.0:9443'' \<and> be_socket env ''0.0.0.0:8443''"
    using boot_order [of env "boot_config_of cli_defaults", unfolded Let_def]
    by (auto simp: boot_config_of_def cli_defaults_def)
qed (simp_all add: webhook_enabled_def boot_config_of_def cli_defaults_def)

text \<open>Whatever the environment holds, the parts of a default image reference are not empty and do not end in
  a slash; reading them again later gives the same.\<close>

theorem process_defaults_usable:
  assumes "\<And>v. pinned = Some v \<Longrightarrow> v \<noteq> [] \<and> last v \<noteq> CHR ''/''"
  shows "let d = process_defaults pinned env in
    (\<forall>x \<in> {default_gateway_image_repository d, default_gateway_image_tag d, default_plugin_version d}. x \<noteq> [] \<and> last x \<noteq> CHR ''/'')
    \<and> (\<forall>later. gateway_image_repository later (snd (gateway_image_repository env None)) = gateway_image_repository env None
         \<and> gateway_image_tag later (snd (gateway_image_tag env None)) = gateway_image_tag env None
         \<and> plugin_version_default pinned later (snd (plugin_version_default pinned env None)) = plugin_version_default pinned env None)"
proof -
  have p: "DEFAULT_PLUGIN_VERSION pinned \<noteq> []" "last (DEFAULT_PLUGIN_VERSION pinned) \<noteq> CHR ''/''"
    using assms by (auto simp: DEFAULT_PLUGIN_VERSION_def split: option.splits)
  have once: "default_once later var c (snd (default_once env var c None)) = default_once env var c None" for later var c
    by (simp add: default_once_def Let_def)
  show ?thesis
    using resolve_image_default_usable [OF p] resolve_image_default_usable [of DEFAULT_GATEWAY_IMAGE_REPOSITORY]
      resolve_image_default_usable [of DEFAULT_GATEWAY_IMAGE_TAG]
    by (auto simp: process_defaults_def gateway_image_repository_def gateway_image_tag_def plugin_version_default_def once
        default_once_def Let_def DEFAULT_GATEWAY_IMAGE_REPOSITORY_def DEFAULT_GATEWAY_IMAGE_TAG_def)
qed

end
