(* ===== verification/CrdGen.thy ===== *)
theory CrdGen
  imports Prelude
begin

text \<open>
  The schema printer (\<open>bin/crdgen.rs\<close>): where it writes what. The text of a schema is generated from
  the API crate; \<open>crd\<close> gives it for a kind. Creating the directory and writing a file may fail.
\<close>

definition CRD_KINDS :: "string list" where
  "CRD_KINDS = [''mcpggateway'', ''mcpgplugin'', ''mcpgpluginset'', ''mcpgrevocationlist'', ''mcpgcluster'', ''mcpgroute'',
     ''mcpgpluginmirror'', ''mcpgtenant'', ''mcpgserver'']"

definition emit_per_kind :: "(string \<Rightarrow> string) \<Rightarrow> (string \<times> string) list" where
  "emit_per_kind crd = map (\<lambda>k. (k, crd k)) CRD_KINDS"

datatype exit_code = ExitSuccess | ExitFailure

datatype gen_output = CreateDir string | WriteFile string string | PrintOut string

record gen_env =
  gn_mkdir :: "string \<Rightarrow> bool"
  gn_write :: "string \<Rightarrow> bool"

fun write_kinds :: "gen_env \<Rightarrow> string \<Rightarrow> (string \<times> string) list \<Rightarrow> gen_output list \<times> exit_code" where
  "write_kinds env dir [] = ([], ExitSuccess)"
| "write_kinds env dir ((kind, yaml) # ks) =
     (let path = dir @ ''/'' @ kind @ ''.yaml'' in
      if gn_write env path
      then (case write_kinds env dir ks of (out, code) \<Rightarrow> (WriteFile path yaml # out, code))
      else ([], ExitFailure))"

fun print_kinds :: "bool \<Rightarrow> (string \<times> string) list \<Rightarrow> gen_output list" where
  "print_kinds is_first [] = []"
| "print_kinds is_first ((_, yaml) # ks) =
     (if is_first then [] else [PrintOut (''---'' @ [CHR 0x0A])]) @ PrintOut yaml # print_kinds False ks"

text \<open>\<open>args\<close> holds the program name first.\<close>

definition crdgen_main :: "gen_env \<Rightarrow> (string \<Rightarrow> string) \<Rightarrow> string list \<Rightarrow> gen_output list \<times> exit_code" where
  "crdgen_main env crd args =
     (if length args = 3 \<and> args ! 1 = ''--split-by-kind''
      then let dir = args ! 2 in
        if gn_mkdir env dir
        then (case write_kinds env dir (emit_per_kind crd) of (out, code) \<Rightarrow> (CreateDir dir # out, code))
        else ([], ExitFailure)
      else (print_kinds True (emit_per_kind crd), ExitSuccess))"

lemma write_kinds_ok:
  assumes "write_kinds env dir ks = (out, ExitSuccess)"
  shows "out = map (\<lambda>(k, y). WriteFile (dir @ ''/'' @ k @ ''.yaml'') y) ks"
  using assms by (induction ks arbitrary: out) (auto simp: Let_def split: if_splits prod.splits)

text \<open>A successful split run has written one file per kind, no file twice; a failed one stopped at the
  first file it could not write.\<close>

theorem crdgen_split_complete:
  assumes "crdgen_main env crd [prog, ''--split-by-kind'', dir] = (out, ExitSuccess)"
  shows "out = CreateDir dir # map (\<lambda>k. WriteFile (dir @ ''/'' @ k @ ''.yaml'') (crd k)) CRD_KINDS
    \<and> distinct (map (\<lambda>k. dir @ ''/'' @ k @ ''.yaml'') CRD_KINDS)"
proof -
  have "distinct CRD_KINDS" by (simp add: CRD_KINDS_def)
  then have "distinct (map (\<lambda>k. dir @ ''/'' @ k @ ''.yaml'') CRD_KINDS)" by (simp add: distinct_map inj_on_def)
  then show ?thesis
    using assms by (auto simp: crdgen_main_def Let_def emit_per_kind_def dest!: write_kinds_ok split: if_splits prod.splits)
qed

end
