(* ===== verification/Spec2Isabelle.thy ===== *)
theory Spec2Isabelle
  imports Prelude Backoff K8s Kube Leader Oci Json Crd Verify Admission AdmissionFacts Reconciler Plugin
    PluginSet RevocationCtl MirrorCtl Readiness Templates PluginRender GatewayConfig GatewayFacts GatewayCtl
    GatewaySafety RouteCtl TenantCtl ServerCtl Decimal ManagedNats ClusterCtl Composition Ownership Withdrawal
    Triggers Telemetry FleetAgent Boot Config CrdGen
begin

text \<open>
  A verification development of the MCPG operator: a Kubernetes operator, written in Rust, that
  deploys MCP gateways, supplies them with signed plugins, and separates the tenants that share
  them. Paths below are relative to \<open>src/src/\<close>.

  \<^bold>\<open>The program.\<close> Replicas elect a leader over a Lease (\<open>leader.rs\<close>). The leader runs one controller
  per custom resource. The plugin controller (\<open>controllers/plugin.rs\<close>) pulls an artefact from a
  registry or a mirror (\<open>oci_pull.rs\<close>), checks it (\<open>verify/\<close>), and stores it in an immutable
  Secret of the operator's namespace. The plugin-set controller (\<open>controllers/plugin_set.rs\<close>)
  copies the Secrets of the plugins a set lists into the namespace of the set, under a role binding
  (\<open>rbac.rs\<close>), prunes what is no longer listed and publishes the resolved set as a ConfigMap. The
  mirror and revocation-list controllers publish mirrors and lists. The gateway controller
  (\<open>controllers/gateway.rs\<close>) resolves the plugin set, the revocation list and the coordinator a
  gateway refers to, renders its configuration and its child objects (\<open>templates/\<close>) and applies
  them. All of them share the helpers of \<open>reconcile/\<close>, the backoff tracker (\<open>backoff.rs\<close>) and the
  readiness gate (\<open>readiness.rs\<close>). Validating webhooks (\<open>admission/\<close>) refuse what the controllers
  could not serve.

  \<^bold>\<open>How it is modelled.\<close> A record stands for a struct, a datatype for an enum, a string is the list
  of its bytes, a machine integer a \<open>word\<close> where it can wrap. An operation that can fail returns a
  sum, a panic is a value of its own. Code that talks to the cluster is a \<^emph>\<open>run\<close>: the list of the
  requests it sends, in order, and its result; the answers of the API server, the registry, the
  clock and the random source are arguments (the \<open>env\<close> record of a controller), so that a theorem
  holds for every answer. Types and methods of the API crate, which is not part of the sources, are
  the record \<open>api_crate\<close>; the signature verifier, the sigstore client, SHA-256, the JSON, YAML and
  base64 codecs, the regex and the version parser are parameters too. What a theorem needs of a
  parameter is a hypothesis with a name: \<open>condition_setter\<close> (setting a condition replaces the one of
  its type), \<open>hex_digest\<close> (a digest has 64 hexadecimal digits), \<open>checks_labels\<close> (a server that
  refuses label values above 63 characters); each has a witness.

  \<^bold>\<open>The theories.\<close>
    \<^item> \<open>Prelude\<close>: strings, white space, digests, association lists and the orders the maps need.
    \<^item> \<open>Json\<close>, \<open>K8s\<close>, \<open>Crd\<close>: JSON values, the Kubernetes objects written, the custom resources read.
    \<^item> \<open>Backoff\<close>: \<open>backoff.rs\<close>. The tracker refines the count of failures since the last success, through
      the locale \<open>failure_counter\<close>; bounds of the delay.
    \<^item> \<open>Kube\<close>: requests, runs, and the helpers of \<open>reconcile/\<close>. Finalizers of others survive.
    \<^item> \<open>Leader\<close>: \<open>leader.rs\<close>. One attempt, the loop over a list of ticks, a transition system of
      replicas over one Lease: two leaders are impossible when attempts do not interleave, and possible
      when they do.
    \<^item> \<open>Oci\<close>, \<open>Verify\<close>: \<open>oci_pull.rs\<close>, \<open>verify/\<close>. Round trips of references and exact acceptance
      conditions of the three trust gates.
    \<^item> \<open>Admission\<close>, \<open>AdmissionFacts\<close>: the nine webhooks and the tenant guards; the locale
      \<open>admission_webhook\<close> is the contract of a handler, interpreted for each of them; what an admitted
      object satisfies, with the branches that admit because a read failed. \<open>tenant_store\<close> is the
      history of admitted tenants under arbitrary answers of the list; two tenants of it are apart when
      the later one was judged on a list that showed the other, and \<open>fail_open_shares_namespace\<close> shows
      that they can meet otherwise.
    \<^item> \<open>Reconciler\<close>: the metric wrapper, the error policy, and the locales \<open>cleanup_reconciler\<close> and
      \<open>reconciler\<close>, the contract of a reconcile body: nothing is applied unless the finalizer is in place,
      and a deleted object only releases it. Every controller interprets one of them.
    \<^item> \<open>Plugin\<close>, \<open>PluginSet\<close>, \<open>RevocationCtl\<close>, \<open>MirrorCtl\<close>: the plugin-side controllers.
      Only verified artefacts are stored, only usable ones are copied, exactly the stale ones are
      pruned, statuses mean what they say.
    \<^item> \<open>Readiness\<close>: \<open>readiness.rs\<close> and the image defaults of \<open>lib.rs\<close>; no wake-up is lost.
    \<^item> \<open>Templates\<close>: the renderers of the child objects; selectors, names, volumes and hashes fit together.
    \<^item> \<open>PluginRender\<close>, \<open>GatewayConfig\<close>, \<open>GatewayFacts\<close>: the rendered configuration. Every merge is
      characterised by what it changes and what it leaves; the access rule of a tool admits exactly the
      tenants of the accepted routes; the entries of the federation are the author's and those of the
      servers, where the first of a name wins. CEL is not part of the sources: \<open>cel_admits\<close> is a
      hand-written reader of the fragment the controller generates, and is more liberal than CEL on
      control characters inside a literal.
    \<^item> \<open>GatewayCtl\<close>, \<open>GatewaySafety\<close>: the gateway reconcile. It never panics, holds when the coordinator
      does not resolve, applies dependencies before the Deployment, and converges when the server accepts,
      after one run that places the finalizer. What the rendered document mounts and which resource
      indicators a managed gateway advertises is stated of the whole merge.
    \<^item> \<open>RouteCtl\<close>, \<open>ServerCtl\<close>: the route controller, and provisioned servers with their renderers. What
      they report agrees with what the gateway renders; a server that asks for verification runs only a
      verified image.
    \<^item> \<open>TenantCtl\<close>: the tenant controller with its labels and quotas (\<open>Decimal\<close> prints the limits). The
      controller only logs a label, role binding or quota that fails, so these are requests without an
      answer: "sent", not "in force".
    \<^item> \<open>ManagedNats\<close>, \<open>ClusterCtl\<close>: the renderers of a managed coordinator and the cluster controller.
      Provisioning is ordered, the generated keys are never rotated while the cluster lives, and the
      status says when the coordinator can be bound.
    \<^item> \<open>Ownership\<close>: where a gateway and a server may write: owned children in their own namespace, and
      the exceptions in full.
    \<^item> \<open>Withdrawal\<close>: how a plugin that fails its gates leaves the sets that list it, and what a gateway that
      uses such a set renders then, with the trigger of every step.
    \<^item> \<open>Composition\<close>: controllers together. The life of a failure counter (locale \<open>unreset_controller\<close>,
      interpreted for the four controllers that never reset it), the keys from the cluster to the
      gateway, tenants side by side.
    \<^item> \<open>FleetAgent\<close>: \<open>fleet_agent.rs\<close>. What an assignment patches, the discovery cache, the observation
      of a cell with its quantity parsers, the token, one attachment, the reconnect delays. A parsed
      \<open>f64\<close> is rounded to 53 bits, ties to even; the round trip is claimed below \<open>2^53\<close>, and
      \<open>large_number_rounds\<close> shows a number above that is read back changed.
    \<^item> \<open>Triggers\<close>: the watches of the nine \<open>run\<close> functions as data. The locale \<open>watched_reconciler\<close> is
      the contract that a change which queues nothing does not matter; the gateway, plugin-set, mirror
      and cluster controllers meet it. The history of a gateway's store allows every edit; the one a
      gateway misses is named by \<open>leaves_gateway\<close> (a route or server that was its own and moves away),
      and that missed edits matter is shown for each kind.
    \<^item> \<open>Telemetry\<close>: \<open>telemetry.rs\<close>. The calls of the metrics library behind the observations; every
      reconcile of every controller is counted exactly once.
    \<^item> \<open>Config\<close>: \<open>config.rs\<close> and the image defaults of \<open>lib.rs\<close>. The flags with their defaults and
      what is read from them. \<open>CrdGen\<close>: the schema printer \<open>bin/crdgen.rs\<close>.
    \<^item> \<open>Boot\<close>: \<open>main.rs\<close>. The order of the start; then \<open>main\<close> interleaved with the election task of
      \<open>Leader\<close>, the wait for the lease, the readiness gate and controllers that end, with the health
      flags and the lease as an invariant, and what the flags do not promise.
    \<^item> This theory: properties that span components. Histories of plugin and set reconciles leave only
      verified artefacts in every namespace; what the webhooks admit the controllers can serve; what a
      deletion does in every controller.

  \<^bold>\<open>Bounds and fuel.\<close> Counters and ports keep their width (\<open>32 word\<close>, \<open>16 word\<close>). All loops are
  structural recursions over lists, except the reader of access expressions, whose fuel is the length
  of the text: \<open>read_disjunction_join\<close> shows that this is enough for every expression the controller
  generates. The loops that run until shutdown (leader election, the readiness gate) are recursions
  over the list of events, or step relations; statements about them hold for every list.

  \<^bold>\<open>Not modelled.\<close> The dispatch of watch events by the async runtime, log lines and their texts, the
  logging setup, the metric instruments and their text encoder, the command-line parser and the
  schemas that the API crate generates are libraries or their input and output. Messages of
  conditions and denials are left out; their types, statuses and reasons are kept. Time stamps in
  statuses are left out.
\<close>

section \<open>From the registry to the tenant namespaces\<close>

text \<open>The Secrets the operator has written, by namespace and name.\<close>

type_synonym secret_store = "string \<times> string \<rightharpoonup> secret"

text \<open>What an effect of a reconcile of an object in namespace \<open>ns\<close> does to the store: \<open>ok\<close> are the
  objects whose apply the server accepts, \<open>gone\<close> the deletions it carries out.\<close>

definition namespace_any :: "object_meta \<Rightarrow> string" where
  "namespace_any m = (case meta_namespace m of Some n \<Rightarrow> n | None \<Rightarrow> [])"

fun write_effect :: "(k8s_object \<Rightarrow> bool) \<Rightarrow> (string \<Rightarrow> bool) \<Rightarrow> string
    \<Rightarrow> ('st, k8s_object) effect \<Rightarrow> secret_store \<Rightarrow> secret_store" where
  "write_effect ok gone ns (Apply (ObSecret s) fm) \<sigma> =
     (if ok (ObSecret s) then \<sigma>((namespace_any (sec_meta s), name_any (sec_meta s)) \<mapsto> s) else \<sigma>)"
| "write_effect ok gone ns (DeleteObj n) \<sigma> = (if gone n then \<sigma>((ns, n) := None) else \<sigma>)"
| "write_effect ok gone ns _ \<sigma> = \<sigma>"

datatype ('rl, 'root) run_event =
    PluginRun "('rl, 'root) plugin_env" plugin
  | SetRun set_env plugin_set

text \<open>Histories of the two controllers: plugin and set reconciles in any order, with any answers,
  each leaving the store it wrote. The one thing asked of the answers is where the Secrets a
  set reads come from: some store of the history, not necessarily the current one (the reads
  may be stale). Nobody but the operator writes Secrets to its namespace.\<close>

inductive history :: "(('rl, 'root) run_event \<times> secret_store) list \<Rightarrow> secret_store \<Rightarrow> bool" where
  start: "history [] Map.empty"
| plugin_run: "history h \<sigma> \<Longrightarrow>
    \<sigma>' = fold (write_effect (\<lambda>_. pn_apply env = Inr ()) gone plugin_operator_namespace)
           (fst (plugin_reconcile env p)) \<sigma> \<Longrightarrow>
    history ((PluginRun env p, \<sigma>') # h) \<sigma>'"
| set_run: "history h \<sigma> \<Longrightarrow>
    (\<forall>n s. sn_source env n = Inr (Some s) \<longrightarrow>
       (\<exists>\<sigma>\<^sub>0 \<in> snd ` set h. \<sigma>\<^sub>0 (set_operator_namespace, n) = Some s)) \<Longrightarrow>
    \<sigma>' = fold (write_effect (\<lambda>ob. sn_apply env ob = Inr ()) gone (namespace_any (set_meta obj)))
           (fst (set_reconcile env obj)) \<sigma> \<Longrightarrow>
    history ((SetRun env obj, \<sigma>') # h) \<sigma>'"

text \<open>The bytes of a Secret are those of an artefact that some plugin reconcile of the history
  pulled and passed through every gate.\<close>

definition verified_in :: "(('rl, 'root) run_event \<times> secret_store) list \<Rightarrow> secret \<Rightarrow> bool" where
  "verified_in h s \<longleftrightarrow> (\<exists>env p ref options art vr ns n. PluginRun env p \<in> fst ` set h
     \<and> plugin_pulled env p ref options art \<and> trust_gates env p art vr
     \<and> sec_data s = sec_data (build_artefact_secret p ns n art))"

lemma verified_in_mono: "verified_in h s \<Longrightarrow> verified_in (x # h) s"
  unfolding verified_in_def by fastforce

lemma verified_in_data: "sec_data s = sec_data s' \<Longrightarrow> verified_in h s' \<Longrightarrow> verified_in h s"
  by (simp add: verified_in_def)

text \<open>A value found in the store after a run was there before, or the run applied it.\<close>

lemma fold_write_effect:
  assumes "fold (write_effect ok gone ns) effs \<sigma> k = Some s"
  shows "\<sigma> k = Some s \<or> (\<exists>fm. Apply (ObSecret s) fm \<in> set effs)"
  using assms
proof (induction effs arbitrary: \<sigma>)
  case (Cons e effs)
  have "write_effect ok gone ns e \<sigma> k = Some s \<Longrightarrow> \<sigma> k = Some s \<or> (\<exists>fm. e = Apply (ObSecret s) fm)"
    by (cases "(ok, gone, ns, e, \<sigma>)" rule: write_effect.cases) (auto split: if_splits)
  with Cons show ?case by fastforce
qed simp

lemma artefact_secret_data:
  "sec_data (build_artefact_secret p ns n (art\<lparr>artifact_sha256 := x\<rparr>)) = sec_data (build_artefact_secret p ns n art)"
  by (simp add: build_artefact_secret_def Let_def)

lemma history_stores_verified:
  assumes "history h \<sigma>"
  shows "(\<sigma> k = Some s \<longrightarrow> verified_in h s) \<and> (\<forall>\<sigma>\<^sub>0 \<in> snd ` set h. \<forall>k s. \<sigma>\<^sub>0 k = Some s \<longrightarrow> verified_in h s)"
  using assms
proof (induction arbitrary: k s rule: history.induct)
  case (plugin_run h \<sigma> \<sigma>' env gone p)
  let ?h = "(PluginRun env p, \<sigma>') # h"
  have "verified_in ?h s" if st: "\<sigma>' k = Some s" for k s
  proof (cases "\<sigma> k = Some s")
    case True
    then show ?thesis using plugin_run.IH [of k s] by (auto intro: verified_in_mono)
  next
    case False
    then obtain fm where "Apply (ObSecret s) fm \<in> set (fst (plugin_reconcile env p))"
      using fold_write_effect [OF st [unfolded plugin_run.hyps(2)]] by blast
    from reconcile_applies [OF this] obtain ref options art vr n where
        a: "plugin_pulled env p ref options art" "trust_gates env p art vr"
        "s = build_artefact_secret p plugin_operator_namespace n (art\<lparr>artifact_sha256 := Some (artifact_hash vr)\<rparr>)"
      by blast
    have "sec_data s = sec_data (build_artefact_secret p plugin_operator_namespace n art)"
      unfolding a(3) by (rule artefact_secret_data)
    with a(1,2) show ?thesis unfolding verified_in_def by (metis fst_conv image_eqI list.set_intros(1))
  qed
  then show ?case using plugin_run.IH by (auto intro: verified_in_mono)
next
  case (set_run h \<sigma> env \<sigma>' gone obj)
  let ?h = "(SetRun env obj, \<sigma>') # h :: (('a, 'b) run_event \<times> secret_store) list"
  have "verified_in ?h s" if st: "\<sigma>' k = Some s" for k s
  proof (cases "\<sigma> k = Some s")
    case True
    then show ?thesis using set_run.IH [of k s] by (auto intro: verified_in_mono)
  next
    case False
    then obtain fm where "Apply (ObSecret s) fm \<in> set (fst (set_reconcile env obj))"
      using fold_write_effect [OF st [unfolded set_run.hyps(3)]] by blast
    from set_applies_secret [OF this] obtain n source where src: "sn_source env n = Inr (Some source)"
        "sec_data s = sec_data source" by blast
    obtain \<sigma>\<^sub>0 where "\<sigma>\<^sub>0 \<in> snd ` set h" "\<sigma>\<^sub>0 (set_operator_namespace, n) = Some source"
      using src(1) set_run.hyps(2) by blast
    then have "verified_in h source" using set_run.IH by blast
    with src(2) show ?thesis by (auto intro: verified_in_mono verified_in_data)
  qed
  then show ?case using set_run.IH by (auto intro: verified_in_mono)
qed simp

text \<open>C1. End to end: whatever plugin and plugin-set reconciles have run, in whatever order and with
  whatever answers from the registry, the verifiers and the API server, every Secret the operator
  has put into any namespace holds exactly the files of an artefact that was pulled from the
  target its plugin resolves to and passed every gate its plugin configures.\<close>

theorem secrets_hold_verified_artefacts:
  assumes "history h \<sigma>" and "\<sigma> (ns, n) = Some s"
  shows "\<exists>env p ref options art vr d. PluginRun env p \<in> fst ` set h
     \<and> plugin_pulled env p ref options art \<and> trust_gates env p art vr \<and> sec_data s = Some d
     \<and> d ''plugin.so'' = Some (artifact_bytes art) \<and> d ''plugin.yaml'' = Some (descriptor_bytes art)
     \<and> d ''plugin.sig'' = signature_bytes art \<and> dom d \<subseteq> {''plugin.so'', ''plugin.yaml'', ''plugin.sig''}"
proof -
  have "verified_in h s" using history_stores_verified [OF assms(1)] assms(2) by blast
  then obtain env p ref options art vr m n where v: "PluginRun env p \<in> fst ` set h"
      "plugin_pulled env p ref options art" "trust_gates env p art vr"
      "sec_data s = sec_data (build_artefact_secret p m n art)"
    unfolding verified_in_def by blast
  obtain d where "sec_data (build_artefact_secret p m n art) = Some d"
    "d ''plugin.so'' = Some (artifact_bytes art)" "d ''plugin.yaml'' = Some (descriptor_bytes art)"
    "d ''plugin.sig'' = signature_bytes art" "dom d \<subseteq> {''plugin.so'', ''plugin.yaml'', ''plugin.sig''}"
    by (cases "signature_bytes art") (auto simp: build_artefact_secret_def Let_def)
  with v show ?thesis by metis
qed

section \<open>A re-pull takes a plugin away from its sets\<close>

text \<open>A re-pull drops a healthy plugin from its sets: the first status a reconcile writes keeps the
  plugin's Ready condition but names no artefact Secret, so a set that reads the plugin between
  that write and the last one rejects the entry, although nothing about the plugin changed.\<close>

theorem repull_hides_artefact:
  assumes "condition_setter (pn_set_condition env)" and "cond_true ''Ready'' (plugin_conditions obj)"
    and "plugin_id (pl_spec obj) = entry_id e"
  shows "\<exists>st rest. fst (plugin_body env obj name) = PatchStatus (name_any (pl_meta obj)) st plugin_fm # rest
     \<and> cond_true ''Ready'' (ps_conditions st)
     \<and> resolve_entry (Inr (Some (obj\<lparr>pl_status := Some st\<rparr>))) e = Inl ''ArtefactSecretMissing''"
proof -
  let ?st = "default_plugin_status\<lparr>ps_conditions := pn_set_condition env
      (cond ''Progressing'' ''True'' ''PullingArtefact'' (generation_of (pl_meta obj))) (plugin_conditions obj),
    ps_observed_generation := Some (generation_of (pl_meta obj))\<rparr>"
  have ready: "cond_true ''Ready'' (ps_conditions ?st)"
    using assms(2) by (simp add: cond_true_set [OF assms(1)])
  moreover have "\<exists>rest. fst (plugin_body env obj name) = PatchStatus (name_any (pl_meta obj)) ?st plugin_fm # rest"
    by (simp add: plugin_body_def Let_def run_simps record_pulling_def plugin_patch_def
        patch_status_logged_def patch_status_def)
  moreover have "resolve_entry (Inr (Some (obj\<lparr>pl_status := Some ?st\<rparr>))) e = Inl ''ArtefactSecretMissing''"
    using assms(3) ready by (simp add: resolve_entry_def Let_def default_plugin_status_def)
  ultimately show ?thesis by blast
qed

section \<open>Revocation lists, from admission to the gateways\<close>

lemma lower_hex: "is_ascii_hexdigit c \<Longrightarrow> is_ascii_hexdigit (to_lower c) \<and> \<not> is_ascii_uppercase (to_lower c)"
  by (auto simp: char_class_defs of_char_to_lower)

text \<open>What the gateways get of an admitted revocation list: the rendered hashes are all 64 lower-case
  hex digits exactly when no stored hash carries surrounding white space. Admission trims a hash
  before it checks it and the renderer does not, so a padded hash is admitted and rendered in a
  form that no artefact hash equals.\<close>

theorem rendered_hashes_canonical_iff:
  assumes "revocation_list_validate (Some \<lparr>req_object = Some rl, req_old_object = old\<rparr>) = Allowed ws"
  shows "list_all (\<lambda>h. length h = 64 \<and> list_all (\<lambda>c. is_ascii_hexdigit c \<and> \<not> is_ascii_uppercase c) h)
        (rendered_hashes (revocation_doc (rl_spec rl)))
     \<longleftrightarrow> list_all (\<lambda>e. trim (re_artifact_sha256 e) = re_artifact_sha256 e) (rl_revocations (rl_spec rl))"
proof -
  have ok: "length (trim (re_artifact_sha256 e)) = 64"
      "list_all is_ascii_hexdigit (trim (re_artifact_sha256 e))"
    if "e \<in> set (rl_revocations (rl_spec rl))" for e
    using revocation_list_hook.admitted [OF assms] that
    by (auto simp: revocation_list_validate_spec_ok list_all_iff)
  have "(length (to_ascii_lowercase (re_artifact_sha256 e)) = 64
      \<and> list_all (\<lambda>c. is_ascii_hexdigit c \<and> \<not> is_ascii_uppercase c) (to_ascii_lowercase (re_artifact_sha256 e)))
    \<longleftrightarrow> trim (re_artifact_sha256 e) = re_artifact_sha256 e"
    if "e \<in> set (rl_revocations (rl_spec rl))" for e
    using ok [OF that] trim_same_length [of "re_artifact_sha256 e"] lower_hex
    by (auto simp: to_ascii_lowercase_def list_all_iff)
  then show ?thesis by (simp add: rendered_hashes_doc list_all_iff)
qed

section \<open>Deletion\<close>

text \<open>What may happen to an object on its way out: its finalizer is released, the reconcile is
  counted.\<close>

fun release_only :: "string \<Rightarrow> ('st, 'ob) effect \<Rightarrow> bool" where
  "release_only name (MergeFinalizers n fs) = (n = name \<and> OPERATOR_FINALIZER \<notin> set fs)"
| "release_only name (ObserveReconcile c oc) = True"
| "release_only name _ = False"

text \<open>Deletion is inert in every controller: a reconcile of an object that is being deleted
  pulls nothing, applies nothing, deletes nothing and writes no status; all it does is release
  the operator's finalizer.\<close>

theorem deletion_inert:
  assumes "meta_deletion_timestamp (pl_meta p) \<noteq> None" and "meta_deletion_timestamp (set_meta s) \<noteq> None"
    and "meta_deletion_timestamp (rl_meta rl) \<noteq> None" and "meta_deletion_timestamp (pm_meta m) \<noteq> None"
  shows "list_all (release_only (name_any (pl_meta p))) (fst (plugin_reconcile penv p))
     \<and> list_all (release_only (name_any (set_meta s))) (fst (set_reconcile senv s))
     \<and> list_all (release_only (name_any (rl_meta rl))) (fst (revocation_reconcile renv rl))
     \<and> list_all (release_only (name_any (pm_meta m))) (fst (mirror_reconcile menv m))"
proof (intro conjI)
  show "list_all (release_only (name_any (pl_meta p))) (fst (plugin_reconcile penv p))"
    using plugin_ctl.deleting [OF assms(1)]
    by (fastforce simp: plugin_reconcile_def observed_def list_all_iff)
  show "list_all (release_only (name_any (set_meta s))) (fst (set_reconcile senv s))"
    using set_ctl.deleting [OF assms(2)]
    by (fastforce simp: set_reconcile_def observed_def list_all_iff)
  show "list_all (release_only (name_any (rl_meta rl))) (fst (revocation_reconcile renv rl))"
    using revocation_ctl.deleting [OF assms(3)]
    by (fastforce simp: revocation_reconcile_def observed_def list_all_iff)
  show "list_all (release_only (name_any (pm_meta m))) (fst (mirror_reconcile menv m))"
    using mirror_ctl.deleting [OF assms(4)]
    by (fastforce simp: mirror_reconcile_def observed_def list_all_iff)
qed

section \<open>Admission and the pull\<close>

text \<open>No mutable tag without an identity: when the webhook admitted a plugin that has no cosign
  identity and pulls directly, every artefact a reconcile materialises for it was requested from
  the registry by the digest in its image.\<close>

theorem admitted_tagless_pull_pinned:
  assumes "plugin_validate api (Some req) = Allowed ws" and "req_object req = Some p"
    and "trust_cosign_identity (p_trust (pl_spec p)) = None" and "mirror_ref (p_oci (pl_spec p)) = None"
    and "Apply ob fm \<in> set (fst (plugin_reconcile env p))"
  shows "\<exists>d auth digest. digest_of (oci_image (p_oci (pl_spec p))) = Some d
     \<and> pe_pull (pn_pull env) (oci_image (p_oci (pl_spec p))) auth [] (Some d) = PullOk digest"
proof -
  let ?img = "oci_image (p_oci (pl_spec p))"
  have "plugin_validate_spec api p = Inr ()"
    using plugin_hook.admitted [OF assms(1,2)] by simp
  then have "contains_sub ''@sha256:'' (trim ?img)"
    using assms(3) by (auto simp: plugin_validate_spec_def scan_simps Let_def)
  then have "CHR ''@'' \<in> set ?img" using contains_sub_subset set_trim_subset [of ?img] by fastforce
  then obtain d where d: "digest_of ?img = Some d"
    by (cases "digest_of ?img") (auto simp: digest_of_def split_once_def split: option.splits)
  obtain ref options art where "plugin_pulled env p ref options art"
    using reconcile_applies [OF assms(5)] by blast
  then have "snd (pull_and_unpack (pn_pull env) (p_oci (pl_spec p)) default_pull_options
      :: (plugin_status, k8s_object, pull_error, pull_artefact) ctl) = Inr art"
    using assms(4) by (auto simp: plugin_pulled_def resolve_pull_target_def run_simps)
  from pull_success_facts [OF this] d show ?thesis by (auto simp: default_pull_options_def)
qed

section \<open>Witnesses\<close>

lemma fold_write_effect_stays:
  "\<sigma> k \<noteq> None \<Longrightarrow> fold (write_effect ok (\<lambda>_. False) ns) effs \<sigma> k \<noteq> None"
proof (induction effs arbitrary: \<sigma>)
  case (Cons e effs)
  have "write_effect ok (\<lambda>_. False) ns e \<sigma> k \<noteq> None"
    using Cons.prems by (cases "(ok, \<lambda>_ :: string. False, ns, e, \<sigma>)" rule: write_effect.cases) auto
  then show ?case using Cons.IH by simp
qed simp

lemma fold_write_effect_applied:
  assumes "Apply (ObSecret s) fm \<in> set effs" and "ok (ObSecret s)"
  shows "fold (write_effect ok (\<lambda>_. False) ns) effs \<sigma>
      (namespace_any (sec_meta s), name_any (sec_meta s)) \<noteq> None"
proof -
  obtain pre post where "effs = pre @ Apply (ObSecret s) fm # post"
    using assms(1) by (meson split_list)
  then show ?thesis using assms(2) by (simp del: not_None_eq add: fold_write_effect_stays)
qed

lemma sample_plugin_applies:
  "\<exists>s fm. Apply (ObSecret s) fm \<in> set (fst (plugin_reconcile sample_plugin_env sample_mirrored_plugin))"
proof -
  have "(''apply'', ''mcpg-plugin-p1-01234567'')
      \<in> set (map effect_tag (fst (plugin_reconcile sample_plugin_env sample_mirrored_plugin)))"
    unfolding sample_plugin_effects by simp
  then obtain ob fm where "Apply ob fm \<in> set (fst (plugin_reconcile sample_plugin_env sample_mirrored_plugin))"
    by (auto dest!: effect_tag_inv)
  with reconcile_applies [OF this] show ?thesis by blast
qed

theorem secrets_hold_verified_artefacts_witness:
  "\<exists>h \<sigma> ns n s. history h \<sigma> \<and> \<sigma> (ns, n) = Some s
     \<and> (\<exists>env p art vr. PluginRun env p \<in> fst ` set (h :: ((unit, unit) run_event \<times> secret_store) list)
          \<and> trust_gates env p art vr \<and> (\<exists>d. sec_data s = Some d \<and> d ''plugin.so'' = Some (artifact_bytes art)))"
proof -
  let ?effs = "fst (plugin_reconcile sample_plugin_env sample_mirrored_plugin)"
  let ?\<sigma> = "fold (write_effect (\<lambda>_. pn_apply sample_plugin_env = Inr ()) (\<lambda>_. False) plugin_operator_namespace)
      ?effs Map.empty"
  have h: "history [(PluginRun sample_plugin_env sample_mirrored_plugin, ?\<sigma>)] ?\<sigma>"
    by (rule plugin_run [OF start]) (rule refl)
  obtain s fm where "Apply (ObSecret s) fm \<in> set ?effs" using sample_plugin_applies by blast
  moreover have "pn_apply sample_plugin_env = Inr ()" by (simp add: sample_plugin_env_def)
  ultimately obtain s' where s': "?\<sigma> (namespace_any (sec_meta s), name_any (sec_meta s)) = Some s'"
    using fold_write_effect_applied [of s fm ?effs "\<lambda>_. pn_apply sample_plugin_env = Inr ()"] by blast
  from secrets_hold_verified_artefacts [OF h s'] h s' show ?thesis by blast
qed

theorem repull_hides_artefact_witness:
  "\<exists>st rest. fst (plugin_body sample_plugin_env sample_ready_plugin ''p1'') = PatchStatus ''p1'' st plugin_fm # rest
     \<and> resolve_entry (Inr (Some sample_ready_plugin)) (hd (set_entries (set_spec sample_set))) \<noteq> Inl ''ArtefactSecretMissing''
     \<and> resolve_entry (Inr (Some (sample_ready_plugin\<lparr>pl_status := Some st\<rparr>)))
         (hd (set_entries (set_spec sample_set))) = Inl ''ArtefactSecretMissing''"
proof -
  let ?e = "hd (set_entries (set_spec sample_set))"
  have "condition_setter (pn_set_condition sample_plugin_env)" by (simp add: sample_plugin_env_def)
  moreover have "cond_true ''Ready'' (plugin_conditions sample_ready_plugin)"
    by (simp add: plugin_conditions_def sample_ready_plugin_def cond_true_def)
  moreover have "plugin_id (pl_spec sample_ready_plugin) = entry_id ?e"
    by (simp add: sample_ready_plugin_def sample_set_def)
  moreover have "resolve_entry (Inr (Some sample_ready_plugin)) ?e \<noteq> Inl ''ArtefactSecretMissing''"
    by (simp add: resolve_entry_def sample_ready_plugin_def sample_set_def cond_true_def
        default_plugin_status_def Let_def)
  moreover have "name_any (pl_meta sample_ready_plugin) = ''p1''"
    by (simp add: sample_ready_plugin_def name_any_def)
  ultimately show ?thesis using repull_hides_artefact [of sample_plugin_env sample_ready_plugin ?e "''p1''"] by auto
qed

definition padded_list :: revocation_list where
  "padded_list = \<lparr>rl_meta = default_meta\<lparr>meta_name := Some ''rl''\<rparr>, rl_spec = \<lparr>rl_version = 1, rl_issued_at = None,
     rl_revocations = [\<lparr>re_artifact_sha256 = '' '' @ replicate 64 (CHR ''A''), re_reason = ''leak'',
       re_revoked_at = None\<rparr>]\<rparr>, rl_conditions = None\<rparr>"

theorem rendered_hashes_canonical_iff_witness:
  "revocation_list_validate (Some \<lparr>req_object = Some padded_list, req_old_object = None\<rparr>) = Allowed []
   \<and> \<not> list_all (\<lambda>h. length h = 64 \<and> list_all (\<lambda>c. is_ascii_hexdigit c \<and> \<not> is_ascii_uppercase c) h)
        (rendered_hashes (revocation_doc (rl_spec padded_list)))"
proof -
  have ok: "revocation_list_validate (Some \<lparr>req_object = Some padded_list, req_old_object = None\<rparr>) = Allowed []"
    by code_simp
  have "\<not> list_all (\<lambda>e. trim (re_artifact_sha256 e) = re_artifact_sha256 e) (rl_revocations (rl_spec padded_list))"
    by code_simp
  with rendered_hashes_canonical_iff [OF ok] ok show ?thesis by blast
qed

definition dying :: object_meta where
  "dying = default_meta\<lparr>meta_name := Some ''x'', meta_namespace := Some ''team-a'',
     meta_finalizers := Some [OPERATOR_FINALIZER], meta_deletion_timestamp := Some 1\<rparr>"

theorem deletion_inert_witness:
  "list_all (release_only ''x'') (fst (plugin_reconcile
      (sample_plugin_env\<lparr>pn_remove_get := Inr (Some dying)\<rparr>) (sample_mirrored_plugin\<lparr>pl_meta := dying\<rparr>)))
   \<and> fst (plugin_reconcile (sample_plugin_env\<lparr>pn_remove_get := Inr (Some dying)\<rparr>)
        (sample_mirrored_plugin\<lparr>pl_meta := dying\<rparr>)) \<noteq> []"
proof -
  have d: "meta_deletion_timestamp dying \<noteq> None" "name_any dying = ''x''"
    by (simp_all add: dying_def name_any_def)
  show ?thesis
    using deletion_inert [of "sample_mirrored_plugin\<lparr>pl_meta := dying\<rparr>" "sample_set\<lparr>set_meta := dying\<rparr>"
        "padded_list\<lparr>rl_meta := dying\<rparr>" "sample_mirror\<lparr>pm_meta := dying\<rparr>"
        "sample_plugin_env\<lparr>pn_remove_get := Inr (Some dying)\<rparr>"] d
    by (simp add: plugin_reconcile_def observed_def)
qed

definition sample_pinned_plugin :: plugin where
  "sample_pinned_plugin = sample_mirrored_plugin\<lparr>pl_spec := (pl_spec sample_mirrored_plugin)
     \<lparr>p_oci := \<lparr>oci_image = ''reg.io/x/p@sha256:ab'', pull_secret_ref = None, mirror_ref = None\<rparr>\<rparr>\<rparr>"

theorem admitted_tagless_pull_pinned_witness:
  "\<exists>auth digest. pe_pull sample_pull_env ''reg.io/x/p@sha256:ab'' auth [] (Some ''sha256:ab'') = PullOk digest"
proof -
  let ?req = "\<lparr>req_object = Some sample_pinned_plugin, req_old_object = None\<rparr>"
  have ok: "plugin_validate sample_api (Some ?req) = Allowed []" by code_simp
  have "map effect_tag (fst (plugin_reconcile sample_plugin_env sample_pinned_plugin)) ! 3
      = (''apply'', ''mcpg-plugin-p1-01234567'')" by code_simp
  moreover have "3 < length (fst (plugin_reconcile sample_plugin_env sample_pinned_plugin))" by code_simp
  ultimately obtain ob fm where
    "Apply ob fm \<in> set (fst (plugin_reconcile sample_plugin_env sample_pinned_plugin))"
    using nth_mem by (fastforce dest!: effect_tag_inv(1) [OF sym])
  moreover have "trust_cosign_identity (p_trust (pl_spec sample_pinned_plugin)) = None"
    "mirror_ref (p_oci (pl_spec sample_pinned_plugin)) = None"
    "oci_image (p_oci (pl_spec sample_pinned_plugin)) = ''reg.io/x/p@sha256:ab''"
    "pn_pull sample_plugin_env = sample_pull_env"
    by (simp_all add: sample_pinned_plugin_def sample_mirrored_plugin_def sample_plugin_env_def)
  moreover have "digest_of ''reg.io/x/p@sha256:ab'' = Some ''sha256:ab''" by code_simp
  ultimately show ?thesis
    using admitted_tagless_pull_pinned [OF ok, of sample_pinned_plugin ob fm sample_plugin_env] by fastforce
qed

section \<open>Labels and the server\<close>

text \<open>Kubernetes refuses an object with a label value of more than 63 characters, as
  \<open>templates/configmap.rs\<close> notes.\<close>

definition label_limit :: nat where "label_limit = 63"

definition checks_labels :: "(k8s_object \<Rightarrow> kube_error + unit) \<Rightarrow> bool" where
  "checks_labels accept \<longleftrightarrow>
     (\<forall>ob labels k v. meta_labels (ob_meta ob) = Some labels \<and> labels k = Some v \<and> length v > label_limit
        \<longrightarrow> isl (accept ob))"

lemma checks_labelsD:
  "checks_labels accept \<Longrightarrow> meta_labels (ob_meta ob) = Some labels \<Longrightarrow> labels k = Some v
    \<Longrightarrow> label_limit < length v \<Longrightarrow> \<exists>e. accept ob = Inl e"
  unfolding checks_labels_def isl_def by blast

lemma set_materialise_refused:
  assumes "checks_labels (sn_apply env)" and "hex_digest (sn_sha256_hex env)"
  shows "\<exists>e. snd (set_materialise env obj ns resolved) = Inl e"
proof -
  obtain doc hash where r: "render_resolved_set env obj resolved = (doc, hash)" by fastforce
  then have hash: "hash = sn_sha256_hex env doc" by (auto simp: render_resolved_set_def Let_def)
  let ?cm = "ObConfigMap (build_resolved_configmap obj ns doc hash)"
  have "\<exists>labels. meta_labels (ob_meta ?cm) = Some labels \<and> labels RESOLVED_HASH_LABEL = Some hash"
    by (simp add: ob_meta_def build_resolved_configmap_def Let_def)
  moreover have "label_limit < length hash" using assms(2) by (simp add: hash hex_digest_def label_limit_def)
  ultimately obtain e where "sn_apply env ?cm = Inl e" using checks_labelsD[OF assms(1)] by blast
  then have "\<exists>e'. snd (lift_run SApply (apply_owned (sn_apply env ?cm) ob_meta ?cm set_fm)
      :: (plugin_set_status, k8s_object, set_error, unit) ctl) = Inl e'"
    by (auto simp: run_simps apply_owned_def map_err_def split: option.splits)
  then show ?thesis
    by (auto simp: set_materialise_def r bindT_sel Let_def split: sum.splits)
qed

text \<open>The ConfigMaps the operator writes for plugin sets and revocation lists carry a whole SHA-256 in a
  label. A server that enforces the limit refuses them: no plugin set ever gets a status, so none is
  ever Ready, and the revocation list of a gateway is never reported resolved.\<close>

theorem full_hash_labels_refused:
  assumes "checks_labels (sn_apply senv)" and "hex_digest (sn_sha256_hex senv)"
    and "checks_labels (ge_apply genv)" and "hex_digest (ge_sha256_hex genv)"
  shows "(\<forall>n st fm. PatchStatus n st fm \<notin> set (fst (set_reconcile senv s)))
    \<and> (\<forall>r. snd (resolve_revocation_list genv gw) = Inr (Some r) \<longrightarrow> c_status (rrl_condition r) \<noteq> ''True'')"
proof (intro conjI allI impI)
  fix n st fm
  let ?x = "PatchStatus n st fm :: (plugin_set_status, k8s_object) effect"
  show "?x \<notin> set (fst (set_reconcile senv s))"
  proof
    assume "?x \<in> set (fst (set_reconcile senv s))"
    then obtain name ns where x: "?x \<in> set (fst (set_body senv s name ns))"
      using set_reconcile_body[of ?x senv s] by auto
    obtain eff rs fs where r: "resolve_entries senv (set_entries (set_spec s)) = (eff, rs, fs)" by (metis prod_cases3)
    obtain e where "snd (set_materialise senv s ns rs) = Inl e" using set_materialise_refused[OF assms(1,2)] by blast
    with x r have "?x \<in> set eff \<or> ?x \<in> set (fst (set_materialise senv s ns rs))"
      by (simp add: set_body_def after_sel bindT_sel Let_def)
    then show False
      using resolve_entries_eff[of ?x senv "set_entries (set_spec s)"] r set_materialise_eff[of ?x] by auto
  qed
next
  fix r assume r: "snd (resolve_revocation_list genv gw) = Inr (Some r)"
  have refused: "isl (ge_apply genv (ObConfigMap (build_revocation_configmap gw n doc (ge_sha256_hex genv doc))))" for n doc
  proof -
    let ?cm = "ObConfigMap (build_revocation_configmap gw n doc (ge_sha256_hex genv doc))"
    have "\<exists>labels. meta_labels (ob_meta ?cm) = Some labels \<and> labels ''mcpg.dev/revocation-list-hash'' = Some (ge_sha256_hex genv doc)"
      by (simp add: ob_meta_def build_revocation_configmap_def MCPG_GATEWAY_def)
    moreover have "label_limit < length (ge_sha256_hex genv doc)" using assms(4) by (simp add: hex_digest_def label_limit_def)
    ultimately show ?thesis using assms(3) unfolding checks_labels_def by blast
  qed
  have "isl (snd (apply_owned (ge_apply genv (ObConfigMap (build_revocation_configmap gw n doc (ge_sha256_hex genv doc)))) ob_meta
      (ObConfigMap (build_revocation_configmap gw n doc (ge_sha256_hex genv doc))) gateway_fm
      :: (gateway_status, k8s_object, apply_error, unit) ctl))" for n doc
    using refused[of n doc] by (auto simp: apply_owned_def run_simps isl_def split: option.splits)
  with r show "c_status (rrl_condition r) \<noteq> ''True''"
    by (auto simp: resolve_revocation_list_def render_revocation_list_json_def Let_def run_simps
        split: option.splits sum.splits prod.splits)
qed

text \<open>A server that checks labels and accepts everything else, for the witness.\<close>

definition label_server :: "k8s_object \<Rightarrow> kube_error + unit" where
  "label_server ob = (if (\<exists>labels k v. meta_labels (ob_meta ob) = Some labels \<and> labels k = Some v \<and> length v > label_limit)
     then Inl (KubeApi 422) else Inr ())"

theorem full_hash_labels_refused_witness:
  "\<forall>n st fm. PatchStatus n st fm \<notin> set (fst (set_reconcile
      (sample_set_env\<lparr>sn_apply := label_server, sn_sha256_hex := sample_sha\<rparr>) sample_set))"
proof -
  have c: "checks_labels label_server" by (auto simp: checks_labels_def label_server_def)
  show ?thesis
    using full_hash_labels_refused[of "sample_set_env\<lparr>sn_apply := label_server, sn_sha256_hex := sample_sha\<rparr>"
        "sample_gateway_env\<lparr>ge_apply := label_server\<rparr>" sample_set sample_gw] c hex_digest_sample
    by (simp add: sample_gateway_env_def)
qed

section \<open>Admission and the hold\<close>

text \<open>C20. Admission and the reconcile agree on clusters: a new gateway of several replicas that was admitted
  with a reference to a cluster is not held by the first reconcile that reads the cluster admission
  read.\<close>

theorem admitted_gateway_not_held:
  assumes "gateway_validate (ge_api env) get_cluster tenants (Some req) = Allowed ws"
    and "req_object req = Some obj" and "req_old_object req = None"
    and "1 < fst (effective_replica_ceiling (ge_api env) (gw_spec obj))"
    and "gw_cluster_ref (gw_spec obj) = Some r" and "get_cluster r = Inr cl" and "ge_cluster env r = Inr cl"
  shows "\<not> held env obj"
proof -
  have "enforce_multi_replica_coordination (ge_api env) get_cluster obj (req_old_object req) = Inr ()"
    using gateway_hook.admitted [OF assms(1,2)] by (simp add: gateway_verdict_def scan_simps)
  with assms(3-6) have b: "bindable (ge_api env) obj cl"
    by (auto simp: enforce_multi_replica_coordination_def coordination_path_def bindable_def
        judge_referenced_cluster_def binding_already_admitted_def Let_def
        split: option.splits sum.splits if_splits prod.splits)
  let ?c = "classify_cluster_binding (ge_api env) (ge_operator_namespace env) obj cl"
  have "c_status (rc_condition ?c) = ''True''" using b by (simp only: classify_bindable)
  then show ?thesis using assms(5,7)
    by (auto simp: held_def resolve_cluster_def Let_def split: option.splits sum.splits bool.splits)
qed

theorem admitted_gateway_not_held_witness:
  "\<not> held (sample_gateway_env\<lparr>ge_cluster := sample_clusters\<rparr>) sample_gateway"
proof -
  obtain cl where "sample_clusters ''nats'' = Inr cl" by (simp add: sample_clusters_def)
  then show ?thesis
    using admitted_gateway_not_held[of "sample_gateway_env\<lparr>ge_cluster := sample_clusters\<rparr>" sample_clusters "Inr [sample_tenant]"
        "\<lparr>req_object = Some sample_gateway, req_old_object = None\<rparr>" _ sample_gateway "''nats''"] sample_gateway_admitted
    by (simp add: sample_gateway_env_def sample_gateway_def sample_api_def)
qed

end
